(* ===== verification/Prelude.thy ===== *)
theory Prelude
  imports Main "HOL-Library.AList" "HOL-Library.Sublist" "HOL-Library.Char_ord"
begin

text \<open>
  Shared vocabulary of the development: byte strings, Go's run-time panics as values, Go's
  \<open>error\<close> values, slice expressions with their bounds checks, Go's \<open>copy\<close>, maps kept as
  association lists, and instants and durations of package \<open>time\<close>.  A Go \<open>string\<close> and a
  Go \<open>[]byte\<close> are both sequences of 8-bit bytes, which is what Isabelle's \<^typ>\<open>string\<close> is.
\<close>

named_theorems go_simps \<open>evaluation rules for computations that may panic\<close>
named_theorems inv_intros \<open>preservation of the components' invariants\<close>

type_synonym bytes = string

section \<open>Panics and errors\<close>

datatype panic =
    SliceBounds \<comment> \<open>slice bounds out of range\<close>
  | IndexRange \<comment> \<open>index out of range\<close>
  | NilDeref \<comment> \<open>nil pointer dereference\<close>
  | NilMapWrite \<comment> \<open>assignment to entry in nil map\<close>
  | ClosedChan \<comment> \<open>close of closed channel, or send on one\<close>
  | NegativeCounter \<comment> \<open>negative \<open>sync.WaitGroup\<close> counter\<close>
  | ZeroDivide \<comment> \<open>integer divide by zero\<close>
  | Explicit string \<comment> \<open>a call of \<open>panic\<close>\<close>

text \<open>A computation that may panic: \<^term>\<open>Inl\<close> is the panic, \<^term>\<open>Inr\<close> the normal return.\<close>

type_synonym 'a outcome = "panic + 'a"

definition obind :: "'a outcome \<Rightarrow> ('a \<Rightarrow> 'b outcome) \<Rightarrow> 'b outcome" where
  "obind r f = (case r of Inl p \<Rightarrow> Inl p | Inr x \<Rightarrow> f x)"

lemma obind_simps [simp, go_simps]:
  "obind (Inl p) f = Inl p"
  "obind (Inr x) f = f x"
  by (simp_all add: obind_def)

lemma obind_Inr_iff [simp]:
  "obind r f = Inr y \<longleftrightarrow> (\<exists>x. r = Inr x \<and> f x = Inr y)"
  by (cases r) simp_all

lemma obind_Inl_iff [simp]:
  "obind r f = Inl p \<longleftrightarrow> r = Inl p \<or> (\<exists>x. r = Inr x \<and> f x = Inl p)"
  by (cases r) simp_all

text \<open>
  An \<open>error\<close> value.  The sentinels are compared by identity in the code; the two builders are
  \<open>fmt.Errorf\<close> (a fresh value with its text) and \<open>errors.Wrapf\<close> (a text in front of a cause).
  \<open>Opaque\<close> is an error that comes out of a library the sources only call.
\<close>

datatype error =
    EOF
  | Canceled
  | DeadlineExceeded
  | ErrMasterClosed
  | ErrSlaveClosed
  | ErrServerClosed
  | Errorf string
  | Wrapf string error
  | Opaque string

text \<open>\<open>err.Error()\<close>.\<close>

fun error_text :: "error \<Rightarrow> string" where
  "error_text EOF = ''EOF''"
| "error_text Canceled = ''context canceled''"
| "error_text DeadlineExceeded = ''context deadline exceeded''"
| "error_text ErrMasterClosed = ''master closed''"
| "error_text ErrSlaveClosed = ''slave closed''"
| "error_text ErrServerClosed = ''http: Server closed''"
| "error_text (Errorf s) = s"
| "error_text (Wrapf s e) = s @ '': '' @ error_text e"
| "error_text (Opaque s) = s"

section \<open>Slices\<close>

text \<open>\<open>xs[lo:hi]\<close> on a slice whose capacity is its length, and on a string.\<close>

definition go_slice :: "nat \<Rightarrow> nat \<Rightarrow> 'a list \<Rightarrow> 'a list outcome" where
  "go_slice lo hi xs =
     (if lo \<le> hi \<and> hi \<le> length xs then Inr (take (hi - lo) (drop lo xs)) else Inl SliceBounds)"

lemma go_slice_ok [simp, go_simps]:
  "lo \<le> hi \<Longrightarrow> hi \<le> length xs \<Longrightarrow> go_slice lo hi xs = Inr (take (hi - lo) (drop lo xs))"
  by (simp add: go_slice_def)

lemma go_slice_Inl [simp]: "go_slice lo hi xs = Inl p \<longleftrightarrow> p = SliceBounds \<and> (hi < lo \<or> length xs < hi)"
  by (auto simp: go_slice_def)

lemma go_slice_Inr: "go_slice lo hi xs = Inr ys \<longleftrightarrow>
    lo \<le> hi \<and> hi \<le> length xs \<and> ys = take (hi - lo) (drop lo xs)"
  by (auto simp: go_slice_def)

text \<open>\<open>xs[i]\<close>.\<close>

definition index :: "'a list \<Rightarrow> nat \<Rightarrow> 'a outcome" where
  "index xs i = (if i < length xs then Inr (xs ! i) else Inl IndexRange)"

lemma index_ok [simp, go_simps]: "i < length xs \<Longrightarrow> index xs i = Inr (xs ! i)"
  by (simp add: index_def)

lemma index_Inl [simp]: "index xs i = Inl p \<longleftrightarrow> p = IndexRange \<and> length xs \<le> i"
  by (auto simp: index_def)

lemma index_Inr: "index xs i = Inr x \<longleftrightarrow> i < length xs \<and> x = xs ! i"
  by (auto simp: index_def)

text \<open>
  \<open>copy(dst, src)\<close>: the bytes that fit are stored at the front of \<open>dst\<close>, whose length does not
  change; the result is the number of bytes copied.
\<close>

definition go_copy :: "'a list \<Rightarrow> 'a list \<Rightarrow> nat \<times> 'a list" where
  "go_copy dst src = (let n = min (length dst) (length src) in (n, take n src @ drop n dst))"

lemma go_copy_fits [simp, go_simps]:
  "length src \<le> length dst \<Longrightarrow> go_copy dst src = (length src, src @ drop (length src) dst)"
  by (simp add: go_copy_def Let_def min_def)

lemma fst_go_copy: "fst (go_copy dst src) = min (length dst) (length src)"
  by (simp add: go_copy_def Let_def)

lemma length_snd_go_copy [simp]: "length (snd (go_copy dst src)) = length dst"
  by (simp add: go_copy_def Let_def)

text \<open>What a reader sees after a read of \<open>n\<close> bytes: \<open>buffer[:n]\<close>.\<close>

lemma take_go_copy: "take (fst (go_copy dst src)) (snd (go_copy dst src)) = take (length dst) src"
  by (simp add: go_copy_def Let_def min_def)

text \<open>The last \<open>k\<close> elements, \<open>xs[len(xs)-k:]\<close>, or everything when there are fewer.\<close>

definition suffix_upto :: "nat \<Rightarrow> 'a list \<Rightarrow> 'a list" where
  "suffix_upto k xs = drop (length xs - k) xs"

lemma length_suffix_upto [simp]: "length (suffix_upto k xs) = min k (length xs)"
  by (simp add: suffix_upto_def)

lemma suffix_upto_append:
  "suffix_upto k (suffix_upto k xs @ ys) = suffix_upto k (xs @ ys)"
  by (cases "k \<le> length xs") (auto simp: suffix_upto_def add.commute)

lemma find_append: "find P (xs @ ys) = (case find P xs of Some x \<Rightarrow> Some x | None \<Rightarrow> find P ys)"
  by (induction xs) auto

lemma find_SomeD: "find P xs = Some x \<Longrightarrow> x \<in> set xs \<and> P x"
  by (induction xs) (auto split: if_splits)

lemma find_NoneD: "find P xs = None \<Longrightarrow> x \<in> set xs \<Longrightarrow> \<not> P x"
  by (induction xs) (auto split: if_splits)

lemma singleton_list:
  assumes "distinct xs" and "x \<in> set xs" and "\<forall>y \<in> set xs. y = x"
  shows "xs = [x]"
proof -
  have "set xs = {x}" using assms(2,3) by blast
  moreover from this have "length xs = 1" using assms(1) distinct_card [of xs] by simp
  ultimately show ?thesis by (cases xs) auto
qed

section \<open>Time\<close>

text \<open>
  An instant of package \<open>time\<close>: the zero \<open>time.Time\<close>, which no clock reading equals, or a
  reading in nanoseconds.  \<open>time.Since\<close> subtracts and saturates at the ends of \<open>time.Duration\<close>;
  the zero value lies two millennia back, so the difference saturates there.
\<close>

datatype instant = ZeroTime | At int

instantiation instant :: linorder
begin

fun less_eq_instant :: "instant \<Rightarrow> instant \<Rightarrow> bool" where
  "less_eq_instant ZeroTime t = True"
| "less_eq_instant (At x) ZeroTime = False"
| "less_eq_instant (At x) (At y) = (x \<le> y)"

definition less_instant :: "instant \<Rightarrow> instant \<Rightarrow> bool" where
  "less_instant s t = (s \<le> t \<and> \<not> t \<le> s)"

instance
proof
  fix x y z :: instant
  show "x < y \<longleftrightarrow> x \<le> y \<and> \<not> y \<le> x" by (simp add: less_instant_def)
  show "x \<le> x" by (cases x) simp_all
  show "x \<le> y \<Longrightarrow> y \<le> z \<Longrightarrow> x \<le> z" by (cases x; cases y; cases z) simp_all
  show "x \<le> y \<Longrightarrow> y \<le> x \<Longrightarrow> x = y" by (cases x; cases y) simp_all
  show "x \<le> y \<or> y \<le> x" by (cases x; cases y) auto
qed

end

type_synonym duration = int

definition max_duration :: duration where "max_duration = 2 ^ 63 - 1"
definition min_duration :: duration where "min_duration = - (2 ^ 63)"
definition millisecond :: duration where "millisecond = 1000000"
definition second :: duration where "second = 1000000000"

definition since :: "int \<Rightarrow> instant \<Rightarrow> duration" where
  "since now t =
     (case t of ZeroTime \<Rightarrow> max_duration
      | At x \<Rightarrow> max min_duration (min max_duration (now - x)))"

lemma since_gt_iff:
  "0 \<le> d \<Longrightarrow> d < max_duration \<Longrightarrow> since now (At x) > d \<longleftrightarrow> now - x > d"
  by (auto simp: since_def max_duration_def min_duration_def)

lemma since_lt_iff:
  "0 \<le> d \<Longrightarrow> d \<le> max_duration \<Longrightarrow> since now (At x) < d \<longleftrightarrow> now - x < d"
  by (auto simp: since_def max_duration_def min_duration_def)

lemma second_range: "0 \<le> second" "second < max_duration" "second \<le> max_duration"
  by (simp_all add: second_def max_duration_def)

section \<open>Maps\<close>

text \<open>
  A Go map is an association list with distinct keys: \<^const>\<open>map_of\<close> looks up,
  \<^const>\<open>AList.update\<close> stores, \<^const>\<open>AList.delete\<close> is \<open>delete\<close>.  A loop \<open>range m\<close> visits the entries
  in an unspecified order, so a fact about such a loop is stated for every arrangement of
  the list.
\<close>

type_synonym ('k, 'v) gomap = "('k \<times> 'v) list"

lemma distinct_keys_update [inv_intros]:
  "distinct (map fst m) \<Longrightarrow> distinct (map fst (AList.update k v m))"
  by (rule distinct_update)

lemma distinct_keys_delete [inv_intros]:
  "distinct (map fst m) \<Longrightarrow> distinct (map fst (AList.delete k m))"
  by (rule distinct_delete)

lemma set_update_subset: "set (AList.update k v m) \<subseteq> insert (k, v) (set m)"
  by (induction m) auto

text \<open>The values of a map.\<close>

definition vals :: "('k, 'v) gomap \<Rightarrow> 'v set" where
  "vals m = snd ` set m"

lemma vals_Nil [simp]: "vals [] = {}"
  by (simp add: vals_def)

lemma vals_update: "x \<in> vals (AList.update k v m) \<Longrightarrow> x = v \<or> x \<in> vals m"
  using set_update_subset [of k v m] unfolding vals_def by force

lemma map_of_vals: "map_of m k = Some v \<Longrightarrow> v \<in> vals m"
  unfolding vals_def by (force dest: map_of_SomeD)

lemma mset_eq_map_of:
  assumes "distinct (map fst m)" and "distinct (map fst m')" and "set m = set m'"
  shows "map_of m = map_of m'"
  using assms by (metis map_of_inject_set)

end
