(* ===== verification/GoStrings.thy ===== *)
theory GoStrings
  imports Prelude
begin

text \<open>
  The part of Go's standard library the sources compute with: \<open>strings.Split\<close> (all separators
  in the sources are one byte long), \<open>Join\<close>, the prefix and suffix functions, \<open>Replace\<close>,
  \<open>ToUpper\<close> on ASCII, decimal and hexadecimal text (\<open>fmt\<close>, \<open>strconv\<close>), and \<open>path.Join\<close> with
  \<open>path.Clean\<close> (\<open>filepath\<close> is the same on Unix).
\<close>

section \<open>Package strings\<close>

fun split_on :: "char \<Rightarrow> string \<Rightarrow> string list" where
  "split_on c [] = [[]]"
| "split_on c (x # xs) =
     (if x = c then [] # split_on c xs
      else (case split_on c xs of [] \<Rightarrow> [[x]] | w # ws \<Rightarrow> (x # w) # ws))"

fun join :: "string \<Rightarrow> string list \<Rightarrow> string" where
  "join sep [] = []"
| "join sep [x] = x"
| "join sep (x # y # ys) = x @ sep @ join sep (y # ys)"

definition trim_prefix :: "string \<Rightarrow> string \<Rightarrow> string" where
  "trim_prefix p s = (if prefix p s then drop (length p) s else s)"

definition trim_suffix :: "string \<Rightarrow> string \<Rightarrow> string" where
  "trim_suffix p s = (if suffix p s then take (length s - length p) s else s)"

definition contains :: "string \<Rightarrow> string \<Rightarrow> bool" where
  "contains s p = list_ex (prefix p) (suffixes s)"

definition replace_char :: "char \<Rightarrow> char \<Rightarrow> string \<Rightarrow> string" where
  "replace_char a b s = map (\<lambda>c. if c = a then b else c) s"

definition upper_char :: "char \<Rightarrow> char" where
  "upper_char c = (let n = of_char c :: nat in if 97 \<le> n \<and> n \<le> 122 then char_of (n - 32) else c)"

definition to_upper :: "string \<Rightarrow> string" where
  "to_upper s = map upper_char s"

definition space_char :: "char \<Rightarrow> bool" where
  "space_char c = (let n = of_char c :: nat in n = 32 \<or> (9 \<le> n \<and> n \<le> 13))"

text \<open>\<open>strings.TrimSpace\<close> on ASCII.\<close>

definition trim_space :: "string \<Rightarrow> string" where
  "trim_space s = rev (dropWhile space_char (rev (dropWhile space_char s)))"

lemma split_on_not_Nil [simp]: "split_on c s \<noteq> []"
  by (induction s) (auto split: list.splits)

lemma split_on_Cons: "x \<noteq> c \<Longrightarrow> split_on c (x # xs) = (x # hd (split_on c xs)) # tl (split_on c xs)"
  by (cases "split_on c xs") simp_all

text \<open>Splitting loses nothing, and no part holds the separator.\<close>

lemma join_split_on: "join [c] (split_on c s) = s"
proof (induction s)
  case (Cons x xs)
  then show ?case
    by (cases "split_on c xs" rule: list.exhaust; cases "tl (split_on c xs)") auto
qed simp

lemma split_on_no_sep: "w \<in> set (split_on c s) \<Longrightarrow> c \<notin> set w"
  by (induction s arbitrary: w) (auto split: list.splits if_splits)

lemma split_on_single: "c \<notin> set s \<Longrightarrow> split_on c s = [s]"
  by (induction s) auto

lemma split_on_append_sep: "split_on c (xs @ c # ys) = split_on c xs @ split_on c ys"
  by (induction xs) (auto split: list.splits)

lemma hd_split_on: "hd (split_on c s) = takeWhile (\<lambda>x. x \<noteq> c) s"
  by (induction s) (auto split: list.splits)

lemma trim_prefix_append [simp]: "trim_prefix p (p @ s) = s"
  by (simp add: trim_prefix_def)

lemma trim_suffix_append [simp]: "trim_suffix p (s @ p) = s"
  by (simp add: trim_suffix_def suffix_def)

lemma contains_iff: "contains s p \<longleftrightarrow> sublist p s"
  by (auto simp: contains_def list_ex_iff sublist_altdef' in_set_suffixes)

section \<open>Packages fmt and strconv\<close>

definition digit_char :: "nat \<Rightarrow> char" where
  "digit_char d = (if d < 10 then char_of (48 + d) else char_of (87 + d))"

definition digit_val :: "char \<Rightarrow> nat option" where
  "digit_val c =
     (let n = of_char c :: nat in
      if 48 \<le> n \<and> n \<le> 57 then Some (n - 48)
      else if 97 \<le> n \<and> n \<le> 122 then Some (n - 87)
      else if 65 \<le> n \<and> n \<le> 90 then Some (n - 55)
      else None)"

definition err_syntax :: error where "err_syntax = Errorf ''invalid syntax''"
definition err_range :: error where "err_range = Errorf ''value out of range''"

text \<open>The digit loop of \<open>strconv.ParseUint\<close> for a fixed base.\<close>

fun parse_digits :: "nat \<Rightarrow> nat \<Rightarrow> string \<Rightarrow> error + nat" where
  "parse_digits base acc [] = Inr acc"
| "parse_digits base acc (c # cs) =
     (case digit_val c of
        None \<Rightarrow> Inl err_syntax
      | Some d \<Rightarrow>
          if base \<le> d then Inl err_syntax
          else if 2 ^ 64 \<le> acc * base + d then Inl err_range
          else parse_digits base (acc * base + d) cs)"

definition parse_uint :: "nat \<Rightarrow> string \<Rightarrow> error + nat" where
  "parse_uint base s = (if s = [] then Inl err_syntax else parse_digits base 0 s)"

text \<open>\<open>strconv.ParseInt(s, base, 64)\<close>; \<open>strconv.Atoi\<close> is the case of base ten.\<close>

definition parse_int :: "nat \<Rightarrow> string \<Rightarrow> error + int" where
  "parse_int base s =
     (let neg = (s \<noteq> [] \<and> hd s = CHR ''-'');
          body = (if s \<noteq> [] \<and> (hd s = CHR ''-'' \<or> hd s = CHR ''+'') then tl s else s)
      in case parse_uint base body of
           Inl e \<Rightarrow> Inl e
         | Inr n \<Rightarrow>
             if \<not> neg \<and> 2 ^ 63 \<le> n then Inl err_range
             else if neg \<and> 2 ^ 63 < n then Inl err_range
             else Inr (if neg then - int n else int n))"

definition atoi :: "string \<Rightarrow> error + int" where
  "atoi = parse_int 10"

text \<open>\<open>fmt.Sprint\<close> of an integer, and the verb \<open>%x\<close> on a byte slice.\<close>

fun nat_str :: "nat \<Rightarrow> string" where
  "nat_str n = (if n < 10 then [digit_char n] else nat_str (n div 10) @ [digit_char (n mod 10)])"

declare nat_str.simps [simp del]

definition int_str :: "int \<Rightarrow> string" where
  "int_str i = (if i < 0 then CHR ''-'' # nat_str (nat (- i)) else nat_str (nat i))"

definition hex_byte :: "char \<Rightarrow> string" where
  "hex_byte c = [digit_char (of_char c div 16), digit_char (of_char c mod 16)]"

definition hex_bytes :: "bytes \<Rightarrow> string" where
  "hex_bytes bs = concat (map hex_byte bs)"

text \<open>
  A format string without arguments, as \<open>fmt.Errorf(s)\<close> gets it: the flags after a percent sign, an
  argument index, a width, a precision and another index are read, then the verb is reported as
  missing its argument.  The functions follow \<open>parsenum\<close>, \<open>parseArgNumber\<close>, \<open>argNumber\<close> and
  \<open>doPrintf\<close> of package fmt, on the rest of the format; a boolean beside the rest says that a number
  was present, that the index was well formed, or that it was at hand.
\<close>

fun parsenum :: "nat \<Rightarrow> bool \<Rightarrow> string \<Rightarrow> bool \<times> string" where
  "parsenum num isnum [] = (isnum, [])"
| "parsenum num isnum (c # cs) =
     (if c \<notin> set ''0123456789'' then (isnum, c # cs)
      else if num > 1000000 then (False, [])
      else parsenum (num * 10 + (of_char c - 48)) True cs)"

definition arg_number :: "string \<Rightarrow> bool \<times> bool \<times> string" where
  "arg_number s =
     (if s = [] \<or> hd s \<noteq> CHR ''['' then (True, False, s)
      else if length s < 3 \<or> CHR '']'' \<notin> set s then (False, False, tl s)
      else let inner = takeWhile (\<lambda>c. c \<noteq> CHR '']'') (tl s);
               after = tl (dropWhile (\<lambda>c. c \<noteq> CHR '']'') s);
               (isnum, r) = parsenum 0 False inner
           in (False, isnum \<and> r = [], after))"

definition rune_length :: "char \<Rightarrow> nat" where
  "rune_length c =
     (let n = of_char c :: nat in if n < 192 then 1 else if n < 224 then 2 else if n < 240 then 3 else 4)"

text \<open>
  The parts of a directive, after the flags and the first index: the width, the precision, the last
  index and the verb.  Each returns what it prints, whether the indices are good, whether an index
  stands directly before, and the rest.
\<close>

definition fmt_width :: "bool \<Rightarrow> string \<Rightarrow> string \<times> bool \<times> bool \<times> string" where
  "fmt_width found s =
     (if s \<noteq> [] \<and> hd s = CHR ''*'' then (''%!(BADWIDTH)'', True, False, tl s)
      else let (present, r) = parsenum 0 False s in ([], \<not> (found \<and> present), found, r))"

definition fmt_prec :: "bool \<Rightarrow> string \<Rightarrow> string \<times> bool \<times> bool \<times> string" where
  "fmt_prec found s =
     (if s \<noteq> [] \<and> hd s = CHR ''.'' then
        let (good, found', r) = arg_number (tl s) in
        if r \<noteq> [] \<and> hd r = CHR ''*'' then (''%!(BADPREC)'', \<not> found \<and> good, False, tl r)
        else ([], \<not> found \<and> good, found', snd (parsenum 0 False r))
      else ([], True, found, s))"

definition fmt_index :: "bool \<Rightarrow> string \<Rightarrow> bool \<times> string" where
  "fmt_index found s = (if found then (True, s) else let (good, found', r) = arg_number s in (good, r))"

definition fmt_verb :: "bool \<Rightarrow> string \<Rightarrow> string \<times> string" where
  "fmt_verb good s =
     (case s of
        [] \<Rightarrow> (''%!(NOVERB)'', [])
      | c # cs \<Rightarrow>
          if c = CHR ''%'' then (''%'', cs)
          else (''%!'' @ take (rune_length c) s @ (if good then ''(MISSING)'' else ''(BADINDEX)''), drop (rune_length c) s))"

text \<open>One directive after its percent sign: what is printed, and the rest of the format.\<close>

definition fmt_directive :: "string \<Rightarrow> string \<times> string" where
  "fmt_directive s =
     (let (good1, found, s) = arg_number (dropWhile (\<lambda>c. c \<in> set ''#0+- '') s);
          (bad_width, good2, found, s) = fmt_width found s;
          (bad_prec, good3, found, s) = fmt_prec found s;
          (good4, s) = fmt_index found s;
          (out, s) = fmt_verb (good1 \<and> good2 \<and> good3 \<and> good4) s
      in (bad_width @ bad_prec @ out, s))"

lemma parsenum_length: "length (snd (parsenum n b s)) \<le> length s"
  by (induction n b s rule: parsenum.induct) auto

lemma arg_number_length: "length (snd (snd (arg_number s))) \<le> length s"
  by (auto simp: arg_number_def Let_def split: prod.splits
      intro: order.trans [OF diff_le_self length_dropWhile_le])

lemma fmt_part_lengths:
  "length (snd (snd (snd (fmt_width f s)))) \<le> length s"
  "length (snd (snd (snd (fmt_prec f s)))) \<le> length s"
  "length (snd (fmt_index f s)) \<le> length s"
  "length (snd (fmt_verb g s)) \<le> length s"
proof -
  show "length (snd (snd (snd (fmt_width f s)))) \<le> length s"
    using parsenum_length [of 0 False s] by (auto simp: fmt_width_def split: prod.splits)
  show "length (snd (fmt_index f s)) \<le> length s"
    using arg_number_length [of s] by (auto simp: fmt_index_def split: prod.splits)
  show "length (snd (fmt_verb g s)) \<le> length s"
    by (simp add: fmt_verb_def split: list.split)
  obtain g f' r where r: "arg_number (tl s) = (g, f', r)" by (cases "arg_number (tl s)") auto
  have "length r \<le> length s" "length (snd (parsenum 0 False r)) \<le> length s"
    using arg_number_length [of "tl s"] parsenum_length [of 0 False r] by (simp_all add: r)
  then show "length (snd (snd (snd (fmt_prec f s)))) \<le> length s"
    by (auto simp: fmt_prec_def r)
qed

lemma fmt_directive_length: "length (snd (fmt_directive s)) \<le> length s"
proof -
  let ?s0 = "dropWhile (\<lambda>c. c \<in> set ''#0+- '') s"
  obtain g1 f1 s1 where 1: "arg_number ?s0 = (g1, f1, s1)" by (metis prod_cases3)
  obtain b2 g2 f2 s2 where 2: "fmt_width f1 s1 = (b2, g2, f2, s2)" by (cases "fmt_width f1 s1") auto
  obtain b3 g3 f3 s3 where 3: "fmt_prec f2 s2 = (b3, g3, f3, s3)" by (cases "fmt_prec f2 s2") auto
  obtain g4 s4 where 4: "fmt_index f3 s3 = (g4, s4)" by (cases "fmt_index f3 s3") auto
  define good where "good \<longleftrightarrow> g1 \<and> g2 \<and> g3 \<and> g4"
  have "snd (fmt_directive s) = snd (fmt_verb good s4)"
    unfolding fmt_directive_def Let_def 1 by (simp add: 2 3 4 good_def split: prod.split)
  moreover have "length ?s0 \<le> length s" by (rule length_dropWhile_le)
  moreover have "length s1 \<le> length ?s0" using arg_number_length [of ?s0] unfolding 1 by simp
  moreover have "length s2 \<le> length s1" "length s3 \<le> length s2" "length s4 \<le> length s3"
    using fmt_part_lengths(1) [of f1 s1] fmt_part_lengths(2) [of f2 s2] fmt_part_lengths(3) [of f3 s3]
    by (simp_all add: 2 3 4)
  moreover have "length (snd (fmt_verb good s4)) \<le> length s4" by (rule fmt_part_lengths(4))
  ultimately show ?thesis by (metis order.trans)
qed

function fmt_none :: "string \<Rightarrow> string" where
  "fmt_none [] = []"
| "fmt_none (c # cs) =
     (if c \<noteq> CHR ''%'' then c # fmt_none cs
      else fst (fmt_directive cs) @ fmt_none (snd (fmt_directive cs)))"
  by pat_completeness auto

termination
  by (relation "measure length") (simp_all add: le_imp_less_Suc fmt_directive_length)

lemma fmt_none_example: "fmt_none ''disk at 95% of 10%'' = ''disk at 95%!o(MISSING)f 10%!(NOVERB)''"
  by code_simp

lemma fmt_none_plain: "CHR ''%'' \<notin> set s \<Longrightarrow> fmt_none s = s"
  by (induction s rule: fmt_none.induct) auto

fun big_endian :: "nat \<Rightarrow> bytes \<Rightarrow> nat" where
  "big_endian acc [] = acc"
| "big_endian acc (b # bs) = big_endian (acc * 256 + of_char b) bs"

lemma of_char_less_256 [simp]: "(of_char c :: nat) < 256"
  by (metis of_char_mod_256 mod_less_divisor zero_less_numeral)

lemma of_char_le_255 [simp]: "(of_char c :: nat) \<le> 255"
  using of_char_less_256 [of c] by linarith

lemma of_char_nibbles [simp]:
  "(of_char c :: nat) div 16 < 16" "(of_char c :: nat) div 16 < 36" "(of_char c :: nat) mod 16 < 36"
proof -
  have "(of_char c :: nat) div 16 < 16"
    using of_char_less_256 [of c] by linarith
  then show "(of_char c :: nat) div 16 < 16" "(of_char c :: nat) div 16 < 36" by linarith+
  have "(of_char c :: nat) mod 16 < 16" by simp
  then show "(of_char c :: nat) mod 16 < 36" by linarith
qed

lemma digit_val_digit_char [simp]: "d < 36 \<Longrightarrow> digit_val (digit_char d) = Some d"
  by (auto simp: digit_char_def digit_val_def Let_def)

lemma digit_char_not_sign: "d < 36 \<Longrightarrow> digit_char d \<noteq> CHR ''-'' \<and> digit_char d \<noteq> CHR ''+''"
proof -
  assume "d < 36"
  then have "digit_val (digit_char d) \<noteq> None" by simp
  moreover have "digit_val CHR ''-'' = None" "digit_val CHR ''+'' = None"
    by (simp_all add: digit_val_def)
  ultimately show ?thesis by metis
qed

lemma big_endian_bound: "big_endian acc bs < (acc + 1) * 256 ^ length bs"
proof (induction bs arbitrary: acc)
  case (Cons b bs)
  have "big_endian acc (b # bs) < (acc * 256 + of_char b + 1) * 256 ^ length bs"
    using Cons.IH by simp
  also have "\<dots> \<le> ((acc + 1) * 256) * 256 ^ length bs"
    using of_char_less_256 [of b] by (intro mult_right_mono) (simp_all add: algebra_simps)
  finally show ?case by (simp add: algebra_simps)
qed simp

lemma big_endian_mono: "acc \<le> big_endian acc bs"
proof (induction bs arbitrary: acc)
  case (Cons b bs)
  have "acc \<le> acc * 256 + of_char b" by simp
  also have "\<dots> \<le> big_endian (acc * 256 + of_char b) bs" by (rule Cons.IH)
  finally show ?case by simp
qed simp

lemma parse_digits_step:
  "d < base \<Longrightarrow> d < 36 \<Longrightarrow> acc * base + d < 2 ^ 64 \<Longrightarrow>
    parse_digits base acc (digit_char d # cs) = parse_digits base (acc * base + d) cs"
  by simp

declare parse_digits.simps(2) [simp del]

text \<open>Reading back the hexadecimal text of a byte string gives its big-endian value.\<close>

lemma parse_digits_hex:
  "big_endian acc bs < 2 ^ 64 \<Longrightarrow> parse_digits 16 acc (hex_bytes bs) = Inr (big_endian acc bs)"
proof (induction bs arbitrary: acc)
  case (Cons b bs)
  let ?n = "of_char b :: nat"
  have merge: "(acc * 16 + ?n div 16) * 16 + ?n mod 16 = acc * 256 + ?n"
    by (simp add: algebra_simps)
  have "acc * 256 + ?n \<le> big_endian (acc * 256 + ?n) bs"
    by (rule big_endian_mono)
  with Cons.prems have lt: "acc * 256 + ?n < 2 ^ 64" by simp
  then have lt': "acc * 16 + ?n div 16 < 2 ^ 64"
    using merge by linarith
  have "parse_digits 16 acc (hex_bytes (b # bs)) =
      parse_digits 16 (acc * 16 + ?n div 16) (digit_char (?n mod 16) # hex_bytes bs)"
    using lt' by (simp add: hex_bytes_def hex_byte_def parse_digits_step)
  also have "\<dots> = parse_digits 16 ((acc * 16 + ?n div 16) * 16 + ?n mod 16) (hex_bytes bs)"
    using lt merge by (intro parse_digits_step) simp_all
  finally have "parse_digits 16 acc (hex_bytes (b # bs)) = parse_digits 16 (acc * 256 + ?n) (hex_bytes bs)"
    by (simp only: merge)
  then show ?case using Cons by simp
qed (simp add: hex_bytes_def)

lemma parse_int_hex:
  assumes "bs \<noteq> []" and "length bs < 8"
  shows "parse_int 16 (hex_bytes bs) = Inr (int (big_endian 0 bs))"
proof -
  have "big_endian 0 bs < 256 ^ length bs"
    using big_endian_bound [of 0 bs] by simp
  also have "\<dots> \<le> (256::nat) ^ 7"
    using assms(2) by (intro power_increasing) auto
  finally have b: "big_endian 0 bs < 2 ^ 56" by simp
  obtain c cs where bs: "bs = c # cs" using assms(1) by (cases bs) auto
  have hd: "hd (hex_bytes bs) = digit_char (of_char c div 16)" "hex_bytes bs \<noteq> []"
    by (simp_all add: bs hex_bytes_def hex_byte_def)
  have "hd (hex_bytes bs) \<noteq> CHR ''-''" "hd (hex_bytes bs) \<noteq> CHR ''+''"
    using hd(1) digit_char_not_sign [OF of_char_nibbles(2) [of c]] by simp_all
  then show ?thesis
    using hd b by (simp add: parse_int_def parse_uint_def parse_digits_hex Let_def)
qed

lemma parse_digits_append:
  "parse_digits b acc (xs @ ys) =
     (case parse_digits b acc xs of Inl e \<Rightarrow> Inl e | Inr n \<Rightarrow> parse_digits b n ys)"
  by (induction xs arbitrary: acc) (auto simp: parse_digits.simps(2) split: option.splits)

lemma parse_digits_nat_str: "n < 2 ^ 64 \<Longrightarrow> parse_digits 10 0 (nat_str n) = Inr n"
proof (induction n rule: nat_str.induct)
  case (1 n)
  show ?case
  proof (cases "n < 10")
    case True
    then show ?thesis by (simp add: nat_str.simps [of n] parse_digits_step)
  next
    case False
    with 1 have "parse_digits 10 0 (nat_str (n div 10)) = Inr (n div 10)" by simp
    moreover have "n div 10 * 10 + n mod 10 = n" by simp
    ultimately show ?thesis
      using False "1.prems" by (simp add: nat_str.simps [of n] parse_digits_append parse_digits_step)
  qed
qed

section \<open>Package path\<close>

text \<open>
  \<open>path.Clean\<close> walks over the components with a stack: empty and \<open>.\<close> components are dropped,
  \<open>..\<close> removes the component before it, cannot climb above a root, and is kept at the front
  of a relative path.
\<close>

fun clean_step :: "bool \<Rightarrow> string list \<Rightarrow> string \<Rightarrow> string list" where
  "clean_step rooted out c =
     (if c = [] \<or> c = ''.'' then out
      else if c = ''..'' then
        (case out of
           [] \<Rightarrow> (if rooted then [] else [c])
         | d # ds \<Rightarrow> (if d = ''..'' then c # out else ds))
      else c # out)"

definition path_clean :: "string \<Rightarrow> string" where
  "path_clean p =
     (if p = [] then ''.''
      else let rooted = (hd p = CHR ''/'');
               comps = rev (foldl (clean_step rooted) [] (split_on (CHR ''/'') p))
           in if rooted then CHR ''/'' # join ''/'' comps
              else if comps = [] then ''.'' else join ''/'' comps)"

definition path_join :: "string list \<Rightarrow> string" where
  "path_join elems =
     (case dropWhile (\<lambda>e. e = []) elems of [] \<Rightarrow> [] | es \<Rightarrow> path_clean (join ''/'' es))"

text \<open>A proper file name: one component, neither \<open>.\<close> nor \<open>..\<close>.\<close>

definition file_name :: "string \<Rightarrow> bool" where
  "file_name c \<longleftrightarrow> c \<noteq> [] \<and> c \<noteq> ''.'' \<and> c \<noteq> ''..'' \<and> CHR ''/'' \<notin> set c"

lemma clean_step_file_name: "file_name c \<Longrightarrow> clean_step r out c = c # out"
  by (simp add: file_name_def)

lemma join_snoc: "xs \<noteq> [] \<Longrightarrow> join sep (xs @ [x]) = join sep xs @ sep @ x"
proof (induction xs)
  case (Cons y ys)
  then show ?case by (cases ys) auto
qed simp

text \<open>The components of a cleaned rooted path; joining a file name adds exactly that component.\<close>

definition path_comps :: "string \<Rightarrow> string list" where
  "path_comps p = rev (foldl (clean_step True) [] (split_on (CHR ''/'') p))"

lemma path_clean_rooted: "path_clean (CHR ''/'' # p) = CHR ''/'' # join ''/'' (path_comps (CHR ''/'' # p))"
  by (simp add: path_clean_def path_comps_def)

lemma path_comps_append:
  assumes "file_name c"
  shows "path_comps (p @ CHR ''/'' # c) = path_comps p @ [c]"
proof -
  have "split_on (CHR ''/'') c = [c]"
    using assms by (intro split_on_single) (simp add: file_name_def)
  then show ?thesis
    using assms by (simp add: path_comps_def split_on_append_sep clean_step_file_name del: clean_step.simps)
qed

lemma path_join_rooted:
  assumes "file_name c"
  shows "path_join [CHR ''/'' # p, c] = CHR ''/'' # join ''/'' (path_comps (CHR ''/'' # p) @ [c])"
  using assms path_comps_append [OF assms, of "CHR ''/'' # p"]
  by (simp add: path_join_def path_clean_rooted [of "p @ CHR ''/'' # c", simplified])

lemma path_join_rooted_snoc:
  assumes "file_name c" and "path_comps (CHR ''/'' # p) \<noteq> []"
  shows "path_join [CHR ''/'' # p, c] = path_clean (CHR ''/'' # p) @ ''/'' @ c"
  using assms by (simp add: path_join_rooted path_clean_rooted join_snoc)

end
