(* ===== verification/Base64.thy ===== *)
theory Base64
  imports GoStrings
begin

text \<open>
  \<open>encoding/base64.StdEncoding\<close>, which carries the terminal output to the browser
  (third-part/gotty/webtty/webtty.go) and builds the exec identifiers (util/id.go).  The decoder
  is the one a client of the protocol applies; it is the reference against which the encoder
  is proved.
\<close>

definition b64_char :: "nat \<Rightarrow> char" where
  "b64_char i =
     (if i < 26 then char_of (65 + i)
      else if i < 52 then char_of (71 + i)
      else if i < 62 then char_of (i - 4)
      else if i = 62 then CHR ''+'' else CHR ''/'')"

fun b64_encode :: "bytes \<Rightarrow> string" where
  "b64_encode [] = []"
| "b64_encode [a] =
     [b64_char (of_char a div 4), b64_char (of_char a mod 4 * 16), CHR ''='', CHR ''='']"
| "b64_encode [a, b] =
     [b64_char (of_char a div 4), b64_char (of_char a mod 4 * 16 + of_char b div 16),
      b64_char (of_char b mod 16 * 4), CHR ''='']"
| "b64_encode (a # b # c # r) =
     b64_char (of_char a div 4) # b64_char (of_char a mod 4 * 16 + of_char b div 16) #
     b64_char (of_char b mod 16 * 4 + of_char c div 64) # b64_char (of_char c mod 64) # b64_encode r"

definition encoded_len :: "nat \<Rightarrow> nat" where
  "encoded_len n = (n + 2) div 3 * 4"

definition b64_val :: "char \<Rightarrow> nat option" where
  "b64_val c =
     (let n = of_char c :: nat in
      if 65 \<le> n \<and> n \<le> 90 then Some (n - 65)
      else if 97 \<le> n \<and> n \<le> 122 then Some (n - 71)
      else if 48 \<le> n \<and> n \<le> 57 then Some (n + 4)
      else if c = CHR ''+'' then Some 62
      else if c = CHR ''/'' then Some 63 else None)"

text \<open>One group of four: the bytes it stands for.\<close>

definition b64_group :: "char \<Rightarrow> char \<Rightarrow> char \<Rightarrow> char \<Rightarrow> bytes option" where
  "b64_group w x y z =
     (case (b64_val w, b64_val x) of
        (Some i, Some j) \<Rightarrow>
          (case b64_val y of
             None \<Rightarrow> if y = CHR ''='' \<and> z = CHR ''='' then Some [char_of (i * 4 + j div 16)] else None
           | Some k \<Rightarrow>
               (case b64_val z of
                  None \<Rightarrow> if z = CHR ''=''
                    then Some [char_of (i * 4 + j div 16), char_of (j mod 16 * 16 + k div 4)] else None
                | Some l \<Rightarrow>
                    Some [char_of (i * 4 + j div 16), char_of (j mod 16 * 16 + k div 4),
                          char_of (k mod 4 * 64 + l)]))
      | _ \<Rightarrow> None)"

fun b64_decode :: "string \<Rightarrow> bytes option" where
  "b64_decode [] = Some []"
| "b64_decode (w # x # y # z # r) =
     (case b64_group w x y z of None \<Rightarrow> None | Some bs \<Rightarrow> map_option ((@) bs) (b64_decode r))"
| "b64_decode _ = None"

lemma b64_val_char [simp]: "i < 64 \<Longrightarrow> b64_val (b64_char i) = Some i"
  by (auto simp: b64_char_def b64_val_def Let_def)

lemma b64_val_pad [simp]: "b64_val CHR ''='' = None"
  by (simp add: b64_val_def)

lemma b64_indices [simp]:
  fixes a b c :: char
  shows "(of_char a :: nat) div 4 < 64" "(of_char a :: nat) mod 4 * 16 < 64"
    "(of_char a :: nat) mod 4 * 16 + of_char b div 16 < 64"
    "(of_char b :: nat) mod 16 * 4 < 64"
    "(of_char b :: nat) mod 16 * 4 + of_char c div 64 < 64" "(of_char c :: nat) mod 64 < 64"
  using of_char_less_256 [of a] of_char_less_256 [of b] of_char_less_256 [of c] by linarith+

text \<open>Two fields packed into one number come apart again.\<close>

lemma unpack_fields:
  fixes m r k :: nat
  assumes "r < k"
  shows "(m * k + r) div k = m" "(m * k + r) mod k = r"
  using assms by simp_all

lemma b64_unpack [simp]:
  fixes a b c :: char
  shows "((of_char a :: nat) mod 4 * 16 + of_char b div 16) div 16 = of_char a mod 4"
    "((of_char a :: nat) mod 4 * 16 + of_char b div 16) mod 16 = of_char b div 16"
    "((of_char b :: nat) mod 16 * 4 + of_char c div 64) div 4 = of_char b mod 16"
    "((of_char b :: nat) mod 16 * 4 + of_char c div 64) mod 4 = of_char c div 64"
  using of_char_less_256 [of b] of_char_less_256 [of c]
  by (intro unpack_fields; linarith)+

lemma b64_high_bits [simp]: "(of_char c :: nat) div 64 mod 4 = of_char c div 64"
  using of_char_less_256 [of c] by (intro mod_less) linarith

theorem b64_round_trip: "b64_decode (b64_encode bs) = Some bs"
proof (induction bs rule: b64_encode.induct)
  case (4 a b c r)
  then show ?case
    by (simp add: b64_group_def del: div_mult_self3 div_mult_self4 div_mult_self1 div_mult_self2)
qed (simp_all add: b64_group_def)

lemma length_b64_encode: "length (b64_encode bs) = encoded_len (length bs)"
proof (induction bs rule: b64_encode.induct)
  case (4 a b c r)
  have "(length r + 3 + 2) div 3 = (length r + 2) div 3 + 1" by simp
  with 4 show ?case by (simp add: encoded_len_def)
qed (simp_all add: encoded_len_def)

section \<open>What the terminal protocol needs of an encoding\<close>

locale byte_codec =
  fixes enc :: "bytes \<Rightarrow> string" and dec :: "string \<Rightarrow> bytes option"
  assumes dec_enc: "dec (enc bs) = Some bs"
begin

lemma enc_inject: "enc bs = enc cs \<longleftrightarrow> bs = cs"
  by (metis dec_enc option.inject)

text \<open>A sequence of encoded messages gives the stream back, cut where the sender cut it.\<close>

lemma dec_stream: "concat (map (the \<circ> dec) (map enc chunks)) = concat chunks"
  by (induction chunks) (simp_all add: dec_enc)

end

interpretation b64: byte_codec b64_encode b64_decode
  by unfold_locales (rule b64_round_trip)

end
