(* ===== verification/ContainerTypes.thy ===== *)
theory ContainerTypes
  imports GoStrings
begin

text \<open>
  The data types of types/types.go: a container as the backends describe it, the options of an
  exec and of a log request, the first message of a terminal client and the answer to a control
  request.  The field \<open>F\<close> of the Go struct is the selector \<open>c_F\<close> (\<open>e_F\<close>, \<open>l_F\<close>, ...).
\<close>

record exec_options =
  e_User :: string
  e_Env :: string
  e_Cmd :: string
  e_Privileged :: bool

record container =
  c_ID :: string
  c_Name :: string
  c_Image :: string
  c_Command :: string
  c_State :: string
  c_Status :: string
  c_IPs :: "string list"
  c_Shell :: string
  c_PodName :: string
  c_ContainerName :: string
  c_Namespace :: string
  c_RunningNode :: string
  c_LocServer :: string
  c_Exec :: exec_options

record container_action_message =
  am_Error :: string
  am_Code :: int
  am_Message :: string

record init_message =
  im_Arguments :: string
  im_AuthToken :: string

record log_options =
  l_ID :: string
  l_Follow :: bool
  l_Tail :: string

datatype container_act = EXEC | LOGS

text \<open>The zero values \<open>ExecOptions{}\<close> and \<open>Container{}\<close>.\<close>

definition zero_exec :: exec_options where
  "zero_exec = \<lparr>e_User = [], e_Env = [], e_Cmd = [], e_Privileged = False\<rparr>"

definition zero_container :: container where
  "zero_container =
     \<lparr>c_ID = [], c_Name = [], c_Image = [], c_Command = [], c_State = [], c_Status = [],
      c_IPs = [], c_Shell = [], c_PodName = [], c_ContainerName = [], c_Namespace = [],
      c_RunningNode = [], c_LocServer = [], c_Exec = zero_exec\<rparr>"

lemma zero_container_sels [simp]:
  "c_ID zero_container = []" "c_Shell zero_container = []" "c_LocServer zero_container = []"
  "c_PodName zero_container = []" "c_Namespace zero_container = []"
  "c_Name zero_container = []" "c_ContainerName zero_container = []"
  by (simp_all add: zero_container_def)

section \<open>The list of shells\<close>

text \<open>
  \<open>config.SHELL_LIST\<close>, and the probe loop that the docker and the kube backend share: the first
  shell whose path exists in the container, or the empty string.  A probe is a call to the
  daemon, whose state \<open>'w\<close> it may change.
\<close>

definition SHELL_LIST :: "string list" where
  "SHELL_LIST = [''/bin/bash'', ''/bin/ash'', ''/bin/sh'']"

fun first_shell :: "(string \<Rightarrow> 'w \<Rightarrow> bool \<times> 'w) \<Rightarrow> string list \<Rightarrow> 'w \<Rightarrow> string \<times> 'w" where
  "first_shell exists [] w = ([], w)"
| "first_shell exists (sh # shs) w =
     (let (found, w') = exists sh w in if found then (sh, w') else first_shell exists shs w')"

lemma first_shell_range: "fst (first_shell exists shs w) \<in> insert [] (set shs)"
  by (induction shs arbitrary: w) (auto simp: Let_def split: prod.split)

lemma first_shell_none:
  assumes "[] \<notin> set shs" and "\<And>sh w. exists sh w = (present sh, w)"
  shows "fst (first_shell exists shs w) = [] \<longleftrightarrow> (\<forall>sh \<in> set shs. \<not> present sh)"
  using assms by (induction shs arbitrary: w) auto

lemma first_shell_prefers:
  assumes "\<And>sh w. exists sh w = (present sh, w)"
  shows "present sh \<Longrightarrow> \<forall>s \<in> set xs. \<not> present s \<Longrightarrow> fst (first_shell exists (xs @ sh # ys) w) = sh"
  by (induction xs arbitrary: w) (auto simp: assms)

lemma SHELL_LIST_nonempty: "[] \<notin> set SHELL_LIST"
  by (simp add: SHELL_LIST_def)

end
