(* ===== verification/Containers.thy ===== *)
theory Containers
  imports ContainerTypes "HOL-Library.Multiset"
begin

text \<open>
  The container cache of types/containers.go: a map from identifiers to containers, which holds
  every container under its full ID and under the first twelve bytes of it (the short ID that
  \<open>docker ps\<close> prints), next to the list in the order the daemon gave.  Every operation calls
  \<open>init\<close> first, so the map is never nil when it is written; the read-write lock makes each
  operation one atomic step, which is what a function on the state is.
\<close>

record containers =
  cs_c :: "(string, container) gomap"
  cs_cs :: "container list"
  cs_once :: bool

definition zero_containers :: containers where
  "zero_containers = \<lparr>cs_c = [], cs_cs = [], cs_once = False\<rparr>"

text \<open>\<open>init\<close>: \<open>once.Do\<close> makes the map on the first call only.\<close>

definition cs_init :: "containers \<Rightarrow> containers" where
  "cs_init cs = (if cs_once cs then cs else cs\<lparr>cs_c := [], cs_once := True\<rparr>)"

definition cs_List :: "containers \<Rightarrow> container list \<times> containers" where
  "cs_List cs = (let cs' = cs_init cs in (cs_cs cs', cs'))"

definition cs_Len :: "containers \<Rightarrow> nat \<times> containers" where
  "cs_Len cs = (let cs' = cs_init cs in (length (cs_c cs'), cs'))"

text \<open>The two stores that \<open>Set\<close> and \<open>Append\<close> make for one container.\<close>

definition index_container :: "container \<Rightarrow> (string, container) gomap \<Rightarrow> (string, container) gomap" where
  "index_container c m =
     (let m' = AList.update (c_ID c) c m
      in if 12 \<le> length (c_ID c) then AList.update (take 12 (c_ID c)) c m' else m')"

definition cs_Set :: "container list \<Rightarrow> containers \<Rightarrow> containers" where
  "cs_Set containers cs =
     (let cs' = cs_init cs
      in cs'\<lparr>cs_c := fold index_container containers [], cs_cs := containers\<rparr>)"

definition cs_Append :: "container \<Rightarrow> containers \<Rightarrow> containers" where
  "cs_Append c cs =
     (let cs' = cs_init cs
      in if c_ID c = [] then cs'
         else cs'\<lparr>cs_c := index_container c (cs_c cs'), cs_cs := cs_cs cs' @ [c]\<rparr>)"

text \<open>The loop of \<open>Find\<close>: counts the keys that extend \<open>cID\<close>, keeping the last one's container.\<close>

fun find_loop :: "string \<Rightarrow> (string, container) gomap \<Rightarrow> nat \<times> container \<Rightarrow> nat \<times> container" where
  "find_loop cID [] acc = acc"
| "find_loop cID ((key, info) # m) (l, rC) =
     find_loop cID m (if prefix cID key then (l + 1, info) else (l, rC))"

definition find_in :: "string \<Rightarrow> (string, container) gomap \<Rightarrow> container" where
  "find_in cID m =
     (case map_of m cID of
        Some c \<Rightarrow> c
      | None \<Rightarrow>
          (let (l, rC) = find_loop cID m (0, zero_container)
           in if l = 1 then rC else zero_container))"

definition cs_Find :: "string \<Rightarrow> containers \<Rightarrow> container \<times> containers" where
  "cs_Find cID cs = (let cs' = cs_init cs in (find_in cID (cs_c cs'), cs'))"

definition cs_SetShell :: "string \<Rightarrow> string \<Rightarrow> containers \<Rightarrow> containers" where
  "cs_SetShell cID shell cs =
     (let cs' = cs_init cs
      in case map_of (cs_c cs') cID of
           Some c \<Rightarrow> cs'\<lparr>cs_c := AList.update cID (c\<lparr>c_Shell := shell\<rparr>) (cs_c cs')\<rparr>
         | None \<Rightarrow> cs')"

section \<open>The loop of Find\<close>

lemma find_loop_count:
  "fst (find_loop cID m (l, rC)) = l + length (filter (\<lambda>e. prefix cID (fst e)) m)"
  by (induction m arbitrary: l rC) auto

lemma find_loop_last:
  "snd (find_loop cID m (l, rC)) = last (rC # map snd (filter (\<lambda>e. prefix cID (fst e)) m))"
  by (induction m arbitrary: l rC) auto

text \<open>
  So \<open>Find\<close> is a case distinction on the entries whose key extends \<open>cID\<close>: the container comes
  back exactly when there is one such entry.
\<close>

definition matches :: "string \<Rightarrow> (string, container) gomap \<Rightarrow> (string, container) gomap" where
  "matches cID m = filter (\<lambda>e. prefix cID (fst e)) m"

lemma find_in_alt:
  "find_in cID m =
     (case map_of m cID of
        Some c \<Rightarrow> c
      | None \<Rightarrow> (case matches cID m of [e] \<Rightarrow> snd e | _ \<Rightarrow> zero_container))"
proof -
  define r where "r = find_loop cID m (0, zero_container)"
  have "fst r = length (matches cID m)" "snd r = last (zero_container # map snd (matches cID m))"
    by (simp_all add: r_def find_loop_count find_loop_last matches_def)
  then show ?thesis
    unfolding find_in_def r_def [symmetric]
    by (cases r) (auto split: option.split list.split)
qed

lemma find_in_exact: "map_of m cID = Some c \<Longrightarrow> find_in cID m = c"
  by (simp add: find_in_def)

lemma find_in_unique: "map_of m cID = None \<Longrightarrow> matches cID m = [e] \<Longrightarrow> find_in cID m = snd e"
  by (simp add: find_in_alt)

text \<open>Two matching keys and no exact one: the zero container.\<close>

lemma find_in_ambiguous:
  assumes "map_of m cID = None" and "(k, c) \<in> set m" and "(k', c') \<in> set m" and "k \<noteq> k'"
    and "prefix cID k" and "prefix cID k'"
  shows "find_in cID m = zero_container"
proof -
  have "(k, c) \<in> set (matches cID m)" "(k', c') \<in> set (matches cID m)"
    using assms by (auto simp: matches_def)
  with assms(1,4) show ?thesis
    by (auto simp: find_in_alt split: list.split)
qed

text \<open>The order in which \<open>range\<close> visits the map does not matter.\<close>

lemma matches_cong: "mset m = mset m' \<Longrightarrow> mset (matches cID m) = mset (matches cID m')"
  by (simp add: matches_def)

lemma map_of_mset_cong:
  "mset m = mset m' \<Longrightarrow> distinct (map fst m) \<Longrightarrow> map_of m = map_of m'"
  by (metis distinct_map map_of_inject_set mset_eq_imp_distinct_iff mset_eq_setD mset_map)

lemma find_in_order:
  assumes "mset m = mset m'" and "distinct (map fst m)"
  shows "find_in cID m = find_in cID m'"
proof -
  have "mset (matches cID m) = mset (matches cID m')"
    using assms(1) by (rule matches_cong)
  then have "matches cID m = [e] \<longleftrightarrow> matches cID m' = [e]" for e
    by (metis mset_single_iff_right)
  moreover have "length (matches cID m) = length (matches cID m')"
    using \<open>mset (matches cID m) = mset (matches cID m')\<close> by (rule mset_eq_length)
  ultimately show ?thesis
    using map_of_mset_cong [OF assms]
    by (auto simp: find_in_alt split: option.split list.split)
qed

section \<open>The invariant of the cache\<close>

text \<open>
  Every key of the map is the full ID of its container or the first twelve bytes of it, keys are
  distinct, and the map is only filled after \<open>init\<close>.
\<close>

definition key_ok :: "string \<Rightarrow> container \<Rightarrow> bool" where
  "key_ok k c \<longleftrightarrow> k = c_ID c \<or> (12 \<le> length (c_ID c) \<and> k = take 12 (c_ID c))"

definition map_ok :: "(string, container) gomap \<Rightarrow> bool" where
  "map_ok m \<longleftrightarrow> distinct (map fst m) \<and> (\<forall>(k, c) \<in> set m. key_ok k c)"

definition cs_inv :: "containers \<Rightarrow> bool" where
  "cs_inv cs \<longleftrightarrow> map_ok (cs_c cs) \<and> (\<not> cs_once cs \<longrightarrow> cs_c cs = [] \<and> cs_cs cs = [])"

lemma key_ok_prefix: "key_ok k c \<Longrightarrow> prefix k (c_ID c)"
  by (auto simp: key_ok_def take_is_prefix)

lemma map_ok_update [inv_intros]: "map_ok m \<Longrightarrow> key_ok k c \<Longrightarrow> map_ok (AList.update k c m)"
  using set_update_subset [of k c m] by (auto simp: map_ok_def distinct_update)

lemma map_ok_index [inv_intros]: "map_ok m \<Longrightarrow> map_ok (index_container c m)"
  by (auto simp: index_container_def Let_def key_ok_def intro!: map_ok_update)

lemma map_ok_fold [inv_intros]: "map_ok m \<Longrightarrow> map_ok (fold index_container cs m)"
  by (induction cs arbitrary: m) (simp_all add: map_ok_index)

lemma map_ok_Nil [simp]: "map_ok []"
  by (simp add: map_ok_def)

lemma map_ok_map_of: "map_ok m \<Longrightarrow> map_of m k = Some c \<Longrightarrow> key_ok k c"
  by (auto simp: map_ok_def dest: map_of_SomeD)

lemma cs_inv_zero [inv_intros]: "cs_inv zero_containers"
  by (simp add: cs_inv_def zero_containers_def)

lemma cs_inv_init [inv_intros]: "cs_inv cs \<Longrightarrow> cs_inv (cs_init cs)"
  by (simp add: cs_inv_def cs_init_def)

lemma cs_init_once [simp]: "cs_once (cs_init cs)"
  by (simp add: cs_init_def)

lemma cs_init_same [simp]: "cs_inv cs \<Longrightarrow> cs_c (cs_init cs) = cs_c cs" "cs_cs (cs_init cs) = cs_cs cs"
  by (auto simp: cs_inv_def cs_init_def)

lemma cs_inv_Set [inv_intros]: "cs_inv cs \<Longrightarrow> cs_inv (cs_Set xs cs)"
  by (simp add: cs_inv_def cs_Set_def Let_def map_ok_fold)

lemma cs_inv_Append [inv_intros]: "cs_inv cs \<Longrightarrow> cs_inv (cs_Append c cs)"
  using cs_inv_init [of cs] by (auto simp: cs_inv_def cs_Append_def Let_def intro: map_ok_index)

lemma cs_inv_Find [inv_intros]: "cs_inv cs \<Longrightarrow> cs_inv (snd (cs_Find cID cs))"
  by (simp add: cs_Find_def Let_def cs_inv_init)

lemma cs_inv_SetShell [inv_intros]:
  assumes "cs_inv cs" shows "cs_inv (cs_SetShell cID sh cs)"
proof -
  have inv: "cs_inv (cs_init cs)" using assms by (rule cs_inv_init)
  have "key_ok cID (c\<lparr>c_Shell := sh\<rparr>)" if "map_of (cs_c (cs_init cs)) cID = Some c" for c
    using inv that by (auto simp: cs_inv_def key_ok_def dest: map_ok_map_of)
  with inv show ?thesis
    by (auto simp: cs_SetShell_def Let_def cs_inv_def split: option.split intro: map_ok_update)
qed

section \<open>What Find returns\<close>

lemma find_in_cases:
  assumes "map_ok m"
  shows "find_in cID m = zero_container \<or>
         (\<exists>k. map_of m k = Some (find_in cID m) \<and> prefix cID k \<and> key_ok k (find_in cID m))"
proof (cases "map_of m cID")
  case (Some c)
  with assms show ?thesis by (auto simp: find_in_exact map_ok_map_of)
next
  case None
  show ?thesis
  proof (cases "\<exists>e. matches cID m = [e]")
    case True
    then obtain k c where e: "matches cID m = [(k, c)]" by (metis surj_pair)
    then have "(k, c) \<in> set m" "prefix cID k"
      unfolding matches_def by (metis filter_eq_ConsD fst_conv list.set_intros(1) filter_is_subset subsetD)+
    moreover have "map_of m k = Some c"
      using assms \<open>(k, c) \<in> set m\<close> by (simp add: map_ok_def)
    ultimately show ?thesis
      using e None assms by (auto simp: find_in_unique map_ok_map_of)
  next
    case False
    then show ?thesis using None by (auto simp: find_in_alt split: list.split)
  qed
qed

lemma find_in_sound: "map_ok m \<Longrightarrow> c_ID (find_in cID m) \<noteq> [] \<Longrightarrow> prefix cID (c_ID (find_in cID m))"
  using find_in_cases [of m cID] by (auto dest: key_ok_prefix intro: prefix_order.order_trans)

section \<open>Looking up after the writes\<close>

lemma map_of_index_container:
  "map_of (index_container c m) k = (if key_ok k c then Some c else map_of m k)"
  by (auto simp: index_container_def Let_def update_conv key_ok_def)

lemma keys_index_container:
  "fst ` set (index_container c m) =
     fst ` set m \<union> {k. k = c_ID c \<or> (12 \<le> length (c_ID c) \<and> k = take 12 (c_ID c))}"
  by (auto simp: index_container_def Let_def dom_update)

lemma map_of_fold_index:
  "map_of (fold index_container xs m) k =
     (case find (key_ok k) (rev xs) of Some c \<Rightarrow> Some c | None \<Rightarrow> map_of m k)"
  by (induction xs arbitrary: m)
    (simp_all add: map_of_index_container find_append split: option.split)

lemma find_after_append:
  "cs_inv cs \<Longrightarrow> c_ID c \<noteq> [] \<Longrightarrow> key_ok k c \<Longrightarrow> fst (cs_Find k (cs_Append c cs)) = c"
  by (simp add: cs_Find_def cs_Append_def Let_def cs_init_def find_in_exact map_of_index_container)

lemma find_after_set_shell:
  assumes "map_of (cs_c (cs_init cs)) k = Some c"
  shows "fst (cs_Find k (cs_SetShell k sh cs)) = c\<lparr>c_Shell := sh\<rparr>"
  using assms by (simp add: cs_Find_def cs_SetShell_def cs_init_def Let_def update_conv find_in_exact)

section \<open>The abstract cache\<close>

text \<open>
  What the cache promises its clients, over a finite map without order: \<open>find_spec\<close> is the exact
  entry, else the only entry whose key extends the argument, else the zero container.
\<close>

definition abs_map :: "containers \<Rightarrow> string \<rightharpoonup> container" where
  "abs_map cs = map_of (cs_c (cs_init cs))"

definition extends_one :: "(string \<rightharpoonup> container) \<Rightarrow> string \<Rightarrow> string \<Rightarrow> bool" where
  "extends_one m cID k \<longleftrightarrow> k \<in> dom m \<and> prefix cID k \<and> (\<forall>k' \<in> dom m. prefix cID k' \<longrightarrow> k' = k)"

definition find_spec :: "(string \<rightharpoonup> container) \<Rightarrow> string \<Rightarrow> container" where
  "find_spec m cID =
     (case m cID of
        Some c \<Rightarrow> c
      | None \<Rightarrow> if \<exists>k. extends_one m cID k then the (m (THE k. extends_one m cID k)) else zero_container)"

definition index_spec :: "container \<Rightarrow> (string \<rightharpoonup> container) \<Rightarrow> string \<rightharpoonup> container" where
  "index_spec c m = (\<lambda>k. if key_ok k c then Some c else m k)"

lemma find_spec_none: "m cID = None \<Longrightarrow> (\<And>k. \<not> extends_one m cID k) \<Longrightarrow> find_spec m cID = zero_container"
  by (auto simp: find_spec_def)

lemma extends_one_matches:
  assumes "distinct (map fst m)"
  shows "extends_one (map_of m) cID k \<longleftrightarrow> (\<exists>c. matches cID m = [(k, c)])"
proof
  assume one: "extends_one (map_of m) cID k"
  then obtain c where kc: "(k, c) \<in> set m" by (auto simp: extends_one_def dest: map_of_SomeD)
  have all: "\<forall>e \<in> set (matches cID m). e = (k, c)"
  proof
    fix e assume e: "e \<in> set (matches cID m)"
    then have "fst e \<in> dom (map_of m)" "prefix cID (fst e)" "e \<in> set m"
      by (auto simp: matches_def dom_map_of_conv_image_fst)
    with one have "fst e = k" by (auto simp: extends_one_def)
    with \<open>e \<in> set m\<close> kc assms show "e = (k, c)" by (metis eq_key_imp_eq_value prod.collapse)
  qed
  have "(k, c) \<in> set (matches cID m)"
    using kc one by (auto simp: matches_def extends_one_def)
  moreover have "distinct (matches cID m)"
    using assms by (simp add: matches_def distinct_map)
  ultimately have "matches cID m = [(k, c)]"
    using all by (intro singleton_list)
  then show "\<exists>c. matches cID m = [(k, c)]" ..
next
  assume "\<exists>c. matches cID m = [(k, c)]"
  then obtain c where c: "matches cID m = [(k, c)]" ..
  then have "set (matches cID m) = {(k, c)}" by simp
  then have only: "e \<in> set m \<and> prefix cID (fst e) \<longleftrightarrow> e = (k, c)" for e
    unfolding matches_def set_filter by (cases e) (simp add: set_eq_iff)
  have "(k, c) \<in> set m \<and> prefix cID k"
    using only [of "(k, c)"] by simp
  then have "k \<in> dom (map_of m)" "prefix cID k"
    by (auto simp: dom_map_of_conv_image_fst intro: rev_image_eqI)
  moreover have "k' = k" if "k' \<in> dom (map_of m)" "prefix cID k'" for k'
  proof -
    from that(1) obtain b where "(k', b) \<in> set m" by (auto simp: dom_map_of_conv_image_fst)
    with that(2) only [of "(k', b)"] show ?thesis by simp
  qed
  ultimately show "extends_one (map_of m) cID k"
    unfolding extends_one_def by blast
qed

lemma find_in_spec:
  assumes "distinct (map fst m)"
  shows "find_in cID m = find_spec (map_of m) cID"
proof (cases "map_of m cID")
  case None
  show ?thesis
  proof (cases "\<exists>k. extends_one (map_of m) cID k")
    case True
    then obtain k where k: "extends_one (map_of m) cID k" ..
    then have the: "(THE k. extends_one (map_of m) cID k) = k"
      by (intro the_equality) (auto simp: extends_one_def)
    from k assms obtain c where c: "matches cID m = [(k, c)]" by (auto simp: extends_one_matches)
    then have "set (matches cID m) = {(k, c)}" by simp
    then have "map_of m k = Some c" using assms by (auto simp: matches_def)
    with None c k the show ?thesis by (auto simp: find_spec_def find_in_unique)
  next
    case False
    then have "matches cID m \<noteq> [e]" for e
      using assms extends_one_matches by (metis surj_pair)
    with None False show ?thesis
      by (auto simp: find_spec_def find_in_alt split: list.split)
  qed
qed (simp add: find_in_def find_spec_def)

lemma abs_map_index: "map_of (index_container c m) = index_spec c (map_of m)"
  by (simp add: index_spec_def map_of_index_container fun_eq_iff)

lemma abs_map_fold: "map_of (fold index_container xs m) = fold index_spec xs (map_of m)"
  by (induction xs arbitrary: m) (simp_all add: abs_map_index)

lemma abs_distinct: "cs_inv cs \<Longrightarrow> distinct (map fst (cs_c (cs_init cs)))"
  using cs_inv_init [of cs] by (simp add: cs_inv_def map_ok_def)

lemma abs_find: "cs_inv cs \<Longrightarrow> fst (cs_Find cID cs) = find_spec (abs_map cs) cID"
  by (simp add: cs_Find_def Let_def abs_map_def find_in_spec abs_distinct del: cs_init_same)

lemma abs_find_any_order:
  "cs_inv cs \<Longrightarrow> mset m' = mset (cs_c (cs_init cs)) \<Longrightarrow> find_in cID m' = find_spec (abs_map cs) cID"
  by (metis abs_distinct abs_map_def find_in_order find_in_spec)

lemma abs_Set: "abs_map (cs_Set xs cs) = fold index_spec xs Map.empty"
  by (simp add: abs_map_def cs_Set_def cs_init_def Let_def abs_map_fold)

lemma abs_Append: "c_ID c \<noteq> [] \<Longrightarrow> abs_map (cs_Append c cs) = index_spec c (abs_map cs)"
  by (simp add: abs_map_def cs_Append_def cs_init_def Let_def abs_map_index)

lemma abs_SetShell:
  "abs_map (cs_SetShell cID sh cs) =
     (case abs_map cs cID of None \<Rightarrow> abs_map cs
      | Some c0 \<Rightarrow> (abs_map cs)(cID \<mapsto> c0\<lparr>c_Shell := sh\<rparr>))"
  by (auto simp: abs_map_def cs_SetShell_def cs_init_def Let_def update_conv split: option.split)

text \<open>
  C12. The cache refines its abstract map: \<open>Find\<close> computes \<open>find_spec\<close> whatever the order in which
  Go visits the map, and \<open>Set\<close>, \<open>Append\<close> and \<open>SetShell\<close> are the corresponding map updates.
\<close>

theorem containers_refine:
  assumes "cs_inv cs"
  shows "fst (cs_Find cID cs) = find_spec (abs_map cs) cID \<and>
    (mset m' = mset (cs_c (cs_init cs)) \<longrightarrow> find_in cID m' = find_spec (abs_map cs) cID) \<and>
    abs_map (cs_Set xs cs) = fold index_spec xs Map.empty \<and>
    (c_ID c \<noteq> [] \<longrightarrow> abs_map (cs_Append c cs) = index_spec c (abs_map cs)) \<and>
    abs_map (cs_SetShell cID sh cs) =
      (case abs_map cs cID of None \<Rightarrow> abs_map cs
       | Some c0 \<Rightarrow> (abs_map cs)(cID \<mapsto> c0\<lparr>c_Shell := sh\<rparr>))"
  by (intro conjI impI abs_find abs_find_any_order abs_Set abs_Append abs_SetShell assms)

definition sample_id :: string where
  "sample_id = ''0123456789abcdef0123''"

definition sample_container :: container where
  "sample_container = zero_container\<lparr>c_ID := sample_id, c_Name := ''web''\<rparr>"

definition sample_cache :: containers where
  "sample_cache = cs_Set [sample_container] zero_containers"

lemma sample_cache_inv: "cs_inv sample_cache"
  by (simp add: sample_cache_def cs_inv_Set cs_inv_zero)

theorem containers_refine_witness:
  "cs_inv sample_cache \<and> fst (cs_Find sample_id sample_cache) = find_spec (abs_map sample_cache) sample_id"
  using sample_cache_inv containers_refine [OF sample_cache_inv] by blast

section \<open>What a lookup can and cannot resolve\<close>

text \<open>
  C33. \<open>Find\<close> never answers with a container whose ID does not start with the text that was asked
  for, in any state that a sequence of writes produces.
\<close>

theorem find_prefix_sound:
  assumes "cs_inv cs" and "c_ID (fst (cs_Find cID cs)) \<noteq> []"
  shows "prefix cID (c_ID (fst (cs_Find cID cs)))"
  using assms cs_inv_init [OF assms(1)]
  by (simp add: cs_Find_def Let_def cs_inv_def find_in_sound)

theorem find_prefix_sound_witness:
  "c_ID (fst (cs_Find ''0123456789ab'' sample_cache)) = sample_id \<and> prefix ''0123456789ab'' sample_id"
proof -
  have "c_ID (fst (cs_Find ''0123456789ab'' sample_cache)) = sample_id" by code_simp
  with find_prefix_sound [OF sample_cache_inv, of "''0123456789ab''"] show ?thesis
    by (simp add: sample_id_def)
qed

lemma dom_fold_index: "k \<in> dom (map_of (fold index_container xs [])) \<longleftrightarrow> (\<exists>c \<in> set xs. key_ok k c)"
proof -
  have "k \<in> dom (map_of (fold index_container xs [])) \<longleftrightarrow> find (key_ok k) (rev xs) \<noteq> None"
    by (auto simp: map_of_fold_index split: option.splits)
  then show ?thesis by (auto simp: find_None_iff simp del: not_None_eq)
qed

lemma map_ok_distinct: "map_ok m \<Longrightarrow> distinct (map fst m)"
  by (simp add: map_ok_def)

text \<open>A container that is listed once, under keys no other listed container claims, is found by both.\<close>

lemma find_after_set:
  assumes "c \<in> set xs" and "key_ok k c" and "\<And>c'. c' \<in> set xs \<Longrightarrow> key_ok k c' \<Longrightarrow> c' = c"
  shows "fst (cs_Find k (cs_Set xs cs)) = c"
proof -
  have "find (key_ok k) (rev xs) \<noteq> None"
    using assms(1,2) find_NoneD [of "key_ok k" "rev xs" c] by auto
  then obtain c' where c': "find (key_ok k) (rev xs) = Some c'" by blast
  then have "c' = c" using assms(3) find_SomeD [OF c'] by simp
  with c' show ?thesis
    by (simp add: cs_Find_def cs_Set_def cs_init_def Let_def find_in_exact map_of_fold_index)
qed

text \<open>
  C39. A prefix shorter than the short ID never resolves: every container whose ID it starts is in
  the map twice, under the full ID and under its first twelve bytes, so the loop of \<open>Find\<close> counts
  at least two matches and the zero container comes back, even when exactly one container matches.
\<close>

theorem short_prefix_never_resolves:
  assumes "\<forall>c \<in> set xs. 12 < length (c_ID c)" and "length cID < 12"
  shows "fst (cs_Find cID (cs_Set xs cs)) = zero_container"
proof -
  let ?m = "map_of (fold index_container xs [])"
  have "cID \<notin> dom ?m"
    using assms by (auto simp: dom_fold_index key_ok_def)
  then have none: "?m cID = None" by (simp add: domIff)
  have "\<not> extends_one ?m cID k" for k
  proof
    assume one: "extends_one ?m cID k"
    then obtain c where c: "c \<in> set xs" "key_ok k c"
      by (auto simp: extends_one_def dom_fold_index)
    have "prefix cID k" using one by (simp add: extends_one_def)
    then have "prefix cID (c_ID c)"
      using key_ok_prefix [OF c(2)] by (rule prefix_order.order_trans)
    moreover from this have "prefix cID (take 12 (c_ID c))"
      using assms(2) by (auto simp: prefix_def)
    moreover have "c_ID c \<in> dom ?m" "take 12 (c_ID c) \<in> dom ?m"
      using c assms(1) by (auto simp: dom_fold_index key_ok_def intro!: bexI [of _ c])
    ultimately have "c_ID c = k" "take 12 (c_ID c) = k"
      using one unfolding extends_one_def by blast+
    then show False using c(1) assms(1) by (metis length_take min.absorb2 less_imp_le less_irrefl)
  qed
  with none have "find_spec ?m cID = zero_container" by (rule find_spec_none)
  then show ?thesis
    by (simp add: cs_Find_def cs_Set_def cs_init_def Let_def find_in_spec map_ok_fold map_ok_distinct)
qed

theorem short_prefix_never_resolves_witness:
  "12 < length (c_ID sample_container) \<and> length ''0123456'' < 12 \<and>
   prefix ''0123456'' (c_ID sample_container) \<and>
   fst (cs_Find ''0123456'' (cs_Set [sample_container] zero_containers)) = zero_container"
  using short_prefix_never_resolves [of "[sample_container]" "''0123456''" zero_containers]
  by (simp add: sample_container_def sample_id_def)

lemma List_SetShell: "fst (cs_List (cs_SetShell k sh cs)) = fst (cs_List cs)"
  by (simp add: cs_List_def cs_SetShell_def Let_def cs_init_def split: option.split)

text \<open>
  \<open>SetShell\<close> records the shell under one key: a lookup by exactly that key sees it, while
  the other key of the same container and the list that \<open>List\<close> hands out keep the old value.
\<close>

lemma set_shell_one_key:
  assumes "cs_inv cs" and "abs_map cs k = Some c"
  shows "fst (cs_Find k (cs_SetShell k sh cs)) = c\<lparr>c_Shell := sh\<rparr> \<and>
    (\<forall>k'. k' \<noteq> k \<longrightarrow> abs_map (cs_SetShell k sh cs) k' = abs_map cs k') \<and>
    fst (cs_List (cs_SetShell k sh cs)) = fst (cs_List cs)"
  using assms(2)
  by (simp add: abs_SetShell List_SetShell find_after_set_shell [OF assms(2) [unfolded abs_map_def]])

lemma set_shell_one_key_example:
  "abs_map sample_cache sample_id = Some sample_container \<and>
   c_Shell (fst (cs_Find sample_id (cs_SetShell sample_id ''/bin/sh'' sample_cache))) = ''/bin/sh'' \<and>
   c_Shell (fst (cs_Find (take 12 sample_id) (cs_SetShell sample_id ''/bin/sh'' sample_cache))) = []"
proof -
  have at: "abs_map sample_cache sample_id = Some sample_container" by code_simp
  moreover have "c_Shell (fst (cs_Find (take 12 sample_id) (cs_SetShell sample_id ''/bin/sh'' sample_cache))) = []"
    by code_simp
  ultimately show ?thesis
    using set_shell_one_key [OF sample_cache_inv at, of "''/bin/sh''"] by simp
qed

section \<open>The cache as an interface\<close>

text \<open>
  What the three backends rely on, whatever the cache is made of: \<open>held s\<close> are the containers a
  state can hand out; a lookup answers with one of them or with the zero container and keeps
  them, and a write only adds what it was given.
\<close>

locale container_store =
  fixes inv :: "'s \<Rightarrow> bool"
    and held :: "'s \<Rightarrow> container set"
    and lookup :: "string \<Rightarrow> 's \<Rightarrow> container \<times> 's"
    and listing :: "'s \<Rightarrow> container list \<times> 's"
    and put_all :: "container list \<Rightarrow> 's \<Rightarrow> 's"
    and put :: "container \<Rightarrow> 's \<Rightarrow> 's"
    and put_shell :: "string \<Rightarrow> string \<Rightarrow> 's \<Rightarrow> 's"
  assumes lookup_step: "inv s \<Longrightarrow> lookup k s = (c, s') \<Longrightarrow>
      inv s' \<and> held s' = held s \<and> (c = zero_container \<or> c \<in> held s \<and> prefix k (c_ID c))"
    and listing_step: "inv s \<Longrightarrow> listing s = (xs, s') \<Longrightarrow> inv s' \<and> held s' = held s \<and> set xs \<subseteq> held s"
    and put_all_step: "inv s \<Longrightarrow> inv (put_all xs s) \<and> held (put_all xs s) \<subseteq> set xs"
    and put_step: "inv s \<Longrightarrow> inv (put c s) \<and> held (put c s) \<subseteq> insert c (held s)"
    and put_shell_step: "inv s \<Longrightarrow> inv (put_shell k sh s) \<and>
      held (put_shell k sh s) \<subseteq> held s \<union> (\<lambda>c. c\<lparr>c_Shell := sh\<rparr>) ` held s"
begin

text \<open>A property of containers that the cache keeps: it holds of everything the state hands out.\<close>

definition all_held :: "(container \<Rightarrow> bool) \<Rightarrow> 's \<Rightarrow> bool" where
  "all_held Q s \<longleftrightarrow> inv s \<and> (\<forall>c \<in> held s. Q c)"

lemma all_held_lookup:
  "all_held Q s \<Longrightarrow> lookup k s = (c, s') \<Longrightarrow> all_held Q s' \<and> (c = zero_container \<or> Q c)"
  using lookup_step [of s k c s'] by (auto simp: all_held_def)

lemma all_held_listing:
  "all_held Q s \<Longrightarrow> listing s = (xs, s') \<Longrightarrow> all_held Q s' \<and> (\<forall>c \<in> set xs. Q c)"
  using listing_step [of s xs s'] by (auto simp: all_held_def)

lemma all_held_put_all: "all_held Q s \<Longrightarrow> \<forall>c \<in> set xs. Q c \<Longrightarrow> all_held Q (put_all xs s)"
  using put_all_step [of s xs] by (auto simp: all_held_def)

lemma all_held_put: "all_held Q s \<Longrightarrow> Q c \<Longrightarrow> all_held Q (put c s)"
  using put_step [of s c] by (auto simp: all_held_def)

lemma all_held_put_shell:
  "all_held Q s \<Longrightarrow> (\<And>c. Q c \<Longrightarrow> Q (c\<lparr>c_Shell := sh\<rparr>)) \<Longrightarrow> all_held Q (put_shell k sh s)"
  using put_shell_step [of s k sh] by (fastforce simp: all_held_def)

end

definition cs_held :: "containers \<Rightarrow> container set" where
  "cs_held cs = (if cs_once cs then vals (cs_c cs) else {}) \<union> set (cs_cs cs)"

lemma vals_index: "x \<in> vals (index_container c m) \<Longrightarrow> x = c \<or> x \<in> vals m"
  by (auto simp: index_container_def Let_def dest!: vals_update split: if_splits)

lemma vals_fold: "x \<in> vals (fold index_container xs m) \<Longrightarrow> x \<in> set xs \<or> x \<in> vals m"
  by (induction xs arbitrary: m) (auto dest: vals_index)

lemma cs_held_init [simp]: "cs_held (cs_init cs) = cs_held cs"
  by (auto simp: cs_held_def cs_init_def)

lemma held_Find:
  assumes "cs_inv cs" and "cs_Find k cs = (c, cs')"
  shows "cs_inv cs' \<and> cs_held cs' = cs_held cs \<and> (c = zero_container \<or> c \<in> cs_held cs \<and> prefix k (c_ID c))"
proof -
  have c: "c = find_in k (cs_c (cs_init cs))" "cs' = cs_init cs"
    using assms(2) by (auto simp: cs_Find_def Let_def)
  have ok: "map_ok (cs_c (cs_init cs))" using cs_inv_init [OF assms(1)] by (simp add: cs_inv_def)
  have "c \<in> cs_held (cs_init cs)" if "map_of (cs_c (cs_init cs)) k' = Some c" for k'
    using map_of_vals [OF that] by (simp add: cs_held_def del: cs_held_init)
  moreover have "c = zero_container \<or> prefix k (c_ID c)"
    using find_in_cases [OF ok, of k] c(1)
    by (auto dest: key_ok_prefix intro: prefix_order.order_trans)
  ultimately show ?thesis
    using find_in_cases [OF ok, of k] c assms(1) by (auto simp: cs_inv_init)
qed

lemma held_List: "cs_inv cs \<Longrightarrow> cs_List cs = (xs, cs') \<Longrightarrow> cs_inv cs' \<and> cs_held cs' = cs_held cs \<and> set xs \<subseteq> cs_held cs"
  by (auto simp: cs_List_def Let_def cs_inv_init) (simp add: cs_held_def)

lemma held_SetShell:
  assumes "cs_inv cs"
  shows "cs_held (cs_SetShell k sh cs) \<subseteq> cs_held cs \<union> (\<lambda>c. c\<lparr>c_Shell := sh\<rparr>) ` cs_held cs"
proof (cases "map_of (cs_c (cs_init cs)) k")
  case None
  then show ?thesis by (auto simp: cs_SetShell_def Let_def)
next
  case (Some c)
  then have "c \<in> cs_held (cs_init cs)"
    unfolding cs_held_def by (simp add: map_of_vals)
  with Some show ?thesis
    by (auto simp: cs_SetShell_def Let_def cs_held_def cs_init_def dest!: vals_update split: if_splits)
qed

lemma held_Append: "cs_held (cs_Append c cs) \<subseteq> insert c (cs_held cs)"
  by (auto simp: cs_held_def cs_Append_def cs_init_def Let_def dest!: vals_index split: if_splits)

lemma held_Set: "cs_held (cs_Set xs cs) \<subseteq> set xs"
  by (auto simp: cs_held_def cs_Set_def Let_def dest!: vals_fold)

interpretation cache: container_store cs_inv cs_held cs_Find cs_List cs_Set cs_Append cs_SetShell
  by unfold_locales
    (rule held_Find held_List conjI cs_inv_Set held_Set cs_inv_Append held_Append
      cs_inv_SetShell held_SetShell; assumption?)+

end
