(* ===== verification/Readers.thy ===== *)
theory Readers
  imports Prelude
begin

text \<open>
  The contract of Go's \<open>io.Reader\<close>, on which every copying loop of the program relies: a call
  \<open>n, err := r.Read(p)\<close> stores at most \<open>len(p)\<close> bytes at the front of \<open>p\<close> and returns their number,
  so that the loop may take \<open>p[:n]\<close>.  A reader here is a function of the caller's buffer and of
  its own state, which includes what the world is about to deliver; the result is the number of
  bytes, the buffer after the call, the error and the new state.
\<close>

type_synonym 's reader = "bytes \<Rightarrow> 's \<Rightarrow> (nat \<times> bytes \<times> error option \<times> 's) outcome"

text \<open>What the caller takes out of the buffer, \<open>p[:n]\<close>.\<close>

definition read_chunk :: "nat \<Rightarrow> bytes \<Rightarrow> bytes outcome" where
  "read_chunk n p = go_slice 0 n p"

locale go_reader =
  fixes read :: "bytes \<Rightarrow> 's \<Rightarrow> (nat \<times> bytes \<times> error option \<times> 's) outcome"
  assumes read_contract: "read p s = Inr (n, p', e, s') \<Longrightarrow> n \<le> length p \<and> length p' = length p"
begin

lemma chunk_ok: "read p s = Inr (n, p', e, s') \<Longrightarrow> read_chunk n p' = Inr (take n p')"
  using read_contract [of p s n p' e s'] by (simp add: read_chunk_def)

lemma chunk_length: "read p s = Inr (n, p', e, s') \<Longrightarrow> length (take n p') = n"
  using read_contract [of p s n p' e s'] by simp

end

text \<open>A reader that does not panic in the states a predicate describes, for the buffers given.\<close>

locale total_reader = go_reader +
  fixes ready :: "nat \<Rightarrow> 's \<Rightarrow> bool"
  assumes ready_step: "ready (length p) s \<Longrightarrow> \<exists>n p' e s'. read p s = Inr (n, p', e, s') \<and> ready (length p) s'"
begin

lemma ready_read:
  assumes "ready (length p) s"
  obtains n p' e s' where "read p s = Inr (n, p', e, s')" "n \<le> length p" "length p' = length p"
    "ready (length p') s'"
  using ready_step [OF assms] read_contract by metis

end

text \<open>
  A reader whose stream ends: every read into a buffer that has room, unless it reports an error,
  leaves less to deliver.
\<close>

locale ending_reader = go_reader +
  fixes todo :: "'s \<Rightarrow> nat"
  assumes progress: "p \<noteq> [] \<Longrightarrow> read p s = Inr (n, p', None, s') \<Longrightarrow> todo s' < todo s"
begin

text \<open>Successive reads into one buffer, as long as they report no error.\<close>

inductive drained :: "nat \<Rightarrow> bytes \<Rightarrow> 's \<Rightarrow> bool" where
  stops: "read p s = Inl e \<or> read p s = Inr (n, p', Some err, s') \<Longrightarrow> drained 0 p s"
| goes_on: "read p s = Inr (n, p', None, s') \<Longrightarrow> drained k p' s' \<Longrightarrow> drained (Suc k) p s"

lemma drains: "p \<noteq> [] \<Longrightarrow> \<exists>k \<le> todo s. drained k p s"
proof (induction "todo s" arbitrary: p s rule: less_induct)
  case less
  show ?case
  proof (cases "read p s")
    case (Inl e)
    then show ?thesis by (auto intro: stops)
  next
    case (Inr r)
    obtain n p' err s' where r: "r = (n, p', err, s')" by (cases r)
    show ?thesis
    proof (cases err)
      case None
      then have step: "todo s' < todo s" "p' \<noteq> []"
        using less.prems Inr r progress [of p s n p' s'] read_contract [of p s n p' None s'] by auto
      then obtain k where "k \<le> todo s'" "drained k p' s'" using less.hyps by blast
      then show ?thesis using step(1) Inr r None by (intro exI [of _ "Suc k"]) (auto intro: goes_on)
    next
      case (Some e)
      then show ?thesis using Inr r by (auto intro: stops)
    qed
  qed
qed

end

section \<open>Delivering what the world has sent\<close>

text \<open>
  A connection whose next messages are given: each read delivers at most a buffer of the next
  message and keeps the rest of it, an empty queue is the end of the stream.  Package \<open>io\<close>'s
  pipe and a hijacked network connection behave so.
\<close>

fun conn_read :: "bytes list reader" where
  "conn_read p [] = Inr (0, p, Some EOF, [])"
| "conn_read p (m # ms) =
     (let (n, p') = go_copy p m
      in Inr (n, p', None, if n < length m then drop n m # ms else ms))"

lemma conn_read_contract: "conn_read p s = Inr (n, p', e, s') \<Longrightarrow> n \<le> length p \<and> length p' = length p"
  by (cases s) (auto simp: go_copy_def Let_def)

interpretation conn: total_reader conn_read "\<lambda>_ _. True"
proof unfold_locales
  show "conn_read p s = Inr (n, p', e, s') \<Longrightarrow> n \<le> length p \<and> length p' = length p" for p s n p' e s'
    by (rule conn_read_contract)
  show "\<exists>n p' e s'. conn_read p s = Inr (n, p', e, s') \<and> True" for p s
    by (cases s) (auto simp: Let_def split: prod.split)
qed

text \<open>What such a connection still has to deliver, an empty message counted too.\<close>

definition conn_todo :: "bytes list \<Rightarrow> nat" where
  "conn_todo ms = sum_list (map (\<lambda>m. Suc (length m)) ms)"

interpretation conn_ends: ending_reader conn_read conn_todo
proof unfold_locales
  fix p p' :: bytes and s s' :: "bytes list" and n
  assume "p \<noteq> []" and "conn_read p s = Inr (n, p', None, s')"
  then show "conn_todo s' < conn_todo s"
    by (cases s; cases p) (auto simp: conn_todo_def go_copy_def Let_def split: if_splits)
qed

section \<open>The reads of a copying loop\<close>

text \<open>
  The reads that a copying loop makes, one after the other into the same buffer, and the pieces it
  takes out of it: \<open>n, err := r.Read(buffer)\<close> and \<open>buffer[:n]\<close>, for at most \<open>k\<close> rounds; an error ends it.
\<close>

fun loop_reads :: "'s reader \<Rightarrow> nat \<Rightarrow> bytes \<Rightarrow> 's \<Rightarrow> bytes list outcome" where
  "loop_reads r 0 buffer st = Inr []"
| "loop_reads r (Suc k) buffer st =
     obind (r buffer st) (\<lambda>(n, buffer, err, st).
       if err \<noteq> None then Inr []
       else
         obind (read_chunk n buffer) (\<lambda>piece.
         obind (loop_reads r k buffer st) (\<lambda>pieces. Inr (piece # pieces))))"

end
