(* ===== verification/Pb.thy ===== *)
theory Pb
  imports GoStrings "HOL-Library.Word"
begin

text \<open>
  The wire protocol between two instances of the program, proxy/pb/api.pb.go: the messages (a
  field \<open>F\<close> of message \<open>M\<close> is a selector \<open>m_F\<close>; a pointer is an option, \<open>nil\<close> is \<^const>\<open>None\<close>), their
  getters, which accept a nil receiver, the client's stubs and the server's handlers.  What
  package grpc does between the two, \<open>grpc.Invoke\<close>, \<open>SendMsg\<close>, \<open>RecvMsg\<close>, is a parameter.
\<close>

section \<open>Messages\<close>

record pb_empty =
  em_Auth :: string

record pb_pong =
  po_Msg :: string

record pb_err =
  er_Err :: string

record pb_container_id =
  ci_Id :: string
  ci_Auth :: string

record pb_log_opts =
  lo_C :: "pb_container_id option"
  lo_Follow :: bool
  lo_Tail :: string

record pb_container =
  pc_Id :: string
  pc_Name :: string
  pc_Image :: string
  pc_Command :: string
  pc_State :: string
  pc_Status :: string
  pc_Ips :: "string list"
  pc_Shell :: string
  pc_PodName :: string
  pc_ContainerName :: string
  pc_Namespace :: string
  pc_RunningNode :: string
  pc_LocServer :: string
  pc_ExecCmd :: string
  pc_ExecUser :: string
  pc_ExecEnv :: string

record pb_containers =
  pcs_Cs :: "pb_container option list"

record pb_io =
  io_In :: bytes
  io_Out :: bytes

record pb_window_size =
  ws_Height :: "32 word"
  ws_Width :: "32 word"

record pb_exec_options =
  eo_Cmd :: "pb_io option"
  eo_C :: "pb_container option"
  eo_Err :: string
  eo_Auth :: string
  eo_Ws :: "pb_window_size option"

text \<open>The zero values: what \<open>new(M)\<close> points to, and what \<open>Reset\<close> stores.\<close>

definition new_empty :: pb_empty where
  "new_empty = \<lparr>em_Auth = []\<rparr>"

definition new_pong :: pb_pong where
  "new_pong = \<lparr>po_Msg = []\<rparr>"

definition new_err :: pb_err where
  "new_err = \<lparr>er_Err = []\<rparr>"

definition new_container_id :: pb_container_id where
  "new_container_id = \<lparr>ci_Id = [], ci_Auth = []\<rparr>"

definition new_log_opts :: pb_log_opts where
  "new_log_opts = \<lparr>lo_C = None, lo_Follow = False, lo_Tail = []\<rparr>"

definition new_container :: pb_container where
  "new_container =
     \<lparr>pc_Id = [], pc_Name = [], pc_Image = [], pc_Command = [], pc_State = [],
      pc_Status = [], pc_Ips = [], pc_Shell = [], pc_PodName = [],
      pc_ContainerName = [], pc_Namespace = [], pc_RunningNode = [], pc_LocServer = [],
      pc_ExecCmd = [], pc_ExecUser = [], pc_ExecEnv = []\<rparr>"

definition new_containers :: pb_containers where
  "new_containers = \<lparr>pcs_Cs = []\<rparr>"

definition new_io :: pb_io where
  "new_io = \<lparr>io_In = [], io_Out = []\<rparr>"

definition new_window_size :: pb_window_size where
  "new_window_size = \<lparr>ws_Height = 0, ws_Width = 0\<rparr>"

definition new_exec_options :: pb_exec_options where
  "new_exec_options = \<lparr>eo_Cmd = None, eo_C = None, eo_Err = [], eo_Auth = [], eo_Ws = None\<rparr>"

section \<open>Getters\<close>

text \<open>The shape of every getter: the field, or the zero value for a nil receiver.\<close>

definition nil_get :: "'b \<Rightarrow> ('a \<Rightarrow> 'b) \<Rightarrow> 'a option \<Rightarrow> 'b" where
  "nil_get z f m = (case m of Some x \<Rightarrow> f x | None \<Rightarrow> z)"

lemma nil_get_simps [simp]: "nil_get z f None = z" "nil_get z f (Some x) = f x"
  by (simp_all add: nil_get_def)

definition Empty_GetAuth :: "pb_empty option \<Rightarrow> string" where "Empty_GetAuth = nil_get [] em_Auth"

definition Pong_GetMsg :: "pb_pong option \<Rightarrow> string" where "Pong_GetMsg = nil_get [] po_Msg"

definition Err_GetErr :: "pb_err option \<Rightarrow> string" where "Err_GetErr = nil_get [] er_Err"

definition ContainerID_GetId :: "pb_container_id option \<Rightarrow> string" where "ContainerID_GetId = nil_get [] ci_Id"
definition ContainerID_GetAuth :: "pb_container_id option \<Rightarrow> string" where "ContainerID_GetAuth = nil_get [] ci_Auth"

definition LogOpts_GetC :: "pb_log_opts option \<Rightarrow> pb_container_id option" where "LogOpts_GetC = nil_get None lo_C"
definition LogOpts_GetFollow :: "pb_log_opts option \<Rightarrow> bool" where "LogOpts_GetFollow = nil_get False lo_Follow"
definition LogOpts_GetTail :: "pb_log_opts option \<Rightarrow> string" where "LogOpts_GetTail = nil_get [] lo_Tail"

definition Container_GetId :: "pb_container option \<Rightarrow> string" where "Container_GetId = nil_get [] pc_Id"
definition Container_GetName :: "pb_container option \<Rightarrow> string" where "Container_GetName = nil_get [] pc_Name"
definition Container_GetImage :: "pb_container option \<Rightarrow> string" where "Container_GetImage = nil_get [] pc_Image"
definition Container_GetCommand :: "pb_container option \<Rightarrow> string" where "Container_GetCommand = nil_get [] pc_Command"
definition Container_GetState :: "pb_container option \<Rightarrow> string" where "Container_GetState = nil_get [] pc_State"
definition Container_GetStatus :: "pb_container option \<Rightarrow> string" where "Container_GetStatus = nil_get [] pc_Status"
definition Container_GetIps :: "pb_container option \<Rightarrow> string list" where "Container_GetIps = nil_get [] pc_Ips"
definition Container_GetShell :: "pb_container option \<Rightarrow> string" where "Container_GetShell = nil_get [] pc_Shell"
definition Container_GetPodName :: "pb_container option \<Rightarrow> string" where "Container_GetPodName = nil_get [] pc_PodName"
definition Container_GetContainerName :: "pb_container option \<Rightarrow> string" where "Container_GetContainerName = nil_get [] pc_ContainerName"
definition Container_GetNamespace :: "pb_container option \<Rightarrow> string" where "Container_GetNamespace = nil_get [] pc_Namespace"
definition Container_GetRunningNode :: "pb_container option \<Rightarrow> string" where "Container_GetRunningNode = nil_get [] pc_RunningNode"
definition Container_GetLocServer :: "pb_container option \<Rightarrow> string" where "Container_GetLocServer = nil_get [] pc_LocServer"
definition Container_GetExecCmd :: "pb_container option \<Rightarrow> string" where "Container_GetExecCmd = nil_get [] pc_ExecCmd"
definition Container_GetExecUser :: "pb_container option \<Rightarrow> string" where "Container_GetExecUser = nil_get [] pc_ExecUser"
definition Container_GetExecEnv :: "pb_container option \<Rightarrow> string" where "Container_GetExecEnv = nil_get [] pc_ExecEnv"

definition Containers_GetCs :: "pb_containers option \<Rightarrow> pb_container option list" where "Containers_GetCs = nil_get [] pcs_Cs"

definition Io_GetIn :: "pb_io option \<Rightarrow> bytes" where "Io_GetIn = nil_get [] io_In"
definition Io_GetOut :: "pb_io option \<Rightarrow> bytes" where "Io_GetOut = nil_get [] io_Out"

definition WindowSize_GetHeight :: "pb_window_size option \<Rightarrow> 32 word" where "WindowSize_GetHeight = nil_get 0 ws_Height"
definition WindowSize_GetWidth :: "pb_window_size option \<Rightarrow> 32 word" where "WindowSize_GetWidth = nil_get 0 ws_Width"

definition ExecOptions_GetCmd :: "pb_exec_options option \<Rightarrow> pb_io option" where "ExecOptions_GetCmd = nil_get None eo_Cmd"
definition ExecOptions_GetC :: "pb_exec_options option \<Rightarrow> pb_container option" where "ExecOptions_GetC = nil_get None eo_C"
definition ExecOptions_GetErr :: "pb_exec_options option \<Rightarrow> string" where "ExecOptions_GetErr = nil_get [] eo_Err"
definition ExecOptions_GetAuth :: "pb_exec_options option \<Rightarrow> string" where "ExecOptions_GetAuth = nil_get [] eo_Auth"
definition ExecOptions_GetWs :: "pb_exec_options option \<Rightarrow> pb_window_size option" where "ExecOptions_GetWs = nil_get None eo_Ws"

section \<open>The transport\<close>

text \<open>
  A message with its dynamic type, as the functions of package grpc take it
  (\<open>interface{}\<close>).  A call stores into the message that \<open>out\<close> points to, whose type it cannot
  change, so the last case of each \<open>out_M\<close> is never taken.
\<close>

datatype msg =
    M_empty pb_empty
  | M_pong pb_pong
  | M_err pb_err
  | M_container_id pb_container_id
  | M_log_opts pb_log_opts
  | M_container pb_container
  | M_containers pb_containers
  | M_io pb_io
  | M_exec_options pb_exec_options

fun out_empty :: "msg \<Rightarrow> pb_empty" where "out_empty (M_empty m) = m" | "out_empty _ = new_empty"
fun out_pong :: "msg \<Rightarrow> pb_pong" where "out_pong (M_pong m) = m" | "out_pong _ = new_pong"
fun out_err :: "msg \<Rightarrow> pb_err" where "out_err (M_err m) = m" | "out_err _ = new_err"
fun out_container_id :: "msg \<Rightarrow> pb_container_id" where
  "out_container_id (M_container_id m) = m" | "out_container_id _ = new_container_id"
fun out_log_opts :: "msg \<Rightarrow> pb_log_opts" where
  "out_log_opts (M_log_opts m) = m" | "out_log_opts _ = new_log_opts"
fun out_container :: "msg \<Rightarrow> pb_container" where
  "out_container (M_container m) = m" | "out_container _ = new_container"
fun out_containers :: "msg \<Rightarrow> pb_containers" where
  "out_containers (M_containers m) = m" | "out_containers _ = new_containers"
fun out_io :: "msg \<Rightarrow> pb_io" where "out_io (M_io m) = m" | "out_io _ = new_io"
fun out_exec_options :: "msg \<Rightarrow> pb_exec_options" where
  "out_exec_options (M_exec_options m) = m" | "out_exec_options _ = new_exec_options"

text \<open>
  A \<open>*grpc.ClientConn\<close> and its streams, over the state \<open>'w\<close> of the world: the unary call with
  the method's full name, the request and the message to fill; a new stream; one message sent
  or received on a stream; the end of sending; the state the connection reports; its \<open>Close\<close>.
\<close>

type_synonym stream_id = nat

record 'w rpc_conn =
  rc_Invoke :: "string \<Rightarrow> msg \<Rightarrow> msg \<Rightarrow> 'w \<Rightarrow> (error + msg) \<times> 'w"
  rc_NewClientStream :: "string \<Rightarrow> 'w \<Rightarrow> (error + stream_id) \<times> 'w"
  rc_SendMsg :: "stream_id \<Rightarrow> msg \<Rightarrow> 'w \<Rightarrow> error option \<times> 'w"
  rc_RecvMsg :: "stream_id \<Rightarrow> msg \<Rightarrow> 'w \<Rightarrow> (error + msg) \<times> 'w"
  rc_CloseSend :: "stream_id \<Rightarrow> 'w \<Rightarrow> error option \<times> 'w"
  rc_GetState :: "'w \<Rightarrow> string"
  rc_Close :: "'w \<Rightarrow> error option \<times> 'w"

section \<open>The client's stubs\<close>

definition map_reply :: "('a \<Rightarrow> 'b) \<Rightarrow> (error + 'a) \<times> 'w \<Rightarrow> (error + 'b) \<times> 'w" where
  "map_reply f r = (case r of (Inl e, w) \<Rightarrow> (Inl e, w) | (Inr m, w) \<Rightarrow> (Inr (f m), w))"

lemma map_reply_simps [simp]:
  "map_reply f (Inl e, w) = (Inl e, w)" "map_reply f (Inr m, w) = (Inr (f m), w)"
  by (simp_all add: map_reply_def)

text \<open>A method's full name.\<close>

definition service_name :: string where "service_name = ''pbrpc.containerServer''"
definition full_method :: "string \<Rightarrow> string" where
  "full_method name = ''/'' @ service_name @ ''/'' @ name"

definition client_GetInfo :: "'w rpc_conn \<Rightarrow> pb_container_id \<Rightarrow> 'w \<Rightarrow> (error + pb_container) \<times> 'w" where
  "client_GetInfo cc i w =
     map_reply out_container (rc_Invoke cc (full_method ''GetInfo'') (M_container_id i) (M_container new_container) w)"

definition client_List :: "'w rpc_conn \<Rightarrow> pb_empty \<Rightarrow> 'w \<Rightarrow> (error + pb_containers) \<times> 'w" where
  "client_List cc i w =
     map_reply out_containers (rc_Invoke cc (full_method ''List'') (M_empty i) (M_containers new_containers) w)"

definition client_Start :: "'w rpc_conn \<Rightarrow> pb_container_id \<Rightarrow> 'w \<Rightarrow> (error + pb_err) \<times> 'w" where
  "client_Start cc i w =
     map_reply out_err (rc_Invoke cc (full_method ''Start'') (M_container_id i) (M_err new_err) w)"

definition client_Stop :: "'w rpc_conn \<Rightarrow> pb_container_id \<Rightarrow> 'w \<Rightarrow> (error + pb_err) \<times> 'w" where
  "client_Stop cc i w =
     map_reply out_err (rc_Invoke cc (full_method ''Stop'') (M_container_id i) (M_err new_err) w)"

definition client_Restart :: "'w rpc_conn \<Rightarrow> pb_container_id \<Rightarrow> 'w \<Rightarrow> (error + pb_err) \<times> 'w" where
  "client_Restart cc i w =
     map_reply out_err (rc_Invoke cc (full_method ''Restart'') (M_container_id i) (M_err new_err) w)"

definition client_Ping :: "'w rpc_conn \<Rightarrow> pb_empty \<Rightarrow> 'w \<Rightarrow> (error + pb_pong) \<times> 'w" where
  "client_Ping cc i w =
     map_reply out_pong (rc_Invoke cc (full_method ''Ping'') (M_empty i) (M_pong new_pong) w)"

definition client_Exec :: "'w rpc_conn \<Rightarrow> 'w \<Rightarrow> (error + stream_id) \<times> 'w" where
  "client_Exec cc w = rc_NewClientStream cc (full_method ''Exec'') w"

definition exec_client_Send :: "'w rpc_conn \<Rightarrow> stream_id \<Rightarrow> pb_exec_options \<Rightarrow> 'w \<Rightarrow> error option \<times> 'w" where
  "exec_client_Send cc x m w = rc_SendMsg cc x (M_exec_options m) w"

definition exec_client_Recv :: "'w rpc_conn \<Rightarrow> stream_id \<Rightarrow> 'w \<Rightarrow> (error + pb_exec_options) \<times> 'w" where
  "exec_client_Recv cc x w =
     map_reply out_exec_options (rc_RecvMsg cc x (M_exec_options new_exec_options) w)"

text \<open>\<open>Logs\<close> opens a stream, sends the one request and ends sending; an error at any step is returned.\<close>

definition client_Logs :: "'w rpc_conn \<Rightarrow> pb_log_opts \<Rightarrow> 'w \<Rightarrow> (error + stream_id) \<times> 'w" where
  "client_Logs cc i w =
     (case rc_NewClientStream cc (full_method ''Logs'') w of
        (Inl e, w1) \<Rightarrow> (Inl e, w1)
      | (Inr x, w1) \<Rightarrow>
          (case rc_SendMsg cc x (M_log_opts i) w1 of
             (Some e, w2) \<Rightarrow> (Inl e, w2)
           | (None, w2) \<Rightarrow>
               (case rc_CloseSend cc x w2 of
                  (Some e, w3) \<Rightarrow> (Inl e, w3)
                | (None, w3) \<Rightarrow> (Inr x, w3))))"

definition logs_client_Recv :: "'w rpc_conn \<Rightarrow> stream_id \<Rightarrow> 'w \<Rightarrow> (error + pb_io) \<times> 'w" where
  "logs_client_Recv cc x w = map_reply out_io (rc_RecvMsg cc x (M_io new_io) w)"

section \<open>The server's handlers\<close>

text \<open>
  The interface \<open>ContainerServerServer\<close>.  A method gets a pointer and returns a pointer and an
  error; \<^term>\<open>Inr None\<close> is the pair \<open>nil, nil\<close>.  \<open>'st\<close> is the handle of a server-side stream.  A
  streaming method runs as long as its stream does: \<open>Inr None\<close> is that it has not returned.
\<close>

type_synonym ('a, 'w) reply = "((error + 'a option) \<times> 'w) outcome"
type_synonym 'w stream_result = "(error option \<times> 'w) option outcome"

record ('st, 'w) service =
  sv_GetInfo :: "pb_container_id option \<Rightarrow> 'w \<Rightarrow> (pb_container, 'w) reply"
  sv_List :: "pb_empty option \<Rightarrow> 'w \<Rightarrow> (pb_containers, 'w) reply"
  sv_Start :: "pb_container_id option \<Rightarrow> 'w \<Rightarrow> (pb_err, 'w) reply"
  sv_Stop :: "pb_container_id option \<Rightarrow> 'w \<Rightarrow> (pb_err, 'w) reply"
  sv_Restart :: "pb_container_id option \<Rightarrow> 'w \<Rightarrow> (pb_err, 'w) reply"
  sv_Exec :: "'st \<Rightarrow> 'w \<Rightarrow> 'w stream_result"
  sv_Ping :: "pb_empty option \<Rightarrow> 'w \<Rightarrow> (pb_pong, 'w) reply"
  sv_Logs :: "pb_log_opts option \<Rightarrow> 'st \<Rightarrow> 'w \<Rightarrow> 'w stream_result"

definition box_reply :: "('a \<Rightarrow> msg) \<Rightarrow> ('a, 'w) reply \<Rightarrow> (msg, 'w) reply" where
  "box_reply f r =
     obind r (\<lambda>(res, w). Inr (case res of Inl e \<Rightarrow> Inl e | Inr m \<Rightarrow> Inr (map_option f m), w))"

text \<open>
  A unary handler decodes the request into a new message, then calls the method, directly or
  through the interceptor, which gets the method's full name and the call to make.
\<close>

type_synonym 'w handler = "msg \<Rightarrow> 'w \<Rightarrow> (msg, 'w) reply"
type_synonym 'w interceptor = "msg \<Rightarrow> string \<Rightarrow> 'w handler \<Rightarrow> 'w \<Rightarrow> (msg, 'w) reply"

definition unary_handler ::
    "string \<Rightarrow> 'w handler \<Rightarrow> msg \<Rightarrow> (msg \<Rightarrow> error + msg) \<Rightarrow> 'w interceptor option \<Rightarrow> 'w \<Rightarrow> (msg, 'w) reply" where
  "unary_handler name call fresh dec interceptor w =
     (case dec fresh of
        Inl e \<Rightarrow> Inr (Inl e, w)
      | Inr i \<Rightarrow>
          (case interceptor of
             None \<Rightarrow> call i w
           | Some f \<Rightarrow> f i (full_method name) call w))"

definition GetInfo_Handler where
  "GetInfo_Handler srv = unary_handler ''GetInfo''
     (\<lambda>i w. box_reply M_container (sv_GetInfo srv (Some (out_container_id i)) w)) (M_container_id new_container_id)"

definition List_Handler where
  "List_Handler srv = unary_handler ''List''
     (\<lambda>i w. box_reply M_containers (sv_List srv (Some (out_empty i)) w)) (M_empty new_empty)"

definition Start_Handler where
  "Start_Handler srv = unary_handler ''Start''
     (\<lambda>i w. box_reply M_err (sv_Start srv (Some (out_container_id i)) w)) (M_container_id new_container_id)"

definition Stop_Handler where
  "Stop_Handler srv = unary_handler ''Stop''
     (\<lambda>i w. box_reply M_err (sv_Stop srv (Some (out_container_id i)) w)) (M_container_id new_container_id)"

definition Restart_Handler where
  "Restart_Handler srv = unary_handler ''Restart''
     (\<lambda>i w. box_reply M_err (sv_Restart srv (Some (out_container_id i)) w)) (M_container_id new_container_id)"

definition Ping_Handler where
  "Ping_Handler srv = unary_handler ''Ping''
     (\<lambda>i w. box_reply M_pong (sv_Ping srv (Some (out_empty i)) w)) (M_empty new_empty)"

definition Exec_Handler :: "('st, 'w) service \<Rightarrow> 'st \<Rightarrow> 'w \<Rightarrow> 'w stream_result" where
  "Exec_Handler srv st w = sv_Exec srv st w"

text \<open>The server-side streams: \<open>SendMsg\<close> and \<open>RecvMsg\<close> of the stream's handle.\<close>

record ('st, 'w) server_streams =
  ss_SendMsg :: "'st \<Rightarrow> msg \<Rightarrow> 'w \<Rightarrow> error option \<times> 'w"
  ss_RecvMsg :: "'st \<Rightarrow> msg \<Rightarrow> 'w \<Rightarrow> (error + msg) \<times> 'w"

definition exec_server_Send where
  "exec_server_Send ss st m w = ss_SendMsg ss st (M_exec_options m) w"

definition exec_server_Recv where
  "exec_server_Recv ss st w = map_reply out_exec_options (ss_RecvMsg ss st (M_exec_options new_exec_options) w)"

definition logs_server_Send where
  "logs_server_Send ss st m w = ss_SendMsg ss st (M_io m) w"

definition Logs_Handler ::
    "('st, 'w) server_streams \<Rightarrow> ('st, 'w) service \<Rightarrow> 'st \<Rightarrow> 'w \<Rightarrow> 'w stream_result" where
  "Logs_Handler ss srv st w =
     (case ss_RecvMsg ss st (M_log_opts new_log_opts) w of
        (Inl e, w') \<Rightarrow> Inr (Some (Some e, w'))
      | (Inr m, w') \<Rightarrow> sv_Logs srv (Some (out_log_opts m)) st w')"

text \<open>\<open>_ContainerServer_serviceDesc\<close>: the method table and the stream table.\<close>

definition service_methods where
  "service_methods srv =
     [(''GetInfo'', GetInfo_Handler srv), (''List'', List_Handler srv), (''Start'', Start_Handler srv),
      (''Stop'', Stop_Handler srv), (''Restart'', Restart_Handler srv), (''Ping'', Ping_Handler srv)]"

definition service_streams where
  "service_streams ss srv = [(''Exec'', Exec_Handler srv), (''Logs'', Logs_Handler ss srv)]"

section \<open>Typing\<close>

text \<open>
  The service as it is declared: each unary method with the types of its request and its reply.
  The two streaming methods carry one type in each direction.
\<close>

datatype msg_kind =
    K_empty | K_pong | K_err | K_container_id | K_log_opts | K_container | K_containers | K_io | K_exec_options

fun kind_of :: "msg \<Rightarrow> msg_kind" where
  "kind_of (M_empty m) = K_empty"
| "kind_of (M_pong m) = K_pong"
| "kind_of (M_err m) = K_err"
| "kind_of (M_container_id m) = K_container_id"
| "kind_of (M_log_opts m) = K_log_opts"
| "kind_of (M_container m) = K_container"
| "kind_of (M_containers m) = K_containers"
| "kind_of (M_io m) = K_io"
| "kind_of (M_exec_options m) = K_exec_options"

definition unary_rpcs :: "(string \<times> msg_kind \<times> msg_kind) list" where
  "unary_rpcs =
     [(''GetInfo'', K_container_id, K_container), (''List'', K_empty, K_containers),
      (''Start'', K_container_id, K_err), (''Stop'', K_container_id, K_err), (''Restart'', K_container_id, K_err),
      (''Ping'', K_empty, K_pong)]"

lemma kind_of_cases:
  "kind_of m = K_empty \<longleftrightarrow> (\<exists>x. m = M_empty x)" "kind_of m = K_pong \<longleftrightarrow> (\<exists>x. m = M_pong x)"
  "kind_of m = K_err \<longleftrightarrow> (\<exists>x. m = M_err x)" "kind_of m = K_container_id \<longleftrightarrow> (\<exists>x. m = M_container_id x)"
  "kind_of m = K_container \<longleftrightarrow> (\<exists>x. m = M_container x)" "kind_of m = K_containers \<longleftrightarrow> (\<exists>x. m = M_containers x)"
  by (cases m; simp)+

text \<open>
  A transport keeps the declared types: what a unary call stores into a reply of the declared type
  has this type.
\<close>

definition typed_conn :: "'w rpc_conn \<Rightarrow> bool" where
  "typed_conn cc \<longleftrightarrow>
     (\<forall>(name, req, rep) \<in> set unary_rpcs. \<forall>m out w r w'.
        kind_of m = req \<longrightarrow> kind_of out = rep \<longrightarrow>
        rc_Invoke cc (full_method name) m out w = (Inr r, w') \<longrightarrow> kind_of r = rep)"

text \<open>Over such a transport a stub hands out the message that was received, never a default.\<close>

lemma typed_stub:
  assumes "typed_conn cc" and "(name, req, rep) \<in> set unary_rpcs" and "kind_of m = req" and "kind_of out = rep"
    and "rc_Invoke cc (full_method name) m out w = (Inr r, w')"
  shows "kind_of r = rep"
  using assms unfolding typed_conn_def by fast

text \<open>
  Every handler of the method table answers with the declared type, and decodes into a message of
  the declared type: decoders that agree on it make no difference.
\<close>

lemma box_reply_typed:
  "box_reply f r = Inr (Inr (Some m), w') \<Longrightarrow> \<exists>x. m = f x"
  by (cases r; cases "fst (projr r)") (auto simp: box_reply_def)

lemma unary_handler_typed:
  "unary_handler name (\<lambda>i w. box_reply f (call i w)) fresh dec None w = Inr (Inr (Some m), w') \<Longrightarrow> \<exists>x. m = f x"
  by (auto simp: unary_handler_def split: sum.splits dest: box_reply_typed)

lemma unary_handler_dec:
  "dec fresh = dec' fresh \<Longrightarrow> unary_handler name call fresh dec ic w = unary_handler name call fresh dec' ic w"
  by (simp add: unary_handler_def)

lemmas handler_defs = GetInfo_Handler_def List_Handler_def Start_Handler_def Stop_Handler_def
  Restart_Handler_def Ping_Handler_def

lemma handlers_typed:
  assumes "(name, req, rep) \<in> set unary_rpcs" and "map_of (service_methods srv) name = Some h"
  shows "h dec None w = Inr (Inr (Some m), w') \<Longrightarrow> kind_of m = rep"
    and "(\<And>m. kind_of m = req \<Longrightarrow> dec m = dec' m) \<Longrightarrow> h dec ic w = h dec' ic w"
  using assms
  by (auto simp: unary_rpcs_def service_methods_def handler_defs dest!: unary_handler_typed
      intro!: unary_handler_dec)

lemma handlers_present: "(name, req, rep) \<in> set unary_rpcs \<Longrightarrow> \<exists>h. map_of (service_methods srv) name = Some h"
  by (auto simp: unary_rpcs_def service_methods_def)

end
