(* ===== verification/Util.thy ===== *)
theory Util
  imports Base64 ContainerTypes Pb Readers "HOL-Library.Multiset"
begin

text \<open>
  Package util: the conversions between the program's containers and the wire's (util/util.go),
  paths and environment names, the wait for a signal or for a server to end, the read-only
  terminal of util/rwc.go, and the exec identifiers of util/id.go.
\<close>

section \<open>Conversions\<close>

text \<open>A nil pointer panics at the first field.\<close>

definition ConvertPbContainer :: "pb_container option \<Rightarrow> container outcome" where
  "ConvertPbContainer p =
     (case p of
        None \<Rightarrow> Inl NilDeref
      | Some c \<Rightarrow> Inr
          \<lparr>c_ID = pc_Id c, c_Name = pc_Name c, c_Image = pc_Image c, c_Command = pc_Command c,
           c_State = pc_State c, c_Status = pc_Status c, c_IPs = pc_Ips c, c_Shell = pc_Shell c,
           c_PodName = pc_PodName c, c_ContainerName = pc_ContainerName c,
           c_Namespace = pc_Namespace c, c_RunningNode = pc_RunningNode c,
           c_LocServer = pc_LocServer c,
           c_Exec = \<lparr>e_User = pc_ExecUser c, e_Env = pc_ExecEnv c, e_Cmd = pc_ExecCmd c,
                     e_Privileged = False\<rparr>\<rparr>)"

definition ConvertTpContainer :: "container \<Rightarrow> pb_container" where
  "ConvertTpContainer c =
     \<lparr>pc_Id = c_ID c, pc_Name = c_Name c, pc_Image = c_Image c, pc_Command = c_Command c,
      pc_State = c_State c, pc_Status = c_Status c, pc_Ips = c_IPs c, pc_Shell = c_Shell c,
      pc_PodName = c_PodName c, pc_ContainerName = c_ContainerName c,
      pc_Namespace = c_Namespace c, pc_RunningNode = c_RunningNode c,
      pc_LocServer = c_LocServer c, pc_ExecCmd = e_Cmd (c_Exec c),
      pc_ExecUser = e_User (c_Exec c), pc_ExecEnv = e_Env (c_Exec c)\<rparr>"

text \<open>What a container is after a trip over the wire: there is no field for \<open>Privileged\<close>.\<close>

definition unprivileged :: "container \<Rightarrow> container" where
  "unprivileged c = c\<lparr>c_Exec := (c_Exec c)\<lparr>e_Privileged := False\<rparr>\<rparr>"

lemma unprivileged_sels [simp]:
  "c_ID (unprivileged c) = c_ID c" "c_Shell (unprivileged c) = c_Shell c"
  "c_LocServer (unprivileged c) = c_LocServer c" "c_PodName (unprivileged c) = c_PodName c"
  by (simp_all add: unprivileged_def)

lemma convert_round_trip [simp]: "ConvertPbContainer (Some (ConvertTpContainer c)) = Inr (unprivileged c)"
  by (simp add: ConvertPbContainer_def ConvertTpContainer_def unprivileged_def)

lemma ConvertPb_Inr: "ConvertPbContainer p = Inr c \<Longrightarrow> \<exists>x. p = Some x \<and> c_ID c = pc_Id x \<and>
    c_Shell c = pc_Shell x \<and> c_LocServer c = pc_LocServer x \<and> ConvertTpContainer c = x"
  by (auto simp: ConvertPbContainer_def ConvertTpContainer_def split: option.splits)

text \<open>
  C28. The conversions are inverse to each other on everything the wire carries; the only thing
  a container loses on the way is the privileged flag of its exec options.
\<close>

theorem conversion_round_trip:
  "ConvertPbContainer (Some (ConvertTpContainer c)) = Inr (c\<lparr>c_Exec := (c_Exec c)\<lparr>e_Privileged := False\<rparr>\<rparr>) \<and>
   map_option ConvertTpContainer (case ConvertPbContainer (Some p) of Inl e \<Rightarrow> None | Inr d \<Rightarrow> Some d) = Some p"
  by (simp add: ConvertPbContainer_def ConvertTpContainer_def)

section \<open>Paths and environment\<close>

text \<open>The environment is a function from names to values, \<open>os.Getenv\<close>.\<close>

definition HomeDIR :: "(string \<Rightarrow> string) \<Rightarrow> string" where
  "HomeDIR env = (if env ''HOME'' \<noteq> [] then env ''HOME'' else env ''USERPROFILE'')"

definition DockerCliPath :: "string \<Rightarrow> string" where
  "DockerCliPath goos = (if goos = ''darwin'' then ''/usr/local/bin/docker'' else ''/usr/bin/docker'')"

definition KubeConfigPath :: "(string \<Rightarrow> string) \<Rightarrow> string" where
  "KubeConfigPath env =
     (let home = HomeDIR env in if home = [] then [] else path_join [home, ''.kube'', ''config''])"

definition EnvVars :: "string \<Rightarrow> string list" where
  "EnvVars e = [''WEB_TTY_'' @ replace_char (CHR ''-'') (CHR ''_'') (to_upper e)]"

section \<open>Waiting for the end\<close>

text \<open>
  What \<open>WaitSignals\<close> can be woken by, in the order in which it is: a server that ended, with its
  error or nil, or one of the two signals.  It calls the two cancel functions and returns;
  \<^const>\<open>None\<close> is that it still waits.
\<close>

datatype signal = SIGINT | SIGTERM
datatype wake = Ended "error option" | Signal signal
datatype cancelling = Cancel | GracefulCancel

fun wait_graceful :: "wake list \<Rightarrow> (error option \<times> cancelling list) option" where
  "wait_graceful [] = None"
| "wait_graceful (Ended err # ws) = Some (err, [GracefulCancel])"
| "wait_graceful (Signal s # ws) = Some (None, [GracefulCancel, Cancel])"

fun WaitSignals :: "wake list \<Rightarrow> (error option \<times> cancelling list) option" where
  "WaitSignals [] = None"
| "WaitSignals (Ended err # ws) = Some (err, [])"
| "WaitSignals (Signal SIGINT # ws) = wait_graceful ws"
| "WaitSignals (Signal SIGTERM # ws) = Some (None, [Cancel])"

text \<open>
  A second interrupt forces the end; every return other than a server's own end has cancelled
  the main context, and nothing after the second event is waited for.
\<close>

lemma WaitSignals_two: "WaitSignals ws = WaitSignals (take 2 ws)"
proof (cases ws rule: WaitSignals.cases)
  case (3 ws')
  then show ?thesis by (cases ws' rule: wait_graceful.cases) simp_all
qed simp_all

lemma WaitSignals_cancels:
  "WaitSignals ws = Some (err, cs) \<Longrightarrow> Cancel \<in> set cs \<or> Ended err \<in> set ws"
  by (induction ws rule: WaitSignals.induct) (auto elim: wait_graceful.elims)

section \<open>The read-only terminal\<close>

text \<open>\<open>NopRWCloser\<close>: reads come from the stream, writes go nowhere and report success.\<close>

definition rwc_read :: "'s reader \<Rightarrow> 's reader" where "rwc_read r = r"

definition rwc_write :: "bytes \<Rightarrow> 's \<Rightarrow> (nat \<times> error option) \<times> 's" where
  "rwc_write bs s = ((length bs, None), s)"

definition rwc_close :: "('s \<Rightarrow> error option \<times> 's) \<Rightarrow> 's \<Rightarrow> error option \<times> 's" where
  "rwc_close close s = close s"

section \<open>Exec identifiers\<close>

definition id_min :: nat where "id_min = 15"

text \<open>
  \<open>md5.New().Sum(b)\<close> appends to \<open>b\<close> the digest of what was written to the hash, which is nothing:
  the 16 bytes are the digest of the empty string.
\<close>

definition md5_empty :: bytes where
  "md5_empty = map char_of
     [0xd4, 0x1d, 0x8c, 0xd9, 0x8f, 0x00, 0xb2, 0x04, 0xe9, 0x80, 0x09, 0x98, 0xec, 0xf8, 0x42, 0x7e :: nat]"

definition swap :: "nat \<Rightarrow> nat \<Rightarrow> 'a list \<Rightarrow> 'a list" where
  "swap i j xs = xs[i := xs ! j, j := xs ! i]"

text \<open>\<open>rand.Shuffle\<close>: from the last index down, a swap with an index drawn at or below it.\<close>

fun shuffle :: "(nat \<Rightarrow> nat) \<Rightarrow> nat \<Rightarrow> 'a list \<Rightarrow> 'a list" where
  "shuffle draw 0 xs = xs"
| "shuffle draw (Suc i) xs = shuffle draw i (swap (Suc i) (draw (Suc i)) xs)"

definition salted :: "string \<Rightarrow> bytes" where
  "salted salt = (if length salt < id_min then salt @ md5_empty else salt)"

definition new_ID :: "(nat \<Rightarrow> nat) \<Rightarrow> string \<Rightarrow> string" where
  "new_ID draw salt =
     (let b64 = b64_encode (take id_min (salted salt)) in shuffle draw (length b64 - 1) b64)"

lemma mset_swap: "i < length xs \<Longrightarrow> j < length xs \<Longrightarrow> mset (swap i j xs) = mset xs"
  by (simp add: swap_def mset_swap)

lemma length_swap [simp]: "length (swap i j xs) = length xs"
  by (simp add: swap_def)

lemma mset_shuffle:
  assumes "\<And>i. draw i \<le> i"
  shows "i < length xs \<Longrightarrow> mset (shuffle draw i xs) = mset xs"
proof (induction i arbitrary: xs)
  case (Suc i)
  have "draw (Suc i) < length xs" using assms [of "Suc i"] Suc.prems by simp
  then show ?case using Suc by (simp add: mset_swap)
qed simp

lemma length_salted: "id_min \<le> length (salted salt)"
  by (simp add: salted_def id_min_def md5_empty_def)

lemma length_id_bytes: "length (take id_min (salted salt)) = 15"
  using length_salted [of salt] by (simp add: id_min_def)

lemma length_id_b64: "length (b64_encode (take id_min (salted salt))) = 20"
  by (simp only: length_b64_encode length_id_bytes) (simp add: encoded_len_def)

lemma mset_new_ID:
  "(\<And>i. draw i \<le> i) \<Longrightarrow> mset (new_ID draw salt) = mset (b64_encode (take id_min (salted salt)))"
  by (simp add: new_ID_def Let_def length_id_b64 mset_shuffle)

text \<open>
  When the encoding uses neither of the two characters \<open>+\<close> and \<open>/\<close>, whose indices are 62 and
  63: a condition on neighbouring bytes.
\<close>

fun plain_run :: "bytes \<Rightarrow> bool" where
  "plain_run [] = True"
| "plain_run [a] = (of_char a < (248::nat) \<and> of_char a mod 64 < (62::nat))"
| "plain_run (a # b # r) =
     ((of_char a < (248::nat) \<and> of_char a mod 64 < (62::nat)) \<and>
      \<not> (of_char a mod 4 = (3::nat) \<and> 224 \<le> (of_char b :: nat)) \<and>
      \<not> (of_char a mod 16 = (15::nat) \<and> 128 \<le> (of_char b :: nat)) \<and> plain_run (b # r))"

lemma plain_run_tl: "plain_run (a # r) \<Longrightarrow> plain_run r"
  by (cases r) auto

lemma plain_run_take: "plain_run bs \<Longrightarrow> plain_run (take n bs)"
proof (induction bs arbitrary: n rule: plain_run.induct)
  case (2 a) then show ?case by (cases n) simp_all
next
  case (3 a b r)
  show ?case
  proof (cases n)
    case (Suc m)
    have "plain_run (take m (b # r))" using 3 by simp
    then show ?thesis using "3.prems" Suc by (cases m) auto
  qed simp
qed simp

definition url_safe :: "char \<Rightarrow> bool" where
  "url_safe c \<longleftrightarrow> c \<noteq> CHR ''+'' \<and> c \<noteq> CHR ''/'' \<and> c \<noteq> CHR ''=''"

lemma b64_char_safe: "i < 62 \<Longrightarrow> url_safe (b64_char i)"
  using b64_val_char [of i] by (auto simp: url_safe_def b64_val_def)

lemma plain_group:
  assumes "plain_run (a # b # c # r)"
  shows "(of_char a :: nat) div 4 < 62" "(of_char a :: nat) mod 4 * 16 + of_char b div 16 < 62"
    "(of_char b :: nat) mod 16 * 4 + of_char c div 64 < 62" "(of_char c :: nat) mod 64 < 62"
proof -
  have a: "(of_char a :: nat) < 248" and ab: "\<not> (of_char a mod 4 = (3::nat) \<and> 224 \<le> (of_char b :: nat))"
    and bc: "\<not> (of_char b mod 16 = (15::nat) \<and> 128 \<le> (of_char c :: nat))"
    and c: "(of_char c :: nat) mod 64 < 62"
    using assms by (auto elim: plain_run.elims)
  show "(of_char a :: nat) div 4 < 62" using a by linarith
  show "(of_char c :: nat) mod 64 < 62" by (rule c)
  show "(of_char a :: nat) mod 4 * 16 + of_char b div 16 < 62"
    using ab of_char_less_256 [of b] by (cases "of_char a mod 4 = (3::nat)") linarith+
  show "(of_char b :: nat) mod 16 * 4 + of_char c div 64 < 62"
    using bc of_char_less_256 [of c] by (cases "of_char b mod 16 = (15::nat)") linarith+
qed

lemma b64_plain:
  "plain_run bs \<Longrightarrow> length bs mod 3 = 0 \<Longrightarrow> \<forall>c \<in> set (b64_encode bs). url_safe c"
proof (induction bs rule: b64_encode.induct)
  case (4 a b c r)
  have "plain_run r" using "4.prems"(1) by (blast dest: plain_run_tl)
  moreover have "length r mod 3 = 0"
  proof -
    have "length (a # b # c # r) = 3 + length r" by simp
    then show ?thesis using "4.prems"(2) by (metis mod_add_self1)
  qed
  ultimately have r: "\<forall>c \<in> set (b64_encode r). url_safe c" by (rule "4.IH")
  note g = plain_group [OF "4.prems"(1), THEN b64_char_safe]
  show ?case unfolding b64_encode.simps using g r by (simp only: list.set ball_simps)
qed simp_all

definition hex_char :: "char \<Rightarrow> bool" where
  "hex_char c \<longleftrightarrow> c \<in> set ''0123456789abcdef''"

lemma hex_char_code:
  "hex_char c \<Longrightarrow> (of_char c :: nat) < 128 \<and> of_char c mod 64 < (62::nat) \<and> of_char c mod 16 \<noteq> (15::nat)"
  by (auto simp: hex_char_def)

lemma plain_run_hex:
  "\<forall>c \<in> set s. hex_char c \<Longrightarrow> plain_run t \<Longrightarrow> (t \<noteq> [] \<Longrightarrow> (of_char (hd t) :: nat) < 224) \<Longrightarrow> plain_run (s @ t)"
proof (induction s)
  case (Cons a s)
  have a: "(of_char a :: nat) < 128" "of_char a mod 64 < (62::nat)" "of_char a mod 16 \<noteq> (15::nat)"
    using Cons.prems(1) hex_char_code [of a] by simp_all
  have rest: "plain_run (s @ t)" using Cons by simp
  show ?case
  proof (cases "s @ t")
    case Nil
    then show ?thesis using a by simp
  next
    case (Cons b r)
    have "(of_char b :: nat) < 224"
    proof (cases s)
      case Nil
      with Cons show ?thesis using \<open>t \<noteq> [] \<Longrightarrow> _\<close> by simp
    next
      case (Cons b' s')
      with \<open>s @ t = b # r\<close> \<open>\<forall>c \<in> set (a # s). hex_char c\<close> show ?thesis
        using hex_char_code [of b] by simp
    qed
    then show ?thesis using a rest Cons by simp
  qed
qed simp

text \<open>All but the last three bytes of the digest; the third last is the only large one.\<close>

lemma plain_md5: "plain_run (take 13 md5_empty)"
  by (simp add: md5_empty_def)

lemma plain_salted:
  assumes "\<forall>c \<in> set salt. hex_char c" and "2 \<le> length salt"
  shows "plain_run (take id_min (salted salt))"
proof (cases "length salt < id_min")
  case True
  have t: "take id_min (salted salt) = take id_min (salt @ take 13 md5_empty)"
  proof -
    have "15 - length salt \<le> 13" using assms(2) by linarith
    then show ?thesis using True by (simp add: salted_def id_min_def min_def)
  qed
  have "plain_run (salt @ take 13 md5_empty)"
    using assms(1) plain_md5 by (rule plain_run_hex) (simp add: md5_empty_def)
  then show ?thesis unfolding t by (rule plain_run_take)
next
  case False
  have "plain_run (salt @ [])" using assms(1) by (rule plain_run_hex) simp_all
  then show ?thesis using False by (simp add: salted_def plain_run_take)
qed

text \<open>
  C36. Exec identifiers.  For a salt of hexadecimal digits, which container IDs are, and whatever
  the random draws, the identifier has twenty characters, none of which ends a path segment or
  needs an escape in a URL, so that \<open>/exec/:eid/\<close> receives it whole; it is an arrangement of the
  encoding of fifteen bytes, the salt's first ones, a short salt being filled up with constant
  bytes.
\<close>

theorem exec_id_shape:
  assumes "\<forall>c \<in> set salt. hex_char c" and "2 \<le> length salt" and "\<forall>i. draw i \<le> i"
  shows "length (new_ID draw salt) = 20 \<and> (\<forall>c \<in> set (new_ID draw salt). url_safe c) \<and>
    mset (new_ID draw salt) = mset (b64_encode (take 15 (salt @ take (15 - length salt) md5_empty)))"
proof -
  have m: "mset (new_ID draw salt) = mset (b64_encode (take id_min (salted salt)))"
    using assms(3) by (intro mset_new_ID) simp
  have "take id_min (salted salt) = take 15 (salt @ take (15 - length salt) md5_empty)"
    by (simp add: salted_def id_min_def min_def)
  moreover have "length (new_ID draw salt) = 20"
    using m length_id_b64 [of salt] by (metis size_mset)
  moreover have "\<forall>c \<in> set (b64_encode (take id_min (salted salt))). url_safe c"
    using plain_salted [OF assms(1,2)] length_id_bytes [of salt] by (intro b64_plain) simp_all
  ultimately show ?thesis using m by (metis mset_eq_setD)
qed

theorem exec_id_shape_witness:
  "length (new_ID (\<lambda>i. i div 2) ''4f1d2c3b'') = 20 \<and>
   list_all url_safe (new_ID (\<lambda>i. i div 2) ''4f1d2c3b'')"
  using exec_id_shape [of "''4f1d2c3b''" "\<lambda>i. i div 2"] by (simp add: hex_char_def list_all_iff)

end
