(* ===== verification/Backend.thy ===== *)
theory Backend
  imports Containers Readers Util
begin

text \<open>
  What the parts of the program that serve users know of a backend (container/container.go,
  interface \<open>Cli\<close>): its operations, each a function of the backend's state and the world's, and
  what they promise.  The three implementations are the theories \<open>Docker\<close>, \<open>Kube\<close> and \<open>GrpcCli\<close>.
  Two pieces that their terminals share are here too: the activity channel and the retry loop
  of \<open>ResizeTerminal\<close>.
\<close>

section \<open>The interface\<close>

text \<open>
  \<open>inv\<close> describes the states the backend can be in.  \<open>GetInfo\<close> returns; the container it returns
  is the zero value or one whose ID is long enough to be cut for a log line (\<open>ID[:7]\<close>) and for
  the audit directory (\<open>ID[:12]\<close>), and a container without ID has no shell.
\<close>

definition info_ok :: "container \<Rightarrow> bool" where
  "info_ok c \<longleftrightarrow> (if c_ID c = [] then c_Shell c = [] else 12 \<le> length (c_ID c))"

lemma info_ok_zero [simp]: "info_ok zero_container"
  by (simp add: info_ok_def)

lemma info_ok_shell: "c_ID c \<noteq> [] \<Longrightarrow> info_ok c \<Longrightarrow> info_ok (c\<lparr>c_Shell := sh\<rparr>)"
  by (simp add: info_ok_def)

text \<open>What the caches of the three backends hold.\<close>

definition full_id :: "container \<Rightarrow> bool" where
  "full_id c \<longleftrightarrow> 12 \<le> length (c_ID c)"

lemma full_id_info: "full_id c \<Longrightarrow> info_ok c"
  by (auto simp: full_id_def info_ok_def)

lemma full_id_shell [simp]: "full_id (c\<lparr>c_Shell := sh\<rparr>) = full_id c"
  by (simp add: full_id_def)

lemma full_id_nonempty: "full_id c \<Longrightarrow> c_ID c \<noteq> []"
  by (auto simp: full_id_def)

abbreviation "full_cache \<equiv> cache.all_held full_id"

lemma full_cache_init: "full_cache zero_containers"
proof -
  have "cs_held zero_containers = {}" by (simp add: cs_held_def zero_containers_def)
  then show ?thesis by (simp add: cache.all_held_def cs_inv_zero)
qed

lemma full_cache_Find:
  "full_cache cs \<Longrightarrow> cs_Find k cs = (c, cs') \<Longrightarrow> full_cache cs' \<and> (c = zero_container \<or> full_id c)"
  by (rule cache.all_held_lookup)

lemma full_cache_Find_info:
  "full_cache cs \<Longrightarrow> c_ID (fst (cs_Find k cs)) \<noteq> [] \<Longrightarrow> full_id (fst (cs_Find k cs))"
  using full_cache_Find [of cs k] by (cases "cs_Find k cs") auto

lemma full_cache_Len: "full_cache cs \<Longrightarrow> full_cache (snd (cs_Len cs))"
  by (auto simp: cache.all_held_def cs_Len_def Let_def cs_inv_init)

lemma full_cache_SetShell: "full_cache cs \<Longrightarrow> full_cache (cs_SetShell k sh cs)"
  by (rule cache.all_held_put_shell) simp_all

locale cli_backend =
  fixes GetInfo :: "string \<Rightarrow> 's \<Rightarrow> (container \<times> 's) outcome"
    and List :: "'s \<Rightarrow> (container list \<times> 's) outcome"
    and Start Stop Restart :: "string \<Rightarrow> 's \<Rightarrow> (error option \<times> 's) outcome"
    and Exec :: "container \<Rightarrow> 's \<Rightarrow> ((error + 't) \<times> 's) outcome"
    and Logs :: "log_options \<Rightarrow> 's \<Rightarrow> (('r option \<times> error option) \<times> 's) outcome"
    and inv :: "'s \<Rightarrow> bool"
  assumes GetInfo_ok: "inv s \<Longrightarrow> \<exists>c s'. GetInfo cid s = Inr (c, s') \<and> inv s' \<and> info_ok c"
    and List_ok: "inv s \<Longrightarrow> \<exists>cs s'. List s = Inr (cs, s') \<and> inv s' \<and> (\<forall>c \<in> set cs. info_ok c)"
    and Start_ok: "inv s \<Longrightarrow> \<exists>e s'. Start cid s = Inr (e, s') \<and> inv s'"
    and Stop_ok: "inv s \<Longrightarrow> \<exists>e s'. Stop cid s = Inr (e, s') \<and> inv s'"
    and Restart_ok: "inv s \<Longrightarrow> \<exists>e s'. Restart cid s = Inr (e, s') \<and> inv s'"
    and Exec_ok: "inv s \<Longrightarrow> \<exists>r s'. Exec c s = Inr (r, s') \<and> inv s'"
    and Logs_ok: "inv s \<Longrightarrow> \<exists>r s'. Logs opts s = Inr (r, s') \<and> inv s'"
begin

text \<open>A container that has a shell has an ID that can be cut.\<close>

lemma shell_has_id:
  assumes "inv s" and "GetInfo cid s = Inr (c, s')" and "c_Shell c \<noteq> []"
  shows "12 \<le> length (c_ID c)"
proof -
  obtain d s'' where "GetInfo cid s = Inr (d, s'')" and "info_ok d"
    using GetInfo_ok [OF assms(1)] by blast
  with assms(2,3) show ?thesis by (auto simp: info_ok_def split: if_splits)
qed

lemma info_cuts:
  assumes "inv s" and "GetInfo cid s = Inr (c, s')" and "c_Shell c \<noteq> []"
  shows "go_slice 0 7 (c_ID c) = Inr (take 7 (c_ID c))" and "go_slice 0 12 (c_ID c) = Inr (take 12 (c_ID c))"
  using shell_has_id [OF assms] by simp_all

text \<open>No sequence of calls makes the backend panic or leave its invariant.\<close>

definition step :: "'s \<Rightarrow> 's \<Rightarrow> bool" where
  "step s s' \<longleftrightarrow>
     (\<exists>cid c. GetInfo cid s = Inr (c, s')) \<or> (\<exists>cs. List s = Inr (cs, s')) \<or>
     (\<exists>cid e. Start cid s = Inr (e, s')) \<or> (\<exists>cid e. Stop cid s = Inr (e, s')) \<or>
     (\<exists>cid e. Restart cid s = Inr (e, s')) \<or> (\<exists>c r. Exec c s = Inr (r, s')) \<or>
     (\<exists>opts r. Logs opts s = Inr (r, s'))"

lemma op_inv:
  "inv s \<Longrightarrow> GetInfo cid s = Inr (c, s') \<Longrightarrow> inv s'"
  "inv s \<Longrightarrow> List s = Inr (cs, s') \<Longrightarrow> inv s'"
  "inv s \<Longrightarrow> Start cid s = Inr (e, s') \<Longrightarrow> inv s'"
  "inv s \<Longrightarrow> Stop cid s = Inr (e, s') \<Longrightarrow> inv s'"
  "inv s \<Longrightarrow> Restart cid s = Inr (e, s') \<Longrightarrow> inv s'"
  "inv s \<Longrightarrow> Exec c s = Inr (r, s') \<Longrightarrow> inv s'"
  "inv s \<Longrightarrow> Logs opts s = Inr (l, s') \<Longrightarrow> inv s'"
  using GetInfo_ok [of s cid] List_ok [of s] Start_ok [of s cid] Stop_ok [of s cid] Restart_ok [of s cid]
    Exec_ok [of s c] Logs_ok [of s opts]
  by force+

lemma step_inv: "step s s' \<Longrightarrow> inv s \<Longrightarrow> inv s'"
  unfolding step_def by (elim disjE exE) (blast intro: op_inv)+

lemma steps_inv: "step\<^sup>*\<^sup>* s s' \<Longrightarrow> inv s \<Longrightarrow> inv s'"
  by (induction rule: rtranclp_induct) (auto dest: step_inv)

end

section \<open>The activity channel of a terminal\<close>

text \<open>
  Every \<open>Read\<close> of a backend terminal starts a goroutine that puts a token into the channel
  \<open>activeChan\<close>, of capacity 5, unless it holds one already; \<open>Exit\<close> closes the channel, and a
  send on a closed channel panics.
\<close>

record active_chan =
  ac_len :: nat
  ac_closed :: bool

definition new_active :: active_chan where "new_active = \<lparr>ac_len = 0, ac_closed = False\<rparr>"

definition touch_active :: "active_chan \<Rightarrow> active_chan outcome" where
  "touch_active ch =
     (if ac_len ch \<noteq> 0 then Inr ch
      else if ac_closed ch then Inl ClosedChan else Inr (ch\<lparr>ac_len := 1\<rparr>))"

definition close_active :: "active_chan \<Rightarrow> active_chan outcome" where
  "close_active ch = (if ac_closed ch then Inl ClosedChan else Inr (ch\<lparr>ac_closed := True\<rparr>))"

lemma touch_active_open: "\<not> ac_closed ch \<Longrightarrow> ac_len ch \<le> 5 \<Longrightarrow> \<exists>ch'. touch_active ch = Inr ch' \<and> 0 < ac_len ch' \<and> ac_len ch' \<le> 5"
  by (simp add: touch_active_def)

text \<open>A receive: a token, the end of a closed and empty channel, or \<^const>\<open>None\<close> while there is nothing.\<close>

definition recv_active :: "active_chan \<Rightarrow> (bool \<times> active_chan) option" where
  "recv_active ch =
     (if 0 < ac_len ch then Some (True, ch\<lparr>ac_len := ac_len ch - 1\<rparr>)
      else if ac_closed ch then Some (False, ch) else None)"

lemma touch_active_token: "touch_active ch = Inr ch' \<Longrightarrow> 0 < ac_len ch'"
  by (auto simp: touch_active_def split: if_splits)

lemma close_active_closed: "close_active ch = Inr ch' \<Longrightarrow> ac_closed ch' \<and> \<not> ac_closed ch"
  by (auto simp: close_active_def split: if_splits)

text \<open>
  What the web server relies on in a backend's terminal, the interface \<open>types.TTY\<close>: a read reports
  activity, \<open>Exit\<close> closes the channel that \<open>ActiveChan\<close> returns.
\<close>

locale terminal =
  fixes read :: "bytes \<Rightarrow> 's \<Rightarrow> (nat \<times> bytes \<times> error option \<times> 's) outcome"
    and exit :: "'s \<Rightarrow> (error option \<times> 's) outcome"
    and ActiveChan :: "'s \<Rightarrow> active_chan"
  assumes read_active: "read p s = Inr (n, p', e, s') \<Longrightarrow> touch_active (ActiveChan s) = Inr (ActiveChan s')"
    and exit_active: "exit s = Inr (e, s') \<Longrightarrow> close_active (ActiveChan s) = Inr (ActiveChan s')"
begin

lemma read_leaves_token: "read p s = Inr (n, p', e, s') \<Longrightarrow> \<exists>ch. recv_active (ActiveChan s') = Some (True, ch)"
  by (drule read_active) (simp add: touch_active_token recv_active_def)

lemma exit_closes: "exit s = Inr (e, s') \<Longrightarrow> ac_closed (ActiveChan s')"
  by (drule exit_active) (simp add: close_active_closed)

text \<open>A second \<open>Exit\<close> closes a closed channel, which panics.\<close>

lemma exit_twice: "exit s = Inr (e, s') \<Longrightarrow> exit s' \<noteq> Inr x"
  using exit_closes [of s e s'] exit_active [of s'] close_active_closed by (cases x) blast

end

section \<open>Resizing with retries\<close>

text \<open>The loop of \<open>ResizeTerminal\<close> (docker and grpc): up to \<open>n\<close> attempts with a pause after each failure.\<close>

fun resize_loop :: "nat \<Rightarrow> ('w \<Rightarrow> error option \<times> 'w) \<Rightarrow> ('w \<Rightarrow> 'w) \<Rightarrow> error option \<Rightarrow> 'w \<Rightarrow> error option \<times> 'w" where
  "resize_loop 0 resize sleep err w = (err, w)"
| "resize_loop (Suc n) resize sleep err w =
     (case resize w of
        (None, w') \<Rightarrow> (None, w')
      | (Some e, w') \<Rightarrow> resize_loop n resize sleep (Some e) (sleep w'))"

text \<open>The world before attempt \<open>k\<close>, when all before it failed.\<close>

definition attempt_world :: "('w \<Rightarrow> error option \<times> 'w) \<Rightarrow> ('w \<Rightarrow> 'w) \<Rightarrow> nat \<Rightarrow> 'w \<Rightarrow> 'w" where
  "attempt_world resize sleep k w = ((\<lambda>w. sleep (snd (resize w))) ^^ k) w"

lemma attempt_world_Suc:
  "attempt_world resize sleep (Suc k) w = attempt_world resize sleep k (sleep (snd (resize w)))"
  by (simp add: attempt_world_def funpow_Suc_right del: funpow.simps)

lemma attempt_world_0 [simp]: "attempt_world resize sleep 0 w = w"
  by (simp add: attempt_world_def)

lemma resize_loop_ok:
  "fst (resize_loop (Suc n) resize sleep err w) = None \<longleftrightarrow>
     (\<exists>k \<le> n. fst (resize (attempt_world resize sleep k w)) = None)"
proof (induction n arbitrary: err w)
  case 0
  show ?case by (auto split: prod.split option.split)
next
  case (Suc n)
  show ?case
  proof (cases "fst (resize w)")
    case None
    then have "fst (resize (attempt_world resize sleep 0 w)) = None" by simp
    moreover have "fst (resize_loop (Suc (Suc n)) resize sleep err w) = None"
      using None by (cases "resize w") simp
    ultimately show ?thesis by blast
  next
    case (Some e)
    then have "fst (resize_loop (Suc (Suc n)) resize sleep err w) = None \<longleftrightarrow>
        fst (resize_loop (Suc n) resize sleep (Some e) (sleep (snd (resize w)))) = None"
      by (cases "resize w") (simp del: resize_loop.simps(2) add: resize_loop.simps(2) [of "Suc n"])
    also have "\<dots> \<longleftrightarrow> (\<exists>k \<le> n. fst (resize (attempt_world resize sleep (Suc k) w)) = None)"
      unfolding Suc.IH attempt_world_Suc ..
    also have "\<dots> \<longleftrightarrow> (\<exists>k \<le> Suc n. fst (resize (attempt_world resize sleep k w)) = None)"
      using Some by (metis (no_types, lifting) Suc_le_mono attempt_world_0 not0_implies_Suc option.distinct(1))
    finally show ?thesis .
  qed
qed

text \<open>When all attempts fail, the last error is what the caller gets.\<close>

lemma resize_loop_fail:
  assumes "\<forall>k \<le> n. fst (resize (attempt_world resize sleep k w)) \<noteq> None"
  shows "fst (resize_loop (Suc n) resize sleep err w) = fst (resize (attempt_world resize sleep n w))"
  using assms
proof (induction n arbitrary: err w)
  case 0
  then show ?case by (auto split: prod.split option.split)
next
  case (Suc n)
  obtain e where e: "fst (resize w) = Some e" using Suc.prems by (metis attempt_world_0 le0 option.exhaust)
  have "\<forall>k \<le> n. fst (resize (attempt_world resize sleep k (sleep (snd (resize w))))) \<noteq> None"
    using Suc.prems by (metis Suc_le_mono attempt_world_Suc)
  then have "fst (resize_loop (Suc n) resize sleep (Some e) (sleep (snd (resize w)))) =
      fst (resize (attempt_world resize sleep (Suc n) w))"
    unfolding attempt_world_Suc by (rule Suc.IH)
  with e show ?case by (cases "resize w") simp
qed

end
