(* ===== verification/LogParser.thy ===== *)
theory LogParser
  imports GoStrings Readers
begin

text \<open>
  container/docker/log_parser.go: the reader that turns docker's multiplexed log stream into
  terminal text.  Docker sends frames: one byte for the stream (1 is stdout, 2 is stderr), three
  zero bytes, the length of the message as four bytes big-endian, the message.  The reader keeps
  the start of a header that a read cut off (\<open>prevHeader\<close>) or the number of bytes a message still
  lacks (\<open>bsLeft\<close>).
\<close>

record 's log_reader =
  lr_docker :: 's
  lr_bsLeft :: nat
  lr_prevHeader :: bytes

definition NL :: char where "NL = CHR 0x0A"
definition CR :: char where "CR = CHR 0x0D"

definition make_line :: "bytes \<Rightarrow> bytes" where
  "make_line bs = (if bs = [] then [] else if last bs = NL then bs @ [CR] else bs)"

text \<open>How the loop of \<open>Read\<close> ends.\<close>

datatype log_exit =
    HeaderCut bytes bytes \<comment> \<open>the kept bytes, the text so far\<close>
  | NoHeader bytes
  | MessageCut nat bytes \<comment> \<open>the bytes still to come, the text so far\<close>
  | BadLength error

function log_loop :: "bytes \<Rightarrow> nat \<Rightarrow> nat \<Rightarrow> bytes \<Rightarrow> log_exit outcome" where
  "log_loop p n start bs =
     (if start + 8 > n then
        obind (go_slice start n p) (\<lambda>rest. Inr (HeaderCut rest bs))
      else
        (case go_slice start (start + 8) p of
           Inl e \<Rightarrow> Inl e
         | Inr hdr \<Rightarrow>
             if of_char (hd hdr) \<noteq> (1::nat) \<and> of_char (hd hdr) \<noteq> (2::nat) then Inr (NoHeader bs)
             else
               (case parse_int 16 (hex_bytes (drop 4 hdr)) of
                  Inl err \<Rightarrow> Inr (BadLength err)
                | Inr msgLen \<Rightarrow>
                    if start + 8 + nat msgLen > n then
                      obind (go_slice (start + 8) (length p) p) (\<lambda>rest.
                        Inr (MessageCut (nat msgLen - (n - (start + 8))) (bs @ make_line rest)))
                    else
                      (case go_slice (start + 8) (start + 8 + nat msgLen) p of
                         Inl e \<Rightarrow> Inl e
                       | Inr msg \<Rightarrow> log_loop p n (start + 8 + nat msgLen) (bs @ make_line msg)))))"
  by pat_completeness auto
termination
  by (relation "measure (\<lambda>(p, n, start, bs). n - start)") auto

declare log_loop.simps [simp del]

text \<open>The quick test on the first bytes of a read: not a frame, so the bytes are passed on.\<close>

definition raw_chunk :: "nat \<Rightarrow> bytes \<Rightarrow> bool" where
  "raw_chunk n t \<longleftrightarrow>
     4 \<le> n \<and> (of_char (t ! 1) \<noteq> (0::nat) \<or> of_char (t ! 2) \<noteq> (0::nat) \<or> of_char (t ! 3) \<noteq> (0::nat))"

text \<open>Before the loop: the kept header bytes are put in front, or an open message is finished.\<close>

definition log_entry ::
    "nat \<Rightarrow> bytes \<Rightarrow> 's log_reader \<Rightarrow> (bytes \<times> nat \<times> nat \<times> bytes \<times> 's log_reader) outcome" where
  "log_entry n t rc =
     (if lr_prevHeader rc \<noteq> [] then
        (let p = lr_prevHeader rc @ t in Inr (p, length p, 0, [], rc\<lparr>lr_prevHeader := []\<rparr>))
      else if 0 < lr_bsLeft rc then
        obind (go_slice 0 (lr_bsLeft rc) t) (\<lambda>line.
          Inr (t, n, lr_bsLeft rc, make_line line, rc\<lparr>lr_bsLeft := 0\<rparr>))
      else Inr (t, n, 0, [], rc))"

text \<open>After the loop: the text is copied to the caller's buffer.\<close>

definition log_finish ::
    "bytes \<Rightarrow> 's log_reader \<Rightarrow> log_exit \<Rightarrow> nat \<times> bytes \<times> error option \<times> 's log_reader" where
  "log_finish t rc exit =
     (case exit of
        BadLength err \<Rightarrow> (0, t, Some err, rc)
      | HeaderCut rest out \<Rightarrow> (let (k, t') = go_copy t out in (k, t', None, rc\<lparr>lr_prevHeader := rest\<rparr>))
      | NoHeader out \<Rightarrow> (let (k, t') = go_copy t out in (k, t', None, rc))
      | MessageCut left out \<Rightarrow> (let (k, t') = go_copy t out in (k, t', None, rc\<lparr>lr_bsLeft := left\<rparr>)))"

definition log_chunk :: "nat \<Rightarrow> bytes \<Rightarrow> 's log_reader \<Rightarrow> (nat \<times> bytes \<times> error option \<times> 's log_reader) outcome" where
  "log_chunk n t rc =
     obind (log_entry n t rc) (\<lambda>(p, n', start, bs, rc').
       obind (log_loop p n' start bs) (\<lambda>exit. Inr (log_finish t rc' exit)))"

definition log_read :: "'s reader \<Rightarrow> 's log_reader reader" where
  "log_read docker_read target rc =
     obind (docker_read target (lr_docker rc)) (\<lambda>(n, t, err, s).
       if err \<noteq> None then Inr (n, t, err, rc\<lparr>lr_docker := s\<rparr>)
       else if raw_chunk n t then Inr (n, t, None, rc\<lparr>lr_docker := s\<rparr>)
       else log_chunk n t (rc\<lparr>lr_docker := s\<rparr>))"

text \<open>\<open>parseContainerLog\<close>: a nil stream stays nil.\<close>

definition parseContainerLog :: "'s option \<Rightarrow> 's log_reader option" where
  "parseContainerLog rc = map_option (\<lambda>s. \<lparr>lr_docker = s, lr_bsLeft = 0, lr_prevHeader = []\<rparr>) rc"

section \<open>The loop never fails on its own\<close>

lemma frame_header_length:
  assumes "go_slice start (start + 8) p = Inr hdr"
  shows "length (drop 4 hdr) = 4" and "parse_int 16 (hex_bytes (drop 4 hdr)) = Inr (int (big_endian 0 (drop 4 hdr)))"
proof -
  show "length (drop 4 hdr) = 4" using assms by (auto simp: go_slice_Inr)
  then show "parse_int 16 (hex_bytes (drop 4 hdr)) = Inr (int (big_endian 0 (drop 4 hdr)))"
    by (intro parse_int_hex) auto
qed

lemma log_loop_total:
  "start \<le> n \<Longrightarrow> n \<le> length p \<Longrightarrow> \<exists>e. log_loop p n start bs = Inr e \<and> (\<forall>err. e \<noteq> BadLength err)"
proof (induction p n start bs rule: log_loop.induct)
  case (1 p n start bs)
  show ?case
  proof (cases "start + 8 > n")
    case True
    with "1.prems" show ?thesis by (simp add: log_loop.simps [of p n start])
  next
    case False
    define hdr where "hdr = take 8 (drop start p)"
    have h: "go_slice start (start + 8) p = Inr hdr"
      using False "1.prems" by (simp add: hdr_def)
    note len = frame_header_length [OF h]
    let ?m = "big_endian 0 (drop 4 hdr)"
    show ?thesis
    proof (cases "of_char (hd hdr) \<noteq> (1::nat) \<and> of_char (hd hdr) \<noteq> (2::nat)")
      case True
      with False h show ?thesis by (simp add: log_loop.simps [of p n start])
    next
      case kind: False
      show ?thesis
      proof (cases "start + 8 + ?m > n")
        case True
        with False h kind len "1.prems" show ?thesis
          by (simp add: log_loop.simps [of p n start])
      next
        case fits: False
        have "\<exists>e. log_loop p n (start + 8 + ?m) (bs @ make_line (take ?m (drop (start + 8) p))) = Inr e \<and>
            (\<forall>err. e \<noteq> BadLength err)"
          using "1.IH" [OF False h kind len(2)] fits "1.prems" by simp
        with False h kind len fits "1.prems" show ?thesis
          by (simp add: log_loop.simps [of p n start])
      qed
    qed
  qed
qed

lemma log_loop_past_end:
  "n < start \<Longrightarrow> log_loop p n start bs = Inl SliceBounds"
  by (simp add: log_loop.simps [of p n start] go_slice_def)

section \<open>Whole frames\<close>

text \<open>A frame as docker writes it.\<close>

definition be32 :: "nat \<Rightarrow> bytes" where
  "be32 m = [char_of (m div 2 ^ 24), char_of (m div 2 ^ 16 mod 256), char_of (m div 2 ^ 8 mod 256), char_of (m mod 256)]"

definition frame :: "nat \<Rightarrow> bytes \<Rightarrow> bytes" where
  "frame stream msg = [char_of stream, CHR 0x00, CHR 0x00, CHR 0x00] @ be32 (length msg) @ msg"

definition frame_ok :: "nat \<times> bytes \<Rightarrow> bool" where
  "frame_ok f \<longleftrightarrow> fst f \<in> {1, 2} \<and> length (snd f) < 2 ^ 32"

definition frames :: "(nat \<times> bytes) list \<Rightarrow> bytes" where
  "frames fs = concat (map (\<lambda>(stream, msg). frame stream msg) fs)"

definition log_text :: "(nat \<times> bytes) list \<Rightarrow> bytes" where
  "log_text fs = concat (map (\<lambda>(stream, msg). if msg \<noteq> [] \<and> last msg = NL then msg @ [CR] else msg) fs)"

lemma log_text_lines: "log_text fs = concat (map (\<lambda>(stream, msg). make_line msg) fs)"
  by (auto simp: log_text_def make_line_def intro!: arg_cong [of _ _ concat])

lemma of_char_char_of_small [simp]: "m < 256 \<Longrightarrow> (of_char (char_of m) :: nat) = m"
  by simp

lemma big_endian_be32: "m < 2 ^ 32 \<Longrightarrow> big_endian 0 (be32 m) = m"
proof -
  assume "m < 2 ^ 32"
  then have top: "m div 2 ^ 24 < 256" by (simp add: less_mult_imp_div_less)
  have q: "m div 2 ^ 16 = m div 2 ^ 8 div 256" "m div 2 ^ 24 = m div 2 ^ 16 div 256"
    by (simp_all add: div_mult2_eq [symmetric])
  have "big_endian 0 (be32 m) =
      ((m div 2 ^ 24 * 256 + m div 2 ^ 16 mod 256) * 256 + m div 2 ^ 8 mod 256) * 256 + m mod 256"
    using top by (simp add: be32_def)
  also have "m div 2 ^ 24 * 256 + m div 2 ^ 16 mod 256 = m div 2 ^ 16"
    unfolding q(2) by (rule div_mult_mod_eq)
  also have "m div 2 ^ 16 * 256 + m div 2 ^ 8 mod 256 = m div 2 ^ 8"
    unfolding q(1) by (rule div_mult_mod_eq)
  also have "m div 2 ^ 8 * 256 + m mod 256 = m"
    using div_mult_mod_eq [of m 256] by simp
  finally show ?thesis .
qed

lemma length_frame: "length (frame stream msg) = 8 + length msg"
  by (simp add: frame_def be32_def)

text \<open>One round of the loop on a frame that is there completely.\<close>

lemma log_loop_frame:
  assumes "frame_ok (stream, msg)" and "p = pre @ frame stream msg @ post"
    and "length pre + 8 + length msg \<le> n" and "n \<le> length p"
  shows "log_loop p n (length pre) bs = log_loop p n (length (pre @ frame stream msg)) (bs @ make_line msg)"
proof -
  define hdr where "hdr = [char_of stream, CHR 0x00, CHR 0x00, CHR 0x00] @ be32 (length msg)"
  have p: "p = pre @ hdr @ msg @ post" using assms(2) by (simp add: hdr_def frame_def)
  have l8: "length hdr = 8" by (simp add: hdr_def be32_def)
  have h: "go_slice (length pre) (length pre + 8) p = Inr hdr"
    using l8 by (simp add: p)
  have msg: "go_slice (length pre + 8) (length pre + 8 + length msg) p = Inr msg"
    using l8 by (simp add: p)
  have "drop 4 hdr = be32 (length msg)" by (simp add: hdr_def)
  then have m: "parse_int 16 (hex_bytes (drop 4 hdr)) = Inr (int (length msg))"
    using frame_header_length(2) [OF h] assms(1) by (simp add: big_endian_be32 frame_ok_def)
  have kind: "\<not> (of_char (hd hdr) \<noteq> (1::nat) \<and> of_char (hd hdr) \<noteq> (2::nat))"
    using assms(1) by (auto simp: hdr_def frame_ok_def)
  show ?thesis
    using assms(3) kind
    by (auto simp: log_loop.simps [of p n "length pre"] length_frame add.assoc h m
        msg [unfolded add.assoc])
qed

lemma log_loop_frames:
  assumes "\<forall>f \<in> set fs. frame_ok f" and "p = pre @ frames fs @ post" and "n = length (pre @ frames fs)"
  shows "log_loop p n (length pre) bs = Inr (HeaderCut [] (bs @ log_text fs))"
  using assms
proof (induction fs arbitrary: pre bs)
  case Nil
  then show ?case
    by (simp add: log_loop.simps [of "pre @ post" "length pre" "length pre"] frames_def log_text_lines go_slice_def)
next
  case (Cons f fs)
  obtain stream msg where f: "f = (stream, msg)" by (cases f)
  have fs: "frames ((stream, msg) # fs) = frame stream msg @ frames fs" by (simp add: frames_def)
  have "log_loop p n (length pre) bs = log_loop p n (length (pre @ frame stream msg)) (bs @ make_line msg)"
    using Cons.prems by (intro log_loop_frame [where post = "frames fs @ post"]) (auto simp: f fs length_frame)
  also have "\<dots> = Inr (HeaderCut [] ((bs @ make_line msg) @ log_text fs))"
    using Cons.prems by (intro Cons.IH) (auto simp: f fs)
  finally show ?case by (simp add: log_text_lines f)
qed

lemma frames_not_raw:
  assumes "frames fs \<noteq> []" and "t = frames fs @ post"
  shows "\<not> raw_chunk n t"
proof -
  obtain stream msg fs' where "fs = (stream, msg) # fs'"
    using assms(1) by (cases fs) (auto simp: frames_def)
  then show ?thesis by (simp add: raw_chunk_def assms(2) frames_def frame_def)
qed

definition clean :: "'s log_reader \<Rightarrow> bool" where
  "clean rc \<longleftrightarrow> lr_bsLeft rc = 0 \<and> lr_prevHeader rc = []"

text \<open>One read on whole frames.\<close>

lemma log_read_frames:
  assumes "\<forall>f \<in> set fs. frame_ok f" and "clean rc" and "fs \<noteq> []"
    and "docker_read target (lr_docker rc) = Inr (length (frames fs), t, None, s)"
    and "take (length (frames fs)) t = frames fs"
  shows "\<exists>k t'. log_read docker_read target rc = Inr (k, t', None, rc\<lparr>lr_docker := s\<rparr>) \<and>
           take k t' = take (length t) (log_text fs) \<and> k = min (length t) (length (log_text fs))"
proof -
  let ?n = "length (frames fs)"
  obtain post where t: "t = frames fs @ post" using assms(5) by (metis append_take_drop_id)
  have "frames fs \<noteq> []" using assms(3) by (cases fs) (auto simp: frames_def frame_def)
  then have "\<not> raw_chunk ?n t" using t by (rule frames_not_raw)
  moreover have "log_loop t ?n 0 [] = Inr (HeaderCut [] (log_text fs))"
    using log_loop_frames [OF assms(1), of t "[]" post ?n "[]"] t by simp
  moreover have "rc\<lparr>lr_docker := s, lr_prevHeader := []\<rparr> = rc\<lparr>lr_docker := s\<rparr>"
    using assms(2) by (simp add: clean_def)
  ultimately have "log_read docker_read target rc =
      Inr (fst (go_copy t (log_text fs)), snd (go_copy t (log_text fs)), None, rc\<lparr>lr_docker := s\<rparr>)"
    using assms(2,4) by (simp add: log_read_def log_chunk_def log_entry_def log_finish_def clean_def split: prod.split)
  then show ?thesis using take_go_copy [of t "log_text fs"] by (auto simp: fst_go_copy)
qed

text \<open>
  C20. Demultiplexing: when a read of the stream delivers whole frames, the reader returns the
  concatenated messages, with a carriage return after each message that ends in a newline, cut
  to the caller's buffer, whatever the buffer held before; it keeps nothing over.
\<close>

theorem log_read_whole_frames:
  assumes "\<forall>f \<in> set fs. frame_ok f" and "clean rc" and "fs \<noteq> []"
    and "docker_read target (lr_docker rc) = Inr (length (frames fs), t, None, s)"
    and "take (length (frames fs)) t = frames fs"
  shows "\<exists>k t'. log_read docker_read target rc = Inr (k, t', None, rc\<lparr>lr_docker := s\<rparr>) \<and>
           take k t' = take (length t) (log_text fs) \<and> k = min (length t) (length (log_text fs))"
  using assms by (rule log_read_frames)

definition sample_frames :: "(nat \<times> bytes) list" where
  "sample_frames = [(1, ''ok'' @ [NL]), (2, ''err'')]"

definition one_read :: "bytes reader" where
  "one_read p s = (let (n, p') = go_copy p s in Inr (n, p', None, []))"

theorem log_read_whole_frames_witness:
  "\<exists>k t'. log_read one_read (replicate 64 (CHR ''#''))
      \<lparr>lr_docker = frames sample_frames, lr_bsLeft = 0, lr_prevHeader = []\<rparr> =
        Inr (k, t', None, \<lparr>lr_docker = [], lr_bsLeft = 0, lr_prevHeader = []\<rparr>) \<and>
      take k t' = ''ok'' @ [NL, CR] @ ''err''"
proof -
  let ?t = "frames sample_frames @ replicate (64 - length (frames sample_frames)) (CHR ''#'')"
  have len: "length (frames sample_frames) = 22" by (simp add: frames_def sample_frames_def length_frame)
  have disp: "log_text sample_frames = ''ok'' @ [NL, CR] @ ''err''"
    by (simp add: log_text_def sample_frames_def make_line_def NL_def)
  have "\<exists>k t'. log_read one_read (replicate 64 (CHR ''#''))
      \<lparr>lr_docker = frames sample_frames, lr_bsLeft = 0, lr_prevHeader = []\<rparr> =
        Inr (k, t', None, \<lparr>lr_docker = frames sample_frames, lr_bsLeft = 0, lr_prevHeader = []\<rparr>\<lparr>lr_docker := []\<rparr>) \<and>
      take k t' = take (length ?t) (log_text sample_frames) \<and>
      k = min (length ?t) (length (log_text sample_frames))"
  proof (rule log_read_whole_frames)
    show "\<forall>f \<in> set sample_frames. frame_ok f" by (simp add: sample_frames_def frame_ok_def)
    show "clean \<lparr>lr_docker = frames sample_frames, lr_bsLeft = 0, lr_prevHeader = []\<rparr>"
      by (simp add: clean_def)
    show "sample_frames \<noteq> []" by (simp add: sample_frames_def)
    show "one_read (replicate 64 (CHR ''#''))
        (lr_docker \<lparr>lr_docker = frames sample_frames, lr_bsLeft = 0, lr_prevHeader = []\<rparr>) =
      Inr (length (frames sample_frames), ?t, None, [])"
      using len by (simp add: one_read_def drop_replicate)
  qed simp
  then show ?thesis using len disp by (fastforce simp: NL_def CR_def)
qed

section \<open>The reader's contract and its limits\<close>

lemma go_copy_size:
  "fst (go_copy t xs) \<le> length t" "length (snd (go_copy t xs)) = length t"
  by (simp_all add: go_copy_def Let_def)

lemma log_finish_size:
  "log_finish t rc exit = (k, t', e, rc') \<Longrightarrow> k \<le> length t \<and> length t' = length t"
  using go_copy_size [of t] by (cases exit) (auto simp: log_finish_def case_prod_unfold Let_def)

lemma log_chunk_contract:
  "log_chunk n t rc = Inr (k, t', e, rc') \<Longrightarrow> k \<le> length t \<and> length t' = length t"
  unfolding log_chunk_def by (auto dest: log_finish_size)

context go_reader
begin

lemma log_read_contract:
  "log_read read p rc = Inr (n, p', e, rc') \<Longrightarrow> n \<le> length p \<and> length p' = length p"
  by (auto simp: log_read_def split: if_splits dest!: log_chunk_contract dest: read_contract)

end

interpretation docker_log: go_reader "log_read conn_read"
  by unfold_locales (rule conn.log_read_contract)

text \<open>The parser reads once from docker's stream for each read of its own, so it ends when that does.\<close>

lemma log_finish_docker: "log_finish t rc exit = (k, t', e, rc') \<Longrightarrow> lr_docker rc' = lr_docker rc"
  by (cases exit) (auto simp: log_finish_def Let_def split: prod.splits)

lemma log_chunk_docker: "log_chunk n t rc = Inr (k, t', e, rc') \<Longrightarrow> lr_docker rc' = lr_docker rc"
  by (auto simp: log_chunk_def log_entry_def Let_def split: if_splits dest!: log_finish_docker)

context ending_reader
begin

lemma log_read_progress:
  "p \<noteq> [] \<Longrightarrow> log_read read p rc = Inr (n, p', None, rc') \<Longrightarrow> todo (lr_docker rc') < todo (lr_docker rc)"
  by (auto simp: log_read_def split: if_splits dest!: log_chunk_docker dest: progress)

end

text \<open>A loop that reads a stream of whole frames into a buffer that is large enough loses nothing.\<close>

definition frames_fit :: "nat \<Rightarrow> (nat \<times> bytes) list \<Rightarrow> bool" where
  "frames_fit k fs \<longleftrightarrow>
     fs \<noteq> [] \<and> (\<forall>f \<in> set fs. frame_ok f) \<and> length (frames fs) \<le> k \<and> length (log_text fs) \<le> k"

lemma log_loop_reads:
  assumes "\<forall>fs \<in> set ds. frames_fit (length buffer) fs" and "clean rc" and "lr_docker rc = map frames ds"
  shows "loop_reads (log_read conn_read) (length ds) buffer rc = Inr (map log_text ds)"
  using assms
proof (induction ds arbitrary: buffer rc)
  case (Cons fs ds)
  let ?t = "frames fs @ drop (length (frames fs)) buffer" and ?rc = "rc\<lparr>lr_docker := map frames ds\<rparr>"
  have fit: "frames_fit (length buffer) fs" using Cons.prems(1) by simp
  have "conn_read buffer (lr_docker rc) = Inr (length (frames fs), ?t, None, map frames ds)"
    using Cons.prems(3) fit by (simp add: frames_fit_def go_copy_def Let_def)
  then obtain k t' where r: "log_read conn_read buffer rc = Inr (k, t', None, ?rc)"
    "take k t' = take (length ?t) (log_text fs)" "k = min (length ?t) (length (log_text fs))"
    using log_read_frames [of fs rc conn_read buffer ?t "map frames ds"] fit Cons.prems(2) by (auto simp: frames_fit_def)
  have len: "length t' = length buffer" "k \<le> length t'" using docker_log.read_contract [OF r(1)] by auto
  have shown_text: "take k t' = log_text fs" using r(2) fit by (simp add: frames_fit_def)
  have "loop_reads (log_read conn_read) (length ds) t' ?rc = Inr (map log_text ds)"
    using Cons.prems len by (intro Cons.IH) (auto simp: clean_def)
  then show ?case using r(1) len shown_text by (simp add: read_chunk_def)
qed simp

interpretation docker_log_ends: ending_reader "log_read conn_read" "\<lambda>rc. conn_todo (lr_docker rc)"
  by unfold_locales (rule conn_ends.log_read_progress)



text \<open>
  A frame that a short read cuts off is padded with stale bytes: the rest of the message is
  taken up to the end of the buffer instead of the end of the data, so a read that brought a
  header and \<open>x\<close> of a longer message hands out \<open>x\<close> followed by whatever the buffer held behind it.
\<close>

lemma cut_frame_leaks_buffer:
  assumes "frame_ok (stream, x @ y)" and "y \<noteq> []" and "clean rc"
    and "docker_read target (lr_docker rc) = Inr (8 + length x, take (8 + length x) (frame stream (x @ y)) @ stale, None, s)"
    and "last (x @ stale) \<noteq> NL" and "x @ stale \<noteq> []"
  shows "\<exists>t'. log_read docker_read target rc =
           Inr (length (x @ stale), t', None, rc\<lparr>lr_docker := s, lr_bsLeft := length y\<rparr>) \<and>
         take (length (x @ stale)) t' = x @ stale"
proof -
  define hdr where "hdr = [char_of stream, CHR 0x00, CHR 0x00, CHR 0x00] @ be32 (length (x @ y))"
  let ?t = "hdr @ x @ stale" and ?n = "8 + length x"
  have l8: "length hdr = 8" by (simp add: hdr_def be32_def)
  have t: "take ?n (frame stream (x @ y)) @ stale = ?t"
  proof -
    have "frame stream (x @ y) = (hdr @ x) @ y" by (simp add: frame_def hdr_def)
    moreover have "length (hdr @ x) = ?n" using l8 by simp
    ultimately show ?thesis by (metis append.assoc append_eq_conv_conj)
  qed
  have h: "go_slice 0 8 ?t = Inr hdr" using l8 by simp
  have "drop 4 hdr = be32 (length (x @ y))" by (simp add: hdr_def)
  then have m: "parse_int 16 (hex_bytes (drop 4 hdr)) = Inr (int (length (x @ y)))"
    using frame_header_length(2) [of 0 ?t hdr] h assms(1) by (simp add: big_endian_be32 frame_ok_def)
  have kind: "\<not> (of_char (hd hdr) \<noteq> (1::nat) \<and> of_char (hd hdr) \<noteq> (2::nat))"
    using assms(1) by (auto simp: hdr_def frame_ok_def)
  have "0 < length y" using assms(2) by simp
  then have loop: "log_loop ?t ?n 0 [] = Inr (MessageCut (length y) (make_line (x @ stale)))"
    using h kind l8
    by (auto simp: log_loop.simps [of ?t ?n 0] go_slice_def m simp del: of_nat_add)
  have line: "make_line (x @ stale) = x @ stale" using assms(5,6) by (simp add: make_line_def)
  have raw: "\<not> raw_chunk ?n ?t" by (simp add: raw_chunk_def hdr_def)
  have "log_read docker_read target rc =
      Inr (length (x @ stale), (x @ stale) @ drop (length (x @ stale)) ?t, None, rc\<lparr>lr_docker := s, lr_bsLeft := length y\<rparr>)"
    using assms(3,4) l8 loop raw by (simp add: log_read_def log_chunk_def log_entry_def log_finish_def clean_def t line)
  then show ?thesis by simp
qed

lemma cut_frame_leaks_buffer_example:
  "\<exists>t'. log_read one_read (replicate 10 (CHR ''-'') @ ''OLD'')
      \<lparr>lr_docker = take 10 (frame 1 ''hello''), lr_bsLeft = 0, lr_prevHeader = []\<rparr> =
        Inr (5, t', None, \<lparr>lr_docker = [], lr_bsLeft = 3, lr_prevHeader = []\<rparr>) \<and>
      take 5 t' = ''heOLD''"
proof -
  let ?rc = "\<lparr>lr_docker = take 10 (frame 1 ''hello''), lr_bsLeft = 0, lr_prevHeader = []\<rparr>"
  have "\<exists>t'. log_read one_read (replicate 10 (CHR ''-'') @ ''OLD'') ?rc =
        Inr (length (''he'' @ ''OLD''), t', None, ?rc\<lparr>lr_docker := [], lr_bsLeft := length ''llo''\<rparr>) \<and>
      take (length (''he'' @ ''OLD'')) t' = ''he'' @ ''OLD''"
  proof (rule cut_frame_leaks_buffer [where stream = 1])
    show "frame_ok (1, ''he'' @ ''llo'')" by (simp add: frame_ok_def)
    show "clean ?rc" by (simp add: clean_def)
    show "one_read (replicate 10 (CHR ''-'') @ ''OLD'') (lr_docker ?rc) =
        Inr (8 + length ''he'', take (8 + length ''he'') (frame 1 (''he'' @ ''llo'')) @ ''OLD'', None, [])"
      by (simp add: one_read_def length_frame)
  qed (simp_all add: NL_def)
  then show ?thesis by (simp add: eval_nat_numeral)
qed

end
