(* ===== verification/Docker.thy ===== *)
theory Docker
  imports Backend LogParser
begin

text \<open>
  The docker backend: container/docker/docker.go and slave.go.  The client library of the daemon
  is a parameter, the record \<open>docker_api\<close> of its calls over the state \<open>'w\<close> of the world; a call
  may change that state.  The state of a \<open>DockerCli\<close> is the record \<open>docker_cli\<close>.  The
  background goroutine of \<open>NewCli\<close> is the function on the events it receives.
\<close>

section \<open>The daemon's client library\<close>

text \<open>
  What the code reads of the library's values.  A pointer is an option, an interface value of
  network settings is nil, a summary or full settings.  \<open>Networks\<close> maps names to pointers.
\<close>

type_synonym networks = "(string, string option) gomap"

datatype network_settings =
    NilInterface
  | Summary "networks option"
  | Settings "networks option"

record inspect_response =
  in_ID :: string
  in_Name :: string
  in_Image :: string
  in_Config :: "string list option" \<comment> \<open>the pointer \<open>Config\<close>, of which \<open>Cmd\<close> is read\<close>
  in_NetworkSettings :: "networks option"
  in_State :: "string option" \<comment> \<open>the pointer \<open>State\<close>, of which \<open>Status\<close> is read\<close>

record container_summary =
  su_ID :: string
  su_Names :: "string list"
  su_Image :: string
  su_Command :: string
  su_Status :: string
  su_State :: string
  su_NetworkSettings :: "networks option"

text \<open>\<open>filters.Args\<close> is the list of the pairs added.\<close>

record list_options =
  lo_All :: bool
  lo_Latest :: bool
  lo_Limit :: int
  lo_Filters :: "(string \<times> string) list"

definition zero_list_options :: list_options where
  "zero_list_options = \<lparr>lo_All = False, lo_Latest = False, lo_Limit = 0, lo_Filters = []\<rparr>"

record exec_config =
  ec_User :: string
  ec_Privileged :: bool
  ec_Tty :: bool
  ec_AttachStdin :: bool
  ec_AttachStderr :: bool
  ec_AttachStdout :: bool
  ec_Env :: "string list"
  ec_Cmd :: "string list"

record logs_request =
  lr_ShowStdout :: bool
  lr_ShowStderr :: bool
  lr_Follow :: bool
  lr_Tail :: string

type_synonym hijacked = nat \<comment> \<open>the handle of an attached connection\<close>
type_synonym log_stream = nat \<comment> \<open>the handle of a log stream\<close>

record 'w docker_api =
  da_Now :: "'w \<Rightarrow> int \<times> 'w"
  da_Ping :: "'w \<Rightarrow> (error + string) \<times> 'w"
  da_ContainerList :: "list_options \<Rightarrow> 'w \<Rightarrow> (error + container_summary list) \<times> 'w"
  da_ContainerInspect :: "string \<Rightarrow> 'w \<Rightarrow> (error + inspect_response) \<times> 'w"
  da_ContainerStatPath :: "string \<Rightarrow> string \<Rightarrow> 'w \<Rightarrow> error option \<times> 'w"
  da_ContainerStart :: "string \<Rightarrow> 'w \<Rightarrow> error option \<times> 'w"
  da_ContainerStop :: "string \<Rightarrow> 'w \<Rightarrow> error option \<times> 'w"
  da_ContainerRestart :: "string \<Rightarrow> 'w \<Rightarrow> error option \<times> 'w"
  da_ContainerExecCreate :: "string \<Rightarrow> exec_config \<Rightarrow> 'w \<Rightarrow> (error + string) \<times> 'w"
  da_ContainerExecAttach :: "string \<Rightarrow> bool \<Rightarrow> 'w \<Rightarrow> (error + hijacked) \<times> 'w"
  da_ContainerExecResize :: "string \<Rightarrow> 64 word \<Rightarrow> 64 word \<Rightarrow> 'w \<Rightarrow> error option \<times> 'w"
  da_ContainerLogs :: "string \<Rightarrow> logs_request \<Rightarrow> 'w \<Rightarrow> (log_stream option \<times> error option) \<times> 'w"
  da_Close :: "'w \<Rightarrow> error option \<times> 'w"
  da_ConnWrite :: "hijacked \<Rightarrow> bytes \<Rightarrow> 'w \<Rightarrow> (nat \<times> error option) \<times> 'w"
  da_ConnClose :: "hijacked \<Rightarrow> 'w \<Rightarrow> error option \<times> 'w"
  da_ConnRead :: "hijacked \<Rightarrow> bytes \<Rightarrow> 'w \<Rightarrow> (nat \<times> bytes \<times> error option \<times> 'w) outcome"
  da_Sleep :: "duration \<Rightarrow> 'w \<Rightarrow> 'w"

section \<open>The client\<close>

record 'w docker_cli =
  dc_cli :: "'w docker_api"
  dc_containers :: containers
  dc_listOptions :: list_options
  dc_lastList :: instant

type_synonym 'w docker_state = "'w docker_cli \<times> 'w"

definition minute :: duration where "minute = 60 * second"

text \<open>
  \<open>getContainerIP\<close>: the address of every network whose entry is not nil, and the single entry
  \<open>null\<close> when there is none.  A nil pointer inside the interface is not the nil interface: it
  panics.
\<close>

definition network_ips :: "networks \<Rightarrow> string list" where
  "network_ips nets = List.map_filter snd nets"

definition getContainerIP :: "network_settings \<Rightarrow> string list outcome" where
  "getContainerIP ns =
     (case ns of
        NilInterface \<Rightarrow> Inr [''null'']
      | Summary None \<Rightarrow> Inl NilDeref
      | Settings None \<Rightarrow> Inl NilDeref
      | Summary (Some nets) \<Rightarrow> Inr (let ips = network_ips nets in if ips = [] then [''null''] else ips)
      | Settings (Some nets) \<Rightarrow> Inr (let ips = network_ips nets in if ips = [] then [''null''] else ips))"

definition docker_exist :: "'w docker_api \<Rightarrow> string \<Rightarrow> string \<Rightarrow> 'w \<Rightarrow> bool \<times> 'w" where
  "docker_exist cli cid path w =
     (case da_ContainerStatPath cli cid path w of (err, w') \<Rightarrow> (err = None, w'))"

definition docker_getShell :: "'w docker_api \<Rightarrow> string \<Rightarrow> 'w \<Rightarrow> string \<times> 'w" where
  "docker_getShell cli cid w = first_shell (docker_exist cli cid) SHELL_LIST w"

text \<open>\<open>fmt.Sprintf("%s", inspect.Config.Cmd)\<close>: the words in brackets.\<close>

definition show_strings :: "string list \<Rightarrow> string" where
  "show_strings ss = ''['' @ join '' '' ss @ '']''"

definition convert2Container :: "'w docker_api \<Rightarrow> inspect_response \<Rightarrow> 'w \<Rightarrow> (container \<times> 'w) outcome" where
  "convert2Container cli insp w =
     (case in_Config insp of
        None \<Rightarrow> Inr (zero_container, w)
      | Some cmd \<Rightarrow>
          (let (shell, w') = docker_getShell cli (in_ID insp) w in
           obind (getContainerIP (Settings (in_NetworkSettings insp))) (\<lambda>ips.
             case in_State insp of
               None \<Rightarrow> Inl NilDeref
             | Some status \<Rightarrow> Inr
                 (zero_container\<lparr>c_ID := in_ID insp, c_Name := in_Name insp, c_Image := in_Image insp,
                    c_Command := show_strings cmd, c_IPs := ips, c_Status := status,
                    c_State := status, c_Shell := shell\<rparr>, w'))))"

text \<open>
  The loop of \<open>listContainers\<close>.  The variables \<open>ips\<close> and \<open>shell\<close> are declared before the loop, so
  each round starts with what the round before left in them.
\<close>

fun list_loop :: "containers \<Rightarrow> container_summary list \<Rightarrow> string list \<Rightarrow> string \<Rightarrow> container list outcome" where
  "list_loop cache [] ips shell = Inr []"
| "list_loop cache (c # cs) ips shell =
     (let old = fst (cs_Find (su_ID c) cache) in
      obind (if c_ID old \<noteq> [] then Inr (c_IPs old, c_Shell old)
             else obind (getContainerIP (Summary (su_NetworkSettings c))) (\<lambda>ips'. Inr (ips', shell)))
        (\<lambda>(ips', shell').
      obind (index (su_Names c) 0) (\<lambda>name.
      obind (go_slice 1 (length name) name) (\<lambda>name'.
      obind (list_loop cache cs ips' shell') (\<lambda>rest.
        Inr (zero_container\<lparr>c_ID := su_ID c, c_Name := name', c_Image := su_Image c,
               c_Command := su_Command c, c_IPs := ips', c_Status := su_Status c,
               c_State := su_State c, c_Shell := shell'\<rparr> # rest))))))"

definition listContainers :: "bool \<Rightarrow> 'w docker_state \<Rightarrow> (container list \<times> 'w docker_state) outcome" where
  "listContainers force s =
     (let (d, w) = s; (now, w) = da_Now (dc_cli d) w in
      if since now (dc_lastList d) < minute \<and> \<not> force then
        (let (xs, cache) = cs_List (dc_containers d) in Inr (xs, d\<lparr>dc_containers := cache\<rparr>, w))
      else
        (case da_ContainerList (dc_cli d) (dc_listOptions d) w of
           (Inl e, w) \<Rightarrow> Inr ([], d, w)
         | (Inr cs, w) \<Rightarrow>
             obind (list_loop (dc_containers d) cs [] []) (\<lambda>xs.
               let d = d\<lparr>dc_containers := cs_Set xs (dc_containers d)\<rparr>;
                   (now, w) = da_Now (dc_cli d) w
               in Inr (xs, d\<lparr>dc_lastList := At now\<rparr>, w))))"

definition docker_List :: "'w docker_state \<Rightarrow> (container list \<times> 'w docker_state) outcome" where
  "docker_List s = listContainers False s"

text \<open>The part of \<open>GetInfo\<close> after the cache has been filled.\<close>

definition docker_lookup :: "string \<Rightarrow> 'w docker_state \<Rightarrow> (container \<times> 'w docker_state) outcome" where
  "docker_lookup cid s =
     (let (d, w) = s; (c, cache) = cs_Find cid (dc_containers d); d = d\<lparr>dc_containers := cache\<rparr> in
      if c_ID c \<noteq> [] then
        (if c_Shell c = [] then
           (let (shell, w) = docker_getShell (dc_cli d) cid w
            in Inr (c\<lparr>c_Shell := shell\<rparr>, d\<lparr>dc_containers := cs_SetShell cid shell (dc_containers d)\<rparr>, w))
         else Inr (c, d, w))
      else
        (case da_ContainerInspect (dc_cli d) cid w of
           (Inl e, w) \<Rightarrow> Inr (zero_container, d, w)
         | (Inr resp, w) \<Rightarrow>
             obind (convert2Container (dc_cli d) resp w) (\<lambda>(c, w).
               Inr (c, if c_ID c \<noteq> [] then d\<lparr>dc_containers := cs_Append c (dc_containers d)\<rparr> else d, w))))"

definition docker_GetInfo :: "string \<Rightarrow> 'w docker_state \<Rightarrow> (container \<times> 'w docker_state) outcome" where
  "docker_GetInfo cid s =
     (let (d, w) = s; (n, cache) = cs_Len (dc_containers d); d = d\<lparr>dc_containers := cache\<rparr> in
      if n = 0 then obind (docker_List (d, w)) (\<lambda>(xs, s). docker_lookup cid s)
      else docker_lookup cid (d, w))"

text \<open>A call of the client that returns an error only.\<close>

definition lift_call :: "('w docker_api \<Rightarrow> 'w \<Rightarrow> 'a \<times> 'w) \<Rightarrow> 'w docker_state \<Rightarrow> ('a \<times> 'w docker_state) outcome" where
  "lift_call call s = (let (d, w) = s; (r, w') = call (dc_cli d) w in Inr (r, d, w'))"

definition docker_Start :: "string \<Rightarrow> 'w docker_state \<Rightarrow> (error option \<times> 'w docker_state) outcome" where
  "docker_Start cid = lift_call (\<lambda>cli. da_ContainerStart cli cid)"

definition docker_Stop :: "string \<Rightarrow> 'w docker_state \<Rightarrow> (error option \<times> 'w docker_state) outcome" where
  "docker_Stop cid = lift_call (\<lambda>cli. da_ContainerStop cli cid)"

definition docker_Restart :: "string \<Rightarrow> 'w docker_state \<Rightarrow> (error option \<times> 'w docker_state) outcome" where
  "docker_Restart cid = lift_call (\<lambda>cli. da_ContainerRestart cli cid)"

definition docker_Close :: "'w docker_state \<Rightarrow> (error option \<times> 'w docker_state) outcome" where
  "docker_Close = lift_call da_Close"

text \<open>A nil stream stays nil, next to the error.\<close>

definition docker_Logs :: "log_options \<Rightarrow> 'w docker_state \<Rightarrow> ((log_stream log_reader option \<times> error option) \<times> 'w docker_state) outcome" where
  "docker_Logs opts = lift_call (\<lambda>cli w.
     (let ((rc, err), w') = da_ContainerLogs cli (l_ID opts)
            \<lparr>lr_ShowStdout = True, lr_ShowStderr = True, lr_Follow = l_Follow opts, lr_Tail = l_Tail opts\<rparr> w
      in ((parseContainerLog rc, err), w')))"

section \<open>Options of docker ps\<close>

text \<open>
  \<open>buildListOptions\<close>: \<open>args\<close> is the whole list, \<open>i\<close> the position of the first of the rest.  The
  test \<open>i+1 < len(arg)\<close> compares with the length of the option's own text.
\<close>

fun list_option_loop :: "string list \<Rightarrow> nat \<Rightarrow> string list \<Rightarrow> list_options \<Rightarrow> (error + list_options) outcome" where
  "list_option_loop args i [] opts = Inr (Inr opts)"
| "list_option_loop args i (arg # rest) opts =
     (if arg = ''-a'' \<or> arg = ''--all'' then list_option_loop args (i + 1) rest (opts\<lparr>lo_All := True\<rparr>)
      else if arg = ''-f'' \<or> arg = ''--filter'' then
        (if i + 1 < length arg then
           obind (index args (i + 1)) (\<lambda>f.
             case split_on (CHR ''='') f of
               [k, v] \<Rightarrow> list_option_loop args (i + 1) rest (opts\<lparr>lo_Filters := lo_Filters opts @ [(k, v)]\<rparr>)
             | _ \<Rightarrow> Inr (Inl (Errorf (''bad filter '' @ [CHR 0x27] @ f @ [CHR 0x27]))))
         else list_option_loop args (i + 1) rest opts)
      else if arg = ''-n'' \<or> arg = ''--last'' then
        (if i + 1 < length arg then
           obind (index args (i + 1)) (\<lambda>f.
             case atoi f of
               Inl err \<Rightarrow> Inr (Inl err)
             | Inr n \<Rightarrow> list_option_loop args (i + 1) rest (opts\<lparr>lo_Limit := n\<rparr>))
         else list_option_loop args (i + 1) rest opts)
      else if arg = ''-l'' \<or> arg = ''--latest'' then
        list_option_loop args (i + 1) rest (opts\<lparr>lo_Latest := True\<rparr>)
      else list_option_loop args (i + 1) rest opts)"

definition buildListOptions :: "string \<Rightarrow> (error + list_options) outcome" where
  "buildListOptions options =
     (let args = split_on (CHR '' '') options in list_option_loop args 0 args zero_list_options)"

section \<open>Exec\<close>

definition exec_cmds :: "container \<Rightarrow> string list" where
  "exec_cmds c =
     (let cmd = e_Cmd (c_Exec c) in
      [c_Shell c] @ (if cmd \<noteq> [] then [''-c'', [CHR 0x22, CHR 0x22] @ cmd @ [CHR 0x22, CHR 0x22]] else []))"

definition exec_config_of :: "container \<Rightarrow> exec_config" where
  "exec_config_of c =
     (let opts = c_Exec c in
      \<lparr>ec_User = e_User opts, ec_Privileged = e_Privileged opts, ec_Tty = True,
       ec_AttachStdin = True, ec_AttachStderr = True, ec_AttachStdout = True,
       ec_Env = [''HISTCONTROL=ignoredups'', ''TERM=xterm''] @
         (if e_Env opts \<noteq> [] then split_on (CHR '' '') (e_Env opts) else []),
       ec_Cmd = exec_cmds c\<rparr>)"

text \<open>
  The terminal that \<open>Exec\<close> returns (container/docker/slave.go): the attached connection, the exec
  ID that its resize function closes over, and the activity channel.
\<close>

record docker_tty =
  dt_hResp :: hijacked
  dt_execID :: string
  dt_active :: active_chan

definition docker_Exec :: "container \<Rightarrow> 'w docker_state \<Rightarrow> ((error + docker_tty) \<times> 'w docker_state) outcome" where
  "docker_Exec c = lift_call (\<lambda>cli w.
     (case da_ContainerExecCreate cli (c_ID c) (exec_config_of c) w of
        (Inl err, w) \<Rightarrow> (Inl err, w)
      | (Inr execID, w) \<Rightarrow>
          if execID = [] then (Inl (Errorf ''exec ID empty''), w)
          else
            (case da_ContainerExecAttach cli execID True w of
               (Inl err, w) \<Rightarrow> (Inl err, w)
             | (Inr resp, w) \<Rightarrow>
                 (Inr \<lparr>dt_hResp = resp, dt_execID = execID, dt_active = new_active\<rparr>, w))))"

definition docker_resize :: "'w docker_api \<Rightarrow> docker_tty \<Rightarrow> int \<Rightarrow> int \<Rightarrow> 'w \<Rightarrow> error option \<times> 'w" where
  "docker_resize cli enj width height w =
     da_ContainerExecResize cli (dt_execID enj) (word_of_int width) (word_of_int height) w"

definition docker_ResizeTerminal :: "'w docker_api \<Rightarrow> docker_tty \<Rightarrow> int \<Rightarrow> int \<Rightarrow> 'w \<Rightarrow> error option \<times> 'w" where
  "docker_ResizeTerminal cli enj width height w =
     resize_loop 3 (docker_resize cli enj width height) (da_Sleep cli (50 * millisecond)) None w"

text \<open>\<open>Read\<close>: the goroutine that reports activity, then the read of the connection.\<close>

definition docker_tty_read :: "'w docker_api \<Rightarrow> (docker_tty \<times> 'w) reader" where
  "docker_tty_read cli p s =
     (let (enj, w) = s in
      obind (touch_active (dt_active enj)) (\<lambda>ch.
      obind (da_ConnRead cli (dt_hResp enj) p w) (\<lambda>(n, p', err, w').
        Inr (n, p', err, enj\<lparr>dt_active := ch\<rparr>, w'))))"

definition docker_tty_write :: "'w docker_api \<Rightarrow> docker_tty \<Rightarrow> bytes \<Rightarrow> 'w \<Rightarrow> (nat \<times> error option) \<times> 'w" where
  "docker_tty_write cli enj p w = da_ConnWrite cli (dt_hResp enj) p w"

text \<open>\<open>Exit\<close>: types the interrupt and end-of-file keys, closes the channel and the connection.\<close>

definition docker_Exit :: "'w docker_api \<Rightarrow> docker_tty \<Rightarrow> 'w \<Rightarrow> (error option \<times> docker_tty \<times> 'w) outcome" where
  "docker_Exit cli enj w =
     (let (r, w) = docker_tty_write cli enj [CHR 0x03, CHR 0x0D, CHR 0x04, CHR 0x0D] w in
      obind (close_active (dt_active enj)) (\<lambda>ch.
        let (err, w) = da_ConnClose cli (dt_hResp enj) w in Inr (err, enj\<lparr>dt_active := ch\<rparr>, w)))"

definition docker_ActiveChan :: "docker_tty \<times> 'w \<Rightarrow> active_chan" where
  "docker_ActiveChan s = dt_active (fst s)"

interpretation docker_terminal: terminal "docker_tty_read cli" "\<lambda>(enj, w). docker_Exit cli enj w" docker_ActiveChan
  by unfold_locales (auto simp: docker_tty_read_def docker_Exit_def docker_ActiveChan_def Let_def case_prod_unfold)

definition docker_WindowTitleVariables :: "docker_tty \<Rightarrow> (string, string) gomap" where
  "docker_WindowTitleVariables enj = []"

section \<open>Creation and events\<close>

record docker_config =
  DockerHost :: string
  PsOptions :: string

text \<open>The host as \<open>NewCli\<close> computes it, for a log line; the client is made from the environment.\<close>

definition docker_host :: "string \<Rightarrow> string outcome" where
  "docker_host host =
     obind (go_slice 0 1 host) (\<lambda>first.
       Inr (if first = ''/'' then ''unix://'' @ host
            else if \<not> prefix ''tcp://'' host then ''tcp://'' @ host else host))"

definition docker_NewCli ::
    "('w \<Rightarrow> (error + 'w docker_api) \<times> 'w) \<Rightarrow> docker_config \<Rightarrow> 'w \<Rightarrow> ((error + 'w docker_cli) \<times> 'w) outcome" where
  "docker_NewCli NewClientFromEnv conf w =
     obind (docker_host (DockerHost conf)) (\<lambda>host.
       case NewClientFromEnv w of
         (Inl err, w) \<Rightarrow> Inr (Inl err, w)
       | (Inr cli, w) \<Rightarrow>
           obind (buildListOptions (PsOptions conf)) (\<lambda>r.
             case r of
               Inl err \<Rightarrow> Inr (Inl (Errorf (''build ps options error: '' @ error_text err)), w)
             | Inr opts \<Rightarrow>
                 (case da_Ping cli w of
                    (Inl err, w) \<Rightarrow> Inr (Inl err, w)
                  | (Inr version, w) \<Rightarrow>
                      Inr (Inr \<lparr>dc_cli = cli, dc_containers = zero_containers,
                                dc_listOptions = opts, dc_lastList = ZeroTime\<rparr>, w))))"

text \<open>The background goroutine: a first listing, then one at every start or destruction of a container.\<close>

definition docker_warm_up :: "'w docker_state \<Rightarrow> 'w docker_state outcome" where
  "docker_warm_up s = obind (listContainers True s) (\<lambda>(xs, s'). Inr s')"

record docker_event =
  ev_Type :: string
  ev_Action :: string

fun watchEvents :: "docker_event list \<Rightarrow> 'w docker_state \<Rightarrow> 'w docker_state outcome" where
  "watchEvents [] s = Inr s"
| "watchEvents (ev # evs) s =
     (if ev_Type ev \<noteq> ''container'' then watchEvents evs s
      else if ev_Action ev = ''start'' \<or> ev_Action ev = ''destroy'' then
        obind (listContainers True s) (\<lambda>(xs, s'). watchEvents evs s')
      else watchEvents evs s)"

section \<open>The backend's invariant\<close>

text \<open>
  What the daemon's interface documents and the code relies on without a check: an ID is 64
  hexadecimal digits (twelve are enough here), every listed container has a name, which starts
  with a slash, and the pointers of a response are set.
\<close>

definition summary_ok :: "container_summary \<Rightarrow> bool" where
  "summary_ok c \<longleftrightarrow> 12 \<le> length (su_ID c) \<and> su_Names c \<noteq> [] \<and> hd (su_Names c) \<noteq> [] \<and> su_NetworkSettings c \<noteq> None"

definition inspect_ok :: "inspect_response \<Rightarrow> bool" where
  "inspect_ok r \<longleftrightarrow> 12 \<le> length (in_ID r) \<and> in_NetworkSettings r \<noteq> None \<and> in_State r \<noteq> None"

definition daemon_ok :: "'w docker_api \<Rightarrow> bool" where
  "daemon_ok cli \<longleftrightarrow>
     (\<forall>opts w cs w'. da_ContainerList cli opts w = (Inr cs, w') \<longrightarrow> (\<forall>c \<in> set cs. summary_ok c)) \<and>
     (\<forall>cid w r w'. da_ContainerInspect cli cid w = (Inr r, w') \<longrightarrow> inspect_ok r)"

definition docker_inv :: "'w docker_state \<Rightarrow> bool" where
  "docker_inv s \<longleftrightarrow> daemon_ok (dc_cli (fst s)) \<and> full_cache (dc_containers (fst s))"

lemma daemon_list: "daemon_ok cli \<Longrightarrow> da_ContainerList cli opts w = (Inr cs, w') \<Longrightarrow> \<forall>c \<in> set cs. summary_ok c"
  unfolding daemon_ok_def by blast

lemma daemon_inspect: "daemon_ok cli \<Longrightarrow> da_ContainerInspect cli cid w = (Inr r, w') \<Longrightarrow> inspect_ok r"
  unfolding daemon_ok_def by blast

lemma list_loop_ok:
  assumes "full_cache cache" and "\<forall>c \<in> set cs. summary_ok c"
  shows "\<exists>xs. list_loop cache cs ips shell = Inr xs \<and> map c_ID xs = map su_ID cs"
  using assms(2)
proof (induction cs arbitrary: ips shell)
  case (Cons c cs)
  have c: "su_Names c \<noteq> []" "hd (su_Names c) \<noteq> []" "su_NetworkSettings c \<noteq> None"
    using Cons.prems by (auto simp: summary_ok_def)
  define old where "old = fst (cs_Find (su_ID c) cache)"
  obtain ips' shell' where vars: "(if c_ID old \<noteq> [] then Inr (c_IPs old, c_Shell old)
      else obind (getContainerIP (Summary (su_NetworkSettings c))) (\<lambda>ips'. Inr (ips', shell))) = Inr (ips', shell')"
    using c(3) by (cases "c_ID old = []") (auto simp: getContainerIP_def)
  obtain xs where xs: "list_loop cache cs ips' shell' = Inr xs" "map c_ID xs = map su_ID cs"
    using Cons.IH [of ips' shell'] Cons.prems by auto
  obtain name names where n: "su_Names c = name # names" using c(1) by (cases "su_Names c") auto
  then have "1 \<le> length name" using c(2) by (cases name) simp_all
  then show ?case
    using xs n vars by (simp add: Let_def old_def [symmetric])
qed simp

lemma full_ids: "map c_ID xs = map su_ID cs \<Longrightarrow> \<forall>c \<in> set cs. summary_ok c \<Longrightarrow> \<forall>x \<in> set xs. full_id x"
proof
  fix x assume ids: "map c_ID xs = map su_ID cs" and ok: "\<forall>c \<in> set cs. summary_ok c" and "x \<in> set xs"
  then have "c_ID x \<in> su_ID ` set cs" by (metis image_eqI list.set_map)
  with ok show "full_id x" by (auto simp: full_id_def summary_ok_def)
qed

lemma listContainers_ok:
  assumes "docker_inv s"
  shows "\<exists>xs s'. listContainers force s = Inr (xs, s') \<and> docker_inv s' \<and> (\<forall>x \<in> set xs. full_id x) \<and>
           dc_cli (fst s') = dc_cli (fst s)"
proof -
  obtain d w where s: "s = (d, w)" by (cases s)
  have d: "daemon_ok (dc_cli d)" "full_cache (dc_containers d)"
    using assms by (simp_all add: docker_inv_def s)
  obtain now w1 where now: "da_Now (dc_cli d) w = (now, w1)" by (cases "da_Now (dc_cli d) w")
  show ?thesis
  proof (cases "since now (dc_lastList d) < minute \<and> \<not> force")
    case True
    obtain xs cache where l: "cs_List (dc_containers d) = (xs, cache)" by (cases "cs_List (dc_containers d)")
    with True now show ?thesis
      using cache.all_held_listing [OF d(2) l] d(1) by (simp add: listContainers_def s docker_inv_def)
  next
    case False
    obtain r w2 where list: "da_ContainerList (dc_cli d) (dc_listOptions d) w1 = (r, w2)"
      by (cases "da_ContainerList (dc_cli d) (dc_listOptions d) w1")
    show ?thesis
    proof (cases r)
      case (Inl e)
      then show ?thesis using now list d by (simp add: listContainers_def s docker_inv_def if_not_P [OF False])
    next
      case (Inr cs)
      have ok: "\<forall>c \<in> set cs. summary_ok c" using d(1) list Inr by (auto dest: daemon_list)
      obtain xs where xs: "list_loop (dc_containers d) cs [] [] = Inr xs" "map c_ID xs = map su_ID cs"
        using list_loop_ok [OF d(2) ok] by blast
      have "full_cache (cs_Set xs (dc_containers d))"
        using d(2) full_ids [OF xs(2) ok] by (rule cache.all_held_put_all)
      moreover obtain now' w3 where "da_Now (dc_cli d) w2 = (now', w3)" by (cases "da_Now (dc_cli d) w2")
      ultimately show ?thesis
        using now list Inr xs(1) d(1) full_ids [OF xs(2) ok]
        by (simp add: listContainers_def s docker_inv_def if_not_P [OF False])
    qed
  qed
qed

lemma convert2Container_ok:
  assumes "inspect_ok r"
  shows "\<exists>c w'. convert2Container cli r w = Inr (c, w') \<and> (c = zero_container \<or> full_id c)"
proof (cases "in_Config r")
  case None
  then show ?thesis by (simp add: convert2Container_def)
next
  case (Some cmd)
  obtain nets status where p: "in_NetworkSettings r = Some nets" "in_State r = Some status"
    using assms by (auto simp: inspect_ok_def)
  have "12 \<le> length (in_ID r)" using assms by (simp add: inspect_ok_def)
  then show ?thesis using Some p
    by (cases "docker_getShell cli (in_ID r) w") (simp add: convert2Container_def getContainerIP_def full_id_def)
qed

lemma docker_lookup_ok:
  assumes "docker_inv s"
  shows "\<exists>c s'. docker_lookup cid s = Inr (c, s') \<and> docker_inv s' \<and> info_ok c"
proof -
  obtain d w where s: "s = (d, w)" by (cases s)
  have d: "daemon_ok (dc_cli d)" "full_cache (dc_containers d)"
    using assms by (simp_all add: docker_inv_def s)
  obtain c cache where f: "cs_Find cid (dc_containers d) = (c, cache)" by (cases "cs_Find cid (dc_containers d)")
  note cache = full_cache_Find [OF d(2) f]
  show ?thesis
  proof (cases "c_ID c = []")
    case False
    then have "full_id c" using cache by auto
    then show ?thesis using False f d(1) cache
      by (cases "docker_getShell (dc_cli d) cid w")
        (auto simp: docker_lookup_def s docker_inv_def full_cache_SetShell full_id_info Let_def)
  next
    case True
    obtain r w1 where insp: "da_ContainerInspect (dc_cli d) cid w = (r, w1)"
      by (cases "da_ContainerInspect (dc_cli d) cid w")
    show ?thesis
    proof (cases r)
      case (Inl e)
      with True f insp d(1) cache show ?thesis by (simp add: docker_lookup_def s docker_inv_def)
    next
      case (Inr resp)
      have "inspect_ok resp" using d(1) insp Inr by (auto dest: daemon_inspect)
      then obtain c' w2 where c': "convert2Container (dc_cli d) resp w1 = Inr (c', w2)"
        "c' = zero_container \<or> full_id c'"
        using convert2Container_ok [of resp "dc_cli d" w1] by auto
      have "c_ID c' \<noteq> [] \<Longrightarrow> full_cache (cs_Append c' cache)"
        using c'(2) cache by (intro cache.all_held_put) auto
      moreover have "info_ok c'" using c'(2) by (auto intro: full_id_info)
      moreover have "full_cache cache" using cache by simp
      ultimately show ?thesis using True f insp Inr d(1) c'(1)
        by (cases "c_ID c' = []") (simp_all add: docker_lookup_def s docker_inv_def Let_def)
    qed
  qed
qed

lemma docker_GetInfo_ok:
  assumes "docker_inv s"
  shows "\<exists>c s'. docker_GetInfo cid s = Inr (c, s') \<and> docker_inv s' \<and> info_ok c"
proof -
  obtain d w where s: "s = (d, w)" by (cases s)
  obtain n cache where l: "cs_Len (dc_containers d) = (n, cache)" by (cases "cs_Len (dc_containers d)")
  let ?s = "(d\<lparr>dc_containers := cache\<rparr>, w)"
  have inv: "docker_inv ?s"
    using assms full_cache_Len [of "dc_containers d"] l by (simp add: docker_inv_def s)
  show ?thesis
  proof (cases "n = 0")
    case True
    obtain xs s' where "docker_List ?s = Inr (xs, s')" and "docker_inv s'"
      using listContainers_ok [OF inv] unfolding docker_List_def by blast
    then show ?thesis using True l docker_lookup_ok [of s' cid] by (simp add: docker_GetInfo_def s)
  next
    case False
    then show ?thesis using l docker_lookup_ok [OF inv, of cid] by (simp add: docker_GetInfo_def s)
  qed
qed

lemma lift_call_ok: "docker_inv s \<Longrightarrow> \<exists>r s'. lift_call call s = Inr (r, s') \<and> docker_inv s'"
  by (auto simp: lift_call_def docker_inv_def split: prod.split)

interpretation docker: cli_backend docker_GetInfo docker_List docker_Start docker_Stop docker_Restart
  docker_Exec docker_Logs docker_inv
proof unfold_locales
  fix s :: "'w docker_state" and cid
  assume inv: "docker_inv s"
  show "\<exists>c s'. docker_GetInfo cid s = Inr (c, s') \<and> docker_inv s' \<and> info_ok c"
    by (rule docker_GetInfo_ok [OF inv])
  show "\<exists>cs s'. docker_List s = Inr (cs, s') \<and> docker_inv s' \<and> (\<forall>c \<in> set cs. info_ok c)"
    using listContainers_ok [OF inv, of False] unfolding docker_List_def by (blast intro: full_id_info)
qed (unfold docker_Start_def docker_Stop_def docker_Restart_def docker_Exec_def docker_Logs_def;
     erule lift_call_ok)+

section \<open>What GetInfo answers\<close>

lemma docker_lookup_cached:
  assumes "map_of (cs_c (cs_init (dc_containers d))) cid = Some c" and "c_ID c \<noteq> []" and "c_Shell c = []"
    and "docker_getShell (dc_cli d) cid w = (sh, w')"
  shows "docker_lookup cid (d, w) =
    Inr (c\<lparr>c_Shell := sh\<rparr>, d\<lparr>dc_containers := cs_SetShell cid sh (cs_init (dc_containers d))\<rparr>, w')"
  using assms by (simp add: docker_lookup_def cs_Find_def find_in_exact)

lemma docker_lookup_known:
  assumes "map_of (cs_c (cs_init (dc_containers d))) cid = Some c" and "c_ID c \<noteq> []" and "c_Shell c \<noteq> []"
  shows "docker_lookup cid (d, w) = Inr (c, d\<lparr>dc_containers := cs_init (dc_containers d)\<rparr>, w)"
  using assms by (simp add: docker_lookup_def cs_Find_def find_in_exact)

lemma cs_init_idem [simp]: "cs_once cs \<Longrightarrow> cs_init cs = cs"
  by (simp add: cs_init_def)

lemma map_of_SetShell:
  "map_of (cs_c (cs_init cs)) k = Some c \<Longrightarrow>
   map_of (cs_c (cs_SetShell k sh cs)) k = Some (c\<lparr>c_Shell := sh\<rparr>) \<and> cs_once (cs_SetShell k sh cs)"
  by (simp add: cs_SetShell_def update_conv Let_def)

lemma docker_GetInfo_filled:
  assumes "map_of (cs_c (cs_init (dc_containers d))) cid = Some c"
  shows "docker_GetInfo cid (d, w) = docker_lookup cid (d\<lparr>dc_containers := cs_init (dc_containers d)\<rparr>, w)"
proof -
  have "cs_c (cs_init (dc_containers d)) \<noteq> []" using assms by auto
  then show ?thesis by (simp add: docker_GetInfo_def cs_Len_def Let_def)
qed

text \<open>
  C24. A container that the cache holds without a shell is probed once: the answer carries what
  the probe of \<open>/bin/bash\<close>, \<open>/bin/ash\<close>, \<open>/bin/sh\<close> found, in this order, and when it found one the
  next \<open>GetInfo\<close> for the same ID gives the same answer without any call to the daemon and leaves
  the state as it is, whatever has become of the daemon.
\<close>

theorem docker_shell_probed_once:
  assumes "map_of (cs_c (cs_init (dc_containers d))) cid = Some c" and "c_ID c \<noteq> []" and "c_Shell c = []"
    and "docker_getShell (dc_cli d) cid w = (sh, w')"
  shows "\<exists>d'. docker_GetInfo cid (d, w) = Inr (c\<lparr>c_Shell := sh\<rparr>, d', w') \<and>
    sh \<in> {[], ''/bin/bash'', ''/bin/ash'', ''/bin/sh''} \<and>
    (sh \<noteq> [] \<longrightarrow> (\<forall>w2. docker_GetInfo cid (d', w2) = Inr (c\<lparr>c_Shell := sh\<rparr>, d', w2)))"
proof -
  let ?cache = "cs_SetShell cid sh (cs_init (dc_containers d))"
  let ?d = "d\<lparr>dc_containers := ?cache\<rparr>"
  have first: "docker_GetInfo cid (d, w) = Inr (c\<lparr>c_Shell := sh\<rparr>, ?d, w')"
    using assms by (simp add: docker_GetInfo_filled docker_lookup_cached)
  have at: "map_of (cs_c (cs_init (cs_init (dc_containers d)))) cid = Some c" using assms(1) by simp
  have held: "map_of (cs_c ?cache) cid = Some (c\<lparr>c_Shell := sh\<rparr>)" "cs_once ?cache"
    using map_of_SetShell [OF at, of sh] by simp_all
  have "docker_GetInfo cid (?d, w2) = Inr (c\<lparr>c_Shell := sh\<rparr>, ?d, w2)" if "sh \<noteq> []" for w2
    using held assms(2) that
      docker_GetInfo_filled [of ?d cid "c\<lparr>c_Shell := sh\<rparr>" w2] docker_lookup_known [of ?d cid "c\<lparr>c_Shell := sh\<rparr>" w2]
    by simp
  moreover have "sh \<in> {[], ''/bin/bash'', ''/bin/ash'', ''/bin/sh''}"
    using first_shell_range [of "docker_exist (dc_cli d) cid" SHELL_LIST w] assms(4)
    by (simp add: docker_getShell_def SHELL_LIST_def)
  ultimately show ?thesis using first by blast
qed

text \<open>
  A daemon for the examples: a clock that advances with every reading, two containers, of which
  only \<open>/bin/ash\<close> exists, streams and sessions that open.
\<close>

definition sample_summary :: "string \<Rightarrow> string \<Rightarrow> container_summary" where
  "sample_summary cid name =
     \<lparr>su_ID = cid, su_Names = [name], su_Image = ''alpine'', su_Command = ''sh'', su_Status = ''Up'',
      su_State = ''running'', su_NetworkSettings = Some [(''bridge'', Some ''10.0.0.2'')]\<rparr>"

definition sample_daemon :: "int docker_api" where
  "sample_daemon =
     \<lparr>da_Now = (\<lambda>w. (w, w + 1)), da_Ping = (\<lambda>w. (Inr ''1.41'', w)),
      da_ContainerList = (\<lambda>opts w. (Inr [sample_summary ''aaaaaaaaaaaaaa01'' ''/one'', sample_summary ''bbbbbbbbbbbbbb02'' ''/two''], w)),
      da_ContainerInspect = (\<lambda>cid w. (Inl (Opaque ''no such container''), w)),
      da_ContainerStatPath = (\<lambda>cid path w. (if path = ''/bin/ash'' then None else Some (Opaque ''not found''), w)),
      da_ContainerStart = (\<lambda>cid w. (None, w)), da_ContainerStop = (\<lambda>cid w. (None, w)),
      da_ContainerRestart = (\<lambda>cid w. (None, w)), da_ContainerExecCreate = (\<lambda>cid conf w. (Inr ''e1'', w)),
      da_ContainerExecAttach = (\<lambda>e tty w. (Inr 1, w)),
      da_ContainerExecResize = (\<lambda>e width height w. (if w < 2 then Some (Opaque ''not running'') else None, w)),
      da_ContainerLogs = (\<lambda>cid opts w. ((Some 1, None), w)), da_Close = (\<lambda>w. (None, w)),
      da_ConnWrite = (\<lambda>h p w. ((length p, None), w)), da_ConnClose = (\<lambda>h w. (None, w)),
      da_ConnRead = (\<lambda>h p w. Inr (0, p, Some EOF, w)), da_Sleep = (\<lambda>d w. w + 1)\<rparr>"

definition sample_cached :: "string \<Rightarrow> string \<Rightarrow> container" where
  "sample_cached cid sh = zero_container\<lparr>c_ID := cid, c_Shell := sh\<rparr>"

definition sample_docker :: "string \<Rightarrow> int docker_cli" where
  "sample_docker sh =
     \<lparr>dc_cli = sample_daemon, dc_containers = cs_Set [sample_cached ''aaaaaaaaaaaaaa01'' sh] zero_containers,
      dc_listOptions = zero_list_options, dc_lastList = ZeroTime\<rparr>"

lemma sample_daemon_ok: "daemon_ok sample_daemon"
  by (simp add: daemon_ok_def sample_daemon_def sample_summary_def summary_ok_def)

lemma sample_docker_inv: "docker_inv (sample_docker sh, w)"
  unfolding docker_inv_def
  by (auto simp: sample_docker_def sample_daemon_ok full_id_def sample_cached_def
      intro!: cache.all_held_put_all full_cache_init)

lemma sample_docker_held:
  "map_of (cs_c (cs_init (dc_containers (sample_docker sh)))) ''aaaaaaaaaaaa'' = Some (sample_cached ''aaaaaaaaaaaaaa01'' sh)"
  by (simp add: sample_docker_def cs_Set_def cs_init_def zero_containers_def map_of_index_container
      key_ok_def sample_cached_def)

theorem docker_shell_probed_once_witness:
  "\<exists>d'. docker_GetInfo ''aaaaaaaaaaaa'' (sample_docker [], 5) =
      Inr (sample_cached ''aaaaaaaaaaaaaa01'' ''/bin/ash'', d', 5) \<and>
    (\<forall>w2. docker_GetInfo ''aaaaaaaaaaaa'' (d', w2) = Inr (sample_cached ''aaaaaaaaaaaaaa01'' ''/bin/ash'', d', w2))"
proof -
  have sh: "docker_getShell (dc_cli (sample_docker [])) ''aaaaaaaaaaaa'' 5 = (''/bin/ash'', 5)"
    by (simp add: docker_getShell_def docker_exist_def SHELL_LIST_def sample_docker_def sample_daemon_def)
  have "(sample_cached ''aaaaaaaaaaaaaa01'' [])\<lparr>c_Shell := ''/bin/ash''\<rparr> = sample_cached ''aaaaaaaaaaaaaa01'' ''/bin/ash''"
    by (simp add: sample_cached_def)
  then show ?thesis
    using docker_shell_probed_once [OF sample_docker_held _ _ sh] by (simp add: sample_cached_def)
qed

section \<open>What a listing answers\<close>

text \<open>
  The shell of the last container, among the first ones of the daemon's list, that the cache
  knows; the empty string when it knows none.
\<close>

definition cached :: "containers \<Rightarrow> container_summary \<Rightarrow> bool" where
  "cached cache c \<longleftrightarrow> c_ID (fst (cs_Find (su_ID c) cache)) \<noteq> []"

definition carried_shell :: "containers \<Rightarrow> container_summary list \<Rightarrow> string \<Rightarrow> string" where
  "carried_shell cache cs shell =
     fold (\<lambda>c sh. if cached cache c then c_Shell (fst (cs_Find (su_ID c) cache)) else sh) cs shell"

lemma list_loop_nth:
  assumes "list_loop cache cs ips shell = Inr xs"
  shows "length xs = length cs \<and> (\<forall>i < length cs. c_ID (xs ! i) = su_ID (cs ! i) \<and>
    c_Shell (xs ! i) = carried_shell cache (take (Suc i) cs) shell)"
  using assms
proof (induction cs arbitrary: ips shell xs)
  case (Cons c cs)
  define sh where "sh = (if cached cache c then c_Shell (fst (cs_Find (su_ID c) cache)) else shell)"
  obtain ips' x xs' where xs: "xs = x # xs'" "c_ID x = su_ID c" "c_Shell x = sh"
    "list_loop cache cs ips' sh = Inr xs'"
    using Cons.prems by (auto simp: Let_def sh_def cached_def split: if_splits)
  note IH = Cons.IH [OF xs(4)]
  have step: "carried_shell cache (c # cs') shell = carried_shell cache cs' sh" for cs'
    by (simp add: carried_shell_def sh_def)
  show ?case
  proof (intro conjI allI impI)
    show "length xs = length (c # cs)" using xs(1) IH by simp
    fix i assume "i < length (c # cs)"
    then show "c_ID (xs ! i) = su_ID ((c # cs) ! i)" using xs(1,2) IH by (cases i) simp_all
    show "c_Shell (xs ! i) = carried_shell cache (take (Suc i) (c # cs)) shell"
      using xs(1,3) IH \<open>i < length (c # cs)\<close> by (cases i) (simp_all add: step carried_shell_def [of cache "[]"])
  qed
qed simp



text \<open>
  Listings are cached for a minute: when the daemon has just been asked, the next \<open>List\<close>
  whose clock reading is less than a minute later answers the same list and makes no call.
\<close>

lemma listing_cached_for_a_minute:
  assumes "listContainers True (d, w) = Inr (xs, d', w')" and "dc_lastList d' = At t" and "dc_lastList d' \<noteq> dc_lastList d"
    and "da_Now (dc_cli d') w' = (now, w'')" and "now - t < 60 * second"
  shows "docker_List (d', w') = Inr (xs, d', w'')"
proof -
  obtain now1 w1 where n1: "da_Now (dc_cli d) w = (now1, w1)" by (cases "da_Now (dc_cli d) w")
  obtain r w2 where l: "da_ContainerList (dc_cli d) (dc_listOptions d) w1 = (r, w2)"
    by (cases "da_ContainerList (dc_cli d) (dc_listOptions d) w1")
  obtain cs where r: "r = Inr cs"
    using assms(1,3) n1 l by (cases r) (auto simp: listContainers_def)
  have held: "dc_containers d' = cs_Set xs (dc_containers d)"
    using assms(1) n1 l r by (cases "da_Now (dc_cli d) w2") (auto simp: listContainers_def)
  have "cs_List (dc_containers d') = (xs, dc_containers d')"
    unfolding held by (simp add: cs_List_def cs_Set_def Let_def)
  moreover have "since now (dc_lastList d') < minute"
    unfolding assms(2) minute_def using assms(5)
    by (subst since_lt_iff) (simp_all add: second_def max_duration_def)
  ultimately show ?thesis using assms(4) by (simp add: docker_List_def listContainers_def)
qed

lemma listing_cached_for_a_minute_example:
  "\<exists>xs d'. listContainers True (sample_docker [], 5) = Inr (xs, d', 7) \<and> docker_List (d', 7) = Inr (xs, d', 8)"
proof -
  obtain xs d' w' where l: "listContainers True (sample_docker [], 5) = Inr (xs, d', w')"
    using listContainers_ok [OF sample_docker_inv, of True "[]" 5] by auto
  then have "w' = 7" "dc_lastList d' = At 6" "dc_cli d' = sample_daemon" "dc_lastList d' \<noteq> dc_lastList (sample_docker [])"
    by (auto simp: listContainers_def sample_docker_def sample_daemon_def)
  then show ?thesis
    using l listing_cached_for_a_minute [OF l, of 6 7 8] by (auto simp: sample_daemon_def second_def)
qed

section \<open>The options of docker ps\<close>

lemma list_option_loop_plain:
  assumes "\<forall>a \<in> set rest. a \<noteq> ''--filter'' \<and> a \<noteq> ''--last''"
    and "i = 0 \<longrightarrow> (\<forall>a. rest \<noteq> [] \<and> a = hd rest \<longrightarrow> a \<noteq> ''-f'' \<and> a \<noteq> ''-n'')"
  shows "list_option_loop args i rest opts = Inr (Inr (opts\<lparr>
    lo_All := lo_All opts \<or> (\<exists>a \<in> set rest. a = ''-a'' \<or> a = ''--all''),
    lo_Latest := lo_Latest opts \<or> (\<exists>a \<in> set rest. a = ''-l'' \<or> a = ''--latest'')\<rparr>))"
  using assms
proof (induction rest arbitrary: i opts)
  case (Cons a rest)
  have a: "a \<noteq> ''--filter''" "a \<noteq> ''--last''" "i = 0 \<longrightarrow> a \<noteq> ''-f'' \<and> a \<noteq> ''-n''"
    using Cons.prems by auto
  have IH: "list_option_loop args (i + 1) rest o' = Inr (Inr (o'\<lparr>
    lo_All := lo_All o' \<or> (\<exists>a \<in> set rest. a = ''-a'' \<or> a = ''--all''),
    lo_Latest := lo_Latest o' \<or> (\<exists>a \<in> set rest. a = ''-l'' \<or> a = ''--latest'')\<rparr>))" for o'
    using Cons.prems(1) by (intro Cons.IH) simp_all
  show ?case
    unfolding list_option_loop.simps IH
    using a by (cases "a = ''-f'' \<or> a = ''-n''") auto
qed simp

text \<open>
  The short options \<open>-f key=value\<close> and \<open>-n number\<close> only work as the very first word of the
  option string: at any later position, such as in the documented \<open>-a -f key=val\<close>, they are
  dropped without an error, and the listing is neither filtered nor limited.
\<close>

lemma later_filter_dropped:
  assumes "split_on (CHR '' '') options = a # rest" and "a \<noteq> ''-f''" and "a \<noteq> ''-n''"
    and "\<forall>x \<in> set (a # rest). x \<noteq> ''--filter'' \<and> x \<noteq> ''--last''"
  shows "buildListOptions options = Inr (Inr
    \<lparr>lo_All = (\<exists>x \<in> set (a # rest). x = ''-a'' \<or> x = ''--all''),
     lo_Latest = (\<exists>x \<in> set (a # rest). x = ''-l'' \<or> x = ''--latest''),
     lo_Limit = 0, lo_Filters = []\<rparr>)"
  using list_option_loop_plain [of "a # rest" 0 "a # rest" zero_list_options] assms
  by (simp add: buildListOptions_def zero_list_options_def)

lemma later_filter_dropped_example:
  "buildListOptions ''-a -f status=running'' =
     Inr (Inr \<lparr>lo_All = True, lo_Latest = False, lo_Limit = 0, lo_Filters = []\<rparr>)"
  using later_filter_dropped [of "''-a -f status=running''" "''-a''" "[''-f'', ''status=running'']"] by simp

text \<open>
  Resizing tries three times: it succeeds exactly when one of the first three attempts does,
  each made in the world the failures and pauses before it left, and otherwise reports the last
  attempt's error.
\<close>

lemma docker_resize_three_attempts:
  "(fst (docker_ResizeTerminal cli enj width height w) = None \<longleftrightarrow>
     (\<exists>k < 3. fst (docker_resize cli enj width height
        (attempt_world (docker_resize cli enj width height) (da_Sleep cli (50 * millisecond)) k w)) = None)) \<and>
   (fst (docker_ResizeTerminal cli enj width height w) = None \<or>
    fst (docker_ResizeTerminal cli enj width height w) =
      fst (docker_resize cli enj width height
        (attempt_world (docker_resize cli enj width height) (da_Sleep cli (50 * millisecond)) 2 w)))"
proof -
  let ?r = "docker_resize cli enj width height" and ?sl = "da_Sleep cli (50 * millisecond)"
  have three: "docker_ResizeTerminal cli enj width height w = resize_loop (Suc 2) ?r ?sl None w"
    by (simp add: docker_ResizeTerminal_def numeral_3_eq_3 numeral_2_eq_2)
  have "(k::nat) \<le> 2 \<longleftrightarrow> k < 3" for k by auto
  then show ?thesis
    unfolding three using resize_loop_ok [of 2 ?r ?sl None w] resize_loop_fail [of 2 ?r ?sl w None] by metis
qed

end
