(* ===== verification/Kube.thy ===== *)
theory Kube
  imports Backend
begin

text \<open>
  The kubernetes backend: container/kube/kubectl.go and tty.go.  The client library is a
  parameter, the record \<open>kube_api\<close> of the calls the code makes, over the state \<open>'w\<close> of the world.
  A request the code builds for the cluster is the record \<open>kube_request\<close>.
\<close>

section \<open>The cluster's client library\<close>

record container_spec =
  sp_Name :: string
  sp_Image :: string
  sp_Command :: "string list"

record container_status =
  st_Name :: string
  st_ContainerID :: string
  st_Ready :: bool
  st_RestartCount :: int
  st_Running :: "int option" \<comment> \<open>\<open>State.Running.StartedAt\<close>, when \<open>State.Running\<close> is not nil\<close>

record pod =
  pod_Name :: string
  pod_Namespace :: string
  pod_Containers :: "container_spec list"
  pod_Phase :: string
  pod_PodIP :: string
  pod_HostIP :: string
  pod_ContainerStatuses :: "container_status list"

record kube_request =
  rq_Verb :: string
  rq_Resource :: string
  rq_Name :: string
  rq_Namespace :: string
  rq_SubResource :: string
  rq_Params :: "(string \<times> string) list"

type_synonym executor = nat \<comment> \<open>the handle of a SPDY executor\<close>
type_synonym body = nat \<comment> \<open>the handle of a response body\<close>

record 'w kube_api =
  ka_Now :: "'w \<Rightarrow> int \<times> 'w"
  ka_Namespaces :: "'w \<Rightarrow> (error + string list) \<times> 'w"
  ka_Pods :: "'w \<Rightarrow> (error + pod list) \<times> 'w"
  ka_Pod :: "string \<Rightarrow> string \<Rightarrow> 'w \<Rightarrow> (error + pod) \<times> 'w"
  ka_NewSPDYExecutor :: "kube_request \<Rightarrow> 'w \<Rightarrow> (error + executor) \<times> 'w"
  ka_Stream :: "executor \<Rightarrow> 'w \<Rightarrow> error option \<times> 'w"
  ka_RequestStream :: "kube_request \<Rightarrow> 'w \<Rightarrow> (body option \<times> error option) \<times> 'w"

section \<open>The client\<close>

record 'w kube_cli =
  kc_cli :: "'w kube_api"
  kc_containers :: containers

type_synonym 'w kube_state = "'w kube_cli \<times> 'w"

definition trimContainerIDPrefix :: "string \<Rightarrow> string" where
  "trimContainerIDPrefix cid = trim_prefix ''containerd://'' (trim_prefix ''docker://'' cid)"

definition containerReady :: "bool \<Rightarrow> string" where
  "containerReady ready = (if ready then ''Ready'' else ''Not Ready'')"

text \<open>\<open>Duration.Round(time.Second)\<close>, half away from zero, and the text of whole seconds.\<close>

definition round_second :: "duration \<Rightarrow> duration" where
  "round_second d =
     (let r = (if 0 \<le> d then (d + second div 2) div second * second
               else - ((second div 2 - d) div second * second))
      in if r > max_duration then max_duration else if r < min_duration then min_duration else r)"

definition seconds_str :: "int \<Rightarrow> string" where
  "seconds_str n =
     (if 3600 \<le> n then int_str (n div 3600) @ ''h'' @ int_str (n div 60 mod 60) @ ''m'' @ int_str (n mod 60) @ ''s''
      else if 60 \<le> n then int_str (n div 60) @ ''m'' @ int_str (n mod 60) @ ''s''
      else int_str n @ ''s'')"

definition duration_str :: "duration \<Rightarrow> string" where
  "duration_str d =
     (if d = max_duration then ''2562047h47m16.854775807s''
      else if d = min_duration then ''-2562047h47m16.854775808s''
      else if 0 \<le> d then seconds_str (d div second) else ''-'' @ seconds_str (- d div second))"

definition containerStartTime :: "'w kube_api \<Rightarrow> int option \<Rightarrow> 'w \<Rightarrow> duration \<times> 'w" where
  "containerStartTime cli running w =
     (case running of
        None \<Rightarrow> (0, w)
      | Some t \<Rightarrow> (let (now, w') = ka_Now cli w in (round_second (since now (At t)), w')))"

text \<open>The first loop over a pod: command and image of its containers by name.\<close>

fun spec_map :: "container_spec list \<Rightarrow> (string, container) gomap \<Rightarrow> (string, container) gomap" where
  "spec_map [] m = m"
| "spec_map (s # ss) m =
     spec_map ss (AList.update (sp_Name s)
       (zero_container\<lparr>c_Command := join '' '' (sp_Command s), c_Image := sp_Image s\<rparr>) m)"

text \<open>A lookup in a Go map answers the zero value for a missing key.\<close>

definition get_container :: "(string, container) gomap \<Rightarrow> string \<Rightarrow> container" where
  "get_container m k = (case map_of m k of Some c \<Rightarrow> c | None \<Rightarrow> zero_container)"

definition status_container :: "pod \<Rightarrow> (string, container) gomap \<Rightarrow> string \<Rightarrow> container_status \<Rightarrow> duration \<Rightarrow> container" where
  "status_container p m cid st age =
     zero_container\<lparr>c_ID := cid, c_PodName := pod_Name p, c_ContainerName := st_Name st,
       c_Namespace := pod_Namespace p, c_Name := st_Name st,
       c_State := containerReady (st_Ready st) @ '' / '' @ pod_Phase p,
       c_Status := ''age: '' @ duration_str age @ ''; restart '' @ int_str (st_RestartCount st),
       c_IPs := (if pod_PodIP p \<noteq> pod_HostIP p then [pod_PodIP p, pod_HostIP p] else [pod_HostIP p]),
       c_Image := c_Image (get_container m (st_Name st)), c_Command := c_Command (get_container m (st_Name st))\<rparr>"

fun status_loop :: "'w kube_api \<Rightarrow> pod \<Rightarrow> (string, container) gomap \<Rightarrow> container_status list \<Rightarrow> 'w \<Rightarrow> container list \<times> 'w" where
  "status_loop cli p m [] w = ([], w)"
| "status_loop cli p m (st # sts) w =
     (let cid = trimContainerIDPrefix (st_ContainerID st) in
      if cid = [] then status_loop cli p m sts w
      else
        (let (age, w) = containerStartTime cli (st_Running st) w;
             (cs, w) = status_loop cli p m sts w
         in (status_container p m cid st age # cs, w)))"

fun pod_loop :: "'w kube_api \<Rightarrow> pod list \<Rightarrow> 'w \<Rightarrow> container list \<times> 'w" where
  "pod_loop cli [] w = ([], w)"
| "pod_loop cli (p # ps) w =
     (let (cs, w) = status_loop cli p (spec_map (pod_Containers p) []) (pod_ContainerStatuses p) w;
          (rest, w) = pod_loop cli ps w
      in (cs @ rest, w))"

definition kube_List :: "'w kube_state \<Rightarrow> (container list \<times> 'w kube_state) outcome" where
  "kube_List s =
     (let (k, w) = s in
      case ka_Pods (kc_cli k) w of
        (Inl e, w) \<Rightarrow> Inr ([], k, w)
      | (Inr pods, w) \<Rightarrow>
          (let (cs, w) = pod_loop (kc_cli k) pods w
           in Inr (cs, k\<lparr>kc_containers := cs_Set cs (kc_containers k)\<rparr>, w)))"

text \<open>The probe: \<open>ls path\<close> in the container; any error counts as absent.\<close>

definition exist_request :: "container \<Rightarrow> string \<Rightarrow> kube_request" where
  "exist_request info path =
     \<lparr>rq_Verb = ''POST'', rq_Resource = ''pods'', rq_Name = c_PodName info, rq_Namespace = c_Namespace info,
      rq_SubResource = ''exec'',
      rq_Params = [(''container'', c_ContainerName info), (''command'', ''ls''), (''command'', path),
        (''stdout'', ''true''), (''stdin'', ''false''), (''tty'', ''false'')]\<rparr>"

definition kube_exist :: "'w kube_cli \<Rightarrow> string \<Rightarrow> string \<Rightarrow> 'w \<Rightarrow> bool \<times> 'w" where
  "kube_exist k cid path w =
     (let info = fst (cs_Find cid (kc_containers k)) in
      if c_ID info = [] then (False, w)
      else
        (case ka_NewSPDYExecutor (kc_cli k) (exist_request info path) w of
           (Inl e, w) \<Rightarrow> (False, w)
         | (Inr ex, w) \<Rightarrow> (case ka_Stream (kc_cli k) ex w of (err, w) \<Rightarrow> (err = None, w))))"

definition kube_getShell :: "'w kube_cli \<Rightarrow> string \<Rightarrow> 'w \<Rightarrow> string \<times> 'w" where
  "kube_getShell k cid w = first_shell (kube_exist k cid) SHELL_LIST w"

definition kube_lookup :: "string \<Rightarrow> 'w kube_state \<Rightarrow> (container \<times> 'w kube_state) outcome" where
  "kube_lookup cid s =
     (let (k, w) = s; (c, cache) = cs_Find cid (kc_containers k); k = k\<lparr>kc_containers := cache\<rparr> in
      if c_ID c \<noteq> [] then
        (if c_Shell c = [] then
           (let (shell, w) = kube_getShell k cid w
            in Inr (c\<lparr>c_Shell := shell\<rparr>, k\<lparr>kc_containers := cs_SetShell cid shell (kc_containers k)\<rparr>, w))
         else Inr (c, k, w))
      else Inr (zero_container, k, w))"

definition kube_GetInfo :: "string \<Rightarrow> 'w kube_state \<Rightarrow> (container \<times> 'w kube_state) outcome" where
  "kube_GetInfo cid s =
     (let (k, w) = s; (n, cache) = cs_Len (kc_containers k); k = k\<lparr>kc_containers := cache\<rparr> in
      if n = 0 then obind (kube_List (k, w)) (\<lambda>(xs, s). kube_lookup cid s)
      else kube_lookup cid (k, w))"

definition kube_Start :: "string \<Rightarrow> 'w kube_state \<Rightarrow> (error option \<times> 'w kube_state) outcome" where
  "kube_Start cid s = Inr (None, s)"

definition kube_Stop :: "string \<Rightarrow> 'w kube_state \<Rightarrow> (error option \<times> 'w kube_state) outcome" where
  "kube_Stop cid s = Inr (None, s)"

definition kube_Restart :: "string \<Rightarrow> 'w kube_state \<Rightarrow> (error option \<times> 'w kube_state) outcome" where
  "kube_Restart cid s = Inr (None, s)"

definition kube_Close :: "'w kube_state \<Rightarrow> (error option \<times> 'w kube_state) outcome" where
  "kube_Close s = Inr (None, s)"

text \<open>
  \<open>NewCli\<close>: a configuration, a client, the namespaces (for a log line), and a first listing.  The
  two constructors of the library are the parameters.
\<close>

definition kube_NewCli ::
    "(string \<Rightarrow> 'w \<Rightarrow> (error + 'conf) \<times> 'w) \<Rightarrow> ('conf \<Rightarrow> 'w \<Rightarrow> (error + 'w kube_api) \<times> 'w) \<Rightarrow>
     string \<Rightarrow> 'w \<Rightarrow> ((error + 'w kube_cli) \<times> 'w) outcome" where
  "kube_NewCli BuildConfig NewForConfig ConfigPath w =
     (case BuildConfig ConfigPath w of
        (Inl err, w) \<Rightarrow> Inr (Inl err, w)
      | (Inr kubeConfig, w) \<Rightarrow>
          (case NewForConfig kubeConfig w of
             (Inl err, w) \<Rightarrow> Inr (Inl err, w)
           | (Inr cli, w) \<Rightarrow>
               (case ka_Namespaces cli w of
                  (Inl err, w) \<Rightarrow> Inr (Inl err, w)
                | (Inr ns, w) \<Rightarrow>
                    obind (kube_List (\<lparr>kc_cli = cli, kc_containers = zero_containers\<rparr>, w)) (\<lambda>(xs, k, w).
                      Inr (Inr k, w)))))"

section \<open>Exec and Logs\<close>

definition completed :: "pod \<Rightarrow> bool" where
  "completed p \<longleftrightarrow> pod_Phase p = ''Succeeded'' \<or> pod_Phase p = ''Failed''"

definition kube_cmds :: "container \<Rightarrow> string list" where
  "kube_cmds c =
     (if e_Cmd (c_Exec c) \<noteq> [] then [c_Shell c, ''-l'', e_Cmd (c_Exec c)] else [c_Shell c, ''-l''])"

definition exec_request :: "container \<Rightarrow> kube_request" where
  "exec_request c =
     \<lparr>rq_Verb = ''POST'', rq_Resource = ''pods'', rq_Name = c_PodName c, rq_Namespace = c_Namespace c,
      rq_SubResource = ''exec'',
      rq_Params = [(''container'', c_ContainerName c), (''stdin'', ''true''), (''stdout'', ''true''), (''tty'', ''true'')] @
        map (\<lambda>cmd. (''command'', cmd)) (kube_cmds c)\<rparr>"

text \<open>
  The terminal (tty.go): two pipes, one in each direction, the queue of sizes and the activity
  channel.  A pipe is the data written and not yet read and whether an end is closed.  The
  waiting of package \<open>io\<close>'s pipe is the order of the steps: a read runs when there is data or an
  end is closed, and a write is one step.
\<close>

record pipe =
  pp_data :: "bytes list"
  pp_rclosed :: bool
  pp_wclosed :: bool

definition new_pipe :: pipe where "new_pipe = \<lparr>pp_data = [], pp_rclosed = False, pp_wclosed = False\<rparr>"

definition err_closed_pipe :: error where "err_closed_pipe = Opaque ''io: read/write on closed pipe''"

definition pipe_write :: "bytes \<Rightarrow> pipe \<Rightarrow> (nat \<times> error option) \<times> pipe" where
  "pipe_write p pp =
     (if pp_rclosed pp \<or> pp_wclosed pp then ((0, Some err_closed_pipe), pp)
      else ((length p, None), pp\<lparr>pp_data := pp_data pp @ [p]\<rparr>))"

definition pipe_read :: "pipe reader" where
  "pipe_read p pp =
     (if pp_rclosed pp then Inr (0, p, Some err_closed_pipe, pp)
      else obind (conn_read p (pp_data pp)) (\<lambda>(n, p', err, ms). Inr (n, p', err, pp\<lparr>pp_data := ms\<rparr>)))"

definition close_r :: "pipe \<Rightarrow> pipe" where "close_r pp = pp\<lparr>pp_rclosed := True\<rparr>"
definition close_w :: "pipe \<Rightarrow> pipe" where "close_w pp = pp\<lparr>pp_wclosed := True\<rparr>"

text \<open>The size queue: sizes sent and not yet received; a send after \<open>close\<close> panics and is recovered.\<close>

record terminal_size =
  ts_Width :: "16 word"
  ts_Height :: "16 word"

record size_queue =
  sq_pending :: "terminal_size list"
  sq_closed :: bool

definition sq_Next :: "size_queue \<Rightarrow> terminal_size option \<times> size_queue" where
  "sq_Next sq =
     (case sq_pending sq of
        [] \<Rightarrow> (None, sq)
      | sz # rest \<Rightarrow> (Some sz, sq\<lparr>sq_pending := rest\<rparr>))"

definition sq_close :: "size_queue \<Rightarrow> size_queue outcome" where
  "sq_close sq = (if sq_closed sq then Inl ClosedChan else Inr (sq\<lparr>sq_closed := True\<rparr>))"

definition sq_send :: "terminal_size \<Rightarrow> size_queue \<Rightarrow> size_queue outcome" where
  "sq_send sz sq = (if sq_closed sq then Inl ClosedChan else Inr (sq\<lparr>sq_pending := sq_pending sq @ [sz]\<rparr>))"

definition sq_resize :: "int \<Rightarrow> int \<Rightarrow> size_queue \<Rightarrow> error option \<times> size_queue" where
  "sq_resize width height sq =
     (case sq_send \<lparr>ts_Width = word_of_int width, ts_Height = word_of_int height\<rparr> sq of
        Inl _ \<Rightarrow> (None, sq)
      | Inr sq' \<Rightarrow> (None, sq'))"

record kube_tty =
  kt_out :: pipe \<comment> \<open>\<open>ttyOut\<close> to \<open>r\<close>: from the container\<close>
  kt_in :: pipe \<comment> \<open>\<open>w\<close> to \<open>ttyIn\<close>: to the container\<close>
  kt_sq :: size_queue
  kt_active :: active_chan

definition newInjector :: kube_tty where
  "newInjector =
     \<lparr>kt_out = new_pipe, kt_in = new_pipe, kt_sq = \<lparr>sq_pending = [], sq_closed = False\<rparr>, kt_active = new_active\<rparr>"

definition kube_tty_read :: "kube_tty reader" where
  "kube_tty_read p enj =
     obind (touch_active (kt_active enj)) (\<lambda>ch.
     obind (pipe_read p (kt_out enj)) (\<lambda>(n, p', err, pp).
       Inr (n, p', err, enj\<lparr>kt_out := pp, kt_active := ch\<rparr>)))"

definition kube_tty_write :: "bytes \<Rightarrow> kube_tty \<Rightarrow> (nat \<times> error option) \<times> kube_tty" where
  "kube_tty_write p enj = (let (r, pp) = pipe_write p (kt_in enj) in (r, enj\<lparr>kt_in := pp\<rparr>))"

definition kube_Exit :: "kube_tty \<Rightarrow> (error option \<times> kube_tty) outcome" where
  "kube_Exit enj =
     (let enj = snd (kube_tty_write [CHR 0x03] enj);
          enj = snd (kube_tty_write [CHR 0x04] enj);
          enj = enj\<lparr>kt_out := close_w (close_r (kt_out enj)), kt_in := close_r (close_w (kt_in enj))\<rparr>
      in obind (sq_close (kt_sq enj)) (\<lambda>sq.
         obind (close_active (kt_active enj)) (\<lambda>ch.
           Inr (None, enj\<lparr>kt_sq := sq, kt_active := ch\<rparr>))))"

definition kube_ResizeTerminal :: "int \<Rightarrow> int \<Rightarrow> kube_tty \<Rightarrow> error option \<times> kube_tty" where
  "kube_ResizeTerminal width height enj =
     (let resize = (\<lambda>sq. snd (sq_resize width height sq))
      in (None, enj\<lparr>kt_sq := (resize ^^ 3) (kt_sq enj)\<rparr>))"

definition kube_ActiveChan :: "kube_tty \<Rightarrow> active_chan" where
  "kube_ActiveChan enj = kt_active enj"

interpretation kube_terminal: terminal kube_tty_read kube_Exit kube_ActiveChan
  by unfold_locales
    (auto simp: kube_tty_read_def kube_Exit_def kube_tty_write_def kube_ActiveChan_def Let_def split: prod.splits)

definition kube_WindowTitleVariables :: "kube_tty \<Rightarrow> (string, string) gomap" where
  "kube_WindowTitleVariables enj = []"

definition kube_Exec :: "container \<Rightarrow> 'w kube_state \<Rightarrow> ((error + kube_tty \<times> executor) \<times> 'w kube_state) outcome" where
  "kube_Exec c s =
     (let (k, w) = s in
      if c_PodName c = [] \<or> c_Namespace c = [] then Inr (Inl (Errorf ''PodName or Namespace is empty''), k, w)
      else
        (case ka_Pod (kc_cli k) (c_Namespace c) (c_PodName c) w of
           (Inl err, w) \<Rightarrow> Inr (Inl err, k, w)
         | (Inr p, w) \<Rightarrow>
             if completed p then
               Inr (Inl (Errorf (''cannot exec into a container in a completed pod; current phase is '' @ pod_Phase p)), k, w)
             else
               (case ka_NewSPDYExecutor (kc_cli k) (exec_request c) w of
                  (Inl err, w) \<Rightarrow> Inr (Inl err, k, w)
                | (Inr ex, w) \<Rightarrow> Inr (Inr (newInjector, ex), k, w))))"

text \<open>The goroutine that \<open>Exec\<close> starts: when the stream ends, it closes the container's ends of the pipes.\<close>

definition kube_exec_done :: "kube_tty \<Rightarrow> kube_tty" where
  "kube_exec_done enj = enj\<lparr>kt_in := close_r (kt_in enj), kt_out := close_w (kt_out enj)\<rparr>"

text \<open>
  A log stream is a response body under the context of its request; \<open>Logs\<close> makes a context with
  a timeout and cancels it when it returns (\<open>defer cancel()\<close>).
\<close>

record kube_log =
  kl_body :: body
  kl_ctx_done :: bool

definition log_request :: "container \<Rightarrow> log_options \<Rightarrow> kube_request" where
  "log_request c opts =
     \<lparr>rq_Verb = ''GET'', rq_Resource = ''pods'', rq_Name = c_PodName c, rq_Namespace = c_Namespace c,
      rq_SubResource = ''log'',
      rq_Params = [(''follow'', if l_Follow opts then ''true'' else ''false''), (''container'', c_ContainerName c),
        (''tailLines'', l_Tail opts)]\<rparr>"

definition cancel_ctx :: "kube_log option \<Rightarrow> kube_log option" where
  "cancel_ctx = map_option (\<lambda>l. l\<lparr>kl_ctx_done := True\<rparr>)"

definition kube_Logs :: "log_options \<Rightarrow> 'w kube_state \<Rightarrow> ((kube_log option \<times> error option) \<times> 'w kube_state) outcome" where
  "kube_Logs opts s =
     obind (kube_GetInfo (l_ID opts) s) (\<lambda>(c, k, w).
       if c_PodName c = [] \<or> c_Namespace c = [] then
         Inr ((None, Some (Errorf ''PodName or Namespace is empty'')), k, w)
       else
         (case ka_Pod (kc_cli k) (c_Namespace c) (c_PodName c) w of
            (Inl err, w) \<Rightarrow> Inr ((None, Some err), k, w)
          | (Inr p, w) \<Rightarrow>
              if completed p then
                Inr ((None, Some (Errorf (''cannot get container logs in a completed pod; current phase is '' @ pod_Phase p))), k, w)
              else
                (let ((b, err), w) = ka_RequestStream (kc_cli k) (log_request c opts) w;
                     rc = map_option (\<lambda>b. \<lparr>kl_body = b, kl_ctx_done = False\<rparr>) b
                 in Inr ((cancel_ctx rc, err), k, w))))"

section \<open>The backend's invariant\<close>

text \<open>The kubelet reports a container's ID with 64 hexadecimal digits after the runtime's prefix, or no ID yet.\<close>

definition pod_ok :: "pod \<Rightarrow> bool" where
  "pod_ok p \<longleftrightarrow> (\<forall>st \<in> set (pod_ContainerStatuses p).
     trimContainerIDPrefix (st_ContainerID st) = [] \<or> 12 \<le> length (trimContainerIDPrefix (st_ContainerID st)))"

definition cluster_ok :: "'w kube_api \<Rightarrow> bool" where
  "cluster_ok cli \<longleftrightarrow> (\<forall>w ps w'. ka_Pods cli w = (Inr ps, w') \<longrightarrow> (\<forall>p \<in> set ps. pod_ok p))"

definition kube_inv :: "'w kube_state \<Rightarrow> bool" where
  "kube_inv s \<longleftrightarrow> cluster_ok (kc_cli (fst s)) \<and> full_cache (kc_containers (fst s))"

lemma cluster_pods: "cluster_ok cli \<Longrightarrow> ka_Pods cli w = (Inr ps, w') \<Longrightarrow> \<forall>p \<in> set ps. pod_ok p"
  unfolding cluster_ok_def by blast

text \<open>The statuses a listing turns into containers, pod by pod.\<close>

definition live_statuses :: "pod list \<Rightarrow> (pod \<times> container_status) list" where
  "live_statuses ps = concat (map (\<lambda>p. map (Pair p)
     (filter (\<lambda>st. trimContainerIDPrefix (st_ContainerID st) \<noteq> []) (pod_ContainerStatuses p))) ps)"

text \<open>The container of the last spec with the given name.\<close>

definition spec_named :: "pod \<Rightarrow> string \<Rightarrow> container_spec option" where
  "spec_named p n = find (\<lambda>s. sp_Name s = n) (rev (pod_Containers p))"

definition describes :: "pod \<times> container_status \<Rightarrow> container \<Rightarrow> bool" where
  "describes f c \<longleftrightarrow> (let (p, st) = f in
     c_ID c = trimContainerIDPrefix (st_ContainerID st) \<and> c_Name c = st_Name st \<and> c_ContainerName c = st_Name st \<and>
     c_PodName c = pod_Name p \<and> c_Namespace c = pod_Namespace p \<and> c_Shell c = [] \<and> c_LocServer c = [] \<and>
     c_Image c = (case spec_named p (st_Name st) of None \<Rightarrow> [] | Some s \<Rightarrow> sp_Image s) \<and>
     c_Command c = (case spec_named p (st_Name st) of None \<Rightarrow> [] | Some s \<Rightarrow> join '' '' (sp_Command s)))"

lemma spec_map_get:
  "map_of (spec_map ss m) n =
     (case find (\<lambda>s. sp_Name s = n) (rev ss) of
        None \<Rightarrow> map_of m n
      | Some s \<Rightarrow> Some (zero_container\<lparr>c_Command := join '' '' (sp_Command s), c_Image := sp_Image s\<rparr>))"
  by (induction ss arbitrary: m) (auto simp: find_append update_conv split: option.split)

lemma status_container_describes:
  "describes (p, st) (status_container p (spec_map (pod_Containers p) []) (trimContainerIDPrefix (st_ContainerID st)) st age)"
  by (auto simp: describes_def status_container_def get_container_def spec_map_get spec_named_def
      zero_container_def split: option.split)

lemma status_loop_describes:
  "list_all2 describes
     (map (Pair p) (filter (\<lambda>st. trimContainerIDPrefix (st_ContainerID st) \<noteq> []) sts))
     (fst (status_loop cli p (spec_map (pod_Containers p) []) sts w))"
proof (induction sts arbitrary: w)
  case (Cons st sts)
  then show ?case by (auto simp: Let_def case_prod_unfold status_container_describes)
qed simp

lemma pod_loop_describes: "list_all2 describes (live_statuses ps) (fst (pod_loop cli ps w))"
proof (induction ps arbitrary: w)
  case (Cons p ps)
  have "live_statuses (p # ps) =
      map (Pair p) (filter (\<lambda>st. trimContainerIDPrefix (st_ContainerID st) \<noteq> []) (pod_ContainerStatuses p)) @ live_statuses ps"
    by (simp add: live_statuses_def)
  then show ?case
    using Cons status_loop_describes [of p "pod_ContainerStatuses p" cli w]
    by (simp add: Let_def case_prod_unfold list_all2_appendI)
qed (simp add: live_statuses_def)

lemma live_full: "\<forall>p \<in> set ps. pod_ok p \<Longrightarrow> f \<in> set (live_statuses ps) \<Longrightarrow> describes f c \<Longrightarrow> full_id c"
proof -
  assume ok: "\<forall>p \<in> set ps. pod_ok p" and f: "f \<in> set (live_statuses ps)" and d: "describes f c"
  obtain p st where "f = (p, st)" "p \<in> set ps" "st \<in> set (pod_ContainerStatuses p)"
    "trimContainerIDPrefix (st_ContainerID st) \<noteq> []"
    using f by (auto simp: live_statuses_def)
  moreover from this have "c_ID c = trimContainerIDPrefix (st_ContainerID st)" using d by (simp add: describes_def)
  ultimately show "full_id c" using ok unfolding pod_ok_def full_id_def by metis
qed

lemma pod_loop_full:
  assumes "\<forall>p \<in> set ps. pod_ok p"
  shows "\<forall>c \<in> set (fst (pod_loop cli ps w)). full_id c"
proof
  fix c assume "c \<in> set (fst (pod_loop cli ps w))"
  then obtain f where "f \<in> set (live_statuses ps)" and "describes f c"
    using pod_loop_describes [of ps cli w] by (metis in_set_conv_nth list_all2_conv_all_nth)
  with assms show "full_id c" by (rule live_full)
qed

lemma kube_List_ok:
  assumes "kube_inv s"
  shows "\<exists>cs s'. kube_List s = Inr (cs, s') \<and> kube_inv s' \<and> (\<forall>c \<in> set cs. full_id c)"
proof -
  obtain k w where s: "s = (k, w)" by (cases s)
  have k: "cluster_ok (kc_cli k)" "full_cache (kc_containers k)" using assms by (simp_all add: kube_inv_def s)
  obtain r w1 where pods: "ka_Pods (kc_cli k) w = (r, w1)" by (cases "ka_Pods (kc_cli k) w")
  show ?thesis
  proof (cases r)
    case (Inl e)
    with pods k show ?thesis by (simp add: kube_List_def s kube_inv_def)
  next
    case (Inr ps)
    have "\<forall>p \<in> set ps. pod_ok p" using k(1) pods Inr by (auto dest: cluster_pods)
    then have full: "\<forall>c \<in> set (fst (pod_loop (kc_cli k) ps w1)). full_id c" by (rule pod_loop_full)
    then have "full_cache (cs_Set (fst (pod_loop (kc_cli k) ps w1)) (kc_containers k))"
      using k(2) by (intro cache.all_held_put_all)
    with full pods Inr k(1) show ?thesis
      by (simp add: kube_List_def s kube_inv_def case_prod_unfold Let_def)
  qed
qed

lemma kube_lookup_ok:
  assumes "kube_inv s"
  shows "\<exists>c s'. kube_lookup cid s = Inr (c, s') \<and> kube_inv s' \<and> info_ok c"
proof -
  obtain k w where s: "s = (k, w)" by (cases s)
  have k: "cluster_ok (kc_cli k)" "full_cache (kc_containers k)" using assms by (simp_all add: kube_inv_def s)
  obtain c cache where f: "cs_Find cid (kc_containers k) = (c, cache)" by (cases "cs_Find cid (kc_containers k)")
  note cache = full_cache_Find [OF k(2) f]
  have full: "c_ID c \<noteq> [] \<Longrightarrow> full_id c" using cache by auto
  obtain sh w1 where "kube_getShell (k\<lparr>kc_containers := cache\<rparr>) cid w = (sh, w1)"
    by (cases "kube_getShell (k\<lparr>kc_containers := cache\<rparr>) cid w")
  then show ?thesis using f k(1) cache full
    by (cases "c_ID c = []"; cases "c_Shell c = []")
      (simp_all add: kube_lookup_def s kube_inv_def Let_def full_cache_SetShell full_id_info)
qed

lemma kube_GetInfo_ok:
  assumes "kube_inv s"
  shows "\<exists>c s'. kube_GetInfo cid s = Inr (c, s') \<and> kube_inv s' \<and> info_ok c"
proof -
  obtain k w where s: "s = (k, w)" by (cases s)
  obtain n cache where l: "cs_Len (kc_containers k) = (n, cache)" by (cases "cs_Len (kc_containers k)")
  let ?s = "(k\<lparr>kc_containers := cache\<rparr>, w)"
  have inv: "kube_inv ?s"
    using assms full_cache_Len [of "kc_containers k"] l by (simp add: kube_inv_def s)
  show ?thesis
  proof (cases "n = 0")
    case True
    obtain xs s' where "kube_List ?s = Inr (xs, s')" and "kube_inv s'" using kube_List_ok [OF inv] by auto
    then show ?thesis using True l kube_lookup_ok [of s' cid] by (simp add: kube_GetInfo_def s)
  next
    case False
    then show ?thesis using l kube_lookup_ok [OF inv, of cid] by (simp add: kube_GetInfo_def s)
  qed
qed

lemma kube_Exec_ok: "kube_inv s \<Longrightarrow> \<exists>r s'. kube_Exec c s = Inr (r, s') \<and> kube_inv s'"
  by (cases s) (auto simp: kube_Exec_def kube_inv_def split: prod.split sum.split)

lemma kube_Logs_ok:
  assumes "kube_inv s"
  shows "\<exists>r s'. kube_Logs opts s = Inr (r, s') \<and> kube_inv s'"
proof -
  obtain c k w where "kube_GetInfo (l_ID opts) s = Inr (c, k, w)" and "kube_inv (k, w)"
    using kube_GetInfo_ok [OF assms, of "l_ID opts"] by auto
  then show ?thesis
    by (auto simp: kube_Logs_def kube_inv_def split: prod.split sum.split)
qed

interpretation kube: cli_backend kube_GetInfo kube_List kube_Start kube_Stop kube_Restart
  kube_Exec kube_Logs kube_inv
proof unfold_locales
  fix s :: "'w kube_state" and cid
  assume inv: "kube_inv s"
  show "\<exists>cs s'. kube_List s = Inr (cs, s') \<and> kube_inv s' \<and> (\<forall>c \<in> set cs. info_ok c)"
    using kube_List_ok [OF inv] full_id_info by blast
  show "\<exists>c s'. kube_GetInfo cid s = Inr (c, s') \<and> kube_inv s' \<and> info_ok c" by (rule kube_GetInfo_ok [OF inv])
  show "\<exists>r s'. kube_Exec c s = Inr (r, s') \<and> kube_inv s'" for c by (rule kube_Exec_ok [OF inv])
  show "\<exists>r s'. kube_Logs opts s = Inr (r, s') \<and> kube_inv s'" for opts by (rule kube_Logs_ok [OF inv])
qed (simp_all add: kube_Start_def kube_Stop_def kube_Restart_def)

section \<open>Properties\<close>

text \<open>
  C26. A listing answers one container for every container status that has an ID, pod by pod in
  the order of the cluster's answer; it carries the runtime's ID without its prefix, the pod and
  namespace that \<open>Exec\<close> and \<open>Logs\<close> need to reach it, and the image and command of the pod's spec
  of the same name.
\<close>

theorem kube_listing_describes:
  assumes "ka_Pods (kc_cli k) w = (Inr ps, w1)"
  shows "\<exists>cs s'. kube_List (k, w) = Inr (cs, s') \<and> list_all2 describes (live_statuses ps) cs \<and>
    fst (cs_List (kc_containers (fst s'))) = cs"
  using assms pod_loop_describes [of ps "kc_cli k" w1]
  by (auto simp: kube_List_def case_prod_unfold Let_def cs_List_def cs_Set_def cs_init_def)

text \<open>A cluster for the examples: one pod with two containers, one of them not yet started.\<close>

definition sample_pod :: pod where
  "sample_pod =
     \<lparr>pod_Name = ''web-0'', pod_Namespace = ''default'',
      pod_Containers = [\<lparr>sp_Name = ''app'', sp_Image = ''nginx'', sp_Command = [''nginx'', ''-g'']\<rparr>,
        \<lparr>sp_Name = ''side'', sp_Image = ''busybox'', sp_Command = []\<rparr>],
      pod_Phase = ''Running'', pod_PodIP = ''10.1.0.3'', pod_HostIP = ''10.0.0.1'',
      pod_ContainerStatuses =
        [\<lparr>st_Name = ''app'', st_ContainerID = ''docker://c0ffee000000aa'', st_Ready = True, st_RestartCount = 0, st_Running = None\<rparr>,
         \<lparr>st_Name = ''side'', st_ContainerID = [], st_Ready = False, st_RestartCount = 0, st_Running = None\<rparr>]\<rparr>"

definition sample_cluster :: "nat kube_api" where
  "sample_cluster =
     \<lparr>ka_Now = (\<lambda>w. (0, w)), ka_Namespaces = (\<lambda>w. (Inr [''default''], w)), ka_Pods = (\<lambda>w. (Inr [sample_pod], w)),
      ka_Pod = (\<lambda>ns n w. (Inr sample_pod, w)), ka_NewSPDYExecutor = (\<lambda>rq w. (Inr 1, w)),
      ka_Stream = (\<lambda>ex w. (None, w)), ka_RequestStream = (\<lambda>rq w. ((Some 7, None), w))\<rparr>"

definition sample_kube :: "nat kube_cli" where
  "sample_kube = \<lparr>kc_cli = sample_cluster, kc_containers = zero_containers\<rparr>"

lemma sample_pods: "ka_Pods (kc_cli sample_kube) w = (Inr [sample_pod], w)"
  by (simp add: sample_kube_def sample_cluster_def)

theorem kube_listing_describes_witness:
  "\<exists>c s'. kube_List (sample_kube, 0) = Inr ([c], s') \<and> c_ID c = ''c0ffee000000aa'' \<and>
     c_PodName c = ''web-0'' \<and> c_Image c = ''nginx'' \<and> c_Command c = ''nginx -g''"
proof -
  obtain cs s' where "kube_List (sample_kube, 0) = Inr (cs, s')"
    and "list_all2 describes (live_statuses [sample_pod]) cs"
    using kube_listing_describes [OF sample_pods] by blast
  moreover have "live_statuses [sample_pod] = [(sample_pod, hd (pod_ContainerStatuses sample_pod))]"
    by (simp add: live_statuses_def sample_pod_def trimContainerIDPrefix_def trim_prefix_def)
  ultimately show ?thesis
    by (auto simp: list_all2_Cons1 describes_def sample_pod_def trimContainerIDPrefix_def trim_prefix_def
        spec_named_def)
qed

text \<open>
  The context of a log request is cancelled when \<open>Logs\<close> returns: every stream the caller ever
  gets belongs to a context that is done already, so the log terminal of this backend ends before
  it has begun.
\<close>

lemma kube_logs_already_cancelled:
  assumes "kube_Logs opts s = Inr ((Some l, e), s')"
  shows "kl_ctx_done l"
proof -
  obtain c k w where g: "kube_GetInfo (l_ID opts) s = Inr (c, k, w)" using assms by (auto simp: kube_Logs_def)
  obtain r w1 where p: "ka_Pod (kc_cli k) (c_Namespace c) (c_PodName c) w = (r, w1)"
    by (cases "ka_Pod (kc_cli k) (c_Namespace c) (c_PodName c) w")
  obtain b err w2 where q: "ka_RequestStream (kc_cli k) (log_request c opts) w1 = ((b, err), w2)"
    by (cases "ka_RequestStream (kc_cli k) (log_request c opts) w1") auto
  show ?thesis
    using assms g p q by (auto simp: kube_Logs_def cancel_ctx_def split: sum.splits if_splits)
qed

lemma kube_logs_already_cancelled_example:
  "\<exists>l s'. kube_Logs \<lparr>l_ID = ''c0ffee000000'', l_Follow = True, l_Tail = ''10''\<rparr> (sample_kube, 0) = Inr ((Some l, None), s') \<and>
     kl_body l = 7 \<and> kl_ctx_done l"
proof -
  let ?opts = "\<lparr>l_ID = ''c0ffee000000'', l_Follow = True, l_Tail = ''10''\<rparr>"
  let ?r = "kube_Logs ?opts (sample_kube, 0)"
  have "case ?r of Inr ((Some l, None), _) \<Rightarrow> kl_body l = 7 | _ \<Rightarrow> False"
    by code_simp
  then have run: "\<exists>l s'. ?r = Inr ((Some l, None), s') \<and> kl_body l = 7"
    by (auto split: sum.splits prod.splits option.splits)
  then show ?thesis using kube_logs_already_cancelled [of ?opts "(sample_kube, 0)"] by blast
qed

text \<open>
  Resizing a kubernetes terminal never fails and never panics: an open queue gets the size
  three times, each dimension cut to sixteen bits, and after \<open>Exit\<close> nothing is sent.
\<close>

lemma kube_resize_total:
  "kube_ResizeTerminal width height enj =
     (None, enj\<lparr>kt_sq := (if sq_closed (kt_sq enj) then kt_sq enj
        else (kt_sq enj)\<lparr>sq_pending := sq_pending (kt_sq enj) @
          replicate 3 \<lparr>ts_Width = word_of_int (width mod 2 ^ 16), ts_Height = word_of_int (height mod 2 ^ 16)\<rparr>\<rparr>)\<rparr>)"
proof -
  have wrap: "(word_of_int (x mod 65536) :: 16 word) = word_of_int x" for x
    by (rule word_uint_eqI) (simp add: uint_word_of_int take_bit_eq_mod)
  show ?thesis
    by (simp add: kube_ResizeTerminal_def sq_resize_def sq_send_def numeral_3_eq_3 wrap)
qed

end
