(* ===== verification/GrpcCli.thy ===== *)
theory GrpcCli
  imports Backend
begin

text \<open>
  The proxy-mode backend: container/grpc/grpc.go, grpc_tty.go and dialer.go.  It talks to other
  instances of the program over the protocol of theory \<open>Pb\<close>; a connection is the parameter
  \<open>rpc_conn\<close> of that theory.  The clients are a Go map from addresses to connections, an
  association list here, whose order stands for the unspecified order of \<open>range\<close>.
\<close>

section \<open>Dialing through a proxy\<close>

record url =
  u_Scheme :: string
  u_Host :: string
  u_User :: "(string \<times> string option) option" \<comment> \<open>name and password\<close>

text \<open>An attempt to dial: its result and the time it took.\<close>

type_synonym 'c dial_result = "(error + 'c) \<times> duration"

definition pingTimeout :: duration where "pingTimeout = second"
definition testDialAddr :: string where "testDialAddr = ''ipinfo.io:80''"

definition timeout_error :: "string \<Rightarrow> string \<Rightarrow> error" where
  "timeout_error addr timeout = Errorf (''dial '' @ addr @ '' timeout ('' @ timeout @ '')'')"

text \<open>
  \<open>dialWithTimeout\<close>: the goroutine that dials sends only a connection; on an error it logs and
  ends, and the caller waits for the timer.  The result comes with the time waited; \<open>show\<close> is
  the duration's text.
\<close>

definition dialWithTimeout :: "(duration \<Rightarrow> string) \<Rightarrow> (string \<Rightarrow> 'c dial_result) \<Rightarrow> string \<Rightarrow> duration \<Rightarrow> (error + 'c) \<times> duration" where
  "dialWithTimeout show dial addr timeout =
     (case dial addr of
        (Inr c, elapsed) \<Rightarrow>
          if elapsed < timeout then (Inr c, elapsed) else (Inl (timeout_error addr (show timeout)), timeout)
      | (Inl e, elapsed) \<Rightarrow> (Inl (timeout_error addr (show timeout)), timeout))"

text \<open>
  \<open>dialer.Dial\<close>: the socks dialer when there is one, else the http one.  \<open>newDialOption\<close> makes the
  dialer by the scheme of the address, tries it once on a fixed address, and returns the
  function that will dial the servers.  Parsing the address and the two dialer constructors are
  parameters.
\<close>

definition dialer_Dial :: "(string \<Rightarrow> 'c dial_result) option \<Rightarrow> (string \<Rightarrow> 'c dial_result) \<Rightarrow> string \<Rightarrow> 'c dial_result" where
  "dialer_Dial socksD proxyD = (case socksD of Some d \<Rightarrow> d | None \<Rightarrow> proxyD)"

definition socks_auth :: "url \<Rightarrow> string \<times> string" where
  "socks_auth u =
     (case u_User u of
        None \<Rightarrow> ([], [])
      | Some (name, password) \<Rightarrow> (name, case password of Some p \<Rightarrow> p | None \<Rightarrow> []))"

definition newDialOption ::
    "(string \<Rightarrow> error + url) \<Rightarrow> (string \<Rightarrow> string \<times> string \<Rightarrow> error + (string \<Rightarrow> 'c dial_result)) \<Rightarrow>
     (string \<Rightarrow> string \<Rightarrow> 'c dial_result) \<Rightarrow> (duration \<Rightarrow> string) \<Rightarrow> string \<Rightarrow>
     error + (string \<Rightarrow> duration \<Rightarrow> (error + 'c) \<times> duration)" where
  "newDialOption Parse SOCKS5 NewConnectDialToProxy show proxyStr =
     (case Parse proxyStr of
        Inl err \<Rightarrow> Inl err
      | Inr u \<Rightarrow>
          if u_Scheme u = ''socks5'' then
            (case SOCKS5 (u_Host u) (socks_auth u) of
               Inl err \<Rightarrow> Inl err
             | Inr socksDialer \<Rightarrow>
                 (case fst (dialWithTimeout show (dialer_Dial (Some socksDialer) socksDialer) testDialAddr pingTimeout) of
                    Inl err \<Rightarrow> Inl err
                  | Inr _ \<Rightarrow> Inr (dialWithTimeout show (dialer_Dial (Some socksDialer) socksDialer))))
          else if u_Scheme u = ''http'' \<or> u_Scheme u = ''https'' then
            (let httpDialer = NewConnectDialToProxy proxyStr in
             case fst (dialWithTimeout show (dialer_Dial None httpDialer) testDialAddr pingTimeout) of
               Inl err \<Rightarrow> Inl err
             | Inr _ \<Rightarrow> Inr (dialWithTimeout show (dialer_Dial None httpDialer)))
          else Inl (Errorf (''unsupport scheme '' @ u_Scheme u)))"

lemma dialWithTimeout_bound: "0 \<le> snd (dial addr) \<Longrightarrow> 0 \<le> timeout \<Longrightarrow>
    0 \<le> snd (dialWithTimeout show dial addr timeout) \<and> snd (dialWithTimeout show dial addr timeout) \<le> timeout"
  by (auto simp: dialWithTimeout_def split: prod.splits sum.splits)

section \<open>The client\<close>

record 'w remote =
  rm_addr :: string
  rm_auth :: string
  rm_conn :: "'w rpc_conn"

definition remote_close :: "'w remote \<Rightarrow> 'w \<Rightarrow> error option \<times> 'w" where
  "remote_close g w = rc_Close (rm_conn g) w"

definition remote_alive :: "'w remote \<Rightarrow> 'w \<Rightarrow> bool \<times> 'w" where
  "remote_alive g w =
     (case client_Ping (rm_conn g) \<lparr>em_Auth = rm_auth g\<rparr> w of
        (Inl e, w) \<Rightarrow> (False, w)
      | (Inr pong, w) \<Rightarrow> (True, w))"

text \<open>
  \<open>waitForAvaliable\<close>, which nothing calls: \<open>wait\<close> is the connection's \<open>WaitForStateChange\<close>, which returns
  when the state is no longer the given one.
\<close>

definition remote_waitForAvaliable :: "('w rpc_conn \<Rightarrow> string \<Rightarrow> 'w \<Rightarrow> bool \<times> 'w) \<Rightarrow> 'w remote \<Rightarrow> 'w \<Rightarrow> 'w" where
  "remote_waitForAvaliable wait g w = snd (wait (rm_conn g) ''TRANSIENT_FAILURE'' w)"

definition remote_state :: "'w remote \<Rightarrow> 'w \<Rightarrow> string" where
  "remote_state g w = rc_GetState (rm_conn g) w"

record 'w grpc_cli =
  gr_servers :: "string list"
  gr_auth :: string
  gr_clients :: "(string, 'w remote) gomap"
  gr_containers :: containers

type_synonym 'w grpc_state = "'w grpc_cli \<times> 'w"

record grpc_config =
  Servers :: "string list"
  Auth :: string
  Proxy :: string

text \<open>The loop that dials the servers; a server that cannot be dialed is skipped.\<close>

fun dial_loop ::
    "(string \<Rightarrow> 'w \<Rightarrow> (error + 'w rpc_conn) \<times> 'w) \<Rightarrow> string \<Rightarrow> string list \<Rightarrow> (string, 'w remote) gomap \<Rightarrow> 'w \<Rightarrow>
     (string, 'w remote) gomap \<times> 'w" where
  "dial_loop Dial auth [] clients w = (clients, w)"
| "dial_loop Dial auth (addr # addrs) clients w =
     (case Dial addr w of
        (Inl e, w) \<Rightarrow> dial_loop Dial auth addrs clients w
      | (Inr conn, w) \<Rightarrow>
          dial_loop Dial auth addrs
            (AList.update addr \<lparr>rm_addr = addr, rm_auth = auth, rm_conn = conn\<rparr> clients) w)"

text \<open>The loop that collects the addresses that do not answer the ping.\<close>

fun dead_loop :: "(string, 'w remote) gomap \<Rightarrow> 'w \<Rightarrow> string list \<times> 'w" where
  "dead_loop [] w = ([], w)"
| "dead_loop ((addr, cli) # m) w =
     (let (up, w) = remote_alive cli w; (dead, w) = dead_loop m w
      in (if up then dead else addr # dead, w))"

text \<open>
  \<open>NewCli\<close>.  \<open>dial_option\<close> is \<open>newDialOption\<close> on the configured proxy; \<open>Dial\<close> is \<open>grpc.Dial\<close>, given
  the dialer when there is one.
\<close>

definition grpc_NewCli ::
    "(string \<Rightarrow> error + 'd) \<Rightarrow> ('d option \<Rightarrow> string \<Rightarrow> 'w \<Rightarrow> (error + 'w rpc_conn) \<times> 'w) \<Rightarrow> grpc_config \<Rightarrow> 'w \<Rightarrow>
     ((error + 'w grpc_cli) \<times> 'w) outcome" where
  "grpc_NewCli dial_option Dial conf w =
     (case (if Proxy conf \<noteq> [] then map_sum id Some (dial_option (Proxy conf)) else Inr None) of
        Inl err \<Rightarrow> Inr (Inl (Errorf (''create proxy dialer error: '' @ error_text err)), w)
      | Inr opts \<Rightarrow>
          (let (clients, w) = dial_loop (Dial opts) (Auth conf) (Servers conf) [] w;
               (delLists, w) = dead_loop clients w
           in Inr (Inr \<lparr>gr_servers = Servers conf, gr_auth = Auth conf,
                        gr_clients = fold AList.delete delLists clients,
                        gr_containers = zero_containers\<rparr>, w)))"

text \<open>
  \<open>List\<close>: the inner loop over one server's answer stamps the server's address on every container
  and keeps those whose ID has not been seen; the outer loop visits the servers.
\<close>

fun merge_loop :: "string \<Rightarrow> pb_container option list \<Rightarrow> string list \<Rightarrow> container list \<Rightarrow> (string list \<times> container list) outcome" where
  "merge_loop addr [] seen acc = Inr (seen, acc)"
| "merge_loop addr (None # ps) seen acc = Inl NilDeref"
| "merge_loop addr (Some p # ps) seen acc =
     (let c = p\<lparr>pc_LocServer := addr\<rparr> in
      if pc_Id c \<in> set seen then merge_loop addr ps seen acc
      else obind (ConvertPbContainer (Some c)) (\<lambda>d. merge_loop addr ps (pc_Id c # seen) (acc @ [d])))"

fun servers_loop :: "string \<Rightarrow> (string, 'w remote) gomap \<Rightarrow> string list \<Rightarrow> container list \<Rightarrow> 'w \<Rightarrow> (container list \<times> 'w) outcome" where
  "servers_loop auth [] seen acc w = Inr (acc, w)"
| "servers_loop auth ((addr, cli) # m) seen acc w =
     (let (up, w) = remote_alive cli w in
      if \<not> up then servers_loop auth m seen acc w
      else
        (case client_List (rm_conn cli) \<lparr>em_Auth = auth\<rparr> w of
           (Inl e, w) \<Rightarrow> servers_loop auth m seen acc w
         | (Inr cs, w) \<Rightarrow>
             obind (merge_loop addr (pcs_Cs cs) seen acc) (\<lambda>(seen, acc). servers_loop auth m seen acc w)))"

definition grpc_List :: "'w grpc_state \<Rightarrow> (container list \<times> 'w grpc_state) outcome" where
  "grpc_List s =
     (let (g, w) = s in
      obind (servers_loop (gr_auth g) (gr_clients g) [] [] w) (\<lambda>(xs, w).
        Inr (xs, g\<lparr>gr_containers := cs_Set xs (gr_containers g)\<rparr>, w)))"

definition grpc_lookup :: "string \<Rightarrow> 'w grpc_state \<Rightarrow> (container \<times> 'w grpc_state) outcome" where
  "grpc_lookup cid s =
     (let (g, w) = s; (c, cache) = cs_Find cid (gr_containers g); g = g\<lparr>gr_containers := cache\<rparr> in
      if c_ID c = [] then Inr (zero_container, g, w)
      else if c_Shell c \<noteq> [] then Inr (c, g, w)
      else
        (case map_of (gr_clients g) (c_LocServer c) of
           None \<Rightarrow> Inr (zero_container, g, w)
         | Some remoteClient \<Rightarrow>
             (case client_GetInfo (rm_conn remoteClient) \<lparr>ci_Id = cid, ci_Auth = gr_auth g\<rparr> w of
                (Inl e, w) \<Rightarrow> Inr (zero_container, g, w)
              | (Inr p, w) \<Rightarrow>
                  (let g = g\<lparr>gr_containers := cs_SetShell cid (Container_GetShell (Some p)) (gr_containers g)\<rparr>
                   in obind (ConvertPbContainer (Some p)) (\<lambda>d. Inr (d, g, w))))))"

definition grpc_GetInfo :: "string \<Rightarrow> 'w grpc_state \<Rightarrow> (container \<times> 'w grpc_state) outcome" where
  "grpc_GetInfo cid s =
     (let (g, w) = s; (n, cache) = cs_Len (gr_containers g); g = g\<lparr>gr_containers := cache\<rparr> in
      if n = 0 then obind (grpc_List (g, w)) (\<lambda>(xs, s). grpc_lookup cid s)
      else grpc_lookup cid (g, w))"

definition location_error :: "string \<Rightarrow> error" where
  "location_error addr = Errorf (''location server ['' @ addr @ ''] not found'')"

text \<open>\<open>containerAction\<close>: the pointer \<open>err1\<close> is what the stub returned; its text becomes a format string.\<close>

definition action_result :: "(error + pb_err) \<times> 'w \<Rightarrow> error option \<times> 'w" where
  "action_result r =
     (case r of
        (Inl err2, w) \<Rightarrow> (Some err2, w)
      | (Inr err1, w) \<Rightarrow> (Some (Errorf (fmt_none (er_Err err1))), w))"

definition containerAction :: "string \<Rightarrow> string \<Rightarrow> 'w grpc_state \<Rightarrow> (error option \<times> 'w grpc_state) outcome" where
  "containerAction action cid s =
     (let (g, w) = s; (info, cache) = cs_Find cid (gr_containers g); g = g\<lparr>gr_containers := cache\<rparr> in
      if c_ID info = [] then Inr (Some (Errorf ''container not found''), g, w)
      else
        (case map_of (gr_clients g) (c_LocServer info) of
           None \<Rightarrow> Inr (Some (location_error (c_LocServer info)), g, w)
         | Some cli \<Rightarrow>
             (let pbCID = \<lparr>ci_Id = cid, ci_Auth = gr_auth g\<rparr> in
              if action = ''start'' then
                (let (e, w) = action_result (client_Start (rm_conn cli) pbCID w) in Inr (e, g, w))
              else if action = ''stop'' then
                (let (e, w) = action_result (client_Stop (rm_conn cli) pbCID w) in Inr (e, g, w))
              else if action = ''restart'' then
                (let (e, w) = action_result (client_Restart (rm_conn cli) pbCID w) in Inr (e, g, w))
              else Inr (Some (Errorf (''unknown action: '' @ action)), g, w))))"

definition grpc_Start :: "string \<Rightarrow> 'w grpc_state \<Rightarrow> (error option \<times> 'w grpc_state) outcome" where
  "grpc_Start = containerAction ''start''"
definition grpc_Stop :: "string \<Rightarrow> 'w grpc_state \<Rightarrow> (error option \<times> 'w grpc_state) outcome" where
  "grpc_Stop = containerAction ''stop''"
definition grpc_Restart :: "string \<Rightarrow> 'w grpc_state \<Rightarrow> (error option \<times> 'w grpc_state) outcome" where
  "grpc_Restart = containerAction ''restart''"

section \<open>The terminal of a remote exec\<close>

record 'w exec_wrapper =
  ew_conn :: "'w rpc_conn"
  ew_exec :: stream_id
  ew_active :: active_chan

definition newExecWrapper :: "'w rpc_conn \<Rightarrow> stream_id \<Rightarrow> 'w exec_wrapper" where
  "newExecWrapper conn x = \<lparr>ew_conn = conn, ew_exec = x, ew_active = new_active\<rparr>"

text \<open>\<open>Read\<close> copies what fits and returns the length of what was received.\<close>

definition wrapper_read :: "('w exec_wrapper \<times> 'w) reader" where
  "wrapper_read p s =
     (let (enj, w) = s in
      obind (touch_active (ew_active enj)) (\<lambda>ch.
        let enj = enj\<lparr>ew_active := ch\<rparr> in
        case exec_client_Recv (ew_conn enj) (ew_exec enj) w of
          (Inl err, w) \<Rightarrow> Inr (0, p, Some err, enj, w)
        | (Inr execOpts, w) \<Rightarrow>
            (case eo_Cmd execOpts of
               None \<Rightarrow> Inl NilDeref
             | Some cmd \<Rightarrow> Inr (length (io_Out cmd), snd (go_copy p (io_Out cmd)), None, enj, w))))"

definition input_message :: "bytes \<Rightarrow> pb_exec_options" where
  "input_message p = new_exec_options\<lparr>eo_Cmd := Some (new_io\<lparr>io_In := p\<rparr>)\<rparr>"

definition wrapper_write :: "bytes \<Rightarrow> 'w exec_wrapper \<Rightarrow> 'w \<Rightarrow> (nat \<times> error option) \<times> 'w" where
  "wrapper_write p enj w =
     (let (err, w) = exec_client_Send (ew_conn enj) (ew_exec enj) (input_message p) w in ((length p, err), w))"

definition wrapper_Exit :: "'w exec_wrapper \<Rightarrow> 'w \<Rightarrow> (error option \<times> 'w exec_wrapper \<times> 'w) outcome" where
  "wrapper_Exit enj w =
     (let w = snd (wrapper_write [CHR 0x03] enj w); w = snd (wrapper_write [CHR 0x04] enj w) in
      obind (close_active (ew_active enj)) (\<lambda>ch.
        let (err, w) = rc_CloseSend (ew_conn enj) (ew_exec enj) w in Inr (err, enj\<lparr>ew_active := ch\<rparr>, w)))"

definition wrapper_ActiveChan :: "'w exec_wrapper \<times> 'w \<Rightarrow> active_chan" where
  "wrapper_ActiveChan s = ew_active (fst s)"

lemma wrapper_read_active:
  assumes "wrapper_read p (enj, w) = Inr (n, p', e, enj', w')"
  shows "touch_active (ew_active enj) = Inr (ew_active enj')"
proof -
  obtain r w1 where "exec_client_Recv (ew_conn enj) (ew_exec enj) w = (r, w1)" by fastforce
  then show ?thesis
    using assms by (cases r) (auto simp: wrapper_read_def Let_def split: option.splits)
qed

lemma wrapper_exit_active: "wrapper_Exit enj w = Inr (e, enj', w') \<Longrightarrow> close_active (ew_active enj) = Inr (ew_active enj')"
  by (auto simp: wrapper_Exit_def Let_def case_prod_unfold)

interpretation wrapper_terminal: terminal wrapper_read "\<lambda>(enj, w). wrapper_Exit enj w" wrapper_ActiveChan
  by unfold_locales (auto simp: wrapper_ActiveChan_def dest: wrapper_read_active wrapper_exit_active)

definition wrapper_WindowTitleVariables :: "'w exec_wrapper \<Rightarrow> (string, string) gomap" where
  "wrapper_WindowTitleVariables enj = []"

definition wrapper_resize :: "'w exec_wrapper \<Rightarrow> int \<Rightarrow> int \<Rightarrow> 'w \<Rightarrow> error option \<times> 'w" where
  "wrapper_resize enj width height w =
     exec_client_Send (ew_conn enj) (ew_exec enj)
       (new_exec_options\<lparr>eo_Ws := Some \<lparr>ws_Height = word_of_int height, ws_Width = word_of_int width\<rparr>\<rparr>) w"

definition wrapper_ResizeTerminal :: "(duration \<Rightarrow> 'w \<Rightarrow> 'w) \<Rightarrow> 'w exec_wrapper \<Rightarrow> int \<Rightarrow> int \<Rightarrow> 'w \<Rightarrow> error option \<times> 'w" where
  "wrapper_ResizeTerminal sleep enj width height w =
     resize_loop 3 (wrapper_resize enj width height) (sleep (50 * millisecond)) None w"

section \<open>Exec, Logs and Close\<close>

definition not_ready_error :: "string \<Rightarrow> string \<Rightarrow> error" where
  "not_ready_error addr st = Errorf (''remote server '' @ addr @ '' is not ready: '' @ st)"

definition grpc_Exec :: "container \<Rightarrow> 'w grpc_state \<Rightarrow> ((error + 'w exec_wrapper) \<times> 'w grpc_state) outcome" where
  "grpc_Exec c s =
     (let (g, w) = s in
      if c_ID c = [] then Inr (Inl (Errorf ''container not found''), g, w)
      else
        (case map_of (gr_clients g) (c_LocServer c) of
           None \<Rightarrow> Inr (Inl (location_error (c_LocServer c)), g, w)
         | Some cli \<Rightarrow>
             (let (up, w) = remote_alive cli w in
              if \<not> up then Inr (Inl (not_ready_error (c_LocServer c) (remote_state cli w)), g, w)
              else
                (case client_Exec (rm_conn cli) w of
                   (Inl err, w) \<Rightarrow> Inr (Inl err, g, w)
                 | (Inr x, w) \<Rightarrow>
                     (case exec_client_Send (rm_conn cli) x
                              (new_exec_options\<lparr>eo_C := Some (ConvertTpContainer c), eo_Auth := gr_auth g\<rparr>) w of
                        (Some err, w) \<Rightarrow> Inr (Inl err, g, w)
                      | (None, w) \<Rightarrow> Inr (Inr (newExecWrapper (rm_conn cli) x), g, w))))))"

text \<open>The stream that a successful \<open>Logs\<close> pumps into the pipe whose reading end it returns.\<close>

record 'w log_pipe =
  lp_conn :: "'w rpc_conn"
  lp_stream :: stream_id

definition grpc_Logs :: "log_options \<Rightarrow> 'w grpc_state \<Rightarrow> (('w log_pipe option \<times> error option) \<times> 'w grpc_state) outcome" where
  "grpc_Logs opts s =
     (let (g, w) = s; (info, cache) = cs_Find (l_ID opts) (gr_containers g); g = g\<lparr>gr_containers := cache\<rparr> in
      if c_ID info = [] then Inr ((None, Some (Errorf ''container not found'')), g, w)
      else
        (case map_of (gr_clients g) (c_LocServer info) of
           None \<Rightarrow> Inr ((None, Some (location_error (c_LocServer info))), g, w)
         | Some cli \<Rightarrow>
             (let (up, w) = remote_alive cli w in
              if \<not> up then Inr ((None, Some (not_ready_error (c_LocServer info) (remote_state cli w))), g, w)
              else
                (case client_Logs (rm_conn cli)
                        \<lparr>lo_C = Some \<lparr>ci_Id = c_ID info, ci_Auth = gr_auth g\<rparr>, lo_Follow = l_Follow opts, lo_Tail = l_Tail opts\<rparr> w of
                   (Inl err, w) \<Rightarrow> Inr ((None, Some err), g, w)
                 | (Inr x, w) \<Rightarrow> Inr ((Some \<lparr>lp_conn = rm_conn cli, lp_stream = x\<rparr>, None), g, w)))))"

text \<open>
  The goroutine of \<open>Logs\<close>: receives, writes to the pipe, and ends at the first error of either.
  The first list is what \<open>Recv\<close> returns one after the other, the second what \<open>Write\<close> does; the
  result is the messages delivered.
\<close>

fun logs_pump :: "(error + pb_io) list \<Rightarrow> error option list \<Rightarrow> bytes list" where
  "logs_pump (Inr i # rs) (None # ws) = io_In i # logs_pump rs ws"
| "logs_pump _ _ = []"

fun close_loop :: "(string, 'w remote) gomap \<Rightarrow> 'w \<Rightarrow> 'w" where
  "close_loop [] w = w"
| "close_loop ((addr, cli) # m) w = close_loop m (snd (remote_close cli w))"

definition grpc_Close :: "'w grpc_state \<Rightarrow> (error option \<times> 'w grpc_state) outcome" where
  "grpc_Close s = (let (g, w) = s in Inr (None, g, close_loop (gr_clients g) w))"

section \<open>The backend's invariant\<close>

text \<open>
  What another instance answers: no nil entries in a list, IDs of at least twelve bytes, and a
  \<open>GetInfo\<close> answer without ID has no shell.
\<close>

definition remote_ok :: "'w rpc_conn \<Rightarrow> bool" where
  "remote_ok conn \<longleftrightarrow>
     (\<forall>i w cs w'. client_List conn i w = (Inr cs, w') \<longrightarrow>
        (\<forall>p \<in> set (pcs_Cs cs). \<exists>x. p = Some x \<and> 12 \<le> length (pc_Id x))) \<and>
     (\<forall>i w p w'. client_GetInfo conn i w = (Inr p, w') \<longrightarrow>
        (if pc_Id p = [] then pc_Shell p = [] else 12 \<le> length (pc_Id p)))"

definition grpc_inv :: "'w grpc_state \<Rightarrow> bool" where
  "grpc_inv s \<longleftrightarrow>
     (\<forall>addr cli. (addr, cli) \<in> set (gr_clients (fst s)) \<longrightarrow> remote_ok (rm_conn cli)) \<and> full_cache (gr_containers (fst s))"

lemma remote_list: "remote_ok conn \<Longrightarrow> client_List conn i w = (Inr cs, w') \<Longrightarrow>
    \<forall>p \<in> set (pcs_Cs cs). \<exists>x. p = Some x \<and> 12 \<le> length (pc_Id x)"
  unfolding remote_ok_def by blast

lemma remote_info: "remote_ok conn \<Longrightarrow> client_GetInfo conn i w = (Inr p, w') \<Longrightarrow>
    (if pc_Id p = [] then pc_Shell p = [] else 12 \<le> length (pc_Id p))"
  unfolding remote_ok_def by blast

text \<open>What the two loops of \<open>List\<close> maintain: the seen IDs are those collected, each once, each stamped.\<close>

definition merge_inv :: "string set \<Rightarrow> string list \<Rightarrow> container list \<Rightarrow> bool" where
  "merge_inv addrs seen acc \<longleftrightarrow>
     set seen = c_ID ` set acc \<and> distinct (map c_ID acc) \<and> (\<forall>c \<in> set acc. full_id c \<and> c_LocServer c \<in> addrs)"

lemma merge_loop_inv:
  assumes "\<forall>p \<in> set ps. \<exists>x. p = Some x \<and> 12 \<le> length (pc_Id x)" and "merge_inv addrs seen acc" and "addr \<in> addrs"
  shows "\<exists>seen' acc'. merge_loop addr ps seen acc = Inr (seen', acc') \<and> merge_inv addrs seen' acc' \<and>
    set seen' = set seen \<union> (pc_Id \<circ> the) ` set ps"
  using assms(1,2)
proof (induction ps arbitrary: seen acc)
  case (Cons p ps)
  obtain x where x: "p = Some x" "12 \<le> length (pc_Id x)" using Cons.prems(1) by auto
  show ?case
  proof (cases "pc_Id x \<in> set seen")
    case True
    then show ?thesis using Cons x by (auto simp: insert_absorb)
  next
    case False
    obtain d where d: "ConvertPbContainer (Some (x\<lparr>pc_LocServer := addr\<rparr>)) = Inr d"
      "c_ID d = pc_Id x" "c_LocServer d = addr"
      by (simp add: ConvertPbContainer_def)
    have "merge_inv addrs (pc_Id x # seen) (acc @ [d])"
      using Cons.prems(2) False d(2,3) x(2) assms(3) by (auto simp: merge_inv_def full_id_def)
    then obtain seen' acc' where "merge_loop addr ps (pc_Id x # seen) (acc @ [d]) = Inr (seen', acc')"
      "merge_inv addrs seen' acc'" "set seen' = insert (pc_Id x) (set seen) \<union> (pc_Id \<circ> the) ` set ps"
      using Cons.IH [of "pc_Id x # seen" "acc @ [d]"] Cons.prems(1) by auto
    with False x(1) d(1) show ?thesis by (auto simp: Let_def)
  qed
qed simp

lemma servers_loop_inv:
  assumes "\<forall>addr cli. (addr, cli) \<in> set m \<longrightarrow> remote_ok (rm_conn cli)" and "merge_inv addrs seen acc" and "fst ` set m \<subseteq> addrs"
  shows "\<exists>acc' w'. servers_loop auth m seen acc w = Inr (acc', w') \<and>
    (\<exists>seen'. merge_inv addrs seen' acc' \<and> set seen \<subseteq> set seen')"
  using assms
proof (induction m arbitrary: seen acc w)
  case Nil
  then show ?case by auto
next
  case (Cons e m)
  obtain addr cli where e: "e = (addr, cli)" by (cases e)
  obtain up w1 where up: "remote_alive cli w = (up, w1)" by (cases "remote_alive cli w")
  have rest: "\<exists>acc' w'. servers_loop auth m seen2 acc2 w2 = Inr (acc', w') \<and>
      (\<exists>seen'. merge_inv addrs seen' acc' \<and> set seen2 \<subseteq> set seen')" if "merge_inv addrs seen2 acc2" for seen2 acc2 w2
    using Cons.IH [OF _ that] Cons.prems(1,3) by auto
  obtain r w2 where l: "client_List (rm_conn cli) \<lparr>em_Auth = auth\<rparr> w1 = (r, w2)"
    by (cases "client_List (rm_conn cli) \<lparr>em_Auth = auth\<rparr> w1")
  show ?case
  proof (cases "up \<and> (\<exists>cs. r = Inr cs)")
    case False
    then have "servers_loop auth (e # m) seen acc w = servers_loop auth m seen acc w1 \<or>
        servers_loop auth (e # m) seen acc w = servers_loop auth m seen acc w2"
      using e up l by (cases r) auto
    then show ?thesis using rest [OF Cons.prems(2)] by (metis (no_types, lifting))
  next
    case True
    then obtain cs where cs: "r = Inr cs" and "up" by auto
    have "remote_ok (rm_conn cli)" using Cons.prems(1) e by auto
    then have "\<forall>p \<in> set (pcs_Cs cs). \<exists>x. p = Some x \<and> 12 \<le> length (pc_Id x)"
      using l cs by (auto dest: remote_list)
    then obtain seen2 acc2 where m: "merge_loop addr (pcs_Cs cs) seen acc = Inr (seen2, acc2)" "merge_inv addrs seen2 acc2"
      "set seen \<subseteq> set seen2"
      using merge_loop_inv [OF _ Cons.prems(2), of "pcs_Cs cs" addr] Cons.prems(3) e by auto
    then show ?thesis using rest [OF m(2), of w2] e up l cs \<open>up\<close> by auto
  qed
qed

lemma grpc_List_ok:
  assumes "grpc_inv (g, w)"
  shows "\<exists>xs w'. grpc_List (g, w) = Inr (xs, g\<lparr>gr_containers := cs_Set xs (gr_containers g)\<rparr>, w') \<and>
    grpc_inv (g\<lparr>gr_containers := cs_Set xs (gr_containers g)\<rparr>, w') \<and>
    (\<exists>seen. merge_inv (fst ` set (gr_clients g)) seen xs)"
proof -
  have g: "\<forall>addr cli. (addr, cli) \<in> set (gr_clients g) \<longrightarrow> remote_ok (rm_conn cli)" "full_cache (gr_containers g)"
    using assms by (simp_all add: grpc_inv_def)
  have "merge_inv (fst ` set (gr_clients g)) [] []" by (simp add: merge_inv_def)
  then obtain xs w' seen where "servers_loop (gr_auth g) (gr_clients g) [] [] w = Inr (xs, w')"
    and m: "merge_inv (fst ` set (gr_clients g)) seen xs"
    using servers_loop_inv [OF g(1) _ subset_refl, of "[]" "[]" "gr_auth g" w] by auto
  moreover have "full_cache (cs_Set xs (gr_containers g))"
    using m g(2) by (intro cache.all_held_put_all) (auto simp: merge_inv_def)
  ultimately show ?thesis using g(1) by (auto simp: grpc_List_def grpc_inv_def)
qed

lemma grpc_lookup_ok:
  assumes "grpc_inv s"
  shows "\<exists>c s'. grpc_lookup cid s = Inr (c, s') \<and> grpc_inv s' \<and> info_ok c"
proof -
  obtain g w where s: "s = (g, w)" by (cases s)
  have g: "\<forall>addr cli. (addr, cli) \<in> set (gr_clients g) \<longrightarrow> remote_ok (rm_conn cli)" "full_cache (gr_containers g)"
    using assms by (simp_all add: grpc_inv_def s)
  obtain c cache where f: "cs_Find cid (gr_containers g) = (c, cache)" by (cases "cs_Find cid (gr_containers g)")
  note cache = full_cache_Find [OF g(2) f]
  have inv: "grpc_inv (g\<lparr>gr_containers := cache\<rparr>, w')" for w' using g(1) cache by (simp add: grpc_inv_def)
  have full: "c_ID c \<noteq> [] \<Longrightarrow> info_ok c" using cache by (auto intro: full_id_info)
  consider "c_ID c = [] \<or> c_Shell c \<noteq> [] \<or> map_of (gr_clients g) (c_LocServer c) = None"
    | cli where "c_ID c \<noteq> []" "c_Shell c = []" "map_of (gr_clients g) (c_LocServer c) = Some cli" by blast
  then show ?thesis
  proof cases
    case 1
    then show ?thesis using f inv full
      by (cases "c_ID c = []"; cases "c_Shell c = []") (simp_all add: grpc_lookup_def s)
  next
    case 2
    have "remote_ok (rm_conn cli)" using g(1) 2(3) by (auto dest: map_of_SomeD)
    obtain r w1 where call: "client_GetInfo (rm_conn cli) \<lparr>ci_Id = cid, ci_Auth = gr_auth g\<rparr> w = (r, w1)"
      by (cases "client_GetInfo (rm_conn cli) \<lparr>ci_Id = cid, ci_Auth = gr_auth g\<rparr> w")
    show ?thesis
    proof (cases r)
      case (Inl e)
      with 2 f call inv show ?thesis by (simp add: grpc_lookup_def s)
    next
      case (Inr p)
      obtain d where d: "ConvertPbContainer (Some p) = Inr d" "c_ID d = pc_Id p" "c_Shell d = pc_Shell p"
        by (simp add: ConvertPbContainer_def)
      have "info_ok d"
        using remote_info [OF \<open>remote_ok (rm_conn cli)\<close>] call Inr d by (fastforce simp: info_ok_def split: if_splits)
      moreover have "grpc_inv (g\<lparr>gr_containers := cs_SetShell cid (pc_Shell p) cache\<rparr>, w1)"
        using g(1) cache by (simp add: grpc_inv_def full_cache_SetShell)
      ultimately show ?thesis using 2 f call Inr d(1)
        by (simp add: grpc_lookup_def s Container_GetShell_def Let_def)
    qed
  qed
qed

lemma grpc_GetInfo_ok:
  assumes "grpc_inv s"
  shows "\<exists>c s'. grpc_GetInfo cid s = Inr (c, s') \<and> grpc_inv s' \<and> info_ok c"
proof -
  obtain g w where s: "s = (g, w)" by (cases s)
  obtain n cache where l: "cs_Len (gr_containers g) = (n, cache)" by (cases "cs_Len (gr_containers g)")
  have inv: "grpc_inv (g\<lparr>gr_containers := cache\<rparr>, w)"
    using assms full_cache_Len [of "gr_containers g"] l by (simp add: grpc_inv_def s)
  show ?thesis
  proof (cases "n = 0")
    case True
    obtain xs s' where "grpc_List (g\<lparr>gr_containers := cache\<rparr>, w) = Inr (xs, s')" and "grpc_inv s'"
      using grpc_List_ok [OF inv] by blast
    then show ?thesis using True l grpc_lookup_ok [of s' cid] by (simp add: grpc_GetInfo_def s)
  next
    case False
    then show ?thesis using l grpc_lookup_ok [OF inv, of cid] by (simp add: grpc_GetInfo_def s)
  qed
qed

lemma grpc_found_inv:
  "grpc_inv (g, w) \<Longrightarrow> cs_Find cid (gr_containers g) = (c, cache) \<Longrightarrow> grpc_inv (g\<lparr>gr_containers := cache\<rparr>, w')"
  using full_cache_Find [of "gr_containers g"] by (simp add: grpc_inv_def)

lemma containerAction_ok: "grpc_inv s \<Longrightarrow> \<exists>e s'. containerAction action cid s = Inr (e, s') \<and> grpc_inv s'"
  by (cases s) (auto simp: containerAction_def Let_def dest: grpc_found_inv split: prod.split option.split)

lemma grpc_Exec_ok: "grpc_inv s \<Longrightarrow> \<exists>r s'. grpc_Exec c s = Inr (r, s') \<and> grpc_inv s'"
  by (cases s) (auto simp: grpc_Exec_def grpc_inv_def split: prod.split sum.split option.split)

lemma grpc_Logs_ok: "grpc_inv s \<Longrightarrow> \<exists>r s'. grpc_Logs opts s = Inr (r, s') \<and> grpc_inv s'"
  by (cases s) (auto simp: grpc_Logs_def Let_def dest: grpc_found_inv split: prod.split sum.split option.split)

interpretation grpc: cli_backend grpc_GetInfo grpc_List grpc_Start grpc_Stop grpc_Restart
  grpc_Exec grpc_Logs grpc_inv
proof unfold_locales
  fix s :: "'w grpc_state" and cid
  assume inv: "grpc_inv s"
  show "\<exists>c s'. grpc_GetInfo cid s = Inr (c, s') \<and> grpc_inv s' \<and> info_ok c" by (rule grpc_GetInfo_ok [OF inv])
  show "\<exists>cs s'. grpc_List s = Inr (cs, s') \<and> grpc_inv s' \<and> (\<forall>c \<in> set cs. info_ok c)"
  proof (cases s)
    case (Pair g w)
    obtain xs s' seen where "grpc_List (g, w) = Inr (xs, s')" "grpc_inv s'"
      and m: "merge_inv (fst ` set (gr_clients g)) seen xs"
      using grpc_List_ok [of g w] inv Pair by blast
    moreover have "\<forall>c \<in> set xs. info_ok c" using m by (auto simp: merge_inv_def full_id_info)
    ultimately show ?thesis using Pair by blast
  qed
  show "\<exists>r s'. grpc_Exec c s = Inr (r, s') \<and> grpc_inv s'" for c by (rule grpc_Exec_ok [OF inv])
  show "\<exists>r s'. grpc_Logs opts s = Inr (r, s') \<and> grpc_inv s'" for opts by (rule grpc_Logs_ok [OF inv])
  show "\<exists>e s'. grpc_Start cid s = Inr (e, s') \<and> grpc_inv s'"
    unfolding grpc_Start_def by (rule containerAction_ok [OF inv])
  show "\<exists>e s'. grpc_Stop cid s = Inr (e, s') \<and> grpc_inv s'"
    unfolding grpc_Stop_def by (rule containerAction_ok [OF inv])
  show "\<exists>e s'. grpc_Restart cid s = Inr (e, s') \<and> grpc_inv s'"
    unfolding grpc_Restart_def by (rule containerAction_ok [OF inv])
qed

section \<open>Properties\<close>


text \<open>A server for the examples: it knows one container, starts it, and its exec stream echoes one message.\<close>

definition remote_container :: pb_container where
  "remote_container = new_container\<lparr>pc_Id := ''c0ffee000000aa'', pc_Name := ''app'', pc_Shell := ''/bin/sh''\<rparr>"

definition sample_remote :: "nat rpc_conn" where
  "sample_remote =
     \<lparr>rc_Invoke = (\<lambda>method i out w.
        (if method = full_method ''Ping'' then Inr (M_pong \<lparr>po_Msg = ''pong''\<rparr>)
         else if method = full_method ''List'' then Inr (M_containers \<lparr>pcs_Cs = [Some (remote_container\<lparr>pc_Shell := []\<rparr>)]\<rparr>)
         else if method = full_method ''GetInfo'' then Inr (M_container remote_container)
         else Inr (M_err new_err), w)),
      rc_NewClientStream = (\<lambda>method w. (Inr 1, w)), rc_SendMsg = (\<lambda>x m w. (None, w)),
      rc_RecvMsg = (\<lambda>x m w. (Inr (M_exec_options (new_exec_options\<lparr>eo_Cmd := Some (new_io\<lparr>io_Out := ''hello''\<rparr>)\<rparr>)), w)),
      rc_CloseSend = (\<lambda>x w. (None, w)), rc_GetState = (\<lambda>w. ''READY''), rc_Close = (\<lambda>w. (None, w))\<rparr>"

definition sample_grpc :: "container list \<Rightarrow> nat grpc_cli" where
  "sample_grpc xs =
     \<lparr>gr_servers = [''r1:8090'', ''r2:8090''], gr_auth = ''password'',
      gr_clients = [(''r1:8090'', \<lparr>rm_addr = ''r1:8090'', rm_auth = ''password'', rm_conn = sample_remote\<rparr>),
        (''r2:8090'', \<lparr>rm_addr = ''r2:8090'', rm_auth = ''password'', rm_conn = sample_remote\<rparr>)],
      gr_containers = cs_Set xs zero_containers\<rparr>"

definition located_container :: container where
  "located_container = zero_container\<lparr>c_ID := ''c0ffee000000aa'', c_LocServer := ''r1:8090''\<rparr>"

lemma sample_remote_ok: "remote_ok sample_remote"
  by (simp add: remote_ok_def sample_remote_def client_List_def client_GetInfo_def full_method_def remote_container_def)

lemma sample_grpc_inv: "\<forall>c \<in> set xs. full_id c \<Longrightarrow> grpc_inv (sample_grpc xs, w)"
  by (auto simp: grpc_inv_def sample_grpc_def sample_remote_ok intro!: cache.all_held_put_all full_cache_init)


lemma action_result_fails: "action_result r = (e, w) \<Longrightarrow> e \<noteq> None"
  by (auto simp: action_result_def split: prod.splits sum.splits)

text \<open>
  In proxy mode \<open>Start\<close>, \<open>Stop\<close> and \<open>Restart\<close> report an error whatever happens: the generated
  stub returns a non-nil \<open>*pb.Err\<close> with every answer, which \<open>containerAction\<close> takes for a failure,
  so the user sees an error, with an empty text, even when the container has been started.
\<close>

lemma grpc_actions_always_fail:
  assumes "containerAction action cid s = Inr (e, s')"
  shows "e \<noteq> None"
proof -
  obtain g w where s: "s = (g, w)" by (cases s)
  obtain info cache where f: "cs_Find cid (gr_containers g) = (info, cache)" by (cases "cs_Find cid (gr_containers g)")
  show ?thesis
  proof (cases "map_of (gr_clients g) (c_LocServer info)")
    case None
    then show ?thesis using assms by (auto simp: containerAction_def s f Let_def split: if_splits)
  next
    case (Some cli)
    let ?i = "\<lparr>ci_Id = cid, ci_Auth = gr_auth g\<rparr>"
    obtain e1 w1 e2 w2 e3 w3 where r: "action_result (client_Start (rm_conn cli) ?i w) = (e1, w1)"
      "action_result (client_Stop (rm_conn cli) ?i w) = (e2, w2)"
      "action_result (client_Restart (rm_conn cli) ?i w) = (e3, w3)"
      by (metis surj_pair)
    note fails = r [THEN action_result_fails]
    show ?thesis using assms Some fails
      by (auto simp: containerAction_def s f Let_def r split: if_splits)
  qed
qed

lemma grpc_actions_always_fail_example:
  "\<exists>e s'. containerAction ''start'' ''c0ffee000000'' (sample_grpc [located_container], 0) = Inr (e, s') \<and>
     e \<noteq> None \<and> e = Some (Errorf [])"
proof -
  have "case containerAction ''start'' ''c0ffee000000'' (sample_grpc [located_container], 0) of
      Inr (e, _) \<Rightarrow> e = Some (Errorf []) | _ \<Rightarrow> False"
    by code_simp
  then obtain e s' where r: "containerAction ''start'' ''c0ffee000000'' (sample_grpc [located_container], 0) = Inr (e, s')"
    and "e = Some (Errorf [])"
    by (auto split: sum.splits)
  with grpc_actions_always_fail r show ?thesis by blast
qed

text \<open>
  The location is lost on a first \<open>GetInfo\<close>: for a container whose shell is not known yet the
  answer is the remote's own description, which has no location unless the remote is a proxy
  itself, so that \<open>Exec\<close> on the answer fails although the cache knows the server.
\<close>

lemma first_getinfo_loses_location:
  assumes "map_of (cs_c (cs_init (gr_containers g))) cid = Some c" and "c_ID c \<noteq> []" and "c_Shell c = []"
    and "map_of (gr_clients g) (c_LocServer c) = Some cli" and "map_of (gr_clients g) [] = None"
    and "client_GetInfo (rm_conn cli) \<lparr>ci_Id = cid, ci_Auth = gr_auth g\<rparr> w = (Inr p, w')"
    and "pc_LocServer p = []" and "pc_Id p \<noteq> []"
  shows "\<exists>d s'. grpc_GetInfo cid (g, w) = Inr (d, s') \<and> c_ID d = pc_Id p \<and>
    (\<exists>s''. grpc_Exec d s' = Inr (Inl (Errorf ''location server [] not found''), s''))"
proof -
  have ne: "cs_c (cs_init (gr_containers g)) \<noteq> []" using assms(1) by auto
  obtain d where d: "ConvertPbContainer (Some p) = Inr d" "c_ID d = pc_Id p" "c_LocServer d = []"
    using assms(7) by (simp add: ConvertPbContainer_def)
  have idem: "cs_init (cs_init cs) = cs_init cs" for cs by (simp add: cs_init_def)
  let ?g = "g\<lparr>gr_containers := cs_SetShell cid (pc_Shell p) (cs_init (gr_containers g))\<rparr>"
  have "grpc_GetInfo cid (g, w) = Inr (d, ?g, w')"
    using assms(1-4,6) ne d(1)
    by (simp add: grpc_GetInfo_def cs_Len_def grpc_lookup_def cs_Find_def find_in_exact idem Container_GetShell_def Let_def)
  moreover have "grpc_Exec d (?g, w') = Inr (Inl (Errorf ''location server [] not found''), ?g, w')"
    using d assms(5,8) by (simp add: grpc_Exec_def location_error_def)
  ultimately show ?thesis using d(2) by blast
qed

lemma first_getinfo_loses_location_example:
  "\<exists>d s' s''. grpc_GetInfo ''c0ffee000000'' (sample_grpc [located_container], 0) = Inr (d, s') \<and>
     grpc_Exec d s' = Inr (Inl (Errorf ''location server [] not found''), s'')"
proof -
  let ?g = "sample_grpc [located_container]"
  let ?cli = "\<lparr>rm_addr = ''r1:8090'', rm_auth = ''password'', rm_conn = sample_remote\<rparr>"
  have held: "map_of (cs_c (cs_init (gr_containers ?g))) ''c0ffee000000'' = Some located_container"
    by (simp add: sample_grpc_def cs_Set_def cs_init_def zero_containers_def map_of_index_container key_ok_def located_container_def)
  have info: "client_GetInfo (rm_conn ?cli) \<lparr>ci_Id = ''c0ffee000000'', ci_Auth = gr_auth ?g\<rparr> 0 = (Inr remote_container, 0)"
    by (simp add: client_GetInfo_def sample_remote_def full_method_def)
  have "map_of (gr_clients ?g) (c_LocServer located_container) = Some ?cli" "map_of (gr_clients ?g) [] = None"
    by (simp_all add: sample_grpc_def located_container_def)
  then show ?thesis
    using first_getinfo_loses_location [OF held _ _ _ _ info]
    by (fastforce simp: located_container_def remote_container_def new_container_def)
qed

text \<open>
  The terminal of a remote exec keeps the contract of \<open>io.Reader\<close> exactly when the message fits
  the caller's buffer: it returns the length of the message, so that a longer one has its end
  dropped and makes the caller's \<open>buffer[:n]\<close> panic.
\<close>

lemma wrapper_read_overreports:
  assumes "\<not> ac_closed (ew_active enj)"
    and "exec_client_Recv (ew_conn enj) (ew_exec enj) w = (Inr msg, w')" and "eo_Cmd msg = Some cmd"
  shows "\<exists>p' enj'. wrapper_read p (enj, w) = Inr (length (io_Out cmd), p', None, enj', w') \<and>
    take (length p) p' = take (length p) (io_Out cmd) @ drop (length (io_Out cmd)) p \<and>
    read_chunk (length (io_Out cmd)) p' =
      (if length (io_Out cmd) \<le> length p then Inr (io_Out cmd) else Inl SliceBounds)"
proof -
  obtain ch where ch: "touch_active (ew_active enj) = Inr ch" using assms(1) by (cases "ac_len (ew_active enj) = 0") (simp_all add: touch_active_def)
  let ?p = "snd (go_copy p (io_Out cmd))"
  have "wrapper_read p (enj, w) = Inr (length (io_Out cmd), ?p, None, enj\<lparr>ew_active := ch\<rparr>, w')"
    using ch assms(2,3) by (simp add: wrapper_read_def Let_def)
  moreover have "take (length p) ?p = take (length p) (io_Out cmd) @ drop (length (io_Out cmd)) p"
    by (auto simp: go_copy_def Let_def min_def)
  moreover have "read_chunk (length (io_Out cmd)) ?p = (if length (io_Out cmd) \<le> length p then Inr (io_Out cmd) else Inl SliceBounds)"
    by (auto simp: read_chunk_def go_slice_def go_copy_def Let_def)
  ultimately show ?thesis by blast
qed

lemma wrapper_read_overreports_example:
  "\<exists>p' s'. wrapper_read ''abc'' (newExecWrapper sample_remote 1, 0) = Inr (5, p', None, s') \<and>
     read_chunk 5 p' = Inl SliceBounds"
proof -
  let ?enj = "newExecWrapper sample_remote 1" and ?cmd = "new_io\<lparr>io_Out := ''hello''\<rparr>"
  have recv: "exec_client_Recv (ew_conn ?enj) (ew_exec ?enj) 0 = (Inr (new_exec_options\<lparr>eo_Cmd := Some ?cmd\<rparr>), 0)"
    by (simp add: newExecWrapper_def exec_client_Recv_def sample_remote_def)
  have "\<not> ac_closed (ew_active ?enj)" by (simp add: newExecWrapper_def new_active_def)
  then obtain p' enj' where "wrapper_read ''abc'' (?enj, 0) = Inr (length (io_Out ?cmd), p', None, enj', 0)"
    "read_chunk (length (io_Out ?cmd)) p' = (if length (io_Out ?cmd) \<le> length ''abc'' then Inr (io_Out ?cmd) else Inl SliceBounds)"
    using wrapper_read_overreports [OF _ recv, of ?cmd "''abc''"] by auto
  then show ?thesis by (auto simp: eval_nat_numeral)
qed

end
