(* ===== verification/Backends.thy ===== *)
theory Backends
  imports Docker Kube GrpcCli
begin

text \<open>
  container/container.go: the interface \<open>Cli\<close> as the code holds it, a value of one of the three
  implementations whose operations dispatch on it, \<open>NewCliBackend\<close>, and config/config.go's
  configuration of the backends.  The record \<open>cli\<close> is an interface value together with its method
  table; the server and the web routes take one.
\<close>

section \<open>Interface values\<close>

text \<open>
  The methods of \<open>container.Cli\<close> and of the \<open>types.TTY\<close> that \<open>Exec\<close> returns (handle \<open>'t\<close>), and the
  \<open>io.ReadCloser\<close> of \<open>Logs\<close> (handle \<open>'r\<close>), over the state \<open>'s\<close> of the backend and the world.
\<close>

record ('s, 't, 'r) cli =
  be_GetInfo :: "string \<Rightarrow> 's \<Rightarrow> (container \<times> 's) outcome"
  be_List :: "'s \<Rightarrow> (container list \<times> 's) outcome"
  be_Start :: "string \<Rightarrow> 's \<Rightarrow> (error option \<times> 's) outcome"
  be_Stop :: "string \<Rightarrow> 's \<Rightarrow> (error option \<times> 's) outcome"
  be_Restart :: "string \<Rightarrow> 's \<Rightarrow> (error option \<times> 's) outcome"
  be_Exec :: "container \<Rightarrow> 's \<Rightarrow> ((error + 't) \<times> 's) outcome"
  be_Close :: "'s \<Rightarrow> (error option \<times> 's) outcome"
  be_Logs :: "log_options \<Rightarrow> 's \<Rightarrow> (('r option \<times> error option) \<times> 's) outcome"
  tty_Read :: "'t \<Rightarrow> bytes \<Rightarrow> 's \<Rightarrow> (nat \<times> bytes \<times> error option \<times> 's) outcome"
  tty_Write :: "'t \<Rightarrow> bytes \<Rightarrow> 's \<Rightarrow> ((nat \<times> error option) \<times> 's) outcome"
  tty_Exit :: "'t \<Rightarrow> 's \<Rightarrow> (error option \<times> 's) outcome"
  tty_ResizeTerminal :: "'t \<Rightarrow> int \<Rightarrow> int \<Rightarrow> 's \<Rightarrow> (error option \<times> 's) outcome"
  log_Read :: "'r \<Rightarrow> bytes \<Rightarrow> 's \<Rightarrow> (nat \<times> bytes \<times> error option \<times> 's) outcome"

text \<open>The contract of theory \<open>Backend\<close> for a method table.\<close>

definition cli_ok :: "('s, 't, 'r) cli \<Rightarrow> ('s \<Rightarrow> bool) \<Rightarrow> bool" where
  "cli_ok cli I \<longleftrightarrow>
     cli_backend (be_GetInfo cli) (be_List cli) (be_Start cli) (be_Stop cli) (be_Restart cli)
       (be_Exec cli) (be_Logs cli) I"

section \<open>The three implementations\<close>

datatype 'w backend =
    DockerBackend "'w docker_cli"
  | KubeBackend "'w kube_cli"
  | GrpcBackend "'w grpc_cli"

type_synonym 'w backend_state = "'w backend \<times> 'w"

datatype 'w backend_tty = DockerTTY "'w docker_api" docker_tty | KubeTTY kube_tty executor | GrpcTTY "'w exec_wrapper"
datatype 'w backend_log = DockerLog "log_stream log_reader" | KubeLog kube_log | GrpcLog "'w log_pipe"

text \<open>Dispatch: the operation of the implementation, its state put back.\<close>

definition wrap_state :: "('b \<Rightarrow> 'w backend) \<Rightarrow> ('a \<Rightarrow> 'c) \<Rightarrow> ('a \<times> 'b \<times> 'w) outcome \<Rightarrow> ('c \<times> 'w backend_state) outcome" where
  "wrap_state K f r = obind r (\<lambda>(x, d, w). Inr (f x, K d, w))"

fun any_GetInfo :: "string \<Rightarrow> 'w backend_state \<Rightarrow> (container \<times> 'w backend_state) outcome" where
  "any_GetInfo cid (DockerBackend d, w) = wrap_state DockerBackend id (docker_GetInfo cid (d, w))"
| "any_GetInfo cid (KubeBackend k, w) = wrap_state KubeBackend id (kube_GetInfo cid (k, w))"
| "any_GetInfo cid (GrpcBackend g, w) = wrap_state GrpcBackend id (grpc_GetInfo cid (g, w))"

fun any_List :: "'w backend_state \<Rightarrow> (container list \<times> 'w backend_state) outcome" where
  "any_List (DockerBackend d, w) = wrap_state DockerBackend id (docker_List (d, w))"
| "any_List (KubeBackend k, w) = wrap_state KubeBackend id (kube_List (k, w))"
| "any_List (GrpcBackend g, w) = wrap_state GrpcBackend id (grpc_List (g, w))"

fun any_Start :: "string \<Rightarrow> 'w backend_state \<Rightarrow> (error option \<times> 'w backend_state) outcome" where
  "any_Start cid (DockerBackend d, w) = wrap_state DockerBackend id (docker_Start cid (d, w))"
| "any_Start cid (KubeBackend k, w) = wrap_state KubeBackend id (kube_Start cid (k, w))"
| "any_Start cid (GrpcBackend g, w) = wrap_state GrpcBackend id (grpc_Start cid (g, w))"

fun any_Stop :: "string \<Rightarrow> 'w backend_state \<Rightarrow> (error option \<times> 'w backend_state) outcome" where
  "any_Stop cid (DockerBackend d, w) = wrap_state DockerBackend id (docker_Stop cid (d, w))"
| "any_Stop cid (KubeBackend k, w) = wrap_state KubeBackend id (kube_Stop cid (k, w))"
| "any_Stop cid (GrpcBackend g, w) = wrap_state GrpcBackend id (grpc_Stop cid (g, w))"

fun any_Restart :: "string \<Rightarrow> 'w backend_state \<Rightarrow> (error option \<times> 'w backend_state) outcome" where
  "any_Restart cid (DockerBackend d, w) = wrap_state DockerBackend id (docker_Restart cid (d, w))"
| "any_Restart cid (KubeBackend k, w) = wrap_state KubeBackend id (kube_Restart cid (k, w))"
| "any_Restart cid (GrpcBackend g, w) = wrap_state GrpcBackend id (grpc_Restart cid (g, w))"

fun any_Exec :: "container \<Rightarrow> 'w backend_state \<Rightarrow> ((error + 'w backend_tty) \<times> 'w backend_state) outcome" where
  "any_Exec c (DockerBackend d, w) = wrap_state DockerBackend (map_sum id (DockerTTY (dc_cli d))) (docker_Exec c (d, w))"
| "any_Exec c (KubeBackend k, w) = wrap_state KubeBackend (map_sum id (\<lambda>(t, ex). KubeTTY t ex)) (kube_Exec c (k, w))"
| "any_Exec c (GrpcBackend g, w) = wrap_state GrpcBackend (map_sum id GrpcTTY) (grpc_Exec c (g, w))"

fun any_Logs :: "log_options \<Rightarrow> 'w backend_state \<Rightarrow> (('w backend_log option \<times> error option) \<times> 'w backend_state) outcome" where
  "any_Logs opts (DockerBackend d, w) = wrap_state DockerBackend (apfst (map_option DockerLog)) (docker_Logs opts (d, w))"
| "any_Logs opts (KubeBackend k, w) = wrap_state KubeBackend (apfst (map_option KubeLog)) (kube_Logs opts (k, w))"
| "any_Logs opts (GrpcBackend g, w) = wrap_state GrpcBackend (apfst (map_option GrpcLog)) (grpc_Logs opts (g, w))"

fun any_Close :: "'w backend_state \<Rightarrow> (error option \<times> 'w backend_state) outcome" where
  "any_Close (DockerBackend d, w) = wrap_state DockerBackend id (docker_Close (d, w))"
| "any_Close (KubeBackend k, w) = wrap_state KubeBackend id (kube_Close (k, w))"
| "any_Close (GrpcBackend g, w) = wrap_state GrpcBackend id (grpc_Close (g, w))"

section \<open>Choosing one\<close>

record backend_config =
  bc_Type :: string
  bc_Docker :: docker_config
  bc_Kube :: string \<comment> \<open>\<open>KubeConfig.ConfigPath\<close>\<close>
  bc_GRPC :: grpc_config

text \<open>
  The constructors of the three packages are arguments, applied to what their libraries give
  them.  When \<open>err\<close> is set the caller must not use the client.
\<close>

definition NewCliBackend ::
    "(docker_config \<Rightarrow> 'w \<Rightarrow> ((error + 'w docker_cli) \<times> 'w) outcome) \<Rightarrow>
     (string \<Rightarrow> 'w \<Rightarrow> ((error + 'w kube_cli) \<times> 'w) outcome) \<Rightarrow>
     (grpc_config \<Rightarrow> 'w \<Rightarrow> ((error + 'w grpc_cli) \<times> 'w) outcome) \<Rightarrow>
     backend_config \<Rightarrow> 'w \<Rightarrow> ((error + 'w backend) \<times> 'w) outcome" where
  "NewCliBackend new_docker new_kube new_grpc conf w =
     (if bc_Type conf = ''docker'' then
        obind (new_docker (bc_Docker conf) w) (\<lambda>(r, w). Inr (map_sum id DockerBackend r, w))
      else if bc_Type conf = ''kube'' then
        obind (new_kube (bc_Kube conf) w) (\<lambda>(r, w). Inr (map_sum id KubeBackend r, w))
      else if bc_Type conf = ''grpc'' then
        obind (new_grpc (bc_GRPC conf) w) (\<lambda>(r, w). Inr (map_sum id GrpcBackend r, w))
      else Inr (Inl (Errorf (''unknown backend type '' @ bc_Type conf)), w))"

section \<open>Every backend keeps the contract\<close>

fun any_inv :: "'w backend_state \<Rightarrow> bool" where
  "any_inv (DockerBackend d, w) = docker_inv (d, w)"
| "any_inv (KubeBackend k, w) = kube_inv (k, w)"
| "any_inv (GrpcBackend g, w) = grpc_inv (g, w)"

lemma backend_cases:
  obtains d w where "s = (DockerBackend d, w)" | k w where "s = (KubeBackend k, w)"
    | g w where "s = (GrpcBackend g, w)"
  by (cases s; cases "fst s") auto

interpretation any: cli_backend any_GetInfo any_List any_Start any_Stop any_Restart any_Exec any_Logs any_inv
proof unfold_locales
  fix s :: "'w backend_state"
  assume inv: "any_inv s"
  show "\<exists>c s'. any_GetInfo cid s = Inr (c, s') \<and> any_inv s' \<and> info_ok c" for cid
    by (insert inv, cases s rule: backend_cases; simp; drule docker.GetInfo_ok [of _ cid] kube.GetInfo_ok [of _ cid] grpc.GetInfo_ok [of _ cid];
      auto simp: wrap_state_def)
  show "\<exists>cs s'. any_List s = Inr (cs, s') \<and> any_inv s' \<and> (\<forall>c \<in> set cs. info_ok c)"
    by (insert inv, cases s rule: backend_cases; simp; drule docker.List_ok kube.List_ok grpc.List_ok;
      auto simp: wrap_state_def)
  show "\<exists>e s'. any_Start cid s = Inr (e, s') \<and> any_inv s'" for cid
    by (insert inv, cases s rule: backend_cases; simp; drule docker.Start_ok [of _ cid] kube.Start_ok [of _ cid] grpc.Start_ok [of _ cid];
      auto simp: wrap_state_def)
  show "\<exists>e s'. any_Stop cid s = Inr (e, s') \<and> any_inv s'" for cid
    by (insert inv, cases s rule: backend_cases; simp; drule docker.Stop_ok [of _ cid] kube.Stop_ok [of _ cid] grpc.Stop_ok [of _ cid];
      auto simp: wrap_state_def)
  show "\<exists>e s'. any_Restart cid s = Inr (e, s') \<and> any_inv s'" for cid
    by (insert inv, cases s rule: backend_cases; simp; drule docker.Restart_ok [of _ cid] kube.Restart_ok [of _ cid] grpc.Restart_ok [of _ cid];
      auto simp: wrap_state_def)
  show "\<exists>r s'. any_Exec c s = Inr (r, s') \<and> any_inv s'" for c
    by (insert inv, cases s rule: backend_cases; simp; drule docker.Exec_ok [of _ c] kube.Exec_ok [of _ c] grpc.Exec_ok [of _ c];
      auto simp: wrap_state_def)
  show "\<exists>r s'. any_Logs opts s = Inr (r, s') \<and> any_inv s'" for opts
    by (insert inv, cases s rule: backend_cases; simp; drule docker.Logs_ok [of _ opts] kube.Logs_ok [of _ opts] grpc.Logs_ok [of _ opts];
      auto simp: wrap_state_def)
qed

end
