(* ===== verification/ProxyServer.thy ===== *)
theory ProxyServer
  imports Backends
begin

text \<open>
  The gRPC server that proxy-mode clients talk to: proxy/server.go and proxy.go.  It serves one
  backend, a \<open>cli\<close>, and checks the shared password on every call.  \<open>'s\<close> is the state of the
  backend, the world and the streams.
\<close>

definition rpcCanceld :: string where
  "rpcCanceld = ''rpc error: code = Canceled desc = context canceled''"

record ('s, 't, 'r) container_service =
  svc_cli :: "('s, 't, 'r) cli"
  svc_auth :: string

definition newContainerService :: "('s, 't, 'r) cli \<Rightarrow> string \<Rightarrow> ('s, 't, 'r) container_service" where
  "newContainerService cli auth = \<lparr>svc_cli = cli, svc_auth = auth\<rparr>"

definition checkAuth :: "('s, 't, 'r) container_service \<Rightarrow> string \<Rightarrow> error option" where
  "checkAuth svc auth = (if auth \<noteq> svc_auth svc then Some (Errorf ''auth failed'') else None)"

definition wrapContainer :: "container list \<Rightarrow> pb_container option list" where
  "wrapContainer cs = map (\<lambda>c. Some (ConvertTpContainer c)) cs"

text \<open>
  \<open>checkNil\<close> takes an \<open>interface{}\<close>: the comparison with nil is true of an interface without a
  type only, and a pointer passed to it, nil or not, has one.
\<close>

datatype 'a iface = NoValue | Iface 'a

definition checkNil :: "'a iface \<Rightarrow> error option" where
  "checkNil x = (case x of NoValue \<Rightarrow> Some (Errorf ''nil pointer'') | Iface p \<Rightarrow> None)"

definition deref :: "'a option \<Rightarrow> 'a outcome" where
  "deref p = (case p of None \<Rightarrow> Inl NilDeref | Some x \<Rightarrow> Inr x)"

lemma deref_simps [simp]: "deref None = Inl NilDeref" "deref (Some x) = Inr x"
  by (simp_all add: deref_def)

text \<open>The two checks at the head of every method: the pointer, then the password behind it.\<close>

definition guarded ::
    "('s, 't, 'r) container_service \<Rightarrow> ('m \<Rightarrow> string) \<Rightarrow> 'm option \<Rightarrow> 's \<Rightarrow> ('m \<Rightarrow> 's \<Rightarrow> ('a, 's) reply) \<Rightarrow> ('a, 's) reply" where
  "guarded svc auth_of m s body =
     (case checkNil (Iface m) of
        Some e \<Rightarrow> Inr (Inl e, s)
      | None \<Rightarrow>
          obind (deref m) (\<lambda>x.
            case checkAuth svc (auth_of x) of
              Some e \<Rightarrow> Inr (Inl e, s)
            | None \<Rightarrow> body x s))"

definition svc_Ping :: "('s, 't, 'r) container_service \<Rightarrow> pb_empty option \<Rightarrow> 's \<Rightarrow> (pb_pong, 's) reply" where
  "svc_Ping svc e s = guarded svc em_Auth e s (\<lambda>e s. Inr (Inr (Some \<lparr>po_Msg = ''pong''\<rparr>), s))"

definition svc_GetInfo :: "('s, 't, 'r) container_service \<Rightarrow> pb_container_id option \<Rightarrow> 's \<Rightarrow> (pb_container, 's) reply" where
  "svc_GetInfo svc cid s = guarded svc ci_Auth cid s (\<lambda>cid s.
     obind (be_GetInfo (svc_cli svc) (ci_Id cid) s) (\<lambda>(c, s).
     obind (index (wrapContainer [c]) 0) (\<lambda>p. Inr (Inr p, s))))"

definition svc_List :: "('s, 't, 'r) container_service \<Rightarrow> pb_empty option \<Rightarrow> 's \<Rightarrow> (pb_containers, 's) reply" where
  "svc_List svc e s = guarded svc em_Auth e s (\<lambda>e s.
     obind (be_List (svc_cli svc) s) (\<lambda>(cs, s). Inr (Inr (Some \<lparr>pcs_Cs = wrapContainer cs\<rparr>), s)))"

text \<open>No error is the pair \<open>nil, nil\<close>, an error a message with its text.\<close>

definition err_reply :: "error option \<times> 's \<Rightarrow> (pb_err, 's) reply" where
  "err_reply r = (case r of (None, s) \<Rightarrow> Inr (Inr None, s) | (Some e, s) \<Rightarrow> Inr (Inr (Some \<lparr>er_Err = error_text e\<rparr>), s))"

definition svc_Start :: "('s, 't, 'r) container_service \<Rightarrow> pb_container_id option \<Rightarrow> 's \<Rightarrow> (pb_err, 's) reply" where
  "svc_Start svc cid s = guarded svc ci_Auth cid s (\<lambda>cid s. obind (be_Start (svc_cli svc) (ci_Id cid) s) err_reply)"

definition svc_Stop :: "('s, 't, 'r) container_service \<Rightarrow> pb_container_id option \<Rightarrow> 's \<Rightarrow> (pb_err, 's) reply" where
  "svc_Stop svc cid s = guarded svc ci_Auth cid s (\<lambda>cid s. obind (be_Stop (svc_cli svc) (ci_Id cid) s) err_reply)"

definition svc_Restart :: "('s, 't, 'r) container_service \<Rightarrow> pb_container_id option \<Rightarrow> 's \<Rightarrow> (pb_err, 's) reply" where
  "svc_Restart svc cid s = guarded svc ci_Auth cid s (\<lambda>cid s. obind (be_Restart (svc_cli svc) (ci_Id cid) s) err_reply)"

section \<open>Exec\<close>

text \<open>The part before the two loops: the first message, its password, its container, the terminal.\<close>

definition exec_open ::
    "('st, 's) server_streams \<Rightarrow> ('s, 't, 'r) container_service \<Rightarrow> 'st \<Rightarrow> 's \<Rightarrow> ((error + 't) \<times> 's) outcome" where
  "exec_open ss svc st s =
     (case exec_server_Recv ss st s of
        (Inl e, s) \<Rightarrow> Inr (Inl e, s)
      | (Inr execOpts, s) \<Rightarrow>
          (case checkAuth svc (eo_Auth execOpts) of
             Some e \<Rightarrow> Inr (Inl e, s)
           | None \<Rightarrow>
               if eo_C execOpts = None then Inr (Inl (Errorf ''nil container''), s)
               else obind (ConvertPbContainer (eo_C execOpts)) (\<lambda>c. be_Exec (svc_cli svc) c s)))"

text \<open>
  One round of the goroutine that carries the client's input: \<^term>\<open>True\<close> is that it goes on.  A
  received message is never nil; one with a window size resizes, any other is typed.
\<close>

definition exec_input ::
    "('st, 's) server_streams \<Rightarrow> ('s, 't, 'r) container_service \<Rightarrow> 'st \<Rightarrow> 't \<Rightarrow> 's \<Rightarrow> (bool \<times> 's) outcome" where
  "exec_input ss svc st tty s =
     (case exec_server_Recv ss st s of
        (Inl e, s) \<Rightarrow> Inr (False, s)
      | (Inr execOpts, s) \<Rightarrow>
          (case eo_Ws execOpts of
             Some ws \<Rightarrow>
               obind (tty_ResizeTerminal (svc_cli svc) tty (sint (ws_Width ws)) (sint (ws_Height ws)) s) (\<lambda>(e, s).
                 Inr (True, s))
           | None \<Rightarrow>
               obind (deref (eo_Cmd execOpts)) (\<lambda>cmd.
               obind (tty_Write (svc_cli svc) tty (io_In cmd) s) (\<lambda>((n, err), s).
                 Inr (err = None \<or> err = Some EOF, s)))))"

text \<open>
  One round of the loop that carries the terminal's output, with the buffer it reads into.  Only
  the end of the stream stops it; the error of the read is then overwritten by that of the send.
\<close>

definition output_message :: "bytes \<Rightarrow> pb_exec_options" where
  "output_message out = new_exec_options\<lparr>eo_Cmd := Some (new_io\<lparr>io_Out := out\<rparr>)\<rparr>"

definition exec_output ::
    "('st, 's) server_streams \<Rightarrow> ('s, 't, 'r) container_service \<Rightarrow> 'st \<Rightarrow> 't \<Rightarrow> bytes \<Rightarrow> 's \<Rightarrow> (bool \<times> bytes \<times> 's) outcome" where
  "exec_output ss svc st tty bs s =
     obind (tty_Read (svc_cli svc) tty bs s) (\<lambda>(n, bs, err, s).
       if err = Some EOF then Inr (False, bs, s)
       else
         obind (go_slice 0 n bs) (\<lambda>out.
           let (err, s) = exec_server_Send ss st (output_message out) s in
           Inr (err = None \<or> err = Some EOF, bs, s)))"

text \<open>
  The two loops interleaved by a schedule, \<^term>\<open>True\<close> for a round of the input; a loop that has
  ended does nothing.  The output loop's end is the method's: it leaves the terminal.
\<close>

record 's exec_run =
  er_input :: bool
  er_output :: bool
  er_buffer :: bytes
  er_state :: 's

fun exec_loops ::
    "('st, 's) server_streams \<Rightarrow> ('s, 't, 'r) container_service \<Rightarrow> 'st \<Rightarrow> 't \<Rightarrow> bool list \<Rightarrow> 's exec_run \<Rightarrow> 's exec_run outcome" where
  "exec_loops ss svc st tty [] r = Inr r"
| "exec_loops ss svc st tty (True # sched) r =
     (if er_input r then
        obind (exec_input ss svc st tty (er_state r)) (\<lambda>(on, s).
          exec_loops ss svc st tty sched (r\<lparr>er_input := on, er_state := s\<rparr>))
      else exec_loops ss svc st tty sched r)"
| "exec_loops ss svc st tty (False # sched) r =
     (if er_output r then
        obind (exec_output ss svc st tty (er_buffer r) (er_state r)) (\<lambda>(on, bs, s).
          exec_loops ss svc st tty sched (r\<lparr>er_output := on, er_buffer := bs, er_state := s\<rparr>))
      else exec_loops ss svc st tty sched r)"

text \<open>
  The method under a schedule: \<^const>\<open>None\<close> is that the output loop is still running when the
  schedule ends; else the deferred \<open>Exit\<close> has been called and the result is nil.
\<close>

definition svc_Exec_under ::
    "('st, 's) server_streams \<Rightarrow> bool list \<Rightarrow> ('s, 't, 'r) container_service \<Rightarrow> 'st \<Rightarrow> 's \<Rightarrow> 's stream_result" where
  "svc_Exec_under ss sched svc st s =
     obind (exec_open ss svc st s) (\<lambda>(r, s).
       case r of
         Inl e \<Rightarrow> Inr (Some (Some e, s))
       | Inr tty \<Rightarrow>
           obind (exec_loops ss svc st tty sched
               \<lparr>er_input = True, er_output = True, er_buffer = replicate 1024 (CHR 0x00), er_state = s\<rparr>) (\<lambda>run.
             if er_output run then Inr None
             else obind (tty_Exit (svc_cli svc) tty (er_state run)) (\<lambda>(e, s). Inr (Some (None, s)))))"

section \<open>Logs\<close>

text \<open>The copying loop, for at most \<open>k\<close> rounds; \<^const>\<open>None\<close> is that it still runs.\<close>

fun logs_loop ::
    "('st, 's) server_streams \<Rightarrow> ('s, 't, 'r) container_service \<Rightarrow> 'st \<Rightarrow> 'r \<Rightarrow> nat \<Rightarrow> bytes \<Rightarrow> 's \<Rightarrow> 's stream_result" where
  "logs_loop ss svc st rc 0 buff s = Inr None"
| "logs_loop ss svc st rc (Suc k) buff s =
     obind (log_Read (svc_cli svc) rc buff s) (\<lambda>(n, buff, err, s).
       if err \<noteq> None then Inr (Some (None, s))
       else
         obind (go_slice 0 n buff) (\<lambda>chunk.
           case logs_server_Send ss st (new_io\<lparr>io_In := chunk\<rparr>) s of
             (Some e, s) \<Rightarrow> Inr (Some (Some e, s))
           | (None, s) \<Rightarrow> logs_loop ss svc st rc k buff s))"

definition svc_Logs ::
    "('st, 's) server_streams \<Rightarrow> nat \<Rightarrow> ('s, 't, 'r) container_service \<Rightarrow> pb_log_opts option \<Rightarrow> 'st \<Rightarrow> 's \<Rightarrow>
     's stream_result" where
  "svc_Logs ss fuel svc logOpts st s =
     obind (deref logOpts) (\<lambda>opts.
       let cid = lo_C opts in
       case checkNil (Iface cid) of
         Some e \<Rightarrow> Inr (Some (Some e, s))
       | None \<Rightarrow>
           obind (deref cid) (\<lambda>x.
             case checkAuth svc (ci_Auth x) of
               Some e \<Rightarrow> Inr (Some (Some e, s))
             | None \<Rightarrow>
                 obind (be_Logs (svc_cli svc) \<lparr>l_ID = ci_Id x, l_Follow = lo_Follow opts, l_Tail = lo_Tail opts\<rparr> s) (\<lambda>((rc, err), s).
                   case err of
                     Some e \<Rightarrow> Inr (Some (Some e, s))
                   | None \<Rightarrow>
                       obind (deref rc) (\<lambda>rc. logs_loop ss svc st rc fuel (replicate 2048 (CHR 0x00)) s))))"

text \<open>
  The service that is registered with the server.  What the two streaming methods need of the
  outside, the schedule of an exec's loops and the number of rounds of a log's, are arguments.
\<close>

definition proxy_service ::
    "('st, 's) server_streams \<Rightarrow> bool list \<Rightarrow> nat \<Rightarrow> ('s, 't, 'r) container_service \<Rightarrow> ('st, 's) service" where
  "proxy_service ss sched fuel svc =
     \<lparr>sv_GetInfo = svc_GetInfo svc, sv_List = svc_List svc, sv_Start = svc_Start svc, sv_Stop = svc_Stop svc,
      sv_Restart = svc_Restart svc, sv_Exec = svc_Exec_under ss sched svc, sv_Ping = svc_Ping svc,
      sv_Logs = svc_Logs ss fuel svc\<rparr>"

section \<open>Running the server\<close>

record ('s, 't, 'r) grpc_server =
  gs_auth :: string
  gs_port :: int
  gs_cli :: "('s, 't, 'r) cli"

definition new_grpc_server :: "string \<Rightarrow> int \<Rightarrow> ('s, 't, 'r) cli \<Rightarrow> ('s, 't, 'r) grpc_server" where
  "new_grpc_server auth port cli = \<lparr>gs_auth = auth, gs_port = port, gs_cli = cli\<rparr>"

text \<open>
  \<open>Run\<close>: what it waits for, in the order in which it happens, and what it does to the listener and
  the server.  The graceful context ends when the main one does.
\<close>

datatype run_event = GracefulDone | MainDone | Drained
datatype run_action = Listen string | Serve | GracefulStop | Stop

fun await_drain :: "run_event list \<Rightarrow> run_action list option" where
  "await_drain [] = None"
| "await_drain (MainDone # es) = Some [GracefulStop, Stop]"
| "await_drain (Drained # es) = Some [GracefulStop]"
| "await_drain (GracefulDone # es) = await_drain es"

fun await_cancel :: "run_event list \<Rightarrow> run_action list option" where
  "await_cancel [] = None"
| "await_cancel (GracefulDone # es) = await_drain es"
| "await_cancel (MainDone # es) = await_drain (MainDone # es)"
| "await_cancel (Drained # es) = await_cancel es"

definition grpc_server_Run ::
    "(string \<Rightarrow> error option) \<Rightarrow> run_event list \<Rightarrow> ('s, 't, 'r) grpc_server \<Rightarrow> (error option \<times> run_action list) option" where
  "grpc_server_Run listen events gsrv =
     (let addr = '':'' @ int_str (gs_port gsrv) in
      case listen addr of
        Some err \<Rightarrow> Some (Some err, [])
      | None \<Rightarrow> map_option (\<lambda>acts. (None, [Listen addr, Serve] @ acts)) (await_cancel events))"

section \<open>Properties\<close>

definition auth_failed :: error where "auth_failed = Errorf ''auth failed''"

lemma guarded_refuses:
  "auth_of x \<noteq> svc_auth svc \<Longrightarrow> guarded svc auth_of (Some x) s body = Inr (Inl auth_failed, s)"
  by (simp add: guarded_def checkNil_def checkAuth_def auth_failed_def)

lemma guarded_admits:
  "auth_of x = svc_auth svc \<Longrightarrow> guarded svc auth_of (Some x) s body = body x s"
  by (simp add: guarded_def checkNil_def checkAuth_def)


text \<open>A backend for the examples, which counts its calls in its state.\<close>

definition counting_cli :: "(nat, unit, unit) cli" where
  "counting_cli =
     \<lparr>be_GetInfo = (\<lambda>cid s. Inr (zero_container\<lparr>c_ID := cid, c_Shell := ''/bin/sh'',
        c_Exec := zero_exec\<lparr>e_Privileged := True\<rparr>\<rparr>, s + 1)),
      be_List = (\<lambda>s. Inr ([zero_container\<lparr>c_ID := ''c0ffee000000aa''\<rparr>], s + 1)),
      be_Start = (\<lambda>cid s. Inr (None, s + 1)), be_Stop = (\<lambda>cid s. Inr (None, s + 1)),
      be_Restart = (\<lambda>cid s. Inr (None, s + 1)), be_Exec = (\<lambda>c s. Inr (Inr (), s + 1)),
      be_Close = (\<lambda>s. Inr (None, s)), be_Logs = (\<lambda>opts s. Inr ((Some (), None), s + 1)),
      tty_Read = (\<lambda>t p s. Inr (0, p, Some (Opaque ''connection reset''), s)),
      tty_Write = (\<lambda>t p s. Inr ((length p, None), s)), tty_Exit = (\<lambda>t s. Inr (None, s)),
      tty_ResizeTerminal = (\<lambda>t width height s. Inr (None, s)),
      log_Read = (\<lambda>r p s. Inr (0, p, Some EOF, s))\<rparr>"

text \<open>Streams for the examples: every message received is the given one, every send counts.\<close>

definition sample_streams :: "msg \<Rightarrow> (unit, nat) server_streams" where
  "sample_streams m = \<lparr>ss_SendMsg = (\<lambda>st m s. (None, s + 1)), ss_RecvMsg = (\<lambda>st out s. (Inr m, s))\<rparr>"


text \<open>
  A log request without a container ID crashes the server before any password is checked:
  the test for nil sees a typed pointer, and the next line reads through it.  An empty message is
  such a request.
\<close>

lemma empty_log_request_crashes:
  assumes "ss_RecvMsg ss st (M_log_opts new_log_opts) s = (Inr (M_log_opts opts), s')" and "lo_C opts = None"
  shows "Logs_Handler ss (proxy_service ss sched fuel svc) st s = Inl NilDeref"
  using assms by (simp add: Logs_Handler_def proxy_service_def svc_Logs_def checkNil_def)

lemma empty_log_request_crashes_example:
  "Logs_Handler (sample_streams (M_log_opts new_log_opts))
     (proxy_service (sample_streams (M_log_opts new_log_opts)) [] 5 (newContainerService counting_cli ''secret'')) () 0 =
     Inl NilDeref"
  by (rule empty_log_request_crashes [of _ _ _ new_log_opts 0]) (simp_all add: sample_streams_def new_log_opts_def)

section \<open>End to end\<close>

text \<open>
  The transport of the examples and of the end-to-end property: a call is dispatched to the
  server's method table as the service description says, with the request decoded to itself.
  What the client gets for a nil reply, for an unknown method and when the server dies is up to
  package grpc: the arguments \<open>nil_reply\<close> and \<open>gone\<close>.
\<close>

definition serve_unary :: "('st, 's) service \<Rightarrow> string \<Rightarrow> msg \<Rightarrow> error \<Rightarrow> 's \<Rightarrow> (msg, 's) reply" where
  "serve_unary srv method m gone s =
     (case find (\<lambda>e. full_method (fst e) = method) (service_methods srv) of
        None \<Rightarrow> Inr (Inl gone, s)
      | Some e \<Rightarrow> snd e (\<lambda>fresh. Inr m) None s)"

definition loopback :: "('st, 's) service \<Rightarrow> error \<Rightarrow> error \<Rightarrow> 's rpc_conn" where
  "loopback srv nil_reply gone =
     \<lparr>rc_Invoke = (\<lambda>method m out s.
        case serve_unary srv method m gone s of
          Inl p \<Rightarrow> (Inl gone, s)
        | Inr (Inl e, s') \<Rightarrow> (Inl e, s')
        | Inr (Inr None, s') \<Rightarrow> (Inl nil_reply, s')
        | Inr (Inr (Some r), s') \<Rightarrow> (Inr r, s')),
      rc_NewClientStream = (\<lambda>method s. (Inl gone, s)), rc_SendMsg = (\<lambda>x m s. (Some gone, s)),
      rc_RecvMsg = (\<lambda>x m s. (Inl gone, s)), rc_CloseSend = (\<lambda>x s. (None, s)),
      rc_GetState = (\<lambda>s. ''READY''), rc_Close = (\<lambda>s. (None, s))\<rparr>"

lemma full_method_inject [simp]: "full_method a = full_method b \<longleftrightarrow> a = b"
  by (simp add: full_method_def)

lemma serve_methods:
  "serve_unary srv (full_method ''GetInfo'') m gone s =
     box_reply M_container (sv_GetInfo srv (Some (out_container_id m)) s)"
  "serve_unary srv (full_method ''List'') m gone s = box_reply M_containers (sv_List srv (Some (out_empty m)) s)"
  "serve_unary srv (full_method ''Ping'') m gone s = box_reply M_pong (sv_Ping srv (Some (out_empty m)) s)"
  "serve_unary srv (full_method ''Start'') m gone s = box_reply M_err (sv_Start srv (Some (out_container_id m)) s)"
  "serve_unary srv (full_method ''Stop'') m gone s = box_reply M_err (sv_Stop srv (Some (out_container_id m)) s)"
  "serve_unary srv (full_method ''Restart'') m gone s = box_reply M_err (sv_Restart srv (Some (out_container_id m)) s)"
  by (simp_all add: serve_unary_def service_methods_def handler_defs unary_handler_def)

text \<open>What a stub gets through the loopback: the method's message, and a message only if it gave one.\<close>

lemma loopback_invoke:
  assumes "serve_unary srv (full_method name) m gone s = box_reply f r"
  shows "rc_Invoke (loopback srv nil_reply gone) (full_method name) m out s = (Inr y, s') \<longleftrightarrow>
    (\<exists>x. r = Inr (Inr (Some x), s') \<and> y = f x)"
  using assms
  by (cases r; cases "fst (projr r)") (auto simp: loopback_def box_reply_def split: option.splits)

lemmas loopback_invokes = loopback_invoke [OF serve_methods(1)] loopback_invoke [OF serve_methods(2)]
  loopback_invoke [OF serve_methods(3)] loopback_invoke [OF serve_methods(4)] loopback_invoke [OF serve_methods(5)]
  loopback_invoke [OF serve_methods(6)]

lemma map_reply_Inr: "map_reply f r = (Inr y, w) \<longleftrightarrow> (\<exists>x. r = (Inr x, w) \<and> y = f x)"
  by (cases r; cases "fst r") (auto simp: map_reply_def)

text \<open>
  C15. The service is well typed from the client's stub to the server's method and back.  Whatever
  the methods of the server do, a call between the two keeps the declared types; so a stub never
  hands out a default in the place of a reply: it returns a message exactly when the method it
  names was called with the stub's request and returned this very message.
\<close>

theorem rpc_typed:
  "typed_conn (loopback srv nil_reply gone) \<and>
   (client_GetInfo (loopback srv nil_reply gone) i s = (Inr c, s') \<longleftrightarrow> sv_GetInfo srv (Some i) s = Inr (Inr (Some c), s')) \<and>
   (client_List (loopback srv nil_reply gone) e s = (Inr cs, s') \<longleftrightarrow> sv_List srv (Some e) s = Inr (Inr (Some cs), s')) \<and>
   (client_Start (loopback srv nil_reply gone) i s = (Inr r, s') \<longleftrightarrow> sv_Start srv (Some i) s = Inr (Inr (Some r), s')) \<and>
   (client_Stop (loopback srv nil_reply gone) i s = (Inr r, s') \<longleftrightarrow> sv_Stop srv (Some i) s = Inr (Inr (Some r), s')) \<and>
   (client_Restart (loopback srv nil_reply gone) i s = (Inr r, s') \<longleftrightarrow> sv_Restart srv (Some i) s = Inr (Inr (Some r), s')) \<and>
   (client_Ping (loopback srv nil_reply gone) e s = (Inr p, s') \<longleftrightarrow> sv_Ping srv (Some e) s = Inr (Inr (Some p), s'))"
proof -
  have "typed_conn (loopback srv nil_reply gone)"
    unfolding typed_conn_def unary_rpcs_def by (auto simp: loopback_invokes)
  then show ?thesis
    by (auto simp: client_GetInfo_def client_List_def client_Start_def client_Stop_def client_Restart_def
        client_Ping_def map_reply_Inr loopback_invokes)
qed



lemma exec_output_failing:
  assumes "tty_Read (svc_cli svc) tty bs s = Inr (0, bs, Some e, s)" and "e \<noteq> EOF"
    and "ss_SendMsg ss st (M_exec_options (output_message [])) s = (None, s')"
  shows "exec_output ss svc st tty bs s = Inr (True, bs, s')"
  using assms by (simp add: exec_output_def exec_server_Send_def)

text \<open>
  C38. An exec session does not end on a read error other than the end of the stream: while the
  terminal keeps failing, every round sends an empty message and the loop goes on, however many
  rounds it is given.
\<close>

theorem read_error_spins:
  assumes "\<forall>s. tty_Read (svc_cli svc) tty bs s = Inr (0, bs, Some e, s)" and "e \<noteq> EOF"
    and "\<forall>s. ss_SendMsg ss st (M_exec_options (output_message [])) s = (None, sent s)"
  shows "exec_loops ss svc st tty (replicate k False) \<lparr>er_input = inp, er_output = True, er_buffer = bs, er_state = s\<rparr> =
    Inr \<lparr>er_input = inp, er_output = True, er_buffer = bs, er_state = (sent ^^ k) s\<rparr>"
proof (induction k arbitrary: s)
  case (Suc k)
  have "exec_output ss svc st tty bs s = Inr (True, bs, sent s)"
    using assms by (intro exec_output_failing) simp_all
  then show ?case using Suc by (simp add: funpow_swap1)
qed simp

theorem read_error_spins_witness:
  "exec_loops (sample_streams (M_empty new_empty)) (newContainerService counting_cli ''secret'') () () (replicate 1000 False)
      \<lparr>er_input = False, er_output = True, er_buffer = ''abc'', er_state = 0\<rparr> =
    Inr \<lparr>er_input = False, er_output = True, er_buffer = ''abc'', er_state = 1000\<rparr>"
proof -
  have "(Suc ^^ k) 0 = k" for k by (induction k) simp_all
  then show ?thesis
    using read_error_spins [of "newContainerService counting_cli ''secret''" "()" "''abc''" "Opaque ''connection reset''"
        "sample_streams (M_empty new_empty)" "()" Suc 1000 False 0]
    by (simp add: newContainerService_def counting_cli_def sample_streams_def)
qed

end
