(* ===== verification/Proxied.thy ===== *)
theory Proxied
  imports ProxyServer "HOL-Library.Sublist"
begin

text \<open>
  A terminal in a container of another instance, end to end: container/grpc/grpc_tty.go in front,
  \<open>Exec\<close> of proxy/server.go behind, a stream between them.  First that a session of the server
  ends when its terminal does; then that the two together, in any interleaving of what the browser
  types, the server's two loops and the browser's reads, use the container's terminal as somebody
  would who sits at it.
\<close>

section \<open>A session ends with its terminal\<close>

text \<open>
  The contract: reads of the terminal do not panic and stay within the buffer, and each but that of
  the end leaves less to deliver; receiving, sending, typing and resizing do not add to it; a
  received message has a command or a window size.
\<close>

definition ending_session ::
    "('st, 's) server_streams \<Rightarrow> ('s, 't, 'r) cli \<Rightarrow> 'st \<Rightarrow> 't \<Rightarrow> ('s \<Rightarrow> nat) \<Rightarrow> bool" where
  "ending_session ss cli st tty todo \<longleftrightarrow>
     (\<forall>p s. p \<noteq> [] \<longrightarrow> (\<exists>n p' e s'. tty_Read cli tty p s = Inr (n, p', e, s') \<and> n \<le> length p \<and> length p' = length p \<and>
        (e = Some EOF \<or> todo s' < todo s))) \<and>
     (\<forall>m s. todo (snd (ss_SendMsg ss st m s)) \<le> todo s) \<and>
     (\<forall>s r s'. exec_server_Recv ss st s = (r, s') \<longrightarrow> todo s' \<le> todo s \<and>
        (\<forall>m. r = Inr m \<longrightarrow> eo_Ws m \<noteq> None \<or> eo_Cmd m \<noteq> None)) \<and>
     (\<forall>p s. \<exists>r s'. tty_Write cli tty p s = Inr (r, s') \<and> todo s' \<le> todo s) \<and>
     (\<forall>width height s. \<exists>e s'. tty_ResizeTerminal cli tty width height s = Inr (e, s') \<and> todo s' \<le> todo s)"

lemma ending_input:
  assumes "ending_session ss (svc_cli svc) st tty todo"
  shows "\<exists>on s'. exec_input ss svc st tty s = Inr (on, s') \<and> todo s' \<le> todo s"
proof -
  obtain r s1 where r: "exec_server_Recv ss st s = (r, s1)" by fastforce
  have recv: "todo s1 \<le> todo s" "r = Inr m \<Longrightarrow> eo_Ws m \<noteq> None \<or> eo_Cmd m \<noteq> None" for m
    using assms r unfolding ending_session_def by blast+
  have type: "\<exists>r s'. tty_Write (svc_cli svc) tty p s1 = Inr (r, s') \<and> todo s' \<le> todo s1" for p
    using assms unfolding ending_session_def by blast
  have size: "\<exists>e s'. tty_ResizeTerminal (svc_cli svc) tty width height s1 = Inr (e, s') \<and> todo s' \<le> todo s1" for width height
    using assms unfolding ending_session_def by blast
  show ?thesis
  proof (cases r)
    case (Inl e)
    then show ?thesis using r recv(1) by (intro exI [of _ False]) (simp add: exec_input_def)
  next
    case (Inr m)
    show ?thesis
    proof (cases "eo_Ws m")
      case None
      then obtain cmd where cmd: "eo_Cmd m = Some cmd" using recv(2) [OF Inr] by auto
      obtain n e s' where "tty_Write (svc_cli svc) tty (io_In cmd) s1 = Inr ((n, e), s')" "todo s' \<le> todo s1"
        using type [of "io_In cmd"] by auto
      then show ?thesis using r recv(1) Inr None cmd by (simp add: exec_input_def)
    next
      case (Some ws)
      obtain e s' where "tty_ResizeTerminal (svc_cli svc) tty (sint (ws_Width ws)) (sint (ws_Height ws)) s1 = Inr (e, s')"
        "todo s' \<le> todo s1" using size by blast
      then show ?thesis using r recv(1) Inr Some by (intro exI [of _ True]) (simp add: exec_input_def)
    qed
  qed
qed

lemma ending_output:
  assumes "ending_session ss (svc_cli svc) st tty todo" and "bs \<noteq> []"
  shows "\<exists>on bs' s'. exec_output ss svc st tty bs s = Inr (on, bs', s') \<and> bs' \<noteq> [] \<and> (on \<longrightarrow> todo s' < todo s)"
proof -
  obtain n bs' e s1 where read: "tty_Read (svc_cli svc) tty bs s = Inr (n, bs', e, s1)" "n \<le> length bs"
    "length bs' = length bs" "e = Some EOF \<or> todo s1 < todo s"
    using assms unfolding ending_session_def by meson
  have send: "todo (snd (ss_SendMsg ss st m s1)) \<le> todo s1" for m
    using assms(1) unfolding ending_session_def by blast
  have "bs' \<noteq> []" using read(3) assms(2) by auto
  then show ?thesis
    using read send [of "M_exec_options (output_message (take n bs'))"]
    by (auto simp: exec_output_def exec_server_Send_def Let_def split: prod.split)
qed

lemma exec_loops_stopped:
  assumes "ending_session ss (svc_cli svc) st tty todo" and "\<not> er_output r"
  shows "\<exists>r'. exec_loops ss svc st tty sched r = Inr r' \<and> \<not> er_output r'"
  using assms(2)
proof (induction sched arbitrary: r)
  case (Cons turn sched)
  show ?case
  proof (cases "turn \<and> er_input r")
    case True
    obtain on s' where "exec_input ss svc st tty (er_state r) = Inr (on, s')"
      using ending_input [OF assms(1)] by blast
    then show ?thesis using True Cons.prems Cons.IH [of "r\<lparr>er_input := on, er_state := s'\<rparr>"] by simp
  next
    case False
    then show ?thesis using Cons by (cases turn) auto
  qed
qed simp

lemma exec_loops_end:
  assumes "ending_session ss (svc_cli svc) st tty todo"
  shows "er_buffer r \<noteq> [] \<Longrightarrow> todo (er_state r) < length (filter Not sched) \<Longrightarrow>
    \<exists>r'. exec_loops ss svc st tty sched r = Inr r' \<and> \<not> er_output r'"
proof (induction sched arbitrary: r)
  case (Cons turn sched)
  show ?case
  proof (cases turn)
    case True
    show ?thesis
    proof (cases "er_input r")
      case True
      obtain on s' where "exec_input ss svc st tty (er_state r) = Inr (on, s')" "todo s' \<le> todo (er_state r)"
        using ending_input [OF assms] by blast
      then show ?thesis
        using True \<open>turn\<close> Cons.prems Cons.IH [of "r\<lparr>er_input := on, er_state := s'\<rparr>"] by simp
    next
      case False
      then show ?thesis using \<open>turn\<close> Cons by simp
    qed
  next
    case False
    show ?thesis
    proof (cases "er_output r")
      case True
      obtain on bs' s' where out: "exec_output ss svc st tty (er_buffer r) (er_state r) = Inr (on, bs', s')" "bs' \<noteq> []"
        "on \<longrightarrow> todo s' < todo (er_state r)"
        using ending_output [OF assms Cons.prems(1)] by blast
      let ?r = "r\<lparr>er_output := on, er_buffer := bs', er_state := s'\<rparr>"
      have "\<exists>r'. exec_loops ss svc st tty sched ?r = Inr r' \<and> \<not> er_output r'"
        using out False Cons.prems(2) Cons.IH [of ?r] exec_loops_stopped [OF assms, of ?r sched] by (cases on) auto
      then show ?thesis using out True False by simp
    next
      case stopped: False
      then show ?thesis using exec_loops_stopped [OF assms stopped, of "turn # sched"] by simp
    qed
  qed
qed simp


text \<open>A terminal that delivers what its state holds, and a client that types and never stops.\<close>

definition ending_cli :: "(bytes list, unit, unit) cli" where
  "ending_cli =
     \<lparr>be_GetInfo = (\<lambda>cid s. Inr (zero_container, s)), be_List = (\<lambda>s. Inr ([], s)), be_Start = (\<lambda>cid s. Inr (None, s)),
      be_Stop = (\<lambda>cid s. Inr (None, s)), be_Restart = (\<lambda>cid s. Inr (None, s)), be_Exec = (\<lambda>c s. Inr (Inr (), s)),
      be_Close = (\<lambda>s. Inr (None, s)), be_Logs = (\<lambda>opts s. Inr ((Some (), None), s)),
      tty_Read = (\<lambda>t p s. conn_read p s), tty_Write = (\<lambda>t p s. Inr ((length p, None), s)), tty_Exit = (\<lambda>t s. Inr (None, s)),
      tty_ResizeTerminal = (\<lambda>t width height s. Inr (None, s)), log_Read = (\<lambda>r p s. conn_read p s)\<rparr>"

definition typing_client :: "(unit, bytes list) server_streams" where
  "typing_client =
     \<lparr>ss_SendMsg = (\<lambda>st m s. (None, s)),
      ss_RecvMsg = (\<lambda>st out s. (Inr (M_exec_options (new_exec_options\<lparr>eo_Cmd := Some new_io, eo_C := Some new_container\<rparr>)), s))\<rparr>"

lemma ending_cli_session: "ending_session typing_client ending_cli () () conn_todo"
  unfolding ending_session_def
proof (intro conjI allI impI)
  fix p :: bytes and s :: "bytes list" assume p: "p \<noteq> []"
  obtain n p' e s' where r: "conn_read p s = Inr (n, p', e, s')" using conn.ready_step by blast
  have "e = Some EOF \<or> e = None" using r by (cases s) (auto simp: Let_def split: prod.splits)
  then have "e = Some EOF \<or> conn_todo s' < conn_todo s" using r conn_ends.progress [OF p, of s n p' s'] by auto
  then show "\<exists>n p' e s'. tty_Read ending_cli () p s = Inr (n, p', e, s') \<and> n \<le> length p \<and> length p' = length p \<and>
      (e = Some EOF \<or> conn_todo s' < conn_todo s)"
    using r conn.read_contract [OF r] by (simp add: ending_cli_def)
qed (auto simp: ending_cli_def typing_client_def exec_server_Recv_def)


text \<open>The log stream likewise: as many rounds as the stream has reads, and one for its end, are enough.\<close>

lemma logs_loop_ends:
  assumes read: "\<And>p s. p \<noteq> [] \<Longrightarrow> \<exists>n p' e s'. log_Read (svc_cli svc) rc p s = Inr (n, p', e, s') \<and> n \<le> length p \<and>
      length p' = length p \<and> (e \<noteq> None \<or> todo s' < todo s)"
    and send: "\<And>m s. todo (snd (ss_SendMsg ss st m s)) \<le> todo s"
  shows "buff \<noteq> [] \<Longrightarrow> todo s < fuel \<Longrightarrow> \<exists>e s'. logs_loop ss svc st rc fuel buff s = Inr (Some (e, s'))"
proof (induction fuel arbitrary: buff s)
  case (Suc fuel)
  obtain n buff' e s1 where r: "log_Read (svc_cli svc) rc buff s = Inr (n, buff', e, s1)" "n \<le> length buff"
    "length buff' = length buff" "e \<noteq> None \<or> todo s1 < todo s"
    using read [OF Suc.prems(1), of s] by blast
  show ?case
  proof (cases e)
    case None
    obtain err s2 where sent: "logs_server_Send ss st (new_io\<lparr>io_In := take n buff'\<rparr>) s1 = (err, s2)" by fastforce
    then have "todo s2 \<le> todo s1" using send [of "M_io (new_io\<lparr>io_In := take n buff'\<rparr>)" s1] by (simp add: logs_server_Send_def)
    then have "\<exists>e s'. logs_loop ss svc st rc fuel buff' s2 = Inr (Some (e, s'))"
      using r None Suc.prems by (intro Suc.IH) auto
    then show ?thesis using r None sent by (cases err) simp_all
  next
    case (Some x)
    then show ?thesis using r by simp
  qed
qed simp

section \<open>A stream between two instances\<close>

text \<open>
  The world of one exec stream: the state of the backend behind the server, the messages on their
  way to it, and those on their way back.  The stream is reliable and keeps the order, as gRPC's
  streams do; at the end of what was sent a receive reports \<^const>\<open>EOF\<close>.
\<close>

record 'b link =
  lk_back :: 'b
  lk_up :: "msg list"
  lk_down :: "msg list"

definition over_link :: "('b \<Rightarrow> ('a \<times> 'b) outcome) \<Rightarrow> 'b link \<Rightarrow> ('a \<times> 'b link) outcome" where
  "over_link f l = obind (f (lk_back l)) (\<lambda>(x, b). Inr (x, l\<lparr>lk_back := b\<rparr>))"

definition over_read :: "'b reader \<Rightarrow> 'b link reader" where
  "over_read r p l = obind (r p (lk_back l)) (\<lambda>(n, p', e, b). Inr (n, p', e, l\<lparr>lk_back := b\<rparr>))"

definition link_cli :: "('b, 't, 'r) cli \<Rightarrow> ('b link, 't, 'r) cli" where
  "link_cli cli =
     \<lparr>be_GetInfo = (\<lambda>cid. over_link (be_GetInfo cli cid)), be_List = over_link (be_List cli),
      be_Start = (\<lambda>cid. over_link (be_Start cli cid)), be_Stop = (\<lambda>cid. over_link (be_Stop cli cid)),
      be_Restart = (\<lambda>cid. over_link (be_Restart cli cid)), be_Exec = (\<lambda>c. over_link (be_Exec cli c)),
      be_Close = over_link (be_Close cli), be_Logs = (\<lambda>opts. over_link (be_Logs cli opts)),
      tty_Read = (\<lambda>t. over_read (tty_Read cli t)), tty_Write = (\<lambda>t p. over_link (tty_Write cli t p)),
      tty_Exit = (\<lambda>t. over_link (tty_Exit cli t)),
      tty_ResizeTerminal = (\<lambda>t width height. over_link (tty_ResizeTerminal cli t width height)),
      log_Read = (\<lambda>r. over_read (log_Read cli r))\<rparr>"

definition link_streams :: "(unit, 'b link) server_streams" where
  "link_streams =
     \<lparr>ss_SendMsg = (\<lambda>st m l. (None, l\<lparr>lk_down := lk_down l @ [m]\<rparr>)),
      ss_RecvMsg = (\<lambda>st out l. case lk_up l of [] \<Rightarrow> (Inl EOF, l) | m # ms \<Rightarrow> (Inr m, l\<lparr>lk_up := ms\<rparr>))\<rparr>"

definition link_service :: "('b, 't, 'r) cli \<Rightarrow> string \<Rightarrow> ('b link, 't, 'r) container_service" where
  "link_service cli auth = newContainerService (link_cli cli) auth"

text \<open>The client's end: unary calls are served as before, the one stream is the link.\<close>

definition link_conn :: "('b, 't, 'r) cli \<Rightarrow> string \<Rightarrow> 'b link rpc_conn" where
  "link_conn cli auth =
     (loopback (proxy_service link_streams [] 0 (link_service cli auth)) EOF EOF)
       \<lparr>rc_NewClientStream := (\<lambda>method l. (Inr 0, l)),
        rc_SendMsg := (\<lambda>x m l. (None, l\<lparr>lk_up := lk_up l @ [m]\<rparr>)),
        rc_RecvMsg := (\<lambda>x out l. case lk_down l of [] \<Rightarrow> (Inl EOF, l) | m # ms \<Rightarrow> (Inr m, l\<lparr>lk_down := ms\<rparr>))\<rparr>"

lemma link_stream_sels [simp]:
  "ss_SendMsg link_streams st m l = (None, l\<lparr>lk_down := lk_down l @ [m]\<rparr>)"
  "ss_RecvMsg link_streams st out l = (case lk_up l of [] \<Rightarrow> (Inl EOF, l) | m # ms \<Rightarrow> (Inr m, l\<lparr>lk_up := ms\<rparr>))"
  by (simp_all add: link_streams_def)

lemma link_conn_sels [simp]:
  "rc_NewClientStream (link_conn cli auth) method l = (Inr 0, l)"
  "rc_SendMsg (link_conn cli auth) x m l = (None, l\<lparr>lk_up := lk_up l @ [m]\<rparr>)"
  "rc_RecvMsg (link_conn cli auth) x out l = (case lk_down l of [] \<Rightarrow> (Inl EOF, l) | m # ms \<Rightarrow> (Inr m, l\<lparr>lk_down := ms\<rparr>))"
  by (simp_all add: link_conn_def)

section \<open>Using the terminal\<close>

text \<open>
  What happens to a terminal, in order: it is typed into, resized, read from, and read to its end.
  \<open>direct_use\<close> is the use of a backend's terminal by these, with the buffer of 1024 bytes of every
  reader of the program.
\<close>

datatype term_op = Typed bytes | Resized int int
datatype tty_event = Op term_op | Out bytes | Ended

inductive direct_use :: "('b, 't, 'r) cli \<Rightarrow> 't \<Rightarrow> tty_event list \<Rightarrow> 'b \<Rightarrow> 'b \<Rightarrow> bool"
  for cli :: "('b, 't, 'r) cli" and tty :: 't where
  unused: "direct_use cli tty [] b b"
| typed: "direct_use cli tty es b b1 \<Longrightarrow> tty_Write cli tty p b1 = Inr (r, b2) \<Longrightarrow>
    direct_use cli tty (es @ [Op (Typed p)]) b b2"
| resized: "direct_use cli tty es b b1 \<Longrightarrow> tty_ResizeTerminal cli tty width height b1 = Inr (e, b2) \<Longrightarrow>
    direct_use cli tty (es @ [Op (Resized width height)]) b b2"
| printed: "direct_use cli tty es b b1 \<Longrightarrow> length p = 1024 \<Longrightarrow> tty_Read cli tty p b1 = Inr (n, p', e, b2) \<Longrightarrow>
    e \<noteq> Some EOF \<Longrightarrow> direct_use cli tty (es @ [Out (take n p')]) b b2"
| at_end: "direct_use cli tty es b b1 \<Longrightarrow> length p = 1024 \<Longrightarrow> tty_Read cli tty p b1 = Inr (n, p', Some EOF, b2) \<Longrightarrow>
    direct_use cli tty (es @ [Ended]) b b2"

fun op_of_event :: "tty_event \<Rightarrow> term_op list" where
  "op_of_event (Op x) = [x]" | "op_of_event _ = []"

fun out_of_event :: "tty_event \<Rightarrow> bytes list" where
  "out_of_event (Out x) = [x]" | "out_of_event _ = []"

definition ops_of :: "tty_event list \<Rightarrow> term_op list" where "ops_of es = concat (map op_of_event es)"
definition outs_of :: "tty_event list \<Rightarrow> bytes list" where "outs_of es = concat (map out_of_event es)"

lemma uses_simps [simp]:
  "ops_of [] = []" "outs_of [] = []" "ops_of (es @ es') = ops_of es @ ops_of es'" "outs_of (es @ es') = outs_of es @ outs_of es'"
  "ops_of [e] = op_of_event e" "outs_of [e] = out_of_event e"
  by (simp_all add: ops_of_def outs_of_def)

text \<open>A size as the wire carries it, in 32 bits.\<close>

definition int32 :: "int \<Rightarrow> int" where "int32 i = sint (word_of_int i :: 32 word)"

fun wire_op :: "term_op \<Rightarrow> term_op" where
  "wire_op (Typed p) = Typed p"
| "wire_op (Resized width height) = Resized (int32 width) (int32 height)"

text \<open>What a message means: to the server, and to the client.\<close>

definition op_of_msg :: "msg \<Rightarrow> term_op" where
  "op_of_msg m =
     (let x = out_exec_options m in
      case eo_Ws x of
        Some ws \<Rightarrow> Resized (sint (ws_Width ws)) (sint (ws_Height ws))
      | None \<Rightarrow> Typed (io_In (the (eo_Cmd x))))"

definition out_of_msg :: "msg \<Rightarrow> bytes" where
  "out_of_msg m = io_Out (the (eo_Cmd (out_exec_options m)))"

section \<open>The steps of a proxied terminal\<close>

record ('b, 't) prox =
  px_front :: "'b link exec_wrapper"
  px_tty :: 't
  px_run :: "'b link exec_run"
  px_typed :: "term_op list"
  px_shown :: "bytes list"

definition px_link :: "('b, 't) prox \<Rightarrow> 'b link" where "px_link s = er_state (px_run s)"

definition set_link :: "'b link \<Rightarrow> ('b, 't) prox \<Rightarrow> ('b, 't) prox" where
  "set_link l s = s\<lparr>px_run := (px_run s)\<lparr>er_state := l\<rparr>\<rparr>"

text \<open>
  The start: \<open>Exec\<close> of the proxy-mode backend has opened the stream and sent the first message, the
  server's \<open>Exec\<close> has received it and executed.  Then, in any order: the browser's bridge writes to
  the front terminal or resizes it, a round of the server's input loop takes a message, a round of
  its output loop reads the container's terminal, the bridge reads a message that has arrived.
\<close>

inductive prox_reach :: "('b, 't, 'r) cli \<Rightarrow> container \<Rightarrow> 'b \<Rightarrow> string \<Rightarrow> ('b, 't) prox \<Rightarrow> bool"
  for cli :: "('b, 't, 'r) cli" and c :: container and b :: 'b and auth :: string where
  opened: "grpc_Exec c (g, \<lparr>lk_back = b, lk_up = [], lk_down = []\<rparr>) = Inr (Inr enj, g', l1) \<Longrightarrow>
    map_of (gr_clients g) (c_LocServer c) = Some \<lparr>rm_addr = addr, rm_auth = auth, rm_conn = link_conn cli auth\<rparr> \<Longrightarrow>
    exec_open link_streams (link_service cli auth) () l1 = Inr (Inr tty, l2) \<Longrightarrow>
    prox_reach cli c b auth
      \<lparr>px_front = enj, px_tty = tty,
       px_run = \<lparr>er_input = True, er_output = True, er_buffer = replicate 1024 (CHR 0x00), er_state = l2\<rparr>,
       px_typed = [], px_shown = []\<rparr>"
| front_write: "prox_reach cli c b auth s \<Longrightarrow> wrapper_write p (px_front s) (px_link s) = (r, l) \<Longrightarrow>
    prox_reach cli c b auth (set_link l (s\<lparr>px_typed := px_typed s @ [Typed p]\<rparr>))"
| front_resize: "prox_reach cli c b auth s \<Longrightarrow>
    wrapper_ResizeTerminal sleep (px_front s) width height (px_link s) = (e, l) \<Longrightarrow>
    prox_reach cli c b auth (set_link l (s\<lparr>px_typed := px_typed s @ [Resized width height]\<rparr>))"
| server_input: "prox_reach cli c b auth s \<Longrightarrow> er_input (px_run s) \<Longrightarrow> lk_up (px_link s) \<noteq> [] \<Longrightarrow>
    exec_input link_streams (link_service cli auth) () (px_tty s) (px_link s) = Inr (on, l) \<Longrightarrow>
    prox_reach cli c b auth (s\<lparr>px_run := (px_run s)\<lparr>er_input := on, er_state := l\<rparr>\<rparr>)"
| server_output: "prox_reach cli c b auth s \<Longrightarrow> er_output (px_run s) \<Longrightarrow>
    exec_output link_streams (link_service cli auth) () (px_tty s) (er_buffer (px_run s)) (px_link s) = Inr (on, bs, l) \<Longrightarrow>
    prox_reach cli c b auth (s\<lparr>px_run := (px_run s)\<lparr>er_output := on, er_buffer := bs, er_state := l\<rparr>\<rparr>)"
| front_read: "prox_reach cli c b auth s \<Longrightarrow> lk_down (px_link s) \<noteq> [] \<Longrightarrow> length p = 1024 \<Longrightarrow>
    wrapper_read p (px_front s, px_link s) = Inr (n, p', e, enj, l) \<Longrightarrow>
    prox_reach cli c b auth (set_link l (s\<lparr>px_front := enj, px_shown := px_shown s @ [take n p']\<rparr>))"

section \<open>The simulation\<close>

text \<open>
  What holds throughout: the front terminal writes to the link; there is a use of the container's
  terminal that leads to the backend's state, whose input is what was typed less what is on its
  way, and whose output is what was shown and what is on its way.
\<close>

definition up_ok :: "msg \<Rightarrow> bool" where
  "up_ok m \<longleftrightarrow> (\<exists>x. m = M_exec_options x \<and> (eo_Ws x \<noteq> None \<or> eo_Cmd x \<noteq> None))"

definition down_ok :: "msg \<Rightarrow> bool" where
  "down_ok m \<longleftrightarrow> (\<exists>out. m = M_exec_options (output_message out) \<and> length out \<le> 1024)"

definition prox_inv :: "('b, 't, 'r) cli \<Rightarrow> string \<Rightarrow> 'b \<Rightarrow> ('b, 't) prox \<Rightarrow> tty_event list \<Rightarrow> bool" where
  "prox_inv cli auth b1 s es \<longleftrightarrow>
     ew_conn (px_front s) = link_conn cli auth \<and> length (er_buffer (px_run s)) = 1024 \<and>
     (\<forall>m \<in> set (lk_up (px_link s)). up_ok m) \<and> (\<forall>m \<in> set (lk_down (px_link s)). down_ok m) \<and>
     direct_use cli (px_tty s) es b1 (lk_back (px_link s)) \<and>
     map wire_op (px_typed s) = ops_of es @ map op_of_msg (lk_up (px_link s)) \<and>
     outs_of es = px_shown s @ map out_of_msg (lk_down (px_link s))"

lemma front_write_link:
  "ew_conn enj = link_conn cli auth \<Longrightarrow> wrapper_write p enj l = (r, l') \<Longrightarrow>
   l' = l\<lparr>lk_up := lk_up l @ [M_exec_options (input_message p)]\<rparr>"
  by (auto simp: wrapper_write_def exec_client_Send_def)

lemma front_resize_link:
  "ew_conn enj = link_conn cli auth \<Longrightarrow> wrapper_ResizeTerminal sleep enj width height l = (e, l') \<Longrightarrow>
   l' = l\<lparr>lk_up := lk_up l @ [M_exec_options (new_exec_options\<lparr>eo_Ws := Some
     \<lparr>ws_Height = word_of_int height, ws_Width = word_of_int width\<rparr>\<rparr>)]\<rparr>"
  by (auto simp: wrapper_ResizeTerminal_def wrapper_resize_def exec_client_Send_def numeral_3_eq_3)

lemma sent_up_ok:
  "up_ok (M_exec_options (input_message p))" "op_of_msg (M_exec_options (input_message p)) = wire_op (Typed p)"
  "up_ok (M_exec_options (new_exec_options\<lparr>eo_Ws := Some ws\<rparr>))"
  "op_of_msg (M_exec_options (new_exec_options\<lparr>eo_Ws := Some \<lparr>ws_Height = word_of_int height, ws_Width = word_of_int width\<rparr>\<rparr>)) =
     wire_op (Resized width height)"
  by (simp_all add: up_ok_def op_of_msg_def input_message_def new_exec_options_def new_io_def int32_def)

lemma link_service_cli [simp]: "svc_cli (link_service cli auth) = link_cli cli" "svc_auth (link_service cli auth) = auth"
  by (simp_all add: link_service_def newContainerService_def)

text \<open>A round of the server's input loop uses the terminal as the first message on its way says.\<close>

lemma server_input_link:
  assumes "exec_input link_streams (link_service cli auth) () tty l = Inr (on, l')"
    and "lk_up l = m # ms" and "up_ok m" and "direct_use cli tty es b1 (lk_back l)"
  shows "lk_up l' = ms \<and> lk_down l' = lk_down l \<and> direct_use cli tty (es @ [Op (op_of_msg m)]) b1 (lk_back l')"
proof -
  obtain x where m: "m = M_exec_options x" "eo_Ws x \<noteq> None \<or> eo_Cmd x \<noteq> None"
    using assms(3) by (auto simp: up_ok_def)
  show ?thesis
  proof (cases "eo_Ws x")
    case None
    then obtain cmd where cmd: "eo_Cmd x = Some cmd" using m(2) by auto
    then obtain n e b' where w: "tty_Write cli tty (io_In cmd) (lk_back l) = Inr ((n, e), b')" "l' = l\<lparr>lk_up := ms, lk_back := b'\<rparr>"
      using assms(1,2) None m(1)
      by (auto simp: exec_input_def exec_server_Recv_def link_cli_def over_link_def)
    show ?thesis using direct_use.typed [OF assms(4) w(1)] w(2) None cmd m(1) by (simp add: op_of_msg_def)
  next
    case (Some ws)
    then obtain e b' where w: "tty_ResizeTerminal cli tty (sint (ws_Width ws)) (sint (ws_Height ws)) (lk_back l) = Inr (e, b')"
      "l' = l\<lparr>lk_up := ms, lk_back := b'\<rparr>"
      using assms(1,2) m(1)
      by (auto simp: exec_input_def exec_server_Recv_def link_cli_def over_link_def)
    show ?thesis using direct_use.resized [OF assms(4) w(1)] w(2) Some m(1) by (simp add: op_of_msg_def)
  qed
qed

definition reads_within :: "('b, 't, 'r) cli \<Rightarrow> 't \<Rightarrow> bool" where
  "reads_within cli tty \<longleftrightarrow>
     (\<forall>p b n p' e b'. tty_Read cli tty p b = Inr (n, p', e, b') \<longrightarrow> n \<le> length p \<and> length p' = length p)"

text \<open>A round of its output loop reads the terminal, to its end or a piece that it sends.\<close>

lemma server_output_link:
  assumes "exec_output link_streams (link_service cli auth) () tty bs l = Inr (on, bs', l')"
    and "length bs = 1024" and "reads_within cli tty" and "direct_use cli tty es b1 (lk_back l)"
  shows "length bs' = 1024 \<and> lk_up l' = lk_up l \<and>
    (lk_down l' = lk_down l \<and> direct_use cli tty (es @ [Ended]) b1 (lk_back l') \<or>
     (\<exists>out. length out \<le> 1024 \<and> lk_down l' = lk_down l @ [M_exec_options (output_message out)] \<and>
        direct_use cli tty (es @ [Out out]) b1 (lk_back l')))"
proof -
  obtain n e b' where read: "tty_Read cli tty bs (lk_back l) = Inr (n, bs', e, b')"
    "e = Some EOF \<and> l' = l\<lparr>lk_back := b'\<rparr> \<or>
     e \<noteq> Some EOF \<and> n \<le> length bs' \<and> l' = l\<lparr>lk_back := b', lk_down := lk_down l @ [M_exec_options (output_message (take n bs'))]\<rparr>"
    using assms(1)
    by (auto simp: exec_output_def exec_server_Send_def link_cli_def over_read_def go_slice_Inr split: if_splits)
  have len: "n \<le> 1024" "length bs' = 1024" using assms(2,3) read(1) unfolding reads_within_def by metis+
  from read(2) show ?thesis
  proof
    assume "e = Some EOF \<and> l' = l\<lparr>lk_back := b'\<rparr>"
    then show ?thesis using direct_use.at_end [OF assms(4,2)] read(1) len by simp
  next
    assume "e \<noteq> Some EOF \<and> n \<le> length bs' \<and> l' = l\<lparr>lk_back := b', lk_down := lk_down l @ [M_exec_options (output_message (take n bs'))]\<rparr>"
    then show ?thesis using direct_use.printed [OF assms(4,2) read(1)] len by (auto intro!: exI [of _ "take n bs'"])
  qed
qed

text \<open>The bridge's read in front hands out the first message that has arrived.\<close>

lemma front_read_link:
  assumes "wrapper_read p (enj, l) = Inr (n, p', e, enj', l')" and "ew_conn enj = link_conn cli auth"
    and "lk_down l = m # ms" and "down_ok m" and "length p = 1024"
  shows "l' = l\<lparr>lk_down := ms\<rparr> \<and> ew_conn enj' = link_conn cli auth \<and> take n p' = out_of_msg m"
proof -
  obtain out where m: "m = M_exec_options (output_message out)" "length out \<le> 1024"
    using assms(4) by (auto simp: down_ok_def)
  obtain ch where ch: "touch_active (ew_active enj) = Inr ch"
    using assms(1) by (auto simp: wrapper_read_def)
  have recv: "exec_client_Recv (link_conn cli auth) (ew_exec enj) l = (Inr (output_message out), l\<lparr>lk_down := ms\<rparr>)"
    using assms(3) m(1) by (simp add: exec_client_Recv_def)
  show ?thesis
    using assms(1,2,5) ch recv m
    by (auto simp: wrapper_read_def output_message_def out_of_msg_def new_exec_options_def new_io_def go_copy_def Let_def)
qed

text \<open>The start: what the two ends of \<open>Exec\<close> leave of the link.\<close>

lemma link_alive:
  "remote_alive \<lparr>rm_addr = addr, rm_auth = auth, rm_conn = link_conn cli auth\<rparr> l = (True, l)"
proof -
  have "client_Ping (link_conn cli auth) \<lparr>em_Auth = auth\<rparr> l = client_Ping (loopback (proxy_service link_streams [] 0
      (link_service cli auth)) EOF EOF) \<lparr>em_Auth = auth\<rparr> l"
    by (simp add: client_Ping_def link_conn_def)
  also have "\<dots> = (Inr \<lparr>po_Msg = ''pong''\<rparr>, l)"
    by (simp add: client_Ping_def loopback_def serve_methods proxy_service_def svc_Ping_def guarded_admits box_reply_def)
  finally show ?thesis by (simp add: remote_alive_def)
qed

lemma prox_opened:
  assumes "grpc_Exec c (g, \<lparr>lk_back = b, lk_up = [], lk_down = []\<rparr>) = Inr (Inr enj, g', l1)"
    and "map_of (gr_clients g) (c_LocServer c) = Some \<lparr>rm_addr = addr, rm_auth = auth, rm_conn = link_conn cli auth\<rparr>"
    and "exec_open link_streams (link_service cli auth) () l1 = Inr (Inr tty, l2)"
  shows "ew_conn enj = link_conn cli auth \<and> lk_up l2 = [] \<and> lk_down l2 = [] \<and>
    be_Exec cli (unprivileged c) b = Inr (Inr tty, lk_back l2)"
proof -
  let ?m = "M_exec_options (new_exec_options\<lparr>eo_C := Some (ConvertTpContainer c), eo_Auth := gr_auth g\<rparr>)"
  have front: "enj = newExecWrapper (link_conn cli auth) 0" "l1 = \<lparr>lk_back = b, lk_up = [?m], lk_down = []\<rparr>"
    using assms(1,2) by (auto simp: grpc_Exec_def link_alive client_Exec_def exec_client_Send_def split: if_splits)
  show ?thesis
    using assms(3) front
    by (auto simp: newExecWrapper_def exec_open_def exec_server_Recv_def checkAuth_def link_cli_def over_link_def
        new_exec_options_def split: if_splits)
qed

lemmas px_defs = px_link_def set_link_def

lemma prox_start_inv:
  assumes "ew_conn enj = link_conn cli auth" and "lk_up l = []" and "lk_down l = []"
  shows "prox_inv cli auth (lk_back l)
    \<lparr>px_front = enj, px_tty = tty,
     px_run = \<lparr>er_input = True, er_output = True, er_buffer = replicate 1024 (CHR 0x00), er_state = l\<rparr>,
     px_typed = [], px_shown = []\<rparr> []"
  using assms by (simp add: prox_inv_def px_defs direct_use.unused)

lemma prox_reach_inv:
  assumes "prox_reach cli c b auth s" and within: "\<forall>tty. reads_within cli tty"
  shows "\<exists>b1 es. be_Exec cli (unprivileged c) b = Inr (Inr (px_tty s), b1) \<and> prox_inv cli auth b1 s es"
  using assms(1)
proof (induction rule: prox_reach.induct)
  case (opened g enj g' l1 addr tty l2)
  show ?case using prox_opened [OF opened] prox_start_inv [of enj cli auth l2] by auto
next
  case (front_write s p r l)
  then obtain b1 es where inv: "be_Exec cli (unprivileged c) b = Inr (Inr (px_tty s), b1)" "prox_inv cli auth b1 s es" by auto
  have "l = (px_link s)\<lparr>lk_up := lk_up (px_link s) @ [M_exec_options (input_message p)]\<rparr>"
    using front_write.hyps(2) inv(2) by (intro front_write_link) (simp_all add: prox_inv_def)
  then show ?case using inv by (intro exI [of _ b1] exI [of _ es]) (simp add: prox_inv_def px_defs sent_up_ok)
next
  case (front_resize s sleep width height e l)
  then obtain b1 es where inv: "be_Exec cli (unprivileged c) b = Inr (Inr (px_tty s), b1)" "prox_inv cli auth b1 s es" by auto
  have "l = (px_link s)\<lparr>lk_up := lk_up (px_link s) @ [M_exec_options (new_exec_options\<lparr>eo_Ws := Some
      \<lparr>ws_Height = word_of_int height, ws_Width = word_of_int width\<rparr>\<rparr>)]\<rparr>"
    using front_resize.hyps(2) inv(2) by (intro front_resize_link) (simp_all add: prox_inv_def)
  then show ?case using inv by (intro exI [of _ b1] exI [of _ es]) (simp add: prox_inv_def px_defs sent_up_ok)
next
  case (server_input s on l)
  then obtain b1 es where inv: "be_Exec cli (unprivileged c) b = Inr (Inr (px_tty s), b1)" "prox_inv cli auth b1 s es" by auto
  obtain m ms where up: "lk_up (px_link s) = m # ms" using server_input.hyps(3) by (cases "lk_up (px_link s)") auto
  have "lk_up l = ms \<and> lk_down l = lk_down (px_link s) \<and> direct_use cli (px_tty s) (es @ [Op (op_of_msg m)]) b1 (lk_back l)"
    using inv(2) up by (intro server_input_link [OF server_input.hyps(4) up]) (simp_all add: prox_inv_def)
  then show ?case
    using inv up by (intro exI [of _ b1] exI [of _ "es @ [Op (op_of_msg m)]"]) (simp add: prox_inv_def px_defs)
next
  case (server_output s on bs l)
  then obtain b1 es where inv: "be_Exec cli (unprivileged c) b = Inr (Inr (px_tty s), b1)" "prox_inv cli auth b1 s es" by auto
  have out: "length bs = 1024 \<and> lk_up l = lk_up (px_link s) \<and>
    (lk_down l = lk_down (px_link s) \<and> direct_use cli (px_tty s) (es @ [Ended]) b1 (lk_back l) \<or>
     (\<exists>out. length out \<le> 1024 \<and> lk_down l = lk_down (px_link s) @ [M_exec_options (output_message out)] \<and>
        direct_use cli (px_tty s) (es @ [Out out]) b1 (lk_back l)))"
    using inv(2) within by (intro server_output_link [OF server_output.hyps(3)]) (simp_all add: prox_inv_def)
  then consider (Ended) "lk_down l = lk_down (px_link s)" "direct_use cli (px_tty s) (es @ [Ended]) b1 (lk_back l)"
    | (Out) piece where "length piece \<le> 1024" "lk_down l = lk_down (px_link s) @ [M_exec_options (output_message piece)]"
        "direct_use cli (px_tty s) (es @ [Out piece]) b1 (lk_back l)" by blast
  then show ?case
  proof cases
    case Ended
    then show ?thesis using inv out
      by (intro exI [of _ b1] exI [of _ "es @ [Ended]"]) (simp add: prox_inv_def px_defs)
  next
    case Out
    have "out_of_msg (M_exec_options (output_message piece)) = piece"
      by (simp add: out_of_msg_def output_message_def new_exec_options_def new_io_def)
    then show ?thesis using inv out Out
      by (intro exI [of _ b1] exI [of _ "es @ [Out piece]"]) (auto simp: prox_inv_def px_defs down_ok_def)
  qed
next
  case (front_read s p n p' e enj l)
  then obtain b1 es where inv: "be_Exec cli (unprivileged c) b = Inr (Inr (px_tty s), b1)" "prox_inv cli auth b1 s es" by auto
  obtain m ms where down: "lk_down (px_link s) = m # ms" using front_read.hyps(2) by (cases "lk_down (px_link s)") auto
  have "l = (px_link s)\<lparr>lk_down := ms\<rparr> \<and> ew_conn enj = link_conn cli auth \<and> take n p' = out_of_msg m"
    using inv(2) down front_read.hyps(3) by (intro front_read_link [OF front_read.hyps(4)]) (simp_all add: prox_inv_def)
  then show ?case using inv down by (intro exI [of _ b1] exI [of _ es]) (simp add: prox_inv_def px_defs)
qed

lemma int32_fits: "- (2 ^ 31) \<le> i \<Longrightarrow> i < 2 ^ 31 \<Longrightarrow> int32 i = i"
  by (simp add: int32_def int_word_sint)

text \<open>
  C5. A proxied terminal refines the container's own.  However the browser's writes, resizes and
  reads in front interleave with the two loops of the server, the backend is in a state that
  somebody at the container's own terminal can bring about: the shell was executed for the same
  container without the privileged flag; what has been done to the terminal is, in order, what
  was typed and resized in front, less what is still on its way (sizes in 32 bits); and what
  was shown in front is what the terminal printed, less what is still on its way, nothing lost,
  doubled or reordered.
\<close>

theorem proxied_terminal_refines:
  assumes "prox_reach cli c b auth s" and "\<forall>tty. reads_within cli tty"
  shows "\<exists>b1 es. be_Exec cli (unprivileged c) b = Inr (Inr (px_tty s), b1) \<and>
    direct_use cli (px_tty s) es b1 (lk_back (px_link s)) \<and>
    map wire_op (px_typed s) = ops_of es @ map op_of_msg (lk_up (px_link s)) \<and>
    outs_of es = px_shown s @ map out_of_msg (lk_down (px_link s))"
  using prox_reach_inv [OF assms] by (auto simp: prox_inv_def)

text \<open>The example: a browser in front types \<open>ls\<close>, the container's terminal prints \<open>hi\<close>.\<close>

lemma prox_can_open:
  fixes g :: "'b link grpc_cli"
  assumes "map_of (gr_clients g) (c_LocServer c) = Some \<lparr>rm_addr = addr, rm_auth = auth, rm_conn = link_conn cli auth\<rparr>"
    and "gr_auth g = auth" and "c_ID c \<noteq> []" and "be_Exec cli (unprivileged c) b = Inr (Inr tty, b1)"
  shows "prox_reach cli c b auth
    \<lparr>px_front = newExecWrapper (link_conn cli auth) 0, px_tty = tty,
     px_run = \<lparr>er_input = True, er_output = True, er_buffer = replicate 1024 (CHR 0x00),
       er_state = \<lparr>lk_back = b1, lk_up = [], lk_down = []\<rparr>\<rparr>, px_typed = [], px_shown = []\<rparr>"
proof (rule prox_reach.opened [OF _ assms(1)])
  show "grpc_Exec c (g, \<lparr>lk_back = b, lk_up = [], lk_down = []\<rparr>) =
      Inr (Inr (newExecWrapper (link_conn cli auth) 0), g, \<lparr>lk_back = b,
        lk_up = [M_exec_options (new_exec_options\<lparr>eo_C := Some (ConvertTpContainer c), eo_Auth := auth\<rparr>)], lk_down = []\<rparr>)"
    using assms by (simp add: grpc_Exec_def link_alive client_Exec_def exec_client_Send_def)
  show "exec_open link_streams (link_service cli auth) () \<lparr>lk_back = b,
        lk_up = [M_exec_options (new_exec_options\<lparr>eo_C := Some (ConvertTpContainer c), eo_Auth := auth\<rparr>)], lk_down = []\<rparr> =
      Inr (Inr tty, \<lparr>lk_back = b1, lk_up = [], lk_down = []\<rparr>)"
    using assms by (simp add: exec_open_def exec_server_Recv_def checkAuth_def link_cli_def over_link_def)
qed

definition remote_web :: container where
  "remote_web = zero_container\<lparr>c_ID := ''c0ffee000000aa'', c_LocServer := ''remote:1''\<rparr>"

definition front_grpc :: "bytes list link grpc_cli" where
  "front_grpc =
     \<lparr>gr_servers = [''remote:1''], gr_auth = ''s'',
      gr_clients = [(''remote:1'', \<lparr>rm_addr = ''remote:1'', rm_auth = ''s'', rm_conn = link_conn ending_cli ''s''\<rparr>)],
      gr_containers = zero_containers\<rparr>"

definition sample_prox :: "active_chan \<Rightarrow> bytes \<Rightarrow> bytes list \<Rightarrow> msg list \<Rightarrow> msg list \<Rightarrow> term_op list \<Rightarrow> bytes list \<Rightarrow> (bytes list, unit) prox" where
  "sample_prox ch bs back up down tys sh =
     \<lparr>px_front = (newExecWrapper (link_conn ending_cli ''s'') 0)\<lparr>ew_active := ch\<rparr>, px_tty = (),
      px_run = \<lparr>er_input = True, er_output = True, er_buffer = bs, er_state = \<lparr>lk_back = back, lk_up = up, lk_down = down\<rparr>\<rparr>,
      px_typed = tys, px_shown = sh\<rparr>"

lemma sample_prox_typed:
  "\<exists>bs. bs = replicate 1024 (CHR 0x00) \<and> prox_reach ending_cli remote_web [''hi''] ''s''
     (sample_prox new_active bs [''hi''] [M_exec_options (input_message ''ls'')] [] [Typed ''ls''] [])"
proof -
  let ?P = "prox_reach ending_cli remote_web [''hi''] ''s''" and ?bs = "replicate 1024 (CHR 0x00)"
  have "?P (sample_prox new_active ?bs [''hi''] [] [] [] [])"
    using prox_can_open [of front_grpc remote_web "''remote:1''" "''s''" ending_cli "[''hi'']" "()" "[''hi'']"]
    by (simp add: front_grpc_def remote_web_def ending_cli_def zero_container_def sample_prox_def newExecWrapper_def)
  then have "?P (sample_prox new_active ?bs [''hi''] [M_exec_options (input_message ''ls'')] [] [Typed ''ls''] [])"
    by (drule_tac front_write [where p = "''ls''"])
      (auto simp: sample_prox_def px_defs wrapper_write_def exec_client_Send_def newExecWrapper_def)
  then show ?thesis by blast
qed

lemma sample_prox_reached:
  "\<exists>ch bs. prox_reach ending_cli remote_web [''hi''] ''s'' (sample_prox ch bs [] [] [] [Typed ''ls''] [''hi''])"
proof -
  let ?P = "prox_reach ending_cli remote_web [''hi''] ''s''" and ?bs = "replicate 1024 (CHR 0x00)"
  let ?in = "M_exec_options (input_message ''ls'')" and ?out = "M_exec_options (output_message ''hi'')"
  let ?bs' = "''hi'' @ drop 2 ?bs"
  have copy: "go_copy ?bs ''hi'' = (2, ?bs')" by (simp add: go_copy_def)
  have "?P (sample_prox new_active ?bs [''hi''] [?in] [] [Typed ''ls''] [])" using sample_prox_typed by blast
  then have "?P (sample_prox new_active ?bs [''hi''] [] [] [Typed ''ls''] [])"
    by (drule_tac server_input)
      (auto simp: sample_prox_def px_defs exec_input_def exec_server_Recv_def link_cli_def over_link_def ending_cli_def
        input_message_def new_exec_options_def new_io_def)
  then have "?P (sample_prox new_active ?bs' [] [] [?out] [Typed ''ls''] [])"
    using copy by (drule_tac server_output)
      (auto simp: sample_prox_def px_defs exec_output_def exec_server_Send_def link_cli_def over_read_def ending_cli_def)
  then have "?P (sample_prox (new_active\<lparr>ac_len := 1\<rparr>) ?bs' [] [] [] [Typed ''ls''] [''hi''])"
    by (drule_tac front_read [where p = ?bs])
      (auto simp: sample_prox_def px_defs wrapper_read_def exec_client_Recv_def newExecWrapper_def touch_active_def
        new_active_def output_message_def new_exec_options_def new_io_def copy)
  then show ?thesis by blast
qed

lemma ending_cli_within: "\<forall>tty. reads_within ending_cli tty"
  using conn_read_contract by (simp add: reads_within_def ending_cli_def)

theorem proxied_terminal_refines_witness:
  "\<exists>s es. prox_reach ending_cli remote_web [''hi''] ''s'' s \<and> px_typed s = [Typed ''ls''] \<and> px_shown s = [''hi''] \<and>
    direct_use ending_cli () es [''hi''] (lk_back (px_link s)) \<and> ops_of es = [Typed ''ls''] \<and> outs_of es = [''hi'']"
proof -
  obtain ch bs where r: "prox_reach ending_cli remote_web [''hi''] ''s'' (sample_prox ch bs [] [] [] [Typed ''ls''] [''hi''])"
    using sample_prox_reached by blast
  let ?s = "sample_prox ch bs [] [] [] [Typed ''ls''] [''hi'']"
  have sels: "px_tty ?s = ()" "px_typed ?s = [Typed ''ls'']" "px_shown ?s = [''hi'']" "lk_up (px_link ?s) = []"
    "lk_down (px_link ?s) = []" by (simp_all add: sample_prox_def px_defs)
  have exec: "be_Exec ending_cli c b = Inr (Inr (), b)" for c b by (simp add: ending_cli_def)
  obtain es where "direct_use ending_cli () es [''hi''] (lk_back (px_link ?s))"
    "[Typed ''ls''] = ops_of es" "outs_of es = [''hi'']"
    using proxied_terminal_refines [OF r ending_cli_within] unfolding sels exec by auto
  with r sels show ?thesis by metis
qed

section \<open>Nothing is stuck\<close>

lemma server_input_runs:
  assumes "lk_up l = m # ms" and "up_ok m" and "\<forall>p b. \<exists>b'. tty_Write cli tty p b = Inr ((length p, None), b')"
    and "\<forall>width height b. \<exists>e b'. tty_ResizeTerminal cli tty width height b = Inr (e, b')"
  shows "\<exists>l'. exec_input link_streams (link_service cli auth) () tty l = Inr (True, l') \<and>
    lk_up l' = ms \<and> lk_down l' = lk_down l"
proof -
  obtain x where m: "m = M_exec_options x" "eo_Ws x \<noteq> None \<or> eo_Cmd x \<noteq> None" using assms(2) by (auto simp: up_ok_def)
  have recv: "exec_server_Recv link_streams () l = (Inr x, l\<lparr>lk_up := ms\<rparr>)" using assms(1) m(1) by (simp add: exec_server_Recv_def)
  show ?thesis
  proof (cases "eo_Ws x")
    case None
    then obtain cmd where cmd: "eo_Cmd x = Some cmd" using m(2) by auto
    obtain b' where "tty_Write cli tty (io_In cmd) (lk_back l) = Inr ((length (io_In cmd), None), b')" using assms(3) by blast
    then show ?thesis using None cmd recv by (simp add: exec_input_def link_cli_def over_link_def)
  next
    case (Some ws)
    obtain e b' where "tty_ResizeTerminal cli tty (sint (ws_Width ws)) (sint (ws_Height ws)) (lk_back l) = Inr (e, b')"
      using assms(4) by blast
    then show ?thesis using Some recv by (simp add: exec_input_def link_cli_def over_link_def)
  qed
qed

lemma front_read_runs:
  assumes "lk_down l = m # ms" and "down_ok m" and "ew_conn enj = link_conn cli auth" and "\<not> ac_closed (ew_active enj)"
  shows "\<exists>n p' enj'. wrapper_read p (enj, l) = Inr (n, p', None, enj', l\<lparr>lk_down := ms\<rparr>)"
proof -
  obtain out where m: "m = M_exec_options (output_message out)" using assms(2) by (auto simp: down_ok_def)
  have "\<exists>ch. touch_active (ew_active enj) = Inr ch" using assms(4) by (simp add: touch_active_def)
  then obtain ch where ch: "touch_active (ew_active enj) = Inr ch" by blast
  have "exec_client_Recv (ew_conn enj) (ew_exec enj) l = (Inr (output_message out), l\<lparr>lk_down := ms\<rparr>)"
    using assms(1,3) m by (simp add: exec_client_Recv_def)
  then show ?thesis using ch by (simp add: wrapper_read_def output_message_def new_exec_options_def)
qed

text \<open>As long as nobody leaves the front terminal, its channel is open.\<close>

lemma touch_active_closed: "touch_active ch = Inr ch' \<Longrightarrow> ac_closed ch' = ac_closed ch"
  by (auto simp: touch_active_def split: if_splits)

lemma wrapper_read_open: "wrapper_read p (enj, l) = Inr (n, p', e, enj', l') \<Longrightarrow> ac_closed (ew_active enj') = ac_closed (ew_active enj)"
  using wrapper_terminal.read_active [of p "(enj, l)"] by (auto simp: wrapper_ActiveChan_def dest: touch_active_closed)

lemma prox_channel_open: "prox_reach cli c b auth s \<Longrightarrow> \<not> ac_closed (ew_active (px_front s))"
proof (induction rule: prox_reach.induct)
  case (opened g enj g' l1 addr tty l2)
  then show ?case
    by (auto simp: grpc_Exec_def newExecWrapper_def new_active_def Let_def split: prod.splits sum.splits if_splits option.splits)
qed (auto simp: px_defs dest: wrapper_read_open)

text \<open>The server's loop takes all that is on its way; then the bridge in front reads all that has arrived.\<close>

lemma input_drains:
  assumes "\<forall>tty. reads_within cli tty" and "\<forall>p b. \<exists>b'. tty_Write cli tty p b = Inr ((length p, None), b')"
    and "\<forall>width height b. \<exists>e b'. tty_ResizeTerminal cli tty width height b = Inr (e, b')"
  shows "prox_reach cli c b auth s \<Longrightarrow> px_tty s = tty \<Longrightarrow> er_input (px_run s) \<Longrightarrow> lk_up (px_link s) = ms \<Longrightarrow>
    \<exists>s'. prox_reach cli c b auth s' \<and> px_typed s' = px_typed s \<and> px_shown s' = px_shown s \<and>
      lk_up (px_link s') = [] \<and> lk_down (px_link s') = lk_down (px_link s)"
proof (induction ms arbitrary: s)
  case (Cons m ms)
  obtain b1 es where "prox_inv cli auth b1 s es" using prox_reach_inv [OF Cons.prems(1) assms(1)] by blast
  then have "up_ok m" using Cons.prems(4) by (simp add: prox_inv_def)
  with Cons.prems(4) obtain l where l: "exec_input link_streams (link_service cli auth) () (px_tty s) (px_link s) = Inr (True, l)"
    "lk_up l = ms" "lk_down l = lk_down (px_link s)"
    using server_input_runs [of "px_link s" m ms cli tty auth] assms(2,3) Cons.prems(2) by blast
  let ?s = "s\<lparr>px_run := (px_run s)\<lparr>er_input := True, er_state := l\<rparr>\<rparr>"
  have "lk_up (px_link s) \<noteq> []" using Cons.prems(4) by simp
  from server_input [OF Cons.prems(1,3) this l(1)] have "prox_reach cli c b auth ?s" .
  from Cons.IH [OF this] show ?case using l(2,3) Cons.prems(2) by (simp add: px_link_def)
qed blast

lemma output_drains:
  assumes "\<forall>tty. reads_within cli tty"
  shows "prox_reach cli c b auth s \<Longrightarrow> lk_down (px_link s) = ms \<Longrightarrow>
    \<exists>s'. prox_reach cli c b auth s' \<and> px_typed s' = px_typed s \<and> px_shown s' = px_shown s @ map out_of_msg ms \<and>
      lk_up (px_link s') = lk_up (px_link s) \<and> lk_down (px_link s') = []"
proof (induction ms arbitrary: s)
  case (Cons m ms)
  obtain b1 es where inv: "prox_inv cli auth b1 s es" using prox_reach_inv [OF Cons.prems(1) assms] by blast
  then have m: "down_ok m" "ew_conn (px_front s) = link_conn cli auth" using Cons.prems(2) by (simp_all add: prox_inv_def)
  let ?p = "replicate 1024 (CHR 0x00)" and ?l = "(px_link s)\<lparr>lk_down := ms\<rparr>"
  obtain n p' enj where read: "wrapper_read ?p (px_front s, px_link s) = Inr (n, p', None, enj, ?l)"
    using front_read_runs [OF Cons.prems(2) m prox_channel_open [OF Cons.prems(1)], of ?p] by blast
  have out: "take n p' = out_of_msg m" using front_read_link [OF read m(2) Cons.prems(2) m(1)] by simp
  let ?s = "set_link ?l (s\<lparr>px_front := enj, px_shown := px_shown s @ [take n p']\<rparr>)"
  have "lk_down (px_link s) \<noteq> []" using Cons.prems(2) by simp
  from front_read [OF Cons.prems(1) this _ read] have "prox_reach cli c b auth ?s" by simp
  from Cons.IH [OF this] show ?case using out by (simp add: px_defs)
qed auto



end
