(* ===== verification/Config.thy ===== *)
theory Config
  imports Backends
begin

text \<open>
  Configuration and start-up: config/config.go, the flag table and the action of main.go, and
  run.go.  Package cli (urfave/cli) resolves a flag to a value from the command line, the
  environment or its default, a parameter here; package ecp fills the server options from the
  environment, another; \<open>time.ParseDuration\<close> is a third.
\<close>

section \<open>The configuration\<close>

record control_config =
  ctl_Enable :: bool
  ctl_All :: bool
  ctl_Start :: bool
  ctl_Stop :: bool
  ctl_Restart :: bool

record server_config =
  srv_Address :: string
  srv_Port :: int
  srv_Base :: string
  srv_GrpcPort :: int
  srv_IdleTime :: duration
  srv_Credential :: string
  srv_EnableReconnect :: bool
  srv_ReconnectTime :: int
  srv_MaxConnection :: int
  srv_WSOrigin :: string
  srv_Term :: string
  srv_ShowLocation :: bool
  srv_Collaborate :: bool
  srv_EnableAudit :: bool
  srv_AuditLogDir :: string
  srv_Control :: control_config

record config =
  cf_Debug :: bool
  cf_Backend :: backend_config
  cf_Server :: server_config

definition zero_control :: control_config where
  "zero_control = \<lparr>ctl_Enable = False, ctl_All = False, ctl_Start = False, ctl_Stop = False, ctl_Restart = False\<rparr>"

definition zero_server :: server_config where
  "zero_server =
     \<lparr>srv_Address = [], srv_Port = 0, srv_Base = [], srv_GrpcPort = 0, srv_IdleTime = 0, srv_Credential = [],
      srv_EnableReconnect = False, srv_ReconnectTime = 0, srv_MaxConnection = 0, srv_WSOrigin = [],
      srv_Term = [], srv_ShowLocation = False, srv_Collaborate = False, srv_EnableAudit = False,
      srv_AuditLogDir = [], srv_Control = zero_control\<rparr>"

definition new_config :: config where
  "new_config =
     \<lparr>cf_Debug = False,
      cf_Backend = \<lparr>bc_Type = [], bc_Docker = \<lparr>DockerHost = [], PsOptions = []\<rparr>, bc_Kube = [],
        bc_GRPC = \<lparr>Servers = [], Auth = [], Proxy = []\<rparr>\<rparr>,
      cf_Server = zero_server\<rparr>"

section \<open>The flags\<close>

datatype flag_value = VStr string | VInt int | VBool bool

text \<open>A flag's destination is the store it makes into the configuration; a flag without one stores nothing.\<close>

record flag =
  fl_Name :: string
  fl_Aliases :: "string list"
  fl_EnvVars :: "string list"
  fl_Usage :: string
  fl_Value :: flag_value
  fl_Destination :: "flag_value \<Rightarrow> config \<Rightarrow> config"

definition string_flag :: "string \<Rightarrow> string list \<Rightarrow> string list \<Rightarrow> string \<Rightarrow> string \<Rightarrow> (string \<Rightarrow> config \<Rightarrow> config) \<Rightarrow> flag" where
  "string_flag name aliases envs usage value dest =
     \<lparr>fl_Name = name, fl_Aliases = aliases, fl_EnvVars = envs, fl_Usage = usage, fl_Value = VStr value,
      fl_Destination = (\<lambda>v c. case v of VStr x \<Rightarrow> dest x c | _ \<Rightarrow> c)\<rparr>"

definition int_flag :: "string \<Rightarrow> string list \<Rightarrow> string list \<Rightarrow> string \<Rightarrow> int \<Rightarrow> (int \<Rightarrow> config \<Rightarrow> config) \<Rightarrow> flag" where
  "int_flag name aliases envs usage value dest =
     \<lparr>fl_Name = name, fl_Aliases = aliases, fl_EnvVars = envs, fl_Usage = usage, fl_Value = VInt value,
      fl_Destination = (\<lambda>v c. case v of VInt x \<Rightarrow> dest x c | _ \<Rightarrow> c)\<rparr>"

definition bool_flag :: "string \<Rightarrow> string list \<Rightarrow> string list \<Rightarrow> string \<Rightarrow> bool \<Rightarrow> (bool \<Rightarrow> config \<Rightarrow> config) \<Rightarrow> flag" where
  "bool_flag name aliases envs usage value dest =
     \<lparr>fl_Name = name, fl_Aliases = aliases, fl_EnvVars = envs, fl_Usage = usage, fl_Value = VBool value,
      fl_Destination = (\<lambda>v c. case v of VBool x \<Rightarrow> dest x c | _ \<Rightarrow> c)\<rparr>"

text \<open>The stores into the parts of the configuration.\<close>

definition on_server :: "(server_config \<Rightarrow> server_config) \<Rightarrow> config \<Rightarrow> config" where
  "on_server f c = c\<lparr>cf_Server := f (cf_Server c)\<rparr>"
definition on_control :: "(control_config \<Rightarrow> control_config) \<Rightarrow> config \<Rightarrow> config" where
  "on_control f = on_server (\<lambda>s. s\<lparr>srv_Control := f (srv_Control s)\<rparr>)"
definition on_backend :: "(backend_config \<Rightarrow> backend_config) \<Rightarrow> config \<Rightarrow> config" where
  "on_backend f c = c\<lparr>cf_Backend := f (cf_Backend c)\<rparr>"
definition on_docker :: "(docker_config \<Rightarrow> docker_config) \<Rightarrow> config \<Rightarrow> config" where
  "on_docker f = on_backend (\<lambda>b. b\<lparr>bc_Docker := f (bc_Docker b)\<rparr>)"
definition on_grpc :: "(grpc_config \<Rightarrow> grpc_config) \<Rightarrow> config \<Rightarrow> config" where
  "on_grpc f = on_backend (\<lambda>b. b\<lparr>bc_GRPC := f (bc_GRPC b)\<rparr>)"

lemmas config_stores = on_server_def on_control_def on_backend_def on_docker_def on_grpc_def

definition server_flags :: "flag list" where
  "server_flags =
     [string_flag ''addr'' [] (EnvVars ''address'') ''server binding address'' ''0.0.0.0''
        (\<lambda>x. on_server (srv_Address_update (\<lambda>_. x))),
      int_flag ''port'' [''p''] (EnvVars ''port'') ''HTTP server port, -1 for disable the HTTP server'' 8080
        (\<lambda>x. on_server (srv_Port_update (\<lambda>_. x))),
      string_flag ''base'' [] (EnvVars ''base'') ''server base path, default is /'' ''/''
        (\<lambda>x. on_server (srv_Base_update (\<lambda>_. x))),
      bool_flag ''debug'' [''d''] (EnvVars ''debug'') ''debug mode (log-level=debug enable pprof)'' False
        (\<lambda>x c. c\<lparr>cf_Debug := x\<rparr>)]"

definition backend_flags :: "(string \<Rightarrow> string) \<Rightarrow> flag list" where
  "backend_flags env =
     [string_flag ''backend'' [''b''] (EnvVars ''backend'')
        (''backend type, '' @ [CHR 0x27] @ ''docker'' @ [CHR 0x27] @ '' or '' @ [CHR 0x27] @ ''kube'' @ [CHR 0x27] @
         '' or '' @ [CHR 0x27] @ ''grpc'' @ [CHR 0x27] @ ''(remote)'') ''docker''
        (\<lambda>x. on_backend (bc_Type_update (\<lambda>_. x))),
      string_flag ''docker-host'' [] (EnvVars ''docker-host'' @ [''DOCKER_HOST'']) ''docker host path'' ''/var/run/docker.sock''
        (\<lambda>x. on_docker (DockerHost_update (\<lambda>_. x))),
      string_flag ''docker-ps'' [] (EnvVars ''docker-ps'') ''docker ps options'' []
        (\<lambda>x. on_docker (PsOptions_update (\<lambda>_. x))),
      string_flag ''kube-config'' [] (EnvVars ''kube-config'') ''kube config path'' (KubeConfigPath env)
        (\<lambda>x. on_backend (bc_Kube_update (\<lambda>_. x))),
      int_flag ''grpc-port'' [] (EnvVars ''grpc-port'') ''grpc server port, -1 for disable the grpc server'' (- 1)
        (\<lambda>x. on_server (srv_GrpcPort_update (\<lambda>_. x))),
      string_flag ''grpc-servers'' [] (EnvVars ''grpc-servers'')
        ''upstream servers, for proxy mode(grpc address and port), use comma for split'' [] (\<lambda>x c. c),
      string_flag ''grpc-auth'' [] (EnvVars ''grpc-auth'') ''grpc auth token'' ''password''
        (\<lambda>x. on_grpc (Auth_update (\<lambda>_. x))),
      string_flag ''grpc-proxy'' [] (EnvVars ''grpc-proxy'')
        ''grpc proxy address, in the format of http://127.0.0.1:8080 or socks5://127.0.0.1:1080'' []
        (\<lambda>x. on_grpc (Proxy_update (\<lambda>_. x))),
      string_flag ''idle-time'' [] (EnvVars ''idle-time'') ''time out of an idle connection'' [] (\<lambda>x c. c)]"

definition control_flags :: "flag list" where
  "control_flags =
     [bool_flag ''control-all'' [''ctl-a''] (EnvVars ''ctl-a'') ''enable container control'' False
        (\<lambda>x. on_control (ctl_All_update (\<lambda>_. x))),
      bool_flag ''control-start'' [''ctl-s''] (EnvVars ''ctl-s'') ''enable container start  '' False
        (\<lambda>x. on_control (ctl_Start_update (\<lambda>_. x))),
      bool_flag ''control-stop'' [''ctl-t''] (EnvVars ''ctl-t'') ''enable container stop   '' False
        (\<lambda>x. on_control (ctl_Stop_update (\<lambda>_. x))),
      bool_flag ''control-restart'' [''ctl-r''] (EnvVars ''ctl-r'') ''enable container restart'' False
        (\<lambda>x. on_control (ctl_Restart_update (\<lambda>_. x)))]"

definition session_flags :: "flag list" where
  "session_flags =
     [bool_flag ''enable-collaborate'' [''clb''] (EnvVars ''collaborate'') ''shared terminal can write to the same TTY'' False
        (\<lambda>x. on_server (srv_Collaborate_update (\<lambda>_. x))),
      bool_flag ''enable-audit'' [''audit''] (EnvVars ''audit'') ''enable audit the container outputs'' False
        (\<lambda>x. on_server (srv_EnableAudit_update (\<lambda>_. x))),
      string_flag ''audit-dir'' [] (EnvVars ''audit-dir'') ''container audit log dir path'' ''audit''
        (\<lambda>x. on_server (srv_AuditLogDir_update (\<lambda>_. x))),
      bool_flag ''help'' [''h''] [] ''show help'' False (\<lambda>x c. c)]"

definition appFlags :: "(string \<Rightarrow> string) \<Rightarrow> flag list" where
  "appFlags env = server_flags @ backend_flags env @ control_flags @ session_flags"

text \<open>\<open>resolve\<close> is what package cli found for a flag; each is stored at its destination.\<close>

definition parsed_config :: "(string \<Rightarrow> flag_value) \<Rightarrow> (string \<Rightarrow> string) \<Rightarrow> config" where
  "parsed_config resolve env =
     fold (\<lambda>fl c. fl_Destination fl (resolve (fl_Name fl)) c) (appFlags env) new_config"

fun bool_of :: "flag_value \<Rightarrow> bool" where "bool_of (VBool b) = b" | "bool_of _ = False"
fun string_of :: "flag_value \<Rightarrow> string" where "string_of (VStr s) = s" | "string_of _ = []"

text \<open>
  The application: version.go and the rest of \<open>main\<close>.  The flags are sorted by package cli, whose order
  is \<open>by_name\<close>; the version's parts are set by the linker.
\<close>

record author =
  au_Name :: string
  au_Email :: string

definition authors :: "author list" where
  "authors = [\<lparr>au_Name = ''wrfly'', au_Email = ''mr.wrfly@gmail.com''\<rparr>]"

record build =
  bu_Version :: string
  bu_CommitID :: string
  bu_BuildAt :: string

definition no_build :: build where
  "no_build = \<lparr>bu_Version = [], bu_CommitID = [], bu_BuildAt = []\<rparr>"

record app =
  app_Name :: string
  app_Usage :: string
  app_UsageText :: string
  app_Flags :: "flag list"
  app_HideHelp :: bool
  app_Authors :: "author list"
  app_Version :: string

definition main_app :: "(flag list \<Rightarrow> flag list) \<Rightarrow> build \<Rightarrow> (string \<Rightarrow> string) \<Rightarrow> app" where
  "main_app by_name b env =
     \<lparr>app_Name = ''container-web-tty'', app_Usage = ''connect your containers via a web-tty'',
      app_UsageText = ''container-web-tty [global options]'', app_Flags = by_name (appFlags env), app_HideHelp = True,
      app_Authors = authors,
      app_Version = ''version: '' @ bu_Version b @ [CHR 0x09] @ ''commit: '' @ bu_CommitID b @ [CHR 0x09] @
        ''date: '' @ bu_BuildAt b\<rparr>"

text \<open>No two flags share a name or an alias, also \<open>help\<close> with its alias, which the application defines itself.\<close>

lemma flag_names_distinct: "distinct (concat (map (\<lambda>fl. fl_Name fl # fl_Aliases fl) (appFlags env)))"
  by (simp add: appFlags_def server_flags_def backend_flags_def control_flags_def session_flags_def
      string_flag_def int_flag_def bool_flag_def)

section \<open>The action\<close>

datatype main_outcome = ShowAppHelp | Fatal string | Run config

text \<open>\<open>parse\<close> is \<open>time.ParseDuration\<close>: on an error its duration is zero.\<close>

definition main_action ::
    "(string \<Rightarrow> error option \<times> duration) \<Rightarrow> (string \<Rightarrow> flag_value) \<Rightarrow> config \<Rightarrow> main_outcome" where
  "main_action parse resolve conf =
     (if bool_of (resolve ''help'') then ShowAppHelp
      else
        (let t = string_of (resolve ''idle-time''); (err, idleTime) = parse t in
         case (err, t) of
           (Some e, x # xs) \<Rightarrow> Fatal (''parse idle-time error: '' @ error_text e)
         | _ \<Rightarrow>
             (let conf = on_server (srv_IdleTime_update (\<lambda>_. idleTime)) conf;
                  ctl = srv_Control (cf_Server conf);
                  conf = (if ctl_Start ctl \<or> ctl_Stop ctl \<or> ctl_Restart ctl \<or> ctl_All ctl
                          then on_control (ctl_Enable_update (\<lambda>_. True)) conf else conf);
                  servers = split_on (CHR '','') (string_of (resolve ''grpc-servers''));
                  conf = (if hd servers \<noteq> [] then on_grpc (Servers_update (\<lambda>_. servers)) conf else conf)
              in Run conf)))"

section \<open>Run\<close>

text \<open>
  The checks of \<open>run\<close> and what it starts: the options of the HTTP server, and password and port of
  the gRPC server.  \<open>fill\<close> is \<open>ecp.Parse\<close>, \<open>backend\<close> the outcome of \<open>NewCliBackend\<close>.
\<close>

record 'b run_plan =
  rp_backend :: 'b
  rp_http :: "server_config option"
  rp_grpc :: "(string \<times> int) option"

definition run_start_servers ::
    "(server_config \<Rightarrow> error + server_config) \<Rightarrow> (backend_config \<Rightarrow> error + 'b) \<Rightarrow> config \<Rightarrow> string + 'b run_plan" where
  "run_start_servers fill backend conf =
     (let opts = cf_Server conf;
          opts = (if Servers (bc_GRPC (cf_Backend conf)) \<noteq> [] then opts\<lparr>srv_ShowLocation := True\<rparr> else opts) in
      case fill opts of
        Inl err \<Rightarrow> Inl (error_text err)
      | Inr opts \<Rightarrow>
          if srv_GrpcPort opts \<le> 0 \<and> srv_Port opts \<le> 0 then Inl ''bad config, no port listenning''
          else
            (case backend (cf_Backend conf) of
               Inl err \<Rightarrow> Inl (''Create backend client error: '' @ error_text err)
             | Inr cli \<Rightarrow> Inr
                 \<lparr>rp_backend = cli,
                  rp_http = (if 0 < srv_Port opts then Some opts else None),
                  rp_grpc = (if 0 < srv_GrpcPort opts then Some (Auth (bc_GRPC (cf_Backend conf)), srv_GrpcPort opts) else None)\<rparr>))"

text \<open>The end: \<^const>\<open>None\<close> is that the program still waits, a message is a fatal log line.\<close>

definition run_end :: "wake list \<Rightarrow> (string option \<times> cancelling list) option" where
  "run_end wakes =
     map_option (\<lambda>(err, cs).
       (case err of
          None \<Rightarrow> None
        | Some e \<Rightarrow> if e \<noteq> Canceled then Some (''Server closed with error: '' @ error_text e) else None, cs))
       (WaitSignals wakes)"

section \<open>Facts\<close>

lemma plan_serves:
  "run_start_servers fill backend conf = Inr plan \<Longrightarrow> rp_http plan \<noteq> None \<or> rp_grpc plan \<noteq> None"
  by (auto simp: run_start_servers_def Let_def split: sum.splits if_splits)

abbreviation control_of :: "config \<Rightarrow> control_config" where
  "control_of c \<equiv> srv_Control (cf_Server c)"

definition store :: "(string \<Rightarrow> flag_value) \<Rightarrow> flag \<Rightarrow> config \<Rightarrow> config" where
  "store resolve fl c = fl_Destination fl (resolve (fl_Name fl)) c"

lemma fold_keeps_control:
  "\<forall>fl \<in> set fls. \<forall>v c. control_of (fl_Destination fl v c) = control_of c \<Longrightarrow>
   control_of (fold (store resolve) fls c) = control_of c"
  by (induction fls arbitrary: c) (simp_all add: store_def)

lemma other_flags_keep_control:
  "\<forall>fl \<in> set server_flags. \<forall>v c. control_of (fl_Destination fl v c) = control_of c"
  "\<forall>fl \<in> set (backend_flags env). \<forall>v c. control_of (fl_Destination fl v c) = control_of c"
  "\<forall>fl \<in> set session_flags. \<forall>v c. control_of (fl_Destination fl v c) = control_of c"
  by (simp_all add: server_flags_def backend_flags_def session_flags_def string_flag_def int_flag_def
      bool_flag_def config_stores split: flag_value.split)

lemma store_control:
  "control_of (store resolve (bool_flag n as es u d (\<lambda>x. on_control (f x))) c) =
     (case resolve n of VBool x \<Rightarrow> f x (control_of c) | _ \<Rightarrow> control_of c)"
  by (simp add: store_def bool_flag_def config_stores split: flag_value.split)

lemma fold_control_flags:
  assumes "control_of c = zero_control"
  shows "control_of (fold (store resolve) control_flags c) =
     \<lparr>ctl_Enable = False, ctl_All = bool_of (resolve ''control-all''), ctl_Start = bool_of (resolve ''control-start''),
      ctl_Stop = bool_of (resolve ''control-stop''), ctl_Restart = bool_of (resolve ''control-restart'')\<rparr>"
  by (simp add: control_flags_def store_control assms zero_control_def split: flag_value.split)

lemma parsed_control:
  "control_of (parsed_config resolve env) =
     \<lparr>ctl_Enable = False, ctl_All = bool_of (resolve ''control-all''), ctl_Start = bool_of (resolve ''control-start''),
      ctl_Stop = bool_of (resolve ''control-stop''), ctl_Restart = bool_of (resolve ''control-restart'')\<rparr>"
proof -
  have new: "control_of new_config = zero_control" by (simp add: new_config_def zero_server_def)
  have "parsed_config resolve env = fold (store resolve) (server_flags @ backend_flags env @ control_flags @ session_flags) new_config"
    by (simp add: parsed_config_def appFlags_def store_def [abs_def])
  then show ?thesis
    using fold_control_flags [of "fold (store resolve) (backend_flags env) (fold (store resolve) server_flags new_config)" resolve]
    by (simp add: fold_keeps_control other_flags_keep_control new)
qed

lemma main_action_control:
  assumes "main_action parse resolve conf = Run conf'" and "\<not> ctl_Enable (srv_Control (cf_Server conf))"
  shows "srv_Control (cf_Server conf') = (let ctl = srv_Control (cf_Server conf) in
    ctl\<lparr>ctl_Enable := (ctl_Start ctl \<or> ctl_Stop ctl \<or> ctl_Restart ctl \<or> ctl_All ctl)\<rparr>)"
  using assms
  by (auto simp: main_action_def config_stores Let_def split: if_splits option.splits list.splits prod.splits)

end
