(* ===== verification/Counter.thy ===== *)
theory Counter
  imports Prelude
begin

text \<open>
  route/handler_atomic.go: the count of open terminal sessions, which limits them and lets the
  server wait for their end, and its use in \<open>generateHandleWS\<close> (route/exec.go).  The mutex makes
  each method one atomic step; \<open>wait\<close> returns when the wait group is at zero.
\<close>

datatype timer = Stopped | Armed duration \<comment> \<open>the duration it was last set to\<close>

record counter =
  ct_duration :: duration
  ct_zeroTimer :: timer
  ct_wg :: int
  ct_connections :: int

text \<open>A zero duration: the timer is left drained, so that it never fires.\<close>

definition newCounter :: "duration \<Rightarrow> counter" where
  "newCounter d =
     \<lparr>ct_duration = d, ct_zeroTimer = (if d = 0 then Stopped else Armed d), ct_wg = 0, ct_connections = 0\<rparr>"

definition counter_add :: "int \<Rightarrow> counter \<Rightarrow> (int \<times> counter) outcome" where
  "counter_add n c =
     (let c = (if 0 < ct_duration c then c\<lparr>ct_zeroTimer := Stopped\<rparr> else c) in
      if ct_wg c + n < 0 then Inl NegativeCounter
      else (let c = c\<lparr>ct_wg := ct_wg c + n, ct_connections := ct_connections c + n\<rparr>
            in Inr (ct_connections c, c)))"

definition counter_done :: "counter \<Rightarrow> (int \<times> counter) outcome" where
  "counter_done c =
     (let c = c\<lparr>ct_connections := ct_connections c - 1\<rparr> in
      if ct_wg c - 1 < 0 then Inl NegativeCounter
      else
        (let c = c\<lparr>ct_wg := ct_wg c - 1\<rparr>;
             c = (if ct_connections c = 0 \<and> 0 < ct_duration c then c\<lparr>ct_zeroTimer := Armed (ct_duration c)\<rparr> else c)
         in Inr (ct_connections c, c)))"

definition counter_count :: "counter \<Rightarrow> int" where "counter_count c = ct_connections c"

text \<open>Whether \<open>wait\<close> returns.\<close>

definition counter_wait :: "counter \<Rightarrow> bool" where "counter_wait c \<longleftrightarrow> ct_wg c = 0"

definition counter_timer :: "counter \<Rightarrow> timer" where "counter_timer c = ct_zeroTimer c"

section \<open>Sessions\<close>

text \<open>
  The handlers of open terminals: each has entered (\<open>add(1)\<close>) and will leave (the deferred
  \<open>done\<close>).  One that finds more sessions than allowed leaves without a terminal; the state keeps,
  for every handler between the two, whether it was admitted.
\<close>

definition admitted :: "int \<Rightarrow> int \<Rightarrow> bool" where
  "admitted MaxConnection num \<longleftrightarrow> \<not> (MaxConnection \<noteq> 0 \<and> num > MaxConnection)"

type_synonym sessions = "counter \<times> (nat \<times> bool) list"

inductive session_step :: "int \<Rightarrow> sessions \<Rightarrow> sessions \<Rightarrow> bool" for MaxConnection :: int where
  enter: "sid \<notin> fst ` set hs \<Longrightarrow> counter_add 1 c = Inr (num, c') \<Longrightarrow>
    session_step MaxConnection (c, hs) (c', (sid, admitted MaxConnection num) # hs)"
| leave: "(sid, adm) \<in> set hs \<Longrightarrow> counter_done c = Inr (num, c') \<Longrightarrow>
    session_step MaxConnection (c, hs) (c', filter (\<lambda>h. fst h \<noteq> sid) hs)"

inductive_cases session_stepE: "session_step MaxConnection s s'"

definition sessions_inv :: "int \<Rightarrow> duration \<Rightarrow> sessions \<Rightarrow> bool" where
  "sessions_inv MaxConnection d s \<longleftrightarrow>
     (let (c, hs) = s in
      ct_duration c = d \<and> ct_connections c = int (length hs) \<and> ct_wg c = int (length hs) \<and>
      distinct (map fst hs) \<and>
      (MaxConnection \<noteq> 0 \<longrightarrow> int (length (filter snd hs)) \<le> max 0 MaxConnection) \<and>
      (0 < d \<longrightarrow> (ct_zeroTimer c = Armed d \<longleftrightarrow> hs = [])))"

lemma sessions_inv_new: "sessions_inv m d (newCounter d, [])"
  by (simp add: sessions_inv_def newCounter_def)

lemma length_filter_out:
  "distinct (map fst hs) \<Longrightarrow> (sid, adm) \<in> set hs \<Longrightarrow>
   length (filter (\<lambda>h. fst h \<noteq> sid) hs) = length hs - 1 \<and> hs \<noteq> []"
proof (induction hs)
  case (Cons h hs)
  show ?case
  proof (cases "fst h = sid")
    case True
    have "fst h \<notin> fst ` set hs" using Cons.prems(1) by simp
    with True have "\<forall>x \<in> set hs. fst x \<noteq> sid" by blast
    then have "filter (\<lambda>h. fst h \<noteq> sid) hs = hs" by (simp add: filter_id_conv)
    then show ?thesis using True by simp
  next
    case False
    then have "(sid, adm) \<in> set hs" using Cons.prems(2) by auto
    then have "length (filter (\<lambda>h. fst h \<noteq> sid) hs) = length hs - 1" "hs \<noteq> []"
      using Cons.IH Cons.prems(1) by auto
    then show ?thesis using False by (cases hs) simp_all
  qed
qed simp

lemma sessions_inv_enter:
  assumes "sessions_inv m d (c, hs)" and "sid \<notin> fst ` set hs"
  shows "\<exists>c'. counter_add 1 c = Inr (int (length hs) + 1, c') \<and>
    sessions_inv m d (c', (sid, admitted m (int (length hs) + 1)) # hs)"
proof -
  have c: "ct_duration c = d" "ct_connections c = int (length hs)" "ct_wg c = int (length hs)"
    "distinct (map fst hs)" "m \<noteq> 0 \<longrightarrow> int (length (filter snd hs)) \<le> max 0 m"
    using assms(1) by (auto simp: sessions_inv_def)
  have le: "int (length (filter snd hs)) \<le> int (length hs)" by simp
  have "m \<noteq> 0 \<longrightarrow> int (length (filter snd ((sid, admitted m (int (length hs) + 1)) # hs))) \<le> max 0 m"
  proof (cases "admitted m (int (length hs) + 1)")
    case True
    then have "m \<noteq> 0 \<longrightarrow> int (length hs) + 1 \<le> m" by (auto simp: admitted_def)
    then have "m \<noteq> 0 \<longrightarrow> int (length (filter snd hs)) + 1 \<le> max 0 m" using le by linarith
    then show ?thesis using True by (simp add: add.commute)
  next
    case False
    then show ?thesis using c(5) by simp
  qed
  then show ?thesis
    using c assms(2) by (auto simp: counter_add_def Let_def sessions_inv_def)
qed

lemma sessions_inv_leave:
  assumes "sessions_inv m d (c, hs)" and "(sid, adm) \<in> set hs"
  shows "\<exists>c'. counter_done c = Inr (int (length hs) - 1, c') \<and>
    sessions_inv m d (c', filter (\<lambda>h. fst h \<noteq> sid) hs)"
proof -
  let ?hs = "filter (\<lambda>h. fst h \<noteq> sid) hs"
  have c: "ct_duration c = d" "ct_connections c = int (length hs)" "ct_wg c = int (length hs)"
    "distinct (map fst hs)" "m \<noteq> 0 \<longrightarrow> int (length (filter snd hs)) \<le> max 0 m"
    "0 < d \<longrightarrow> (ct_zeroTimer c = Armed d \<longleftrightarrow> hs = [])"
    using assms(1) by (auto simp: sessions_inv_def)
  obtain k where len: "length hs = Suc k" "length ?hs = k"
    using length_filter_out [OF c(4) assms(2)] by (cases hs) auto
  have "filter snd ?hs = filter (\<lambda>h. fst h \<noteq> sid) (filter snd hs)"
    by (simp add: filter_filter conj_commute)
  then have "length (filter snd ?hs) \<le> length (filter snd hs)" by (metis length_filter_le)
  then have "m \<noteq> 0 \<longrightarrow> int (length (filter snd ?hs)) \<le> max 0 m" using c(5) by linarith
  moreover have "?hs = [] \<longleftrightarrow> k = 0" using len(2) by (metis length_0_conv)
  moreover have "distinct (map fst ?hs)" using c(4) by (simp add: distinct_map_filter)
  ultimately show ?thesis
    using c len by (auto simp: counter_done_def Let_def sessions_inv_def)
qed

lemma sessions_inv_step: "session_step m s s' \<Longrightarrow> sessions_inv m d s \<Longrightarrow> sessions_inv m d s'"
  by (erule session_stepE) (force dest: sessions_inv_enter sessions_inv_leave)+

lemma sessions_inv_reachable: "(session_step m)\<^sup>*\<^sup>* (newCounter d, []) s \<Longrightarrow> sessions_inv m d s"
  by (induction rule: rtranclp_induct) (auto intro: sessions_inv_new sessions_inv_step)

text \<open>
  C14. The limit on connections holds in every reachable state, in any order in which handlers
  enter and leave: at most \<open>MaxConnection\<close> of them have a terminal (none when it is negative); the
  count and the wait group equal the number of handlers, so that shutdown waits for exactly
  these; leaving never drives the count below zero; and with an idle time the timer is armed just
  when there is no handler.
\<close>

theorem connection_limit:
  assumes "(session_step MaxConnection)\<^sup>*\<^sup>* (newCounter d, []) (c, hs)"
  shows "(MaxConnection \<noteq> 0 \<longrightarrow> int (length (filter snd hs)) \<le> max 0 MaxConnection) \<and>
    counter_count c = int (length hs) \<and> (counter_wait c \<longleftrightarrow> hs = []) \<and>
    (\<forall>sid adm. (sid, adm) \<in> set hs \<longrightarrow> (\<exists>num c'. counter_done c = Inr (num, c'))) \<and>
    (0 < d \<longrightarrow> (counter_timer c = Armed d \<longleftrightarrow> hs = []))"
proof -
  have inv: "sessions_inv MaxConnection d (c, hs)" using assms by (rule sessions_inv_reachable)
  then have "\<exists>num c'. counter_done c = Inr (num, c')" if "(sid, adm) \<in> set hs" for sid adm
    using sessions_inv_leave that by blast
  with inv show ?thesis
    by (auto simp: sessions_inv_def counter_count_def counter_wait_def counter_timer_def)
qed

theorem connection_limit_witness:
  "(session_step 1)\<^sup>*\<^sup>* (newCounter 0, [])
     (\<lparr>ct_duration = 0, ct_zeroTimer = Stopped, ct_wg = 2, ct_connections = 2\<rparr>, [(2, False), (1, True)]) \<and>
   int (length (filter snd [(2::nat, False), (1, True)])) \<le> max 0 1"
proof -
  let ?c = "\<lambda>n. \<lparr>ct_duration = 0, ct_zeroTimer = Stopped, ct_wg = n, ct_connections = n\<rparr>"
  have add: "counter_add 1 (newCounter 0) = Inr (1, ?c 1)" "counter_add 1 (?c 1) = Inr (2, ?c 2)"
    by (simp_all add: counter_add_def newCounter_def Let_def)
  have "session_step 1 (newCounter 0, []) (?c 1, [(1, True)])"
    using session_step.enter [of 1 "[]" "newCounter 0" 1 "?c 1" 1] add by (simp add: admitted_def)
  moreover have "session_step 1 (?c 1, [(1, True)]) (?c 2, [(2, False), (1, True)])"
    using session_step.enter [of 2 "[(1, True)]" "?c 1" 2 "?c 2" 1] add by (simp add: admitted_def)
  ultimately have r: "(session_step 1)\<^sup>*\<^sup>* (newCounter 0, []) (?c 2, [(2, False), (1, True)])"
    by (meson rtranclp.rtrancl_into_rtrancl rtranclp.rtrancl_refl)
  from r connection_limit [OF r] show ?thesis by simp
qed

end
