(* ===== verification/Tty.thy ===== *)
theory Tty
  imports Readers
begin

text \<open>
  types/tty.go: the terminal of one exec, shared by the browser that opened it (the master) and
  by the browsers that follow it (the slaves).  Three mechanisms: the arbitration of writers by
  the two time stamps of \<open>mutexWriter\<close>, the rolling history of the last thousand bytes of output,
  and the read of a slave, which first replays that history and then follows the published
  output.  The mutex makes a write one atomic step; the several clock readings inside a step are
  separate arguments.
\<close>

section \<open>Who may write\<close>

record mutex_writer =
  lastMasterWriteTime :: instant
  lastSlaveWriteTime :: instant
  lastWroteSlave :: "nat option"

definition new_mutex_writer :: mutex_writer where
  "new_mutex_writer =
     \<lparr>lastMasterWriteTime = ZeroTime, lastSlaveWriteTime = ZeroTime, lastWroteSlave = None\<rparr>"

definition waite_wait_duration :: duration where
  "waite_wait_duration = second"

definition MasterCanWrite :: "int \<Rightarrow> mutex_writer \<Rightarrow> bool" where
  "MasterCanWrite t w \<longleftrightarrow> since t (lastSlaveWriteTime w) > waite_wait_duration"

text \<open>\<open>t1\<close> is the reading of the first \<open>time.Since\<close>, \<open>t2\<close> of the second.\<close>

definition SlaveCanWrite :: "int \<Rightarrow> int \<Rightarrow> nat \<Rightarrow> mutex_writer \<Rightarrow> bool" where
  "SlaveCanWrite t1 t2 tty w =
     (if since t1 (lastMasterWriteTime w) < waite_wait_duration then False
      else if lastWroteSlave w = None then True
      else if lastWroteSlave w = Some tty then True
      else since t2 (lastSlaveWriteTime w) > waite_wait_duration)"

record slave_tty =
  s_id :: nat
  s_readOnly :: bool
  s_masterOutputs :: bytes

text \<open>
  \<open>MasterTTY.Write\<close> and \<open>SlaveTTY.Write\<close>: the result \<open>(n, err)\<close>, the arbitration state, and the
  bytes that went to the container's terminal, if any.  \<open>tw\<close> is the \<open>Write\<close> of that terminal.
\<close>

definition master_write ::
  "(bytes \<Rightarrow> nat \<times> error option) \<Rightarrow> int \<Rightarrow> int \<Rightarrow> bytes \<Rightarrow> mutex_writer \<Rightarrow>
   (nat \<times> error option) \<times> mutex_writer \<times> bytes option" where
  "master_write tw t t' p w =
     (if \<not> MasterCanWrite t w then ((0, None), w, None)
      else (tw p, w\<lparr>lastMasterWriteTime := At t'\<rparr>, Some p))"

definition slave_write ::
  "(bytes \<Rightarrow> nat \<times> error option) \<Rightarrow> slave_tty \<Rightarrow> int \<Rightarrow> int \<Rightarrow> int \<Rightarrow> bytes \<Rightarrow> mutex_writer \<Rightarrow>
   (nat \<times> error option) \<times> mutex_writer \<times> bytes option" where
  "slave_write tw s t1 t2 t' p w =
     (if s_readOnly s then ((length p, None), w, None)
      else if \<not> SlaveCanWrite t1 t2 (s_id s) w then ((0, None), w, None)
      else (tw p, w\<lparr>lastSlaveWriteTime := At t', lastWroteSlave := Some (s_id s)\<rparr>, Some p))"

subsection \<open>Runs\<close>

text \<open>
  A run of write attempts by the master and any number of slaves.  Each attempt carries its three
  clock readings; the log collects what reached the container, with the writer and the time
  stamp the code recorded.
\<close>

datatype writer = Master | Slave nat

type_synonym attempt = "writer \<times> (int \<times> int \<times> int) \<times> bytes"
type_synonym log_entry = "writer \<times> int \<times> bytes"

definition attempt_step ::
  "(bytes \<Rightarrow> nat \<times> error option) \<Rightarrow> (nat \<Rightarrow> slave_tty) \<Rightarrow> attempt \<Rightarrow> mutex_writer \<Rightarrow>
   mutex_writer \<times> log_entry list" where
  "attempt_step tw slaves a w =
     (let (who, (t1, t2, t3), p) = a;
          (_, w', out) = (case who of
             Master \<Rightarrow> master_write tw t1 t3 p w
           | Slave i \<Rightarrow> slave_write tw ((slaves i)\<lparr>s_id := i\<rparr>) t1 t2 t3 p w)
      in (w', case out of None \<Rightarrow> [] | Some q \<Rightarrow> [(who, t3, q)]))"

fun write_run ::
  "(bytes \<Rightarrow> nat \<times> error option) \<Rightarrow> (nat \<Rightarrow> slave_tty) \<Rightarrow> attempt list \<Rightarrow> mutex_writer \<Rightarrow> log_entry list" where
  "write_run tw slaves [] w = []"
| "write_run tw slaves (a # as) w =
     (let (w', l) = attempt_step tw slaves a w in l @ write_run tw slaves as w')"

text \<open>The readings come from one monotonic clock and the mutex orders the attempts.\<close>

fun clock_from :: "int \<Rightarrow> attempt list \<Rightarrow> bool" where
  "clock_from t [] \<longleftrightarrow> True"
| "clock_from t ((_, (t1, t2, t3), _) # as) \<longleftrightarrow> t \<le> t1 \<and> t1 \<le> t2 \<and> t2 \<le> t3 \<and> clock_from t3 as"

text \<open>Two accepted writes of different writers are a full second apart.\<close>

definition apart :: "log_entry \<Rightarrow> log_entry \<Rightarrow> bool" where
  "apart e e' \<longleftrightarrow> fst e \<noteq> fst e' \<longrightarrow> fst (snd e) + second \<le> fst (snd e')"

text \<open>
  The invariant between the arbitration state and the log: a master write is no later than the
  master stamp; a slave write is no later than the slave stamp, and if another slave wrote last,
  a second before it.
\<close>

fun entry_ok :: "mutex_writer \<Rightarrow> log_entry \<Rightarrow> bool" where
  "entry_ok w (Master, s, _) \<longleftrightarrow> At s \<le> lastMasterWriteTime w"
| "entry_ok w (Slave i, s, _) \<longleftrightarrow>
     (\<exists>j l. lastSlaveWriteTime w = At l \<and> s \<le> l \<and> lastWroteSlave w = Some j \<and> (j = i \<or> s + second \<le> l))"

definition log_inv :: "int \<Rightarrow> mutex_writer \<Rightarrow> log_entry list \<Rightarrow> bool" where
  "log_inv t w log \<longleftrightarrow>
     sorted_wrt apart log \<and> (\<forall>e \<in> set log. entry_ok w e) \<and>
     lastMasterWriteTime w \<le> At t \<and> lastSlaveWriteTime w \<le> At t"

lemma log_inv_new: "log_inv t new_mutex_writer []"
  by (simp add: log_inv_def new_mutex_writer_def)

lemma log_inv_mono: "log_inv t w log \<Longrightarrow> t \<le> t' \<Longrightarrow> log_inv t' w log"
  unfolding log_inv_def by (cases "lastMasterWriteTime w"; cases "lastSlaveWriteTime w") auto

lemma log_inv_append:
  "log_inv t w log \<Longrightarrow> (\<And>e'. e' \<in> set log \<Longrightarrow> apart e' e \<and> entry_ok w' e') \<Longrightarrow> entry_ok w' e \<Longrightarrow>
   lastMasterWriteTime w' \<le> At t' \<Longrightarrow> lastSlaveWriteTime w' \<le> At t' \<Longrightarrow> log_inv t' w' (log @ [e])"
  by (auto simp: log_inv_def sorted_wrt_append)

lemma since_since_less: "since t u > second \<Longrightarrow> u = At x \<Longrightarrow> x + second < t"
  using since_gt_iff [of second t x] second_range by auto

lemma since_not_less: "\<not> since t u < second \<Longrightarrow> u = At x \<Longrightarrow> x + second \<le> t"
  using since_lt_iff [of second t x] second_range by auto

lemma master_write_inv:
  assumes "log_inv t w log" and "t \<le> t1" "t1 \<le> t3" and "MasterCanWrite t1 w"
  shows "log_inv t3 (w\<lparr>lastMasterWriteTime := At t3\<rparr>) (log @ [(Master, t3, p)])"
proof (rule log_inv_append [OF assms(1)])
  fix e' assume "e' \<in> set log"
  then have ok: "entry_ok w e'" using assms(1) by (simp add: log_inv_def)
  obtain x s b where e': "e' = (x, s, b)" by (cases e')
  have le: "lastMasterWriteTime w \<le> At t" using assms(1) by (simp add: log_inv_def)
  show "apart e' (Master, t3, p) \<and> entry_ok (w\<lparr>lastMasterWriteTime := At t3\<rparr>) e'"
  proof (cases x)
    case Master
    with ok le e' assms(2,3) show ?thesis
      by (cases "lastMasterWriteTime w") (auto simp: apart_def)
  next
    case (Slave i)
    with ok e' obtain l where "lastSlaveWriteTime w = At l" "s \<le> l" by auto
    moreover from this have "l + second < t1"
      using assms(4) by (auto simp: MasterCanWrite_def waite_wait_duration_def intro: since_since_less)
    ultimately show ?thesis using ok Slave e' assms(3) by (auto simp: apart_def)
  qed
qed (use assms in \<open>cases "lastSlaveWriteTime w"; auto simp: log_inv_def\<close>)+

lemma slave_write_inv:
  assumes "log_inv t w log" and "t \<le> t1" "t1 \<le> t2" "t2 \<le> t3" and "SlaveCanWrite t1 t2 i w"
  shows "log_inv t3 (w\<lparr>lastSlaveWriteTime := At t3, lastWroteSlave := Some i\<rparr>) (log @ [(Slave i, t3, p)])"
proof (rule log_inv_append [OF assms(1)])
  fix e' assume "e' \<in> set log"
  then have ok: "entry_ok w e'" using assms(1) by (simp add: log_inv_def)
  obtain x s b where e': "e' = (x, s, b)" by (cases e')
  have le: "lastSlaveWriteTime w \<le> At t" using assms(1) by (simp add: log_inv_def)
  note can = assms(5) [unfolded SlaveCanWrite_def waite_wait_duration_def]
  show "apart e' (Slave i, t3, p) \<and>
      entry_ok (w\<lparr>lastSlaveWriteTime := At t3, lastWroteSlave := Some i\<rparr>) e'"
  proof (cases x)
    case Master
    with ok e' obtain m where m: "lastMasterWriteTime w = At m" "s \<le> m"
      by (cases "lastMasterWriteTime w") auto
    have "\<not> since t1 (lastMasterWriteTime w) < second" using can by (auto split: if_splits)
    with m have "m + second \<le> t1" by (auto intro: since_not_less)
    with Master e' ok m assms(3,4) show ?thesis by (auto simp: apart_def)
  next
    case (Slave k)
    with ok e' obtain j l where l: "lastSlaveWriteTime w = At l" "s \<le> l" "lastWroteSlave w = Some j"
      "j = k \<or> s + second \<le> l" by auto
    have "s + second \<le> t3" if "k \<noteq> i"
    proof (cases "j = i")
      case True
      with that l le assms(2-4) show ?thesis by auto
    next
      case False
      then have "since t2 (lastSlaveWriteTime w) > second" using can l by (auto split: if_splits)
      then have "l + second < t2" using l(1) by (rule since_since_less)
      with l assms(4) show ?thesis by simp
    qed
    moreover have "s \<le> t3" using l le assms(2-4) by auto
    ultimately show ?thesis using Slave e' by (auto simp: apart_def)
  qed
qed (use assms in \<open>cases "lastMasterWriteTime w"; auto simp: log_inv_def\<close>)+

lemma attempt_step_inv:
  assumes "log_inv t w log" and "clock_from t [(who, (t1, t2, t3), p)]"
    and "attempt_step tw slaves (who, (t1, t2, t3), p) w = (w', l)"
  shows "log_inv t3 w' (log @ l)"
proof -
  have t: "t \<le> t1" "t1 \<le> t2" "t2 \<le> t3" using assms(2) by auto
  have keep: "log_inv t3 w log" using assms(1) t by (auto intro: log_inv_mono)
  show ?thesis
  proof (cases who)
    case Master
    with assms t keep show ?thesis
      by (auto simp: attempt_step_def master_write_def Let_def intro: master_write_inv split: if_splits)
  next
    case (Slave i)
    with assms t keep show ?thesis
      by (auto simp: attempt_step_def slave_write_def Let_def intro: slave_write_inv split: if_splits)
  qed
qed

lemma write_run_inv:
  "log_inv t w log \<Longrightarrow> clock_from t as \<Longrightarrow> sorted_wrt apart (log @ write_run tw slaves as w)"
proof (induction as arbitrary: t w log)
  case Nil
  then show ?case by (simp add: log_inv_def)
next
  case (Cons a as)
  obtain who t1 t2 t3 p where a: "a = (who, (t1, t2, t3), p)" by (cases a) auto
  obtain w' l where step: "attempt_step tw slaves a w = (w', l)" by fastforce
  have "log_inv t3 w' (log @ l)"
    using Cons.prems step unfolding a by (intro attempt_step_inv) auto
  from Cons.IH [OF this] Cons.prems(2) step show ?case
    by (simp add: a)
qed

text \<open>
  C13. Writers do not interleave: whatever the master and the slaves attempt, any two writes
  that reach the container and come from different writers are at least one second apart.
\<close>

theorem writers_apart:
  assumes "clock_from t as"
  shows "sorted_wrt apart (write_run tw slaves as new_mutex_writer)"
  using write_run_inv [OF log_inv_new assms] by simp

definition sample_slaves :: "nat \<Rightarrow> slave_tty" where
  "sample_slaves i = \<lparr>s_id = i, s_readOnly = False, s_masterOutputs = []\<rparr>"

definition sample_attempts :: "attempt list" where
  "sample_attempts =
     [(Master, (5, 5, 5), ''a''), (Slave 1, (900000000, 900000000, 900000001), ''b''),
      (Slave 1, (1500000000, 1500000000, 1500000001), ''c''),
      (Slave 2, (2000000000, 2000000000, 2000000001), ''d''),
      (Master, (2700000000, 2700000000, 2700000001), ''e'')]"

theorem writers_apart_witness:
  "clock_from 0 sample_attempts \<and>
   write_run (\<lambda>p. (length p, None)) sample_slaves sample_attempts new_mutex_writer =
     [(Master, 5, ''a''), (Slave 1, 1500000001, ''c''), (Master, 2700000001, ''e'')] \<and>
   sorted_wrt apart (write_run (\<lambda>p. (length p, None)) sample_slaves sample_attempts new_mutex_writer)"
proof -
  have clock: "clock_from 0 sample_attempts" by (simp add: sample_attempts_def)
  moreover have "write_run (\<lambda>p. (length p, None)) sample_slaves sample_attempts new_mutex_writer =
     [(Master, 5, ''a''), (Slave 1, 1500000001, ''c''), (Master, 2700000001, ''e'')]"
    by code_simp
  ultimately show ?thesis using writers_apart [OF clock] by blast
qed

text \<open>The arbitration never locks anyone out: after a second of silence every writer may write.\<close>

lemma since_silent:
  "u \<le> At t0 \<Longrightarrow> t0 + second < t \<Longrightarrow> since t u > second"
  by (cases u) (auto simp: since_gt_iff second_range, auto simp: since_def second_def max_duration_def)

text \<open>
  Progress: once a second has passed since the last recorded write, an attempt of the master,
  or of any slave that is not read-only, reaches the container in full and is recorded.
\<close>

lemma write_after_silence:
  assumes "lastMasterWriteTime w \<le> At t0" and "lastSlaveWriteTime w \<le> At t0"
    and "t0 + second < t1" and "t1 \<le> t2" and "t2 \<le> t3"
  shows "snd (snd (master_write tw t1 t3 p w)) = Some p \<and>
         lastMasterWriteTime (fst (snd (master_write tw t1 t3 p w))) = At t3 \<and>
         (s_readOnly s \<or>
           snd (snd (slave_write tw s t1 t2 t3 p w)) = Some p \<and>
           lastWroteSlave (fst (snd (slave_write tw s t1 t2 t3 p w))) = Some (s_id s))"
proof -
  have gap: "since t1 (lastSlaveWriteTime w) > second" "since t1 (lastMasterWriteTime w) > second"
    "since t2 (lastSlaveWriteTime w) > second"
    using assms by (auto intro: since_silent)
  then show ?thesis
    by (simp add: master_write_def slave_write_def MasterCanWrite_def SlaveCanWrite_def waite_wait_duration_def)
qed

definition busy_writer :: mutex_writer where
  "busy_writer = \<lparr>lastMasterWriteTime = At 3, lastSlaveWriteTime = At 7, lastWroteSlave = Some 1\<rparr>"

lemma write_after_silence_example:
  "snd (snd (master_write (\<lambda>p. (length p, None)) 1000000008 1000000009 ''x'' busy_writer)) = Some ''x'' \<and>
   \<not> s_readOnly (sample_slaves 2) \<and>
   snd (snd (slave_write (\<lambda>p. (length p, None)) (sample_slaves 2) 1000000008 1000000008 1000000009 ''x'' busy_writer)) = Some ''x''"
  using write_after_silence [of busy_writer 7 1000000008 1000000008 1000000009
      "\<lambda>p. (length p, None)" "''x''" "sample_slaves 2"]
  by (simp add: busy_writer_def second_def sample_slaves_def)

section \<open>The rolling history\<close>

definition history_size :: nat where
  "history_size = 1000"

text \<open>The goroutine of \<open>NewMasterTTY\<close>: one round of its loop, on one published piece of output.\<close>

definition collect :: "bytes \<Rightarrow> bytes \<Rightarrow> bytes" where
  "collect outputs output =
     (let outputs' = outputs @ output
      in if length outputs' > history_size
         then drop (length outputs' - history_size) outputs' else outputs')"

record master_tty =
  m_id :: string
  m_outputs :: bytes
  m_mWriter :: mutex_writer

text \<open>\<open>NewMasterTTY\<close>: \<open>pubsub\<close> is the outcome of subscribing to the exec's topic.\<close>

definition NewMasterTTY :: "error option \<Rightarrow> string \<Rightarrow> error + master_tty" where
  "NewMasterTTY pubsub execID =
     (case pubsub of
        Some err \<Rightarrow> Inl err
      | None \<Rightarrow> Inr \<lparr>m_id = execID, m_outputs = replicate history_size (CHR 0x00),
                     m_mWriter = new_mutex_writer\<rparr>)"

definition master_collect :: "master_tty \<Rightarrow> bytes \<Rightarrow> master_tty" where
  "master_collect m output = m\<lparr>m_outputs := collect (m_outputs m) output\<rparr>"

text \<open>\<open>MasterTTY.Read\<close>: reads from the container and publishes what it read.\<close>

definition master_read :: "'s reader \<Rightarrow> bytes \<Rightarrow> 's \<Rightarrow> (nat \<times> bytes \<times> error option \<times> 's \<times> bytes) outcome" where
  "master_read tty_read p s =
     obind (tty_read p s) (\<lambda>(n, p', err, s').
       obind (go_slice 0 n p') (\<lambda>published. Inr (n, p', err, s', published)))"

text \<open>\<open>MasterTTY.Fork\<close>: a failed subscription panics, as the source does.\<close>

definition Fork :: "error option \<Rightarrow> nat \<Rightarrow> bool \<Rightarrow> master_tty \<Rightarrow> slave_tty outcome" where
  "Fork pubsub fresh collaborate m =
     (case pubsub of
        Some err \<Rightarrow> Inl (Explicit (error_text err))
      | None \<Rightarrow> Inr \<lparr>s_id = fresh, s_readOnly = \<not> collaborate, s_masterOutputs = m_outputs m\<rparr>)"

lemma collect_suffix: "collect outputs output = suffix_upto history_size (outputs @ output)"
  by (simp add: collect_def Let_def suffix_upto_def)

lemma collect_fold:
  "fold (\<lambda>out a. collect a out) outs (suffix_upto history_size hist) =
   suffix_upto history_size (hist @ concat outs)"
proof (induction outs arbitrary: hist)
  case (Cons x xs)
  have "collect (suffix_upto history_size hist) x = suffix_upto history_size (hist @ x)"
    by (simp add: collect_suffix suffix_upto_append)
  with Cons show ?case by simp
qed simp

lemma master_collect_fold:
  "m_outputs (fold (\<lambda>out m. master_collect m out) outs m) = fold (\<lambda>out a. collect a out) outs (m_outputs m)"
  by (induction outs arbitrary: m) (simp_all add: master_collect_def)

text \<open>
  C21. The history is exact and bounded: after any sequence of published pieces it is the last
  thousand bytes of everything published, preceded by the zero bytes the buffer starts with as
  long as fewer were published; its length never changes.
\<close>

theorem history_last_thousand:
  assumes "NewMasterTTY None execID = Inr m"
  shows "m_outputs (fold (\<lambda>out m. master_collect m out) outs m) =
           suffix_upto history_size (replicate history_size (CHR 0x00) @ concat outs) \<and>
         length (m_outputs (fold (\<lambda>out m. master_collect m out) outs m)) = history_size"
proof -
  have "m_outputs m = suffix_upto history_size (replicate history_size (CHR 0x00))"
    using assms by (auto simp: NewMasterTTY_def suffix_upto_def)
  then show ?thesis
    by (simp add: master_collect_fold collect_fold)
qed

theorem history_last_thousand_witness:
  "NewMasterTTY None ''e1'' = Inr \<lparr>m_id = ''e1'', m_outputs = replicate history_size (CHR 0x00),
                                   m_mWriter = new_mutex_writer\<rparr> \<and>
   m_outputs (fold (\<lambda>out m. master_collect m out) [''ls'', ''.''] \<lparr>m_id = ''e1'',
       m_outputs = replicate history_size (CHR 0x00), m_mWriter = new_mutex_writer\<rparr>) =
     suffix_upto history_size (replicate history_size (CHR 0x00) @ ''ls.'')"
proof -
  have new: "NewMasterTTY None ''e1'' = Inr \<lparr>m_id = ''e1'', m_outputs = replicate history_size (CHR 0x00),
                                   m_mWriter = new_mutex_writer\<rparr>"
    by (simp add: NewMasterTTY_def)
  with history_last_thousand [OF new, of "[''ls'', ''.'']"] show ?thesis by simp
qed

text \<open>Closing either kind of terminal does nothing to it.\<close>

definition MasterTTY_Close :: "master_tty \<Rightarrow> error option \<times> master_tty" where
  "MasterTTY_Close m = (None, m)"

definition SlaveTTY_Close :: "slave_tty \<Rightarrow> error option \<times> slave_tty" where
  "SlaveTTY_Close s = (None, s)"

section \<open>What a follower reads\<close>

text \<open>
  \<open>SlaveTTY.Read\<close>.  The state is the slave and the messages its subscription will deliver; on a
  closed subscription the receive yields nil, so \<open>bs\<close> is empty.  The caller's buffer has no
  capacity beyond its length (all callers make it themselves).
\<close>

fun slave_recv :: "bytes list \<Rightarrow> bytes \<times> bytes list" where
  "slave_recv [] = ([], [])"
| "slave_recv (b # bs) = (b, bs)"

definition slave_read :: "(slave_tty \<times> bytes list) reader" where
  "slave_read p st =
     (let (s, incoming) = st in
      if length (s_masterOutputs s) \<noteq> 0 then
        obind (go_slice 0 (length (s_masterOutputs s)) p) (\<lambda>dst.
          let (_, dst') = go_copy dst (s_masterOutputs s)
          in Inr (length p, dst' @ drop (length (s_masterOutputs s)) p, None,
                  (s\<lparr>s_masterOutputs := []\<rparr>, incoming)))
      else
        (let (bs, rest) = slave_recv incoming
         in obind (go_slice 0 (length bs) p) (\<lambda>dst.
              let (_, dst') = go_copy dst bs
              in Inr (length bs, dst' @ drop (length bs) p, None, (s, rest)))))"

lemma slave_read_history:
  assumes "s_masterOutputs s \<noteq> []"
  shows "slave_read p (s, ms) =
    (if length (s_masterOutputs s) \<le> length p
     then Inr (length p, s_masterOutputs s @ drop (length (s_masterOutputs s)) p, None,
               (s\<lparr>s_masterOutputs := []\<rparr>, ms))
     else Inl SliceBounds)"
  using assms by (simp add: slave_read_def go_slice_def)

lemma slave_read_live:
  assumes "s_masterOutputs s = []"
  shows "slave_read p (s, m # ms) =
    (if length m \<le> length p then Inr (length m, m @ drop (length m) p, None, (s, ms))
     else Inl SliceBounds)"
  using assms by (simp add: slave_read_def go_slice_def)

lemma slave_read_closed:
  "s_masterOutputs s = [] \<Longrightarrow> slave_read p (s, []) = Inr (0, p, None, (s, []))"
  by (simp add: slave_read_def)

definition slave_fits :: "nat \<Rightarrow> slave_tty \<times> bytes list \<Rightarrow> bool" where
  "slave_fits k st \<longleftrightarrow> length (s_masterOutputs (fst st)) \<le> k \<and> (\<forall>m \<in> set (snd st). length m \<le> k)"

interpretation follower: total_reader slave_read slave_fits
proof unfold_locales
  fix p p' :: bytes and s s' :: "slave_tty \<times> bytes list" and n e
  assume r: "slave_read p s = Inr (n, p', e, s')"
  obtain sl ms where s: "s = (sl, ms)" by (cases s)
  show "n \<le> length p \<and> length p' = length p"
    using r unfolding s
    by (cases "s_masterOutputs sl = []"; cases ms)
      (auto simp: slave_read_history slave_read_live slave_read_closed split: if_splits)
next
  fix p :: bytes and s :: "slave_tty \<times> bytes list"
  assume fits: "slave_fits (length p) s"
  obtain sl ms where s: "s = (sl, ms)" by (cases s)
  show "\<exists>n p' e s'. slave_read p s = Inr (n, p', e, s') \<and> slave_fits (length p) s'"
    using fits unfolding s
    by (cases "s_masterOutputs sl = []"; cases ms)
      (auto simp: slave_read_history slave_read_live slave_read_closed slave_fits_def)
qed

text \<open>
  The first read of a follower reports the whole buffer as read although only the history was
  copied: with a buffer of \<open>L\<close> bytes it hands out the thousand bytes of history followed by
  \<open>L - 1000\<close> bytes that were never received, and with a buffer shorter than the history it panics.
\<close>

lemma first_read_overreports:
  assumes "NewMasterTTY None execID = Inr m"
    and "Fork None i c (fold (\<lambda>out m. master_collect m out) outs m) = Inr s"
  shows "slave_read p (s, ms) =
    (if history_size \<le> length p
     then Inr (length p, m_outputs (fold (\<lambda>out m. master_collect m out) outs m) @ drop history_size p, None,
               (s\<lparr>s_masterOutputs := []\<rparr>, ms))
     else Inl SliceBounds)"
proof -
  have "m_outputs m = suffix_upto history_size (replicate history_size (CHR 0x00))"
    using assms(1) by (auto simp: NewMasterTTY_def suffix_upto_def)
  then have "length (m_outputs (fold (\<lambda>out m. master_collect m out) outs m)) = history_size"
    by (simp add: master_collect_fold collect_fold)
  moreover have "s_masterOutputs s = m_outputs (fold (\<lambda>out m. master_collect m out) outs m)"
    using assms(2) by (auto simp: Fork_def)
  ultimately show ?thesis
    by (subst slave_read_history) (auto simp: history_size_def)
qed

definition sample_master :: master_tty where
  "sample_master = \<lparr>m_id = ''e1'', m_outputs = replicate history_size (CHR 0x00), m_mWriter = new_mutex_writer\<rparr>"

definition sample_follower :: slave_tty where
  "sample_follower = \<lparr>s_id = 4, s_readOnly = True, s_masterOutputs = m_outputs (master_collect sample_master ''hi'')\<rparr>"

lemma first_read_overreports_example:
  "NewMasterTTY None ''e1'' = Inr sample_master \<and>
   Fork None 4 False (fold (\<lambda>out m. master_collect m out) [''hi''] sample_master) = Inr sample_follower \<and>
   slave_read (replicate 1024 (CHR ''?'')) (sample_follower, []) =
     Inr (1024, m_outputs (master_collect sample_master ''hi'') @ replicate 24 (CHR ''?''), None,
          (sample_follower\<lparr>s_masterOutputs := []\<rparr>, []))"
proof -
  have new: "NewMasterTTY None ''e1'' = Inr sample_master"
    by (simp add: NewMasterTTY_def sample_master_def)
  have fork: "Fork None 4 False (fold (\<lambda>out m. master_collect m out) [''hi''] sample_master) = Inr sample_follower"
    by (simp add: Fork_def sample_follower_def)
  have "slave_read (replicate 1024 (CHR ''?'')) (sample_follower, []) =
     Inr (1024, m_outputs (master_collect sample_master ''hi'') @ drop history_size (replicate 1024 (CHR ''?'')), None,
          (sample_follower\<lparr>s_masterOutputs := []\<rparr>, []))"
    by (subst first_read_overreports [OF new fork]) (simp add: history_size_def)
  then show ?thesis using new fork by (simp add: history_size_def)
qed

end
