(* ===== verification/Webtty.thy ===== *)
theory Webtty
  imports Base64 Readers Complex_Main
begin

text \<open>
  third-part/gotty/webtty: the bridge between a browser (the master connection) and a terminal
  (the slave).  The handlers return what they do as a list of actions, in order, with the error
  they return; \<open>Run\<close> with its two goroutines and its \<open>select\<close> is a step relation.  What the two
  connections and the JSON decoder answer is an argument of each handler call, so that every step
  may meet any answer.
\<close>

section \<open>The protocol\<close>

definition Protocols :: "string list" where "Protocols = [''webtty'']"

definition UnknownInput :: char where "UnknownInput = CHR ''0''"
definition Input :: char where "Input = CHR ''1''"
definition Ping :: char where "Ping = CHR ''2''"
definition ResizeTerminal :: char where "ResizeTerminal = CHR ''3''"

definition UnknownOutput :: char where "UnknownOutput = CHR ''0''"
definition Output :: char where "Output = CHR ''1''"
definition Pong :: char where "Pong = CHR ''2''"
definition SetWindowTitle :: char where "SetWindowTitle = CHR ''3''"
definition SetPreferences :: char where "SetPreferences = CHR ''4''"
definition SetReconnect :: char where "SetReconnect = CHR ''5''"

lemmas message_types = Input_def Ping_def ResizeTerminal_def Output_def Pong_def
  SetWindowTitle_def SetPreferences_def SetReconnect_def

section \<open>The WebTTY and its options\<close>

record webtty =
  windowTitle :: bytes
  permitWrite :: bool
  columns :: int
  rows :: int
  reconnect :: int
  masterPrefs :: "bytes option"
  bufferSize :: nat

type_synonym option_fn = "webtty \<Rightarrow> error option \<times> webtty"

definition WithPermitWrite :: option_fn where
  "WithPermitWrite wt = (None, wt\<lparr>permitWrite := True\<rparr>)"

definition WithFixedColumns :: "int \<Rightarrow> option_fn" where
  "WithFixedColumns c wt = (None, wt\<lparr>columns := c\<rparr>)"

definition WithFixedRows :: "int \<Rightarrow> option_fn" where
  "WithFixedRows r wt = (None, wt\<lparr>rows := r\<rparr>)"

definition WithWindowTitle :: "bytes \<Rightarrow> option_fn" where
  "WithWindowTitle title wt = (None, wt\<lparr>windowTitle := title\<rparr>)"

definition WithReconnect :: "int \<Rightarrow> option_fn" where
  "WithReconnect timeInSeconds wt = (None, wt\<lparr>reconnect := timeInSeconds\<rparr>)"

text \<open>\<open>marshal\<close> is \<open>json.Marshal\<close> of the preferences.\<close>

definition WithMasterPreferences :: "(error + bytes) \<Rightarrow> option_fn" where
  "WithMasterPreferences marshal wt =
     (case marshal of
        Inl err \<Rightarrow> (Some (Wrapf ''failed to marshal preferences as JSON'' err), wt)
      | Inr prefs \<Rightarrow> (None, wt\<lparr>masterPrefs := Some prefs\<rparr>))"

text \<open>\<open>New\<close> runs the options over the defaults; it drops the errors they return.\<close>

definition new_webtty :: "option_fn list \<Rightarrow> webtty" where
  "new_webtty options =
     fold (\<lambda>option wt. snd (option wt)) options
       \<lparr>windowTitle = [], permitWrite = False, columns = 0, rows = 0, reconnect = 0,
        masterPrefs = None, bufferSize = 1024\<rparr>"

section \<open>The handlers\<close>

datatype act = ToMaster bytes | ToSlave bytes | Resize int int

text \<open>
  The answers of the world to one handler call: the errors of the two writes, and the outcome of
  \<open>json.Unmarshal\<close> into \<open>argResizeTerminal\<close>, two float64 fields (a finite float is a rational).
\<close>

record answers =
  masterWriteErr :: "bytes \<Rightarrow> error option"
  slaveWriteErr :: "bytes \<Rightarrow> error option"
  unmarshalResize :: "bytes \<Rightarrow> error + (rat \<times> rat)"

text \<open>\<open>int(f)\<close>: truncation towards zero.\<close>

definition int_of_float :: "rat \<Rightarrow> int" where
  "int_of_float f = (if 0 \<le> f then floor f else - floor (- f))"

definition masterWrite :: "answers \<Rightarrow> bytes \<Rightarrow> act list \<times> error option" where
  "masterWrite env data =
     ([ToMaster data], map_option (Wrapf ''failed to write to master'') (masterWriteErr env data))"

text \<open>One statement of \<open>sendInitializeMessage\<close>: write if asked for, stop at the first error.\<close>

definition init_part ::
  "answers \<Rightarrow> bool \<Rightarrow> bytes \<Rightarrow> string \<Rightarrow> act list \<times> error option \<Rightarrow> act list \<times> error option" where
  "init_part env wanted msg what r =
     (let (acts, err) = r in
      case err of
        Some e \<Rightarrow> (acts, Some e)
      | None \<Rightarrow>
          if wanted then
            (let (acts', err') = masterWrite env msg in (acts @ acts', map_option (Wrapf what) err'))
          else (acts, None))"

definition sendInitializeMessage :: "answers \<Rightarrow> webtty \<Rightarrow> act list \<times> error option" where
  "sendInitializeMessage env wt =
     init_part env (masterPrefs wt \<noteq> None) (SetPreferences # the (masterPrefs wt)) ''failed to set preferences''
       (init_part env (0 < reconnect wt) (SetReconnect # int_str (reconnect wt)) ''failed to set reconnect''
         (init_part env (windowTitle wt \<noteq> []) (SetWindowTitle # windowTitle wt) ''failed to send window title''
           ([], None)))"

definition handleSlaveReadEvent :: "answers \<Rightarrow> bytes \<Rightarrow> act list \<times> error option" where
  "handleSlaveReadEvent env data =
     (let (acts, err) = masterWrite env (Output # b64_encode data)
      in (acts, map_option (Wrapf ''failed to send message to master'') err))"

text \<open>The verb \<open>%c\<close> prints a byte as the code point of its value, in UTF-8.\<close>

definition char_text :: "char \<Rightarrow> string" where
  "char_text c =
     (let n = of_char c :: nat in
      if n < 128 then [c] else [char_of (192 + n div 64), char_of (128 + n mod 64)])"

definition handleMasterReadEvent :: "answers \<Rightarrow> webtty \<Rightarrow> bytes \<Rightarrow> act list \<times> error option" where
  "handleMasterReadEvent env wt data =
     (case data of
        [] \<Rightarrow> ([], Some (Errorf ''unexpected zero length read from master''))
      | t # payload \<Rightarrow>
          if t = Input then
            if \<not> permitWrite wt then ([], None)
            else if length data \<le> 1 then ([], None)
            else ([ToSlave payload],
                  map_option (Wrapf ''failed to write received data to slave'') (slaveWriteErr env payload))
          else if t = Ping then
            (let (acts, err) = masterWrite env [Pong]
             in (acts, map_option (Wrapf ''failed to return Pong message to master'') err))
          else if t = ResizeTerminal then
            if columns wt \<noteq> 0 \<and> rows wt \<noteq> 0 then ([], None)
            else if length data \<le> 1 then
              ([], Some (Errorf ''received malformed remote command for terminal resize: empty payload''))
            else
              (case unmarshalResize env payload of
                 Inl err \<Rightarrow> ([], Some (Wrapf ''received malformed data for terminal resize'' err))
               | Inr (argColumns, argRows) \<Rightarrow>
                   (let r = if rows wt = 0 then int_of_float argRows else rows wt;
                        c = if columns wt = 0 then int_of_float argColumns else columns wt
                    in ([Resize c r], None)))
          else ([], Some (Errorf (''unknown message type `'' @ char_text t @ ''`''))))"

subsection \<open>What the handlers send\<close>

text \<open>The bytes meant for the container, and the messages meant for the browser.\<close>

fun to_slave :: "act \<Rightarrow> bytes" where
  "to_slave (ToSlave p) = p"
| "to_slave _ = []"

text \<open>A client's view of a message: the bytes of an output message.\<close>

fun shown :: "act \<Rightarrow> bytes" where
  "shown (ToMaster (t # m)) = (if t = Output then the (b64_decode m) else [])"
| "shown _ = []"

definition well_typed_act :: "act \<Rightarrow> bool" where
  "well_typed_act a \<longleftrightarrow>
     (case a of
        ToMaster m \<Rightarrow> m \<noteq> [] \<and> hd m \<in> {Output, Pong, SetWindowTitle, SetPreferences, SetReconnect}
      | ToSlave p \<Rightarrow> p \<noteq> []
      | Resize _ _ \<Rightarrow> True)"

text \<open>What the terminal should receive from one message of the browser.\<close>

fun typed_input :: "webtty \<Rightarrow> bytes \<Rightarrow> bytes" where
  "typed_input wt [] = []"
| "typed_input wt (t # payload) = (if t = Input \<and> permitWrite wt then payload else [])"

lemma slave_event_acts:
  "fst (handleSlaveReadEvent env data) = [ToMaster (Output # b64_encode data)]"
  by (simp add: handleSlaveReadEvent_def masterWrite_def)

lemma master_event_input:
  "concat (map to_slave (fst (handleMasterReadEvent env wt data))) = typed_input wt data"
  by (cases data) (auto simp: handleMasterReadEvent_def masterWrite_def Let_def message_types
      split: sum.split prod.split)

lemma master_event_shows_nothing:
  "concat (map shown (fst (handleMasterReadEvent env wt data))) = []"
  by (cases data) (auto simp: handleMasterReadEvent_def masterWrite_def Let_def message_types
      split: sum.split prod.split)

lemma master_event_typed: "a \<in> set (fst (handleMasterReadEvent env wt data)) \<Longrightarrow> well_typed_act a"
  by (cases data) (auto simp: handleMasterReadEvent_def masterWrite_def well_typed_act_def Let_def
      split: sum.splits prod.splits if_splits)

lemma slave_event_shows: "concat (map shown (fst (handleSlaveReadEvent env data))) = data"
  by (simp add: slave_event_acts b64.dec_enc)

lemma slave_event_no_input: "concat (map to_slave (fst (handleSlaveReadEvent env data))) = []"
  by (simp add: slave_event_acts)

lemma slave_event_typed: "a \<in> set (fst (handleSlaveReadEvent env data)) \<Longrightarrow> well_typed_act a"
  by (simp add: slave_event_acts well_typed_act_def)

lemma init_part_acts:
  "a \<in> set (fst (init_part env w msg what r)) \<Longrightarrow> a \<in> set (fst r) \<or> (w \<and> a = ToMaster msg)"
  by (auto simp: init_part_def masterWrite_def split: option.splits prod.splits if_splits)

lemma init_acts:
  assumes "a \<in> set (fst (sendInitializeMessage env wt))"
  shows "\<exists>t m. a = ToMaster (t # m) \<and> t \<in> {SetWindowTitle, SetReconnect, SetPreferences}"
  using assms unfolding sendInitializeMessage_def by (auto dest!: init_part_acts)

lemma init_neutral:
  "concat (map to_slave (fst (sendInitializeMessage env wt))) = []"
  "concat (map shown (fst (sendInitializeMessage env wt))) = []"
  by (auto dest!: init_acts simp: message_types)

lemma init_typed: "a \<in> set (fst (sendInitializeMessage env wt)) \<Longrightarrow> well_typed_act a"
  by (auto dest!: init_acts simp: well_typed_act_def)

section \<open>Run\<close>

text \<open>
  The state of \<open>Run\<close> after the initial messages: whether each goroutine still loops, the channel
  \<open>errs\<close> (capacity two), the value \<open>Run\<close> has returned, everything done so far, and what the two
  loops have read from their connections.
\<close>

record run_state =
  slaveLoop :: bool
  masterLoop :: bool
  errs :: "error list"
  result :: "error option"
  trace :: "act list"
  fromSlave :: "bytes list"
  fromMaster :: "bytes list"

definition run_start :: "answers \<Rightarrow> webtty \<Rightarrow> run_state" where
  "run_start env wt =
     \<lparr>slaveLoop = True, masterLoop = True, errs = [], result = None,
      trace = fst (sendInitializeMessage env wt), fromSlave = [], fromMaster = []\<rparr>"

inductive run_step :: "webtty \<Rightarrow> run_state \<Rightarrow> run_state \<Rightarrow> bool" for wt :: webtty where
  slave_data:
    "slaveLoop s \<Longrightarrow> length data \<le> bufferSize wt \<Longrightarrow> handleSlaveReadEvent env data = (acts, None) \<Longrightarrow>
     run_step wt s (s\<lparr>trace := trace s @ acts, fromSlave := fromSlave s @ [data]\<rparr>)"
| slave_fail:
    "slaveLoop s \<Longrightarrow> length data \<le> bufferSize wt \<Longrightarrow> handleSlaveReadEvent env data = (acts, Some e) \<Longrightarrow>
     run_step wt s (s\<lparr>trace := trace s @ acts, fromSlave := fromSlave s @ [data],
                     slaveLoop := False, errs := errs s @ [e]\<rparr>)"
| slave_closed:
    "slaveLoop s \<Longrightarrow> run_step wt s (s\<lparr>slaveLoop := False, errs := errs s @ [ErrSlaveClosed]\<rparr>)"
| master_data:
    "masterLoop s \<Longrightarrow> length data \<le> bufferSize wt \<Longrightarrow> handleMasterReadEvent env wt data = (acts, None) \<Longrightarrow>
     run_step wt s (s\<lparr>trace := trace s @ acts, fromMaster := fromMaster s @ [data]\<rparr>)"
| master_fail:
    "masterLoop s \<Longrightarrow> length data \<le> bufferSize wt \<Longrightarrow> handleMasterReadEvent env wt data = (acts, Some e) \<Longrightarrow>
     run_step wt s (s\<lparr>trace := trace s @ acts, fromMaster := fromMaster s @ [data],
                     masterLoop := False, errs := errs s @ [e]\<rparr>)"
| master_closed:
    "masterLoop s \<Longrightarrow> run_step wt s (s\<lparr>masterLoop := False, errs := errs s @ [ErrMasterClosed]\<rparr>)"
| ctx_done:
    "result s = None \<Longrightarrow> e \<in> {Canceled, DeadlineExceeded} \<Longrightarrow> run_step wt s (s\<lparr>result := Some e\<rparr>)"
| err_received:
    "result s = None \<Longrightarrow> errs s = e # es \<Longrightarrow> run_step wt s (s\<lparr>result := Some e, errs := es\<rparr>)"

inductive_cases run_stepE: "run_step wt s s'"

inductive run_reachable :: "answers \<Rightarrow> webtty \<Rightarrow> run_state \<Rightarrow> bool" for env0 :: answers and wt :: webtty where
  start: "snd (sendInitializeMessage env0 wt) = None \<Longrightarrow> run_reachable env0 wt (run_start env0 wt)"
| step: "run_reachable env0 wt s \<Longrightarrow> run_step wt s s' \<Longrightarrow> run_reachable env0 wt s'"

text \<open>
  What every reachable state satisfies: the terminal was sent exactly the typed input of the
  messages read, the browser was shown exactly the terminal's output, and every action is a
  well-formed message.
\<close>

definition bridge_inv :: "webtty \<Rightarrow> run_state \<Rightarrow> bool" where
  "bridge_inv wt s \<longleftrightarrow>
     concat (map to_slave (trace s)) = concat (map (typed_input wt) (fromMaster s)) \<and>
     concat (map shown (trace s)) = concat (fromSlave s) \<and>
     (\<forall>a \<in> set (trace s). well_typed_act a)"

text \<open>The errors in flight: as many as there are stopped loops, less the one \<open>Run\<close> has taken.\<close>

definition errs_inv :: "run_state \<Rightarrow> bool" where
  "errs_inv s \<longleftrightarrow>
     length (errs s) + of_bool (slaveLoop s) + of_bool (masterLoop s) \<le> 2"

lemma bridge_inv_start: "bridge_inv wt (run_start env wt)"
  by (auto simp: bridge_inv_def run_start_def init_neutral init_typed simp del: concat_eq_Nil_conv)

lemma handler_facts:
  "handleMasterReadEvent env wt data = (acts, err) \<Longrightarrow>
     concat (map to_slave acts) = typed_input wt data \<and> concat (map shown acts) = [] \<and>
     (\<forall>a \<in> set acts. well_typed_act a)"
  "handleSlaveReadEvent env data = (acts, err) \<Longrightarrow>
     concat (map to_slave acts) = [] \<and> concat (map shown acts) = data \<and>
     (\<forall>a \<in> set acts. well_typed_act a)"
  by (metis fst_conv master_event_input master_event_shows_nothing master_event_typed)
    (metis fst_conv slave_event_no_input slave_event_shows slave_event_typed)

lemma bridge_inv_step: "run_step wt s s' \<Longrightarrow> bridge_inv wt s \<Longrightarrow> bridge_inv wt s'"
  by (erule run_stepE) (auto simp: bridge_inv_def dest!: handler_facts simp del: concat_eq_Nil_conv)

lemma errs_inv_step: "run_step wt s s' \<Longrightarrow> errs_inv s \<Longrightarrow> errs_inv s'"
  by (erule run_stepE) (auto simp: errs_inv_def)

lemma reachable_inv: "run_reachable env wt s \<Longrightarrow> bridge_inv wt s \<and> errs_inv s"
proof (induction rule: run_reachable.induct)
  case start
  have "errs_inv (run_start env wt)" by (simp add: errs_inv_def run_start_def)
  with bridge_inv_start show ?case ..
next
  case (step s s')
  then show ?case by (simp add: bridge_inv_step errs_inv_step)
qed

text \<open>
  C1. The bridge is transparent: in every reachable state of \<open>Run\<close>, in any interleaving of its two
  loops and with any write errors, the bytes handed to the terminal are exactly the payloads of
  the input messages read so far, in order, and the output messages handed to the browser decode
  to exactly the bytes read from the terminal, in order; every message has a type of the protocol.
\<close>

theorem bridge_transparent:
  assumes "run_reachable env wt s"
  shows "concat (map to_slave (trace s)) = concat (map (typed_input wt) (fromMaster s)) \<and>
         concat (map shown (trace s)) = concat (fromSlave s) \<and>
         (\<forall>a \<in> set (trace s). well_typed_act a)"
  using reachable_inv [OF assms] by (simp add: bridge_inv_def)

definition quiet :: answers where
  "quiet = \<lparr>masterWriteErr = (\<lambda>_. None), slaveWriteErr = (\<lambda>_. None), unmarshalResize = (\<lambda>_. Inl EOF)\<rparr>"

definition plain_tty :: webtty where
  "plain_tty = new_webtty [WithWindowTitle ''t'', WithPermitWrite]"

lemma plain_tty_sels [simp]: "permitWrite plain_tty" "bufferSize plain_tty = 1024"
  by (simp_all add: plain_tty_def new_webtty_def WithWindowTitle_def WithPermitWrite_def)

text \<open>A run of three steps: the browser types, the terminal answers.\<close>

definition echo_state :: "bytes \<Rightarrow> webtty \<Rightarrow> run_state" where
  "echo_state out wt = (run_start quiet wt)\<lparr>
     trace := trace (run_start quiet wt) @ fst (handleMasterReadEvent quiet wt ''1ls'') @ [ToMaster (Output # b64_encode out)],
     fromMaster := [''1ls''], fromSlave := [out]\<rparr>"

lemma quiet_init: "snd (sendInitializeMessage quiet wt) = None"
  by (simp add: sendInitializeMessage_def init_part_def masterWrite_def quiet_def)

lemma echo_reachable:
  assumes "bufferSize wt = 1024" and "length out \<le> 1024"
  shows "run_reachable quiet wt (echo_state out wt)"
proof -
  let ?s0 = "run_start quiet wt"
  let ?acts = "fst (handleMasterReadEvent quiet wt ''1ls'')"
  let ?s1 = "?s0\<lparr>trace := trace ?s0 @ ?acts, fromMaster := fromMaster ?s0 @ [''1ls'']\<rparr>"
  have "handleMasterReadEvent quiet wt ''1ls'' = (?acts, None)"
    by (simp add: handleMasterReadEvent_def quiet_def Input_def)
  then have "run_step wt ?s0 ?s1"
    using assms by (intro master_data) (simp_all add: run_start_def)
  then have r1: "run_reachable quiet wt ?s1"
    by (rule run_reachable.step [OF run_reachable.start [OF quiet_init]])
  have "handleSlaveReadEvent quiet out = ([ToMaster (Output # b64_encode out)], None)"
    by (simp add: handleSlaveReadEvent_def masterWrite_def quiet_def)
  then have "run_step wt ?s1 (?s1\<lparr>trace := trace ?s1 @ [ToMaster (Output # b64_encode out)],
      fromSlave := fromSlave ?s1 @ [out]\<rparr>)"
    using assms by (intro slave_data) (simp_all add: run_start_def)
  with r1 have "run_reachable quiet wt (?s1\<lparr>trace := trace ?s1 @ [ToMaster (Output # b64_encode out)],
      fromSlave := fromSlave ?s1 @ [out]\<rparr>)"
    by (rule run_reachable.step)
  then show ?thesis by (simp add: echo_state_def run_start_def)
qed

theorem bridge_transparent_witness:
  "run_reachable quiet plain_tty (echo_state ''a.txt'' plain_tty) \<and>
   concat (map to_slave (trace (echo_state ''a.txt'' plain_tty))) = ''ls'' \<and>
   concat (map shown (trace (echo_state ''a.txt'' plain_tty))) = ''a.txt''"
proof -
  have r: "run_reachable quiet plain_tty (echo_state ''a.txt'' plain_tty)"
    by (rule echo_reachable) simp_all
  from r bridge_transparent [OF r] show ?thesis
    by (simp add: echo_state_def Input_def del: concat_eq_Nil_conv)
qed

text \<open>
  A terminal opened without write permission is read-only: whatever the browser sends, in every
  reachable state of \<open>Run\<close> nothing has been written to the terminal.
\<close>

lemma readonly_trace:
  assumes "run_reachable env wt s" and "\<not> permitWrite wt"
  shows "ToSlave p \<notin> set (trace s)"
proof
  assume "ToSlave p \<in> set (trace s)"
  then have "well_typed_act (ToSlave p)" "to_slave (ToSlave p) \<in> set (map to_slave (trace s))"
    using reachable_inv [OF assms(1)] by (auto simp: bridge_inv_def simp del: to_slave.simps)
  then have "p \<noteq> []" "p \<in> set (map to_slave (trace s))"
    by (simp_all add: well_typed_act_def)
  moreover have "typed_input wt data = []" for data
    using assms(2) by (cases data) simp_all
  then have "concat (map to_slave (trace s)) = []"
    using reachable_inv [OF assms(1)] by (simp add: bridge_inv_def)
  ultimately show False by auto
qed

section \<open>Run ends\<close>

text \<open>How far a run has come: what its loops have read, the loops that stopped, the answer.\<close>

definition run_progress :: "run_state \<Rightarrow> nat" where
  "run_progress s =
     length (fromSlave s) + length (fromMaster s) + of_bool (\<not> slaveLoop s) + of_bool (\<not> masterLoop s) +
     of_bool (result s \<noteq> None)"

lemma run_progress_step: "run_step wt s s' \<Longrightarrow> run_progress s < run_progress s'"
  by (erule run_stepE) (auto simp: run_progress_def)

lemma run_progress_steps: "(run_step wt ^^ n) s s' \<Longrightarrow> n + run_progress s \<le> run_progress s'"
proof (induction n arbitrary: s')
  case (Suc n)
  then obtain u where u: "(run_step wt ^^ n) s u" "run_step wt u s'" by auto
  then show ?case using Suc.IH [OF u(1)] run_progress_step [OF u(2)] by simp
qed simp

text \<open>Until \<open>Run\<close> has answered, every stopped loop's report waits in the channel.\<close>

definition unanswered_inv :: "run_state \<Rightarrow> bool" where
  "unanswered_inv s \<longleftrightarrow>
     (result s = None \<longrightarrow> length (errs s) = of_bool (\<not> slaveLoop s) + of_bool (\<not> masterLoop s))"

lemma unanswered_inv_step: "run_step wt s s' \<Longrightarrow> unanswered_inv s \<Longrightarrow> unanswered_inv s'"
  by (erule run_stepE) (auto simp: unanswered_inv_def)

lemma run_steps_reachable:
  "snd (sendInitializeMessage env wt) = None \<Longrightarrow> (run_step wt ^^ n) (run_start env wt) s \<Longrightarrow> run_reachable env wt s"
  by (induction n arbitrary: s) (auto intro: run_reachable.intros)

lemma run_reachable_unanswered: "run_reachable env wt s \<Longrightarrow> unanswered_inv s"
proof (induction rule: run_reachable.induct)
  case start
  show ?case by (simp add: unanswered_inv_def run_start_def)
next
  case (step s s')
  then show ?case by (simp add: unanswered_inv_step)
qed

lemma run_can_step: "result s = None \<or> slaveLoop s \<or> masterLoop s \<Longrightarrow> \<exists>s'. run_step wt s s'"
  using ctx_done [of s Canceled wt] slave_closed [of s wt] master_closed [of s wt] by blast

text \<open>
  C17. \<open>Run\<close> ends and leaks no goroutine.  A run makes at most three steps more than its loops have
  read messages, so it comes to an end when the two connections do; once one loop has stopped,
  \<open>Run\<close> can answer with that loop's report; nothing is left to do only when \<open>Run\<close> has answered and
  both loops have stopped; and the channel of capacity two always has room for the report of
  each loop that still runs, so that its last send never blocks, also when nobody receives.
\<close>

theorem run_ends:
  assumes "snd (sendInitializeMessage env wt) = None" and "(run_step wt ^^ n) (run_start env wt) s"
  shows "n \<le> length (fromSlave s) + length (fromMaster s) + 3 \<and>
    (result s = None \<and> \<not> (slaveLoop s \<and> masterLoop s) \<longrightarrow>
       (\<exists>e es. errs s = e # es \<and> run_step wt s (s\<lparr>result := Some e, errs := es\<rparr>))) \<and>
    ((\<forall>s'. \<not> run_step wt s s') \<longleftrightarrow> result s \<noteq> None \<and> \<not> slaveLoop s \<and> \<not> masterLoop s) \<and>
    length (errs s) + of_bool (slaveLoop s) + of_bool (masterLoop s) \<le> (2::nat)"
proof (intro conjI)
  note reach = run_steps_reachable [OF assms]
  have "n \<le> run_progress s" using run_progress_steps [OF assms(2)] by simp
  also have "\<dots> \<le> length (fromSlave s) + length (fromMaster s) + 3" by (simp add: run_progress_def)
  finally show "n \<le> length (fromSlave s) + length (fromMaster s) + 3" .
  show "result s = None \<and> \<not> (slaveLoop s \<and> masterLoop s) \<longrightarrow>
      (\<exists>e es. errs s = e # es \<and> run_step wt s (s\<lparr>result := Some e, errs := es\<rparr>))"
    using run_reachable_unanswered [OF reach]
    by (cases "errs s") (auto simp: unanswered_inv_def intro: run_step.err_received)
  show "(\<forall>s'. \<not> run_step wt s s') \<longleftrightarrow> result s \<noteq> None \<and> \<not> slaveLoop s \<and> \<not> masterLoop s"
    using run_can_step [of s wt] by (cases "result s") (auto elim!: run_stepE)
  show "length (errs s) + of_bool (slaveLoop s) + of_bool (masterLoop s) \<le> (2::nat)"
    using reachable_inv [OF reach] by (simp add: errs_inv_def)
qed

text \<open>A run that ends: the tab is closed, \<open>Run\<close> answers, the terminal closes.\<close>

definition closed_run :: "webtty \<Rightarrow> run_state" where
  "closed_run wt = (run_start quiet wt)\<lparr>slaveLoop := False, masterLoop := False, errs := [ErrSlaveClosed],
     result := Some ErrMasterClosed\<rparr>"

lemma closed_run_steps: "(run_step wt ^^ 3) (run_start quiet wt) (closed_run wt)"
proof -
  let ?s0 = "run_start quiet wt"
  let ?s1 = "?s0\<lparr>masterLoop := False, errs := [ErrMasterClosed]\<rparr>"
  let ?s2 = "?s1\<lparr>result := Some ErrMasterClosed, errs := []\<rparr>"
  have "run_step wt ?s0 ?s1" using master_closed [of ?s0 wt] by (simp add: run_start_def)
  moreover have "run_step wt ?s1 ?s2" by (rule err_received) (simp_all add: run_start_def)
  moreover have "run_step wt ?s2 (closed_run wt)"
    using slave_closed [of ?s2 wt] by (simp add: run_start_def closed_run_def)
  ultimately show ?thesis by (auto simp: numeral_3_eq_3)
qed

theorem run_ends_witness:
  "(run_step plain_tty ^^ 3) (run_start quiet plain_tty) (closed_run plain_tty) \<and>
   (\<forall>s'. \<not> run_step plain_tty (closed_run plain_tty) s')"
  using run_ends [OF quiet_init closed_run_steps [of plain_tty]] closed_run_steps [of plain_tty]
  by (simp add: closed_run_def)

end
