(* ===== verification/Server.thy ===== *)
theory Server
  imports Config Counter Tty Webtty
begin

text \<open>
  The web server's handlers: route/id.go, handler.go, exec.go, share.go, log.go, ws.go and the two
  wrappers.  A \<open>server\<close> keeps the exec table and the table of running terminals, whose entries
  are pointers: a terminal is named by a number here.  A handler gets the answers of the world to
  the calls it makes (the websocket, the JSON and URL packages) as arguments.
\<close>

record server =
  sr_options :: server_config
  sr_hostname :: string
  sr_execs :: "(string, string) gomap"
  sr_masters :: "(string, nat) gomap"

section \<open>Exec identifiers\<close>

definition getContainerID :: "string \<Rightarrow> server \<Rightarrow> string option" where
  "getContainerID execID srv = map_of (sr_execs srv) execID"

definition setContainerID :: "(nat \<Rightarrow> nat) \<Rightarrow> string \<Rightarrow> server \<Rightarrow> string \<times> server" where
  "setContainerID draw cid srv =
     (let execID = new_ID draw cid in (execID, srv\<lparr>sr_execs := AList.update execID cid (sr_execs srv)\<rparr>))"

definition handleExecRedirect :: "(nat \<Rightarrow> nat) \<Rightarrow> string \<Rightarrow> string \<Rightarrow> server \<Rightarrow> (int \<times> string) \<times> server" where
  "handleExecRedirect draw cid rawQuery srv =
     (let (execID, srv') = setContainerID draw cid srv;
          base = path_join [srv_Base (sr_options srv), ''/exec/''] @ ''/''
      in if rawQuery \<noteq> [] then ((302, base @ execID @ ''?'' @ rawQuery), srv')
         else ((302, base @ execID), srv'))"

section \<open>The first message\<close>

datatype ws_type = TextMessage | BinaryMessage

definition auth_error :: error where
  "auth_error = Errorf ''failed to authenticate websocket connection''"

text \<open>\<open>msg\<close> is what \<open>ReadMessage\<close> returned, \<open>Unmarshal\<close> the decoder of \<open>types.InitMessage\<close>.\<close>

definition readInitMessage ::
    "(bytes \<Rightarrow> error + init_message) \<Rightarrow> server_config \<Rightarrow> error + (ws_type \<times> bytes) \<Rightarrow> error + string" where
  "readInitMessage Unmarshal options msg =
     (case msg of
        Inl err \<Rightarrow> Inl auth_error
      | Inr (t, initLine) \<Rightarrow>
          if t \<noteq> TextMessage then
            Inl (Errorf ''failed to authenticate websocket connection: invalid message type'')
          else
            (case Unmarshal initLine of
               Inl err \<Rightarrow> Inl auth_error
             | Inr i \<Rightarrow>
                 if srv_Credential options \<noteq> [] \<and> im_AuthToken i \<noteq> srv_Credential options then Inl auth_error
                 else Inr (im_Arguments i)))"

text \<open>\<open>Parse\<close> is \<open>url.Parse\<close> with \<open>Query().Get\<close> of its result.\<close>

definition parseQuery :: "(string \<Rightarrow> error + (string \<Rightarrow> string)) \<Rightarrow> string \<Rightarrow> error + (string \<Rightarrow> string)" where
  "parseQuery Parse arguments =
     (let queryPath = (if arguments \<noteq> [] then arguments else ''?'') in
      case Parse queryPath of
        Inl err \<Rightarrow> Inl (Errorf (''bad arguments: '' @ arguments))
      | Inr q \<Rightarrow> Inr q)"

definition js_string :: "string \<Rightarrow> string \<Rightarrow> string" where
  "js_string name v = ''var '' @ name @ '' = '' @ [CHR 0x27] @ v @ [CHR 0x27] @ '';''"

definition handleAuthToken :: "server \<Rightarrow> int \<times> string" where
  "handleAuthToken srv = (200, js_string ''gotty_auth_token'' (srv_Credential (sr_options srv)))"

definition handleConfig :: "server \<Rightarrow> int \<times> string" where
  "handleConfig srv = (200, js_string ''gotty_term'' (srv_Term (sr_options srv)))"

section \<open>Titles\<close>

datatype title_value = TString string | TVars "(string \<times> title_value) list"

fun merge_vars ::
    "string list \<Rightarrow> (string \<times> (string \<times> title_value) list) list \<Rightarrow> (string, title_value) gomap \<Rightarrow> (string, title_value) gomap outcome" where
  "merge_vars [] varUnits titleVars = Inr titleVars"
| "merge_vars (name # order) varUnits titleVars =
     (case map_of varUnits name of
        None \<Rightarrow> Inl (Explicit ''title variable name error'')
      | Some vars \<Rightarrow> merge_vars order varUnits (fold (\<lambda>(k, v). AList.update k v) vars titleVars))"

text \<open>After the merge the units themselves are stored under their names, over any variable so called.\<close>

definition titleVariables ::
    "string list \<Rightarrow> (string \<times> (string \<times> title_value) list) list \<Rightarrow> (string, title_value) gomap outcome" where
  "titleVariables order varUnits =
     obind (merge_vars order varUnits []) (\<lambda>titleVars.
       Inr (fold (\<lambda>name. AList.update name (TVars (the (map_of varUnits name)))) order titleVars))"

text \<open>
  The template puts an at sign between the values of the keys \<open>containerName\<close> and
  \<open>containerLoc\<close>: a missing key prints as \<open><no value>\<close>.
  The two names are strings wherever they are set.
\<close>

definition print_key :: "(string, title_value) gomap \<Rightarrow> string \<Rightarrow> string" where
  "print_key vars k = (case map_of vars k of Some (TString s) \<Rightarrow> s | Some (TVars vs) \<Rightarrow> ''map'' | None \<Rightarrow> ''<no value>'')"

definition titleTemplate :: "(string, title_value) gomap \<Rightarrow> string" where
  "titleTemplate vars = print_key vars ''containerName'' @ ''@'' @ print_key vars ''containerLoc''"

definition makeTitleBuff :: "container \<Rightarrow> string list \<Rightarrow> bytes outcome" where
  "makeTitleBuff c extra =
     (let location = (if c_LocServer c \<noteq> [] then c_LocServer c else ''localhost'');
          cName = (case extra of [] \<Rightarrow> c_Name c | e # es \<Rightarrow> e @ '' '' @ c_Name c)
      in obind (titleVariables [''server'']
           [(''server'', [(''containerLoc'', TString location), (''containerName'', TString cName),
              (''containerID'', TString (c_ID c))])]) (\<lambda>vars.
         Inr (titleTemplate vars)))"

lemma makeTitleBuff_text:
  "makeTitleBuff c extra = Inr ((case extra of [] \<Rightarrow> c_Name c | e # es \<Rightarrow> e @ '' '' @ c_Name c) @ ''@'' @
     (if c_LocServer c \<noteq> [] then c_LocServer c else ''localhost''))"
  by (simp add: makeTitleBuff_def titleVariables_def titleTemplate_def print_key_def update_conv Let_def)

section \<open>The websocket\<close>

text \<open>
  \<open>wsWrapper.Read\<close>: skips messages that are not text and reads the first text message, once: what
  it has not read is dropped when the next message is opened.  The list is what the browser sends,
  each message with the reader that \<open>NextReader\<close> returns for it; its end is the connection's.
\<close>

fun ws_read :: "'m reader \<Rightarrow> (ws_type \<times> 'm) list reader" where
  "ws_read msg_read p [] = Inr (0, p, Some (Opaque ''websocket: close''), [])"
| "ws_read msg_read p ((t, m) # ms) =
     (if t \<noteq> TextMessage then ws_read msg_read p ms
      else obind (msg_read p m) (\<lambda>(n, p', err, m'). Inr (n, p', err, ms)))"

context go_reader
begin

lemma ws_read_contract: "ws_read read p ms = Inr (n, p', e, ms') \<Longrightarrow> n \<le> length p \<and> length p' = length p"
  by (induction ms) (auto split: if_splits dest: read_contract)

end

interpretation websocket: go_reader "ws_read conn_read"
  by unfold_locales (rule conn.ws_read_contract)

text \<open>
  \<open>wsWrapper.Write\<close>: one text message, of the writer that \<open>NextWriter\<close> opens, or its error; the
  deferred close of the writer drops its error.
\<close>

definition ws_write ::
    "('k \<Rightarrow> (error + 'v) \<times> 'k) \<Rightarrow> ('v \<Rightarrow> bytes \<Rightarrow> 'k \<Rightarrow> (nat \<times> error option) \<times> 'k) \<Rightarrow> ('v \<Rightarrow> 'k \<Rightarrow> error option \<times> 'k) \<Rightarrow>
     bytes \<Rightarrow> 'k \<Rightarrow> (nat \<times> error option) \<times> 'k" where
  "ws_write NextWriter Write Close p k =
     (case NextWriter k of
        (Inl err, k) \<Rightarrow> ((0, Some err), k)
      | (Inr writer, k) \<Rightarrow> (let (r, k) = Write writer p k; (_, k) = Close writer k in (r, k)))"

text \<open>\<open>slaveWrapper\<close> passes reads and writes on, has no title variables and ignores a resize.\<close>

definition slaveWrapper_read :: "'s reader \<Rightarrow> 's reader" where "slaveWrapper_read r = r"
definition slaveWrapper_write :: "(bytes \<Rightarrow> 's \<Rightarrow> (nat \<times> error option) \<times> 's) \<Rightarrow> bytes \<Rightarrow> 's \<Rightarrow> (nat \<times> error option) \<times> 's" where
  "slaveWrapper_write w = w"
definition slaveWrapper_WindowTitleVariables :: "(string, title_value) gomap" where
  "slaveWrapper_WindowTitleVariables = []"
definition slaveWrapper_ResizeTerminal :: "int \<Rightarrow> int \<Rightarrow> 's \<Rightarrow> error option \<times> 's" where
  "slaveWrapper_ResizeTerminal width height s = (None, s)"

section \<open>Opening a terminal\<close>

text \<open>The answers of the world to one terminal request.\<close>

record ws_answers =
  wa_Upgrade :: "error option"
  wa_ReadMessage :: "error + (ws_type \<times> bytes)"
  wa_Unmarshal :: "bytes \<Rightarrow> error + init_message"
  wa_Parse :: "string \<Rightarrow> error + (string \<Rightarrow> string)"
  wa_PubSub :: "error option"
  wa_UnixNano :: int

datatype exec_route = ExecNotFound string | Share nat | Fresh container

text \<open>\<open>handleExec\<close>: an unknown exec ID, one with a running terminal, or a new terminal.\<close>

definition handleExec ::
    "('s, 't, 'r) cli \<Rightarrow> string \<Rightarrow> server \<Rightarrow> 's \<Rightarrow> (exec_route \<times> 's) outcome" where
  "handleExec cli execID srv s =
     (case getContainerID execID srv of
        None \<Rightarrow> Inr (ExecNotFound (''exec id '' @ execID @ '' not found''), s)
      | Some cid \<Rightarrow>
          (case map_of (sr_masters srv) execID of
             Some m \<Rightarrow> Inr (Share m, s)
           | None \<Rightarrow> obind (be_GetInfo cli cid s) (\<lambda>(cInfo, s). Inr (Fresh cInfo, s))))"

record 't session =
  se_execID :: string
  se_container :: container
  se_tty :: 't
  se_master :: master_tty
  se_webtty :: webtty
  se_audit :: "slave_tty option"

definition exec_options_of :: "(string \<Rightarrow> string) \<Rightarrow> exec_options" where
  "exec_options_of q = \<lparr>e_User = q ''user'', e_Env = q ''env'', e_Cmd = q ''cmd'', e_Privileged = (q ''p'' \<noteq> [])\<rparr>"

text \<open>The deferred exit of the container's terminal: a log line with seven bytes of the ID, then \<open>Exit\<close>.\<close>

definition leave_tty :: "('s, 't, 'r) cli \<Rightarrow> container \<Rightarrow> 't \<Rightarrow> 's \<Rightarrow> 's outcome" where
  "leave_tty cli c tty s =
     obind (go_slice 0 7 (c_ID c)) (\<lambda>_. obind (tty_Exit cli tty s) (\<lambda>(e, s). Inr s))"

text \<open>
  \<open>processTTY\<close> up to \<open>tty.Run\<close>.  \<open>ptr\<close> is the address of the new terminal.  An error before the
  terminal is registered leaves the server as it was; the container's terminal, if there is one
  already, is left.
\<close>

definition process_open ::
    "ws_answers \<Rightarrow> ('s, 't, 'r) cli \<Rightarrow> nat \<Rightarrow> string \<Rightarrow> container \<Rightarrow> server \<Rightarrow> 's \<Rightarrow>
     ((error + 't session) \<times> server \<times> 's) outcome" where
  "process_open wa cli ptr execID c srv s =
     (case readInitMessage (wa_Unmarshal wa) (sr_options srv) (wa_ReadMessage wa) of
        Inl err \<Rightarrow> Inr (Inl err, srv, s)
      | Inr arguments \<Rightarrow>
          obind (go_slice 0 7 (c_ID c)) (\<lambda>_.
            case parseQuery (wa_Parse wa) (trim_space arguments) of
              Inl err \<Rightarrow> Inr (Inl err, srv, s)
            | Inr q \<Rightarrow>
                (let c = c\<lparr>c_Exec := exec_options_of q\<rparr> in
                 obind (be_Exec cli c s) (\<lambda>(r, s).
                   case r of
                     Inl err \<Rightarrow> Inr (Inl (Errorf (''exec container error: '' @ error_text err)), srv, s)
                   | Inr tty \<Rightarrow>
                       obind (makeTitleBuff c []) (\<lambda>titleBuf.
                         let opts = [WithWindowTitle titleBuf, WithPermitWrite];
                             shareID = c_ID c @ ''-'' @ int_str (wa_UnixNano wa) in
                         case NewMasterTTY (wa_PubSub wa) shareID of
                           Inl err \<Rightarrow> obind (leave_tty cli c tty s) (\<lambda>s. Inr (Inl err, srv, s))
                         | Inr m \<Rightarrow>
                             (let srv = srv\<lparr>sr_masters := AList.update execID ptr (sr_masters srv)\<rparr> in
                              obind (if srv_EnableAudit (sr_options srv)
                                     then obind (Fork (wa_PubSub wa) 0 False m) (\<lambda>f. Inr (Some f)) else Inr None) (\<lambda>auditor.
                                Inr (Inr \<lparr>se_execID = execID, se_container = c, se_tty = tty, se_master = m,
                                          se_webtty = new_webtty opts, se_audit = auditor\<rparr>, srv, s))))))))"

text \<open>
  The deferred calls when \<open>processTTY\<close> returns: the terminal and its exec ID leave the tables, then
  the container's terminal is left.
\<close>

definition unregister :: "string \<Rightarrow> server \<Rightarrow> server" where
  "unregister execID srv =
     srv\<lparr>sr_masters := AList.delete execID (sr_masters srv), sr_execs := AList.delete execID (sr_execs srv)\<rparr>"

definition process_close :: "('s, 't, 'r) cli \<Rightarrow> 't session \<Rightarrow> server \<Rightarrow> 's \<Rightarrow> (server \<times> 's) outcome" where
  "process_close cli se srv s =
     (let srv = unregister (se_execID se) srv in
      obind (leave_tty cli (se_container se) (se_tty se) s) (\<lambda>s. Inr (srv, s)))"

text \<open>
  The idle timer: the goroutine started when an idle time is set.  The events are those of the
  terminal's activity channel with their times; the result is the time at which the session is
  cancelled, \<^const>\<open>None\<close> when the channel is closed before.
\<close>

datatype activity = Active int | ChanClosed int

fun idle_timer :: "duration \<Rightarrow> int \<Rightarrow> activity list \<Rightarrow> int option" where
  "idle_timer tout started [] = Some (started + tout)"
| "idle_timer tout started (Active t # as) =
     (if started + tout \<le> t then Some (started + tout) else idle_timer tout t as)"
| "idle_timer tout started (ChanClosed t # as) = (if started + tout \<le> t then Some (started + tout) else None)"

text \<open>
  \<open>generateHandleWS\<close>: a container without a shell is refused before it is counted; then the count,
  the limit, the upgrade.  What \<open>processTTY\<close> returned is classified for the log.
\<close>

datatype ws_gate = NoShell | TooMany | UpgradeFailed error | Admitted

definition generateHandleWS :: "ws_answers \<Rightarrow> server_config \<Rightarrow> container \<Rightarrow> counter \<Rightarrow> (ws_gate \<times> counter) outcome" where
  "generateHandleWS wa options c cnt =
     (if c_Shell c = [] then Inr (NoShell, cnt)
      else
        obind (counter_add 1 cnt) (\<lambda>(num, cnt).
          if \<not> admitted (srv_MaxConnection options) num then
            obind (counter_done cnt) (\<lambda>(num, cnt). Inr (TooMany, cnt))
          else
            (case wa_Upgrade wa of
               Some err \<Rightarrow> obind (counter_done cnt) (\<lambda>(num, cnt). Inr (UpgradeFailed err, cnt))
             | None \<Rightarrow> Inr (Admitted, cnt))))"

definition closeReason :: "error option \<Rightarrow> error option \<Rightarrow> error option \<Rightarrow> string" where
  "closeReason ctx_err cctx_err err =
     (if err = ctx_err then ''cancelation''
      else if err = cctx_err then ''time out''
      else if err = Some ErrSlaveClosed then ''backend closed''
      else if err = Some ErrMasterClosed then ''tab closed''
      else ''an error: '' @ (case err of Some e \<Rightarrow> error_text e | None \<Rightarrow> ''%!s(<nil>)''))"

section \<open>Following a terminal\<close>

record share_session =
  sh_slave :: slave_tty
  sh_webtty :: webtty

datatype share_result = ShareClosed string | ShareRunning share_session

text \<open>
  \<open>processShare\<close>.  The first message is read, and its error dropped; \<open>m\<close> is the terminal behind the
  pointer the table gave.
\<close>

definition processShare ::
    "ws_answers \<Rightarrow> ('s, 't, 'r) cli \<Rightarrow> nat \<Rightarrow> string \<Rightarrow> master_tty \<Rightarrow> server \<Rightarrow> 's \<Rightarrow> (share_result \<times> 's) outcome" where
  "processShare wa cli fresh execID m srv s =
     (case wa_Upgrade wa of
        Some err \<Rightarrow> Inr (ShareClosed [], s)
      | None \<Rightarrow>
          (let _ = readInitMessage (wa_Unmarshal wa) (sr_options srv) (wa_ReadMessage wa) in
           case getContainerID execID srv of
             None \<Rightarrow> Inr (ShareClosed ''exec container not found, exit'', s)
           | Some cid \<Rightarrow>
               obind (be_GetInfo cli cid s) (\<lambda>(cInfo, s).
                 let collaborate = srv_Collaborate (sr_options srv);
                     titleExtra = (if collaborate then ''[SLAVE]'' else ''[READONLY]'') in
                 obind (makeTitleBuff cInfo [titleExtra]) (\<lambda>titleBuf.
                 obind (Fork (wa_PubSub wa) fresh True m) (\<lambda>slave.
                   let ttyOptions = [WithWindowTitle titleBuf] @ (if collaborate then [WithPermitWrite] else [])
                   in Inr (ShareRunning \<lparr>sh_slave = slave, sh_webtty = new_webtty ttyOptions\<rparr>, s))))))"

section \<open>Logs\<close>

datatype 'r logs_result = LogsUpgradeFailed error | LogsRefused int string | LogsRunning webtty 'r

definition log_options_of :: "string \<Rightarrow> (string \<Rightarrow> string) \<Rightarrow> log_options" where
  "log_options_of cid q =
     \<lparr>l_ID = cid, l_Follow = (q ''follow'' = ''1'' \<or> q ''follow'' = []),
      l_Tail = (if q ''tail'' \<noteq> [] then q ''tail'' else ''10'')\<rparr>"

definition handleLogs :: "ws_answers \<Rightarrow> ('s, 't, 'r) cli \<Rightarrow> string \<Rightarrow> server \<Rightarrow> 's \<Rightarrow> ('r logs_result \<times> 's) outcome" where
  "handleLogs wa cli cid srv s =
     (case wa_Upgrade wa of
        Some err \<Rightarrow> Inr (LogsUpgradeFailed err, s)
      | None \<Rightarrow>
          (case readInitMessage (wa_Unmarshal wa) (sr_options srv) (wa_ReadMessage wa) of
             Inl err \<Rightarrow> Inr (LogsRefused 400 (''read init message error: '' @ error_text err), s)
           | Inr initArg \<Rightarrow>
               (case parseQuery (wa_Parse wa) initArg of
                  Inl err \<Rightarrow> Inr (LogsRefused 400 (error_text err), s)
                | Inr q \<Rightarrow>
                    (let opts = log_options_of cid q in
                     obind (be_GetInfo cli (l_ID opts) s) (\<lambda>(c, s).
                     obind (be_Logs cli opts s) (\<lambda>((rc, err), s).
                       case err of
                         Some e \<Rightarrow> Inr (LogsRefused 500 (''get logs error: '' @ error_text e), s)
                       | None \<Rightarrow>
                           obind (makeTitleBuff c []) (\<lambda>titleBuf.
                             case rc of
                               None \<Rightarrow> Inl NilDeref
                             | Some r \<Rightarrow> Inr (LogsRunning (new_webtty [WithWindowTitle titleBuf, WithPermitWrite]) r, s))))))))"

section \<open>Pages and control\<close>

definition handleWSIndex ::
    "('s, 't, 'r) cli \<Rightarrow> string \<Rightarrow> string \<Rightarrow> server \<Rightarrow> 's \<Rightarrow> ((int \<times> string + string \<times> string) \<times> 's) outcome" where
  "handleWSIndex cli cid eid srv s =
     (case (if cid = [] then getContainerID eid srv else Some cid) of
        None \<Rightarrow> Inr (Inl (400, ''exec id '' @ eid @ '' not found''), s)
      | Some containerID \<Rightarrow>
          obind (be_GetInfo cli containerID s) (\<lambda>(cInfo, s).
          obind (titleVariables [''server''] [(''server'', [(''containerName'', TString (c_Name cInfo))])]) (\<lambda>vars.
            Inr (Inr (titleTemplate vars, trim_suffix ''/'' (srv_Base (sr_options srv))), s))))"

record list_vars =
  lv_title :: string
  lv_containers :: "container list"
  lv_control :: control_config
  lv_loc :: bool
  lv_base :: string

definition handleListContainers :: "('s, 't, 'r) cli \<Rightarrow> server \<Rightarrow> 's \<Rightarrow> (list_vars \<times> 's) outcome" where
  "handleListContainers cli srv s =
     obind (be_List cli s) (\<lambda>(cs, s).
       Inr (\<lparr>lv_title = ''List Containers'', lv_containers = cs, lv_control = srv_Control (sr_options srv),
             lv_loc = srv_ShowLocation (sr_options srv), lv_base = trim_suffix ''/'' (srv_Base (sr_options srv))\<rparr>, s))"

text \<open>The answer is the status handed to \<open>c.JSON\<close> and the message.\<close>

definition handleContainerActions ::
    "('s, 't, 'r) cli \<Rightarrow> string \<Rightarrow> string \<Rightarrow> 's \<Rightarrow> ((int \<times> container_action_message) \<times> 's) outcome" where
  "handleContainerActions cli action cid s =
     obind (if action = ''start'' then be_Start cli cid s
            else if action = ''stop'' then be_Stop cli cid s
            else if action = ''restart'' then be_Restart cli cid s
            else Inr (None, s)) (\<lambda>(err, s).
       case err of
         Some e \<Rightarrow> Inr ((500, \<lparr>am_Error = error_text e, am_Code = 500, am_Message = []\<rparr>), s)
       | None \<Rightarrow>
           obind (go_slice 0 7 cid) (\<lambda>short.
             Inr ((0, \<lparr>am_Error = [], am_Code = 0,
                       am_Message = action @ '' container '' @ short @ '' successfully''\<rparr>), s)))"

definition handleStartContainer where "handleStartContainer cli = handleContainerActions cli ''start''"
definition handleStopContainer where "handleStopContainer cli = handleContainerActions cli ''stop''"
definition handleRestartContainer where "handleRestartContainer cli = handleContainerActions cli ''restart''"

end
