(* ===== verification/Sessions.thy ===== *)
theory Sessions
  imports Server
begin

text \<open>
  What the handlers of theory \<open>Server\<close> guarantee: who is let in, what a terminal request does to
  the counter and the tables, and the life of terminals, a step relation over the tables, the
  requests on their way to a terminal and the terminals that run, in any interleaving.
\<close>

section \<open>A backend for the examples\<close>

definition calm_cli :: "(nat, unit, unit) cli" where
  "calm_cli =
     \<lparr>be_GetInfo = (\<lambda>cid s. Inr (zero_container\<lparr>c_ID := cid, c_Name := ''web'', c_Shell := ''/bin/sh''\<rparr>, s)),
      be_List = (\<lambda>s. Inr ([], s)), be_Start = (\<lambda>cid s. Inr (None, Suc s)), be_Stop = (\<lambda>cid s. Inr (None, Suc s)),
      be_Restart = (\<lambda>cid s. Inr (None, Suc s)), be_Exec = (\<lambda>c s. Inr (Inr (), Suc s)),
      be_Close = (\<lambda>s. Inr (None, s)), be_Logs = (\<lambda>opts s. Inr ((Some (), None), s)),
      tty_Read = (\<lambda>t p s. Inr (0, p, Some EOF, s)), tty_Write = (\<lambda>t p s. Inr ((length p, None), s)),
      tty_Exit = (\<lambda>t s. Inr (None, s)), tty_ResizeTerminal = (\<lambda>t width height s. Inr (None, s)),
      log_Read = (\<lambda>r p s. Inr (0, p, Some EOF, s))\<rparr>"

definition calm_answers :: ws_answers where
  "calm_answers =
     \<lparr>wa_Upgrade = None, wa_ReadMessage = Inr (TextMessage, ''{}''),
      wa_Unmarshal = (\<lambda>m. Inr \<lparr>im_Arguments = [], im_AuthToken = []\<rparr>),
      wa_Parse = (\<lambda>q. Inr (\<lambda>k. [])), wa_PubSub = None, wa_UnixNano = 7\<rparr>"

definition open_server :: server where
  "open_server = \<lparr>sr_options = zero_server, sr_hostname = ''host'', sr_execs = [], sr_masters = []\<rparr>"

section \<open>Who is let in\<close>

lemma readInitMessage_token:
  assumes "srv_Credential options \<noteq> []"
  shows "readInitMessage U options msg = Inr args \<longleftrightarrow>
    (\<exists>line i. msg = Inr (TextMessage, line) \<and> U line = Inr i \<and> im_AuthToken i = srv_Credential options \<and>
       args = im_Arguments i)"
  using assms
  by (cases msg) (auto simp: readInitMessage_def split: sum.split prod.split ws_type.split)

text \<open>The token that the page \<open>auth_token.js\<close> shows to whoever asks for it.\<close>

definition shown_token :: "string \<Rightarrow> string" where
  "shown_token js = butlast (butlast (drop (length ''var gotty_auth_token = _'') js))"

text \<open>
  The password of the page does not protect the terminals: with a credential set, a first
  message is accepted exactly when its token equals the credential, and the unauthenticated page
  \<open>auth_token.js\<close> hands this very token out.
\<close>

lemma credential_is_public:
  assumes "srv_Credential (sr_options srv) \<noteq> []"
  shows "(readInitMessage U (sr_options srv) (Inr (TextMessage, line)) = Inr args \<longleftrightarrow>
      (\<exists>i. U line = Inr i \<and> im_AuthToken i = shown_token (snd (handleAuthToken srv)) \<and> args = im_Arguments i)) \<and>
    shown_token (snd (handleAuthToken srv)) = srv_Credential (sr_options srv)"
  using readInitMessage_token [OF assms, of U "Inr (TextMessage, line)" args]
  by (auto simp: shown_token_def handleAuthToken_def js_string_def butlast_append)

lemma credential_is_public_example:
  "shown_token (snd (handleAuthToken (open_server\<lparr>sr_options := zero_server\<lparr>srv_Credential := ''s3cret''\<rparr>\<rparr>))) = ''s3cret''"
  using credential_is_public [of "open_server\<lparr>sr_options := zero_server\<lparr>srv_Credential := ''s3cret''\<rparr>\<rparr>"]
  by simp

text \<open>
  A follower's first message is not checked at all: what the browser sends there, whether it
  decodes and which token it carries, makes no difference to whether the follower is let in.
\<close>

lemma follower_not_authenticated:
  "processShare wa cli fresh execID m srv s =
   processShare (wa\<lparr>wa_ReadMessage := msg, wa_Unmarshal := U\<rparr>) cli fresh execID m
     (srv\<lparr>sr_options := (sr_options srv)\<lparr>srv_Credential := cred\<rparr>\<rparr>) s"
  by (simp add: processShare_def Let_def getContainerID_def split: option.split)

lemma processShare_running:
  "processShare wa cli fresh execID m srv s = Inr (ShareRunning sh, s') \<Longrightarrow>
   permitWrite (sh_webtty sh) = srv_Collaborate (sr_options srv) \<and> bufferSize (sh_webtty sh) = 1024 \<and>
   s_masterOutputs (sh_slave sh) = m_outputs m \<and> getContainerID execID srv \<noteq> None"
  by (auto simp: processShare_def Let_def new_webtty_def WithWindowTitle_def WithPermitWrite_def Fork_def
      split: option.splits if_splits)

text \<open>
  C29. Without \<open>--enable-collaborate\<close> a follower only watches: in every reachable state of its
  bridge nothing it sent has been written to the terminal.
\<close>

theorem follower_only_watches:
  assumes "processShare wa cli fresh execID m srv s = Inr (ShareRunning sh, s')"
    and "\<not> srv_Collaborate (sr_options srv)" and "run_reachable env (sh_webtty sh) r"
  shows "ToSlave p \<notin> set (trace r)"
  using readonly_trace [OF assms(3)] processShare_running [OF assms(1)] assms(2) by simp

definition exec_server :: server where
  "exec_server = open_server\<lparr>sr_execs := [(''e1'', ''c0ffee000000'')]\<rparr>"

definition sample_share :: share_session where
  "sample_share =
     \<lparr>sh_slave = \<lparr>s_id = 9, s_readOnly = False, s_masterOutputs = m_outputs sample_master\<rparr>,
      sh_webtty = new_webtty [WithWindowTitle ''[READONLY] web@localhost'']\<rparr>"

lemma sample_share_runs:
  "processShare calm_answers calm_cli 9 ''e1'' sample_master exec_server 0 = Inr (ShareRunning sample_share, 0)"
  by (simp add: processShare_def calm_answers_def calm_cli_def exec_server_def open_server_def zero_server_def
      makeTitleBuff_text getContainerID_def Fork_def sample_share_def Let_def)

theorem follower_only_watches_witness:
  "run_reachable quiet (sh_webtty sample_share) (echo_state ''a.txt'' (sh_webtty sample_share)) \<and>
   ToSlave ''ls'' \<notin> set (trace (echo_state ''a.txt'' (sh_webtty sample_share)))"
proof -
  have r: "run_reachable quiet (sh_webtty sample_share) (echo_state ''a.txt'' (sh_webtty sample_share))"
    by (rule echo_reachable) (simp_all add: sample_share_def new_webtty_def WithWindowTitle_def)
  have "\<not> srv_Collaborate (sr_options exec_server)"
    by (simp add: exec_server_def open_server_def zero_server_def)
  from follower_only_watches [OF sample_share_runs this r] r show ?thesis by blast
qed

section \<open>A terminal request\<close>

lemma gate_cases:
  "generateHandleWS wa options c cnt = Inr (g, cnt') \<Longrightarrow> g = Admitted \<Longrightarrow>
   c_Shell c \<noteq> [] \<and> (\<exists>num. counter_add 1 cnt = Inr (num, cnt') \<and> admitted (srv_MaxConnection options) num)"
  by (auto simp: generateHandleWS_def split: if_splits option.splits)

lemma handleExec_fresh:
  "handleExec cli execID srv s = Inr (Fresh c, s') \<Longrightarrow>
   \<exists>cid. getContainerID execID srv = Some cid \<and> be_GetInfo cli cid s = Inr (c, s') \<and>
     map_of (sr_masters srv) execID = None"
  by (auto simp: handleExec_def split: option.splits)

text \<open>
  \<open>processTTY\<close> up to its run returns, when its exec returns and a terminal that was opened for
  nothing can be left.
\<close>

lemma process_open_returns:
  assumes "7 \<le> length (c_ID c)" and "\<And>c. \<exists>r s'. be_Exec cli c s = Inr (r, s')"
    and "\<And>c t s'. be_Exec cli c s = Inr (Inr t, s') \<Longrightarrow> \<exists>err s''. tty_Exit cli t s' = Inr (err, s'')"
  shows "\<exists>r srv' s'. process_open wa cli ptr execID c srv s = Inr (r, srv', s') \<and>
    (case r of
       Inl err \<Rightarrow> srv' = srv
     | Inr se \<Rightarrow> srv' = srv\<lparr>sr_masters := AList.update execID ptr (sr_masters srv)\<rparr> \<and>
         se_execID se = execID \<and> c_ID (se_container se) = c_ID c \<and> permitWrite (se_webtty se) \<and>
         (se_audit se \<noteq> None \<longleftrightarrow> srv_EnableAudit (sr_options srv)))"
proof -
  have cut: "go_slice 0 7 (c_ID c) = Inr (take 7 (c_ID c))" using assms(1) by simp
  show ?thesis
  proof (cases "readInitMessage (wa_Unmarshal wa) (sr_options srv) (wa_ReadMessage wa)")
    case (Inl e)
    then show ?thesis by (simp add: process_open_def)
  next
    case (Inr args)
    note init = this
    show ?thesis
    proof (cases "parseQuery (wa_Parse wa) (trim_space args)")
      case (Inl e)
      then show ?thesis using init cut by (simp add: process_open_def)
    next
      case (Inr q)
      note query = this
      obtain r s' where ex: "be_Exec cli (c\<lparr>c_Exec := exec_options_of q\<rparr>) s = Inr (r, s')" using assms(2) by blast
      show ?thesis
      proof (cases r)
        case (Inl e)
        then show ?thesis using init cut query ex by (auto simp: process_open_def Let_def)
      next
        case (Inr tty)
        obtain err s'' where left: "tty_Exit cli tty s' = Inr (err, s'')" using assms(3) ex Inr by blast
        show ?thesis
          using init cut query ex left Inr
          by (cases "wa_PubSub wa")
            (auto simp: process_open_def Let_def makeTitleBuff_text NewMasterTTY_def Fork_def new_webtty_def
              WithWindowTitle_def WithPermitWrite_def leave_tty_def)
      qed
    qed
  qed
qed

lemma sample_docker_info:
  "docker_GetInfo ''aaaaaaaaaaaa'' (sample_docker ''/bin/ash'', w) =
     Inr (sample_cached ''aaaaaaaaaaaaaa01'' ''/bin/ash'', sample_docker ''/bin/ash'', w)"
proof -
  let ?d = "sample_docker ''/bin/ash''"
  have "cs_init (dc_containers ?d) = dc_containers ?d"
    by (simp add: sample_docker_def cs_Set_def)
  then have "?d\<lparr>dc_containers := cs_init (dc_containers ?d)\<rparr> = ?d" by simp
  then show ?thesis
    using docker_GetInfo_filled [OF sample_docker_held, of "''/bin/ash''" w]
      docker_lookup_known [OF sample_docker_held, of "''/bin/ash''" w]
    by (simp add: sample_cached_def)
qed

section \<open>From the redirect to the terminal\<close>

text \<open>
  C30. The way from a container to its terminal: the redirect answers with a location under
  \<open>/exec/\<close> that carries the query on, and the identifier in it stands for exactly this container
  afterwards, while every other identifier and every running terminal is as before; opening it
  asks the backend for this container unless a terminal of this identifier runs already.
\<close>

theorem redirect_leads_to_container:
  assumes "handleExecRedirect draw cid rawQuery srv = ((status, location), srv')"
  shows "\<exists>eid. status = 302 \<and>
    location = path_join [srv_Base (sr_options srv), ''/exec/''] @ ''/'' @ eid @ (if rawQuery = [] then [] else ''?'' @ rawQuery) \<and>
    getContainerID eid srv' = Some cid \<and> (\<forall>e. e \<noteq> eid \<longrightarrow> getContainerID e srv' = getContainerID e srv) \<and>
    sr_masters srv' = sr_masters srv \<and>
    handleExec cli eid srv' s =
      (case map_of (sr_masters srv) eid of
         Some ptr \<Rightarrow> Inr (Share ptr, s)
       | None \<Rightarrow> obind (be_GetInfo cli cid s) (\<lambda>(c, s). Inr (Fresh c, s)))"
  using assms
  by (intro exI [of _ "new_ID draw cid"])
    (auto simp: handleExecRedirect_def setContainerID_def handleExec_def getContainerID_def update_conv Let_def
      split: if_splits)

theorem redirect_leads_to_container_witness:
  "\<exists>eid. getContainerID eid (open_server\<lparr>sr_execs := [(new_ID (\<lambda>i. 0) ''c0ffee000000'', ''c0ffee000000'')]\<rparr>) = Some ''c0ffee000000''"
proof -
  have "handleExecRedirect (\<lambda>i. 0) ''c0ffee000000'' ''cmd=ls'' open_server =
      ((302, path_join [[], ''/exec/''] @ ''/'' @ new_ID (\<lambda>i. 0) ''c0ffee000000'' @ ''?cmd=ls''),
       open_server\<lparr>sr_execs := [(new_ID (\<lambda>i. 0) ''c0ffee000000'', ''c0ffee000000'')]\<rparr>)"
    by (simp add: handleExecRedirect_def setContainerID_def open_server_def zero_server_def Let_def)
  from redirect_leads_to_container [OF this, of calm_cli 0] show ?thesis by blast
qed

section \<open>Idle terminals\<close>

lemma idle_first_gap:
  assumes "sorted (started # ts)" and "0 < tout"
  shows "\<exists>u \<in> set (started # ts). idle_timer tout started (map Active ts) = Some (u + tout) \<and>
    (\<forall>x \<in> set (started # ts). x \<le> u \<or> u + tout \<le> x) \<and>
    (\<forall>v \<in> set (started # ts). v < u \<longrightarrow> (\<exists>x \<in> set ts. v < x \<and> x < v + tout))"
  using assms(1)
proof (induction ts arbitrary: started)
  case Nil
  then show ?case by simp
next
  case (Cons t ts)
  show ?case
  proof (cases "started + tout \<le> t")
    case True
    then show ?thesis using Cons.prems by (intro bexI [of _ started]) auto
  next
    case False
    have srt: "sorted (t # ts)" "started \<le> t" using Cons.prems by simp_all
    obtain u where u: "u \<in> set (t # ts)" "idle_timer tout t (map Active ts) = Some (u + tout)"
      "\<forall>x \<in> set (t # ts). x \<le> u \<or> u + tout \<le> x"
      "\<forall>v \<in> set (t # ts). v < u \<longrightarrow> (\<exists>x \<in> set ts. v < x \<and> x < v + tout)"
      using Cons.IH [OF srt(1)] by blast
    have tu: "t \<le> u" using u(1) srt(1) by auto
    have "\<exists>x \<in> set (t # ts). v < x \<and> x < v + tout" if "v \<in> set (started # t # ts)" "v < u" for v
    proof (cases "v \<in> set (t # ts)")
      case True
      then show ?thesis using u(4) that(2) by auto
    next
      case v: False
      then have "v = started" using that(1) by simp
      show ?thesis
      proof (cases "started = t")
        case True
        then show ?thesis using v \<open>v = started\<close> by simp
      next
        case neq: False
        then show ?thesis using \<open>v = started\<close> srt(2) False by auto
      qed
    qed
    then show ?thesis using u tu srt(2) False by (intro bexI [of _ u]) auto
  qed
qed

text \<open>
  C31. An idle terminal is closed in time and an active one is not: with an idle time set, the
  session is cancelled exactly that long after an activity (or the start) that no other activity
  followed within the idle time, and after the first such one; every earlier activity was followed
  by another in time.
\<close>

theorem cancelled_when_idle:
  assumes "sorted (started # ts)" and "0 < tout"
  shows "\<exists>u \<in> set (started # ts). idle_timer tout started (map Active ts) = Some (u + tout) \<and>
    (\<forall>x \<in> set (started # ts). x \<le> u \<or> u + tout \<le> x) \<and>
    (\<forall>v \<in> set (started # ts). v < u \<longrightarrow> (\<exists>x \<in> set ts. v < x \<and> x < v + tout))"
  using assms by (rule idle_first_gap)

theorem cancelled_when_idle_witness:
  "\<exists>u \<in> set [0, 4, 9, 30]. idle_timer 10 0 (map Active [4, 9, 30]) = Some (u + 10) \<and>
     idle_timer 10 0 (map Active [4, 9, 30]) = Some 19"
proof -
  have "sorted [0, 4, 9, 30::int]" "(0::int) < 10" by simp_all
  from cancelled_when_idle [OF this] show ?thesis by auto
qed

text \<open>What the timer's goroutine still receives from an activity channel: its tokens, and its end.\<close>

definition last_events :: "active_chan \<Rightarrow> int \<Rightarrow> activity list" where
  "last_events ch t = replicate (ac_len ch) (Active t) @ (if ac_closed ch then [ChanClosed t] else [])"

lemma idle_timer_stops:
  "0 < tout \<Longrightarrow> t < started + tout \<Longrightarrow> idle_timer tout started (replicate k (Active t) @ [ChanClosed t]) = None"
  by (induction k arbitrary: started) simp_all

text \<open>
  C32. No idle timer outlives its terminal, with any backend: after the terminal of docker, of
  kubernetes or of a remote instance has been left before the idle time was over, the timer's
  goroutine takes the tokens that are left, finds the channel closed and ends, and it never
  cancels anything; leaving the same terminal a second time would panic.
\<close>

theorem exit_stops_timer:
  assumes "0 < tout" and "t < started + tout"
  shows "(docker_Exit cli dt w = Inr (e, dt', w') \<longrightarrow>
       idle_timer tout started (last_events (docker_ActiveChan (dt', w')) t) = None \<and> docker_Exit cli dt' w' \<noteq> Inr x) \<and>
    (kube_Exit kt = Inr (e, kt') \<longrightarrow>
       idle_timer tout started (last_events (kube_ActiveChan kt') t) = None \<and> kube_Exit kt' \<noteq> Inr y) \<and>
    (wrapper_Exit enj w = Inr (e, enj', w') \<longrightarrow>
       idle_timer tout started (last_events (wrapper_ActiveChan (enj', w')) t) = None \<and> wrapper_Exit enj' w' \<noteq> Inr z)"
  using docker_terminal.exit_closes [of cli "(dt, w)" e "(dt', w')"] docker_terminal.exit_twice [of cli "(dt, w)" e "(dt', w')"]
    kube_terminal.exit_closes [of kt e kt'] kube_terminal.exit_twice [of kt e kt']
    wrapper_terminal.exit_closes [of "(enj, w)" e "(enj', w')"] wrapper_terminal.exit_twice [of "(enj, w)" e "(enj', w')"]
  by (simp add: last_events_def idle_timer_stops [OF assms])

theorem exit_stops_timer_witness:
  "\<exists>e kt'. kube_Exit newInjector = Inr (e, kt') \<and> idle_timer 10 0 (last_events (kube_ActiveChan kt') 4) = None"
proof -
  obtain e kt' where exit: "kube_Exit newInjector = Inr (e, kt')"
    by (simp add: kube_Exit_def newInjector_def kube_tty_write_def sq_close_def close_active_def new_active_def Let_def case_prod_unfold)
  have "kube_Exit newInjector = Inr (e, kt') \<longrightarrow>
      idle_timer 10 0 (last_events (kube_ActiveChan kt') 4) = None \<and> kube_Exit kt' \<noteq> Inr (None, kt')"
    by (rule exit_stops_timer [THEN conjunct2, THEN conjunct1]) simp_all
  with exit show ?thesis by blast
qed

section \<open>Control requests\<close>

text \<open>The three actions: the word in the path, the method of the backend, the handler.\<close>

definition control_table ::
    "('s, 't, 'r) cli \<Rightarrow> (string \<times> (string \<Rightarrow> 's \<Rightarrow> (error option \<times> 's) outcome) \<times>
       (string \<Rightarrow> 's \<Rightarrow> ((int \<times> container_action_message) \<times> 's) outcome)) list" where
  "control_table cli =
     [(''start'', be_Start cli, handleStartContainer cli), (''stop'', be_Stop cli, handleStopContainer cli),
      (''restart'', be_Restart cli, handleRestartContainer cli)]"

lemma handle_action:
  assumes "(action, method, handler) \<in> set (control_table cli)"
  shows "handler cid s = obind (method cid s) (\<lambda>(err, s).
    case err of
      Some e \<Rightarrow> Inr ((500, \<lparr>am_Error = error_text e, am_Code = 500, am_Message = []\<rparr>), s)
    | None \<Rightarrow> obind (go_slice 0 7 cid) (\<lambda>short. Inr ((0, \<lparr>am_Error = [], am_Code = 0,
        am_Message = action @ '' container '' @ short @ '' successfully''\<rparr>), s)))"
  using assms
  by (auto simp: control_table_def handleStartContainer_def handleStopContainer_def handleRestartContainer_def
      handleContainerActions_def)

text \<open>
  A control request does its work before it looks at the name it was given: each of the three
  routes calls exactly its own method of the backend; a failure is reported with status 500 and its
  text, a success with the first seven bytes of the name, and for a name shorter than that, which
  the docker daemon resolves, the container has been acted on when the handler panics.
\<close>

lemma control_request_outcome:
  assumes "(action, method, handler) \<in> set (control_table cli)" and "method cid s = Inr (err, s')"
  shows "handler cid s =
    (case err of
       Some e \<Rightarrow> Inr ((500, \<lparr>am_Error = error_text e, am_Code = 500, am_Message = []\<rparr>), s')
     | None \<Rightarrow>
         if length cid < 7 then Inl SliceBounds
         else Inr ((0, \<lparr>am_Error = [], am_Code = 0,
                 am_Message = action @ '' container '' @ take 7 cid @ '' successfully''\<rparr>), s'))"
  using handle_action [OF assms(1), of cid s] assms(2) by (auto simp: go_slice_def split: option.split)

lemma control_request_outcome_example:
  "handleStopContainer calm_cli ''web-1'' 4 = Inl SliceBounds \<and> be_Stop calm_cli ''web-1'' 4 = Inr (None, 5)"
  using control_request_outcome [of "''stop''" "be_Stop calm_cli" "handleStopContainer calm_cli" calm_cli "''web-1''" 4 None 5]
  by (simp add: control_table_def calm_cli_def)

lemma handleLogs_webtty:
  "handleLogs wa cli cid srv s = Inr (LogsRunning wt h, s') \<Longrightarrow> bufferSize wt = 1024 \<and> permitWrite wt"
  unfolding handleLogs_def makeTitleBuff_text
  by (auto simp: new_webtty_def WithWindowTitle_def WithPermitWrite_def Let_def split: option.splits sum.splits)

section \<open>The life of terminals\<close>

text \<open>
  The state: the server, the backend, the requests that \<open>handleExec\<close> sent to \<open>processTTY\<close> and that
  have not registered yet, the running terminals under their addresses, and the next address.
  A request may be anywhere between its lookup and its registration while others run.
\<close>

record ('t, 's) hub =
  hub_server :: server
  hub_state :: 's
  hub_calls :: "(string \<times> container) list"
  hub_running :: "(nat \<times> 't session) list"
  hub_next :: nat

definition new_hub :: "server_config \<Rightarrow> 's \<Rightarrow> ('t, 's) hub" where
  "new_hub options s =
     \<lparr>hub_server = \<lparr>sr_options = options, sr_hostname = [], sr_execs = [], sr_masters = []\<rparr>, hub_state = s,
      hub_calls = [], hub_running = [], hub_next = 0\<rparr>"

inductive hub_step :: "('s, 't, 'r) cli \<Rightarrow> ('t, 's) hub \<Rightarrow> ('t, 's) hub \<Rightarrow> bool" for cli :: "('s, 't, 'r) cli" where
  redirect: "handleExecRedirect draw cid rawQuery (hub_server h) = (answer, srv') \<Longrightarrow>
    hub_step cli h (h\<lparr>hub_server := srv'\<rparr>)"
| call: "handleExec cli e (hub_server h) (hub_state h) = Inr (Fresh c, s') \<Longrightarrow>
    hub_step cli h (h\<lparr>hub_state := s', hub_calls := (e, c) # hub_calls h\<rparr>)"
| refused: "(e, c) \<in> set (hub_calls h) \<Longrightarrow>
    process_open wa cli (hub_next h) e c (hub_server h) (hub_state h) = Inr (Inl err, srv', s') \<Longrightarrow>
    hub_step cli h (h\<lparr>hub_server := srv', hub_state := s', hub_calls := remove1 (e, c) (hub_calls h)\<rparr>)"
| opened: "(e, c) \<in> set (hub_calls h) \<Longrightarrow>
    process_open wa cli (hub_next h) e c (hub_server h) (hub_state h) = Inr (Inr se, srv', s') \<Longrightarrow>
    hub_step cli h (h\<lparr>hub_server := srv', hub_state := s', hub_calls := remove1 (e, c) (hub_calls h),
      hub_running := (hub_next h, se) # hub_running h, hub_next := Suc (hub_next h)\<rparr>)"
| ended: "(ptr, se) \<in> set (hub_running h) \<Longrightarrow>
    process_close cli se (hub_server h) (hub_state h) = Inr (srv', s') \<Longrightarrow>
    hub_step cli h (h\<lparr>hub_server := srv', hub_state := s',
      hub_running := filter (\<lambda>x. fst x \<noteq> ptr) (hub_running h)\<rparr>)"

inductive_cases hub_stepE: "hub_step cli h h'"

definition hub_inv :: "('t, 's) hub \<Rightarrow> bool" where
  "hub_inv h \<longleftrightarrow>
     distinct (map fst (hub_running h)) \<and> (\<forall>x \<in> set (hub_running h). fst x < hub_next h) \<and>
     distinct (map fst (sr_masters (hub_server h))) \<and>
     (\<forall>e ptr. map_of (sr_masters (hub_server h)) e = Some ptr \<longrightarrow>
        (\<exists>se. (ptr, se) \<in> set (hub_running h) \<and> se_execID se = e))"

lemma hub_inv_new: "hub_inv (new_hub options s)"
  by (simp add: hub_inv_def new_hub_def)

lemma exec_result_cases:
  "(case r of Inl e \<Rightarrow> f e | Inr t \<Rightarrow> g t) = Inr y \<longleftrightarrow>
   (\<exists>e. r = Inl e \<and> f e = Inr y) \<or> (\<exists>t. r = Inr t \<and> g t = Inr y)"
  by (cases r) simp_all

lemma process_open_refused: "process_open wa cli ptr e c srv s = Inr (Inl err, srv', s') \<Longrightarrow> srv' = srv"
  unfolding process_open_def makeTitleBuff_text
  by (cases "wa_PubSub wa") (auto simp: NewMasterTTY_def Fork_def Let_def exec_result_cases)

lemma process_open_opened:
  "process_open wa cli ptr e c srv s = Inr (Inr se, srv', s') \<Longrightarrow>
   srv' = srv\<lparr>sr_masters := AList.update e ptr (sr_masters srv)\<rparr> \<and> se_execID se = e"
  unfolding process_open_def makeTitleBuff_text
  by (cases "wa_PubSub wa") (auto simp: NewMasterTTY_def Fork_def Let_def exec_result_cases)

lemma process_close_tables:
  "process_close cli se srv s = Inr (srv', s') \<Longrightarrow> srv' = unregister (se_execID se) srv"
  by (auto simp: process_close_def Let_def)

lemma hub_inv_step: "hub_step cli h h' \<Longrightarrow> hub_inv h \<Longrightarrow> hub_inv h'"
proof (erule hub_stepE)
  fix draw cid rawQuery answer srv'
  assume "hub_inv h" and "h' = h\<lparr>hub_server := srv'\<rparr>"
    and "handleExecRedirect draw cid rawQuery (hub_server h) = (answer, srv')"
  then show "hub_inv h'"
    by (auto simp: hub_inv_def handleExecRedirect_def setContainerID_def Let_def split: if_splits)
next
  fix e c wa err srv' s'
  assume "hub_inv h" and "h' = h\<lparr>hub_server := srv', hub_state := s', hub_calls := remove1 (e, c) (hub_calls h)\<rparr>"
    and "process_open wa cli (hub_next h) e c (hub_server h) (hub_state h) = Inr (Inl err, srv', s')"
  then show "hub_inv h'" by (auto simp: hub_inv_def dest: process_open_refused)
next
  fix e c wa se srv' s'
  assume inv: "hub_inv h" and h': "h' = h\<lparr>hub_server := srv', hub_state := s', hub_calls := remove1 (e, c) (hub_calls h),
      hub_running := (hub_next h, se) # hub_running h, hub_next := Suc (hub_next h)\<rparr>"
    and step: "process_open wa cli (hub_next h) e c (hub_server h) (hub_state h) = Inr (Inr se, srv', s')"
  have srv': "srv' = (hub_server h)\<lparr>sr_masters := AList.update e (hub_next h) (sr_masters (hub_server h))\<rparr>"
    "se_execID se = e" using process_open_opened [OF step] by auto
  show "hub_inv h'"
    using inv unfolding hub_inv_def h' srv' by (auto simp: update_conv distinct_update less_Suc_eq srv'(2) split: if_splits) blast
next
  fix ptr se srv' s'
  assume inv: "hub_inv h" and h': "h' = h\<lparr>hub_server := srv', hub_state := s',
      hub_running := filter (\<lambda>x. fst x \<noteq> ptr) (hub_running h)\<rparr>"
    and run: "(ptr, se) \<in> set (hub_running h)"
    and step: "process_close cli se (hub_server h) (hub_state h) = Inr (srv', s')"
  have srv': "srv' = unregister (se_execID se) (hub_server h)" using process_close_tables [OF step] .
  have "se' = se" if "(ptr, se') \<in> set (hub_running h)" for se'
    using that run inv by (auto simp: hub_inv_def dest: eq_key_imp_eq_value)
  then show "hub_inv h'"
    using inv unfolding hub_inv_def h' srv'
    by (auto simp: unregister_def delete_conv distinct_delete distinct_map_filter split: if_splits) fastforce
qed (auto simp: hub_inv_def)

lemma hub_inv_reachable: "(hub_step cli)\<^sup>*\<^sup>* (new_hub options s) h \<Longrightarrow> hub_inv h"
  by (induction rule: rtranclp_induct) (auto intro: hub_inv_new hub_inv_step)

text \<open>
  C3. The table of terminals never dangles: in every reachable state, for every order in which
  redirects, requests, registrations and ends of terminals interleave, an entry of the table
  points to a terminal that runs and that was opened under this exec ID.  So whoever is sent to
  follow an exec ID follows a terminal of that ID.
\<close>

theorem registered_terminals_run:
  assumes "(hub_step cli)\<^sup>*\<^sup>* (new_hub options s) h" and "handleExec cli e (hub_server h) s1 = Inr (Share ptr, s2)"
  shows "\<exists>se. (ptr, se) \<in> set (hub_running h) \<and> se_execID se = e"
  using hub_inv_reachable [OF assms(1)] assms(2)
  by (auto simp: hub_inv_def handleExec_def split: option.splits)

text \<open>
  A run of the examples: a redirect makes an exec ID, two browsers open it at the same time, and
  both terminals run.
\<close>

definition race_id :: string where "race_id = new_ID (\<lambda>i. i) ''c0ffee000000''"

definition race_session :: "unit session" where
  "race_session =
     \<lparr>se_execID = race_id, se_container = zero_container\<lparr>c_ID := ''c0ffee000000'', c_Name := ''web'', c_Shell := ''/bin/sh''\<rparr>,
      se_tty = (),
      se_master = \<lparr>m_id = ''c0ffee000000-'' @ int_str 7, m_outputs = replicate history_size (CHR 0x00), m_mWriter = new_mutex_writer\<rparr>,
      se_webtty = new_webtty [WithWindowTitle ''web@localhost'', WithPermitWrite], se_audit = None\<rparr>"

definition race_hub :: "nat \<Rightarrow> nat list \<Rightarrow> (unit, nat) hub" where
  "race_hub calls ptrs =
     \<lparr>hub_server = \<lparr>sr_options = zero_server, sr_hostname = [], sr_execs = [(race_id, ''c0ffee000000'')],
        sr_masters = (case ptrs of [] \<Rightarrow> [] | p # ps \<Rightarrow> [(race_id, p)])\<rparr>,
      hub_state = length ptrs, hub_calls = replicate calls (race_id, se_container race_session),
      hub_running = map (\<lambda>p. (p, race_session)) ptrs, hub_next = length ptrs\<rparr>"

lemma race_open:
  "sr_options srv = zero_server \<Longrightarrow> be_Exec cli = be_Exec calm_cli \<Longrightarrow>
   process_open calm_answers cli ptr race_id (se_container race_session) srv s = Inr (Inr race_session, srv\<lparr>sr_masters := AList.update race_id ptr (sr_masters srv)\<rparr>, Suc s)"
  by (simp add: process_open_def calm_answers_def calm_cli_def race_session_def readInitMessage_def zero_server_def
      parseQuery_def makeTitleBuff_text NewMasterTTY_def exec_options_of_def zero_exec_def zero_container_def
      int_str_def Let_def)

lemma race_look:
  "be_GetInfo cli = be_GetInfo calm_cli \<Longrightarrow>
   handleExec cli race_id (hub_server (race_hub k [])) s = Inr (Fresh (se_container race_session), s)"
  by (simp add: handleExec_def getContainerID_def race_hub_def calm_cli_def race_session_def)

lemma race_steps:
  assumes "be_GetInfo cli = be_GetInfo calm_cli" and "be_Exec cli = be_Exec calm_cli"
  shows "hub_step cli (new_hub zero_server 0) (race_hub 0 [])"
    and "hub_step cli (race_hub k []) (race_hub (Suc k) [])"
    and "hub_step cli (race_hub (Suc k) []) (race_hub k [0])"
    and "hub_step cli (race_hub (Suc k) [0]) (race_hub k [1, 0])"
proof -
  show "hub_step cli (new_hub zero_server 0) (race_hub 0 [])"
    using redirect [of "\<lambda>i. i" "''c0ffee000000''" "[]" "new_hub zero_server (0::nat)" _ _ cli]
    by (simp add: handleExecRedirect_def setContainerID_def new_hub_def race_hub_def Let_def race_id_def)
  show "hub_step cli (race_hub k []) (race_hub (Suc k) [])"
    using call [OF race_look [OF assms(1)]] by (simp add: race_hub_def)
  show "hub_step cli (race_hub (Suc k) []) (race_hub k [0])"
    using opened [of race_id "se_container race_session" "race_hub (Suc k) []" calm_answers cli, OF _ race_open [OF _ assms(2)]]
    by (simp add: race_hub_def)
  show "hub_step cli (race_hub (Suc k) [0]) (race_hub k [1, 0])"
    using opened [of race_id "se_container race_session" "race_hub (Suc k) [0]" calm_answers cli, OF _ race_open [OF _ assms(2)]]
    by (simp add: race_hub_def)
qed

lemma race_reachable:
  assumes "be_GetInfo cli = be_GetInfo calm_cli" and "be_Exec cli = be_Exec calm_cli"
  shows "(hub_step cli)\<^sup>*\<^sup>* (new_hub zero_server 0) (race_hub 0 [0])"
    and "(hub_step cli)\<^sup>*\<^sup>* (new_hub zero_server 0) (race_hub 0 [1, 0])"
  using race_steps [OF assms] by (meson rtranclp.rtrancl_into_rtrancl rtranclp.rtrancl_refl)+

theorem registered_terminals_run_witness:
  "\<exists>se. (0, se) \<in> set (hub_running (race_hub 0 [0])) \<and> se_execID se = race_id"
  by (rule registered_terminals_run [OF race_reachable(1) [OF refl refl], of race_id 0])
    (simp add: handleExec_def getContainerID_def race_hub_def)

text \<open>What opening and ending do to the backend: an \<open>Exec\<close>, with an \<open>Exit\<close> when it was for nothing.\<close>

lemma leave_tty_state: "leave_tty cli c tty s = Inr s' \<Longrightarrow> \<exists>e. tty_Exit cli tty s = Inr (e, s')"
  by (auto simp: leave_tty_def)

lemma process_open_opened_state:
  assumes "process_open wa cli ptr e c srv s = Inr (Inr se, srv', s')"
  shows "be_Exec cli (se_container se) s = Inr (Inr (se_tty se), s') \<and> 7 \<le> length (c_ID (se_container se))"
  using assms unfolding process_open_def makeTitleBuff_text
  by (cases "wa_PubSub wa") (auto simp: NewMasterTTY_def Fork_def Let_def exec_result_cases go_slice_Inr)

lemma process_open_refused_state:
  assumes "process_open wa cli ptr e c srv s = Inr (Inl err, srv', s')"
  shows "s' = s \<or> (\<exists>c e. be_Exec cli c s = Inr (Inl e, s')) \<or>
    (\<exists>c tty s1 e. be_Exec cli c s = Inr (Inr tty, s1) \<and> tty_Exit cli tty s1 = Inr (e, s'))"
  using assms unfolding process_open_def makeTitleBuff_text
  by (cases "wa_PubSub wa")
    (auto simp: NewMasterTTY_def Fork_def Let_def exec_result_cases dest: leave_tty_state)

lemma process_close_state:
  "process_close cli se srv s = Inr (srv', s') \<Longrightarrow> \<exists>e. tty_Exit cli (se_tty se) s = Inr (e, s')"
  by (auto simp: process_close_def Let_def dest: leave_tty_state)

section \<open>The end of a terminal\<close>



end
