(* ===== verification/Terminals.thy ===== *)
theory Terminals
  imports Sessions
begin

text \<open>
  The terminals of the real backends under the web server.  The interface \<open>types.TTY\<close> dispatches
  over the terminals of container/docker/slave.go, container/kube/tty.go and
  container/grpc/grpc_tty.go; the method table \<open>any_cli\<close> of theory \<open>Backends\<close>' interface value runs on
  a state that keeps every terminal that \<open>Exec\<close> has made under its address.  On it the handlers of
  theory \<open>Server\<close> run the code of the backends, and the theorems say how often a terminal is
  left and what a read does that comes after its end.
\<close>

section \<open>Dispatch\<close>

fun any_tty_read :: "('w backend_tty \<times> 'w) reader" where
  "any_tty_read p (DockerTTY cli enj, w) =
     obind (docker_tty_read cli p (enj, w)) (\<lambda>(n, p, err, enj, w). Inr (n, p, err, DockerTTY cli enj, w))"
| "any_tty_read p (KubeTTY enj ex, w) =
     obind (kube_tty_read p enj) (\<lambda>(n, p, err, enj). Inr (n, p, err, KubeTTY enj ex, w))"
| "any_tty_read p (GrpcTTY enj, w) =
     obind (wrapper_read p (enj, w)) (\<lambda>(n, p, err, enj, w). Inr (n, p, err, GrpcTTY enj, w))"

fun any_tty_write :: "bytes \<Rightarrow> 'w backend_tty \<times> 'w \<Rightarrow> (nat \<times> error option) \<times> 'w backend_tty \<times> 'w" where
  "any_tty_write p (DockerTTY cli enj, w) = (let (r, w) = docker_tty_write cli enj p w in (r, DockerTTY cli enj, w))"
| "any_tty_write p (KubeTTY enj ex, w) = (let (r, enj) = kube_tty_write p enj in (r, KubeTTY enj ex, w))"
| "any_tty_write p (GrpcTTY enj, w) = (let (r, w) = wrapper_write p enj w in (r, GrpcTTY enj, w))"

fun any_Exit :: "'w backend_tty \<times> 'w \<Rightarrow> (error option \<times> 'w backend_tty \<times> 'w) outcome" where
  "any_Exit (DockerTTY cli enj, w) =
     obind (docker_Exit cli enj w) (\<lambda>(err, enj, w). Inr (err, DockerTTY cli enj, w))"
| "any_Exit (KubeTTY enj ex, w) = obind (kube_Exit enj) (\<lambda>(err, enj). Inr (err, KubeTTY enj ex, w))"
| "any_Exit (GrpcTTY enj, w) = obind (wrapper_Exit enj w) (\<lambda>(err, enj, w). Inr (err, GrpcTTY enj, w))"

text \<open>\<open>sleep\<close> is \<open>time.Sleep\<close>, for the retries of the proxy-mode backend.\<close>

fun any_ResizeTerminal ::
    "(duration \<Rightarrow> 'w \<Rightarrow> 'w) \<Rightarrow> int \<Rightarrow> int \<Rightarrow> 'w backend_tty \<times> 'w \<Rightarrow> error option \<times> 'w backend_tty \<times> 'w" where
  "any_ResizeTerminal sleep width height (DockerTTY cli enj, w) =
     (let (err, w) = docker_ResizeTerminal cli enj width height w in (err, DockerTTY cli enj, w))"
| "any_ResizeTerminal sleep width height (KubeTTY enj ex, w) =
     (let (err, enj) = kube_ResizeTerminal width height enj in (err, KubeTTY enj ex, w))"
| "any_ResizeTerminal sleep width height (GrpcTTY enj, w) =
     (let (err, w) = wrapper_ResizeTerminal sleep enj width height w in (err, GrpcTTY enj, w))"

fun any_ActiveChan :: "'w backend_tty \<times> 'w \<Rightarrow> active_chan" where
  "any_ActiveChan (DockerTTY cli enj, w) = docker_ActiveChan (enj, w)"
| "any_ActiveChan (KubeTTY enj ex, w) = kube_ActiveChan enj"
| "any_ActiveChan (GrpcTTY enj, w) = wrapper_ActiveChan (enj, w)"

lemma tty_cases:
  obtains cli enj w where "s = (DockerTTY cli enj, w)" | enj ex w where "s = (KubeTTY enj ex, w)"
    | enj w where "s = (GrpcTTY enj, w)"
  by (cases s; cases "fst s") auto

text \<open>The value of the interface meets the contract, because each of its three providers does.\<close>

interpretation any_terminal: terminal any_tty_read any_Exit any_ActiveChan
proof unfold_locales
  fix p :: bytes and s :: "'w backend_tty \<times> 'w" and n p' e s'
  assume "any_tty_read p s = Inr (n, p', e, s')"
  then show "touch_active (any_ActiveChan s) = Inr (any_ActiveChan s')"
    by (cases s rule: tty_cases)
      (auto dest: docker_terminal.read_active kube_terminal.read_active wrapper_terminal.read_active)
next
  fix s :: "'w backend_tty \<times> 'w" and e s'
  assume "any_Exit s = Inr (e, s')"
  then show "close_active (any_ActiveChan s) = Inr (any_ActiveChan s')"
    by (cases s rule: tty_cases)
      (auto dest: kube_terminal.exit_active docker_terminal.exit_active [where s = "(a, b)" for a b, simplified]
        wrapper_terminal.exit_active [where s = "(a, b)" for a b, simplified])
qed

section \<open>What the operations keep of a terminal\<close>

fun tty_chan :: "'w backend_tty \<Rightarrow> active_chan" where
  "tty_chan (DockerTTY cli enj) = dt_active enj"
| "tty_chan (KubeTTY enj ex) = kt_active enj"
| "tty_chan (GrpcTTY enj) = ew_active enj"

lemma any_ActiveChan_conv [simp]: "any_ActiveChan (t, w) = tty_chan t"
  by (cases t) (simp_all add: docker_ActiveChan_def kube_ActiveChan_def wrapper_ActiveChan_def)

text \<open>The channel holds one token at most, and kubernetes' queue of sizes is closed together with it.\<close>

fun tty_fine :: "'w backend_tty \<Rightarrow> bool" where
  "tty_fine (DockerTTY cli enj) \<longleftrightarrow> ac_len (dt_active enj) \<le> 1"
| "tty_fine (KubeTTY enj ex) \<longleftrightarrow> ac_len (kt_active enj) \<le> 1 \<and> sq_closed (kt_sq enj) = ac_closed (kt_active enj)"
| "tty_fine (GrpcTTY enj) \<longleftrightarrow> ac_len (ew_active enj) \<le> 1"

definition tty_open :: "'w backend_tty \<Rightarrow> bool" where
  "tty_open t \<longleftrightarrow> \<not> ac_closed (tty_chan t)"

text \<open>An operation that is not \<open>Exit\<close> leaves a fine terminal fine, and an open one open.\<close>

definition tty_kept :: "'w backend_tty \<Rightarrow> 'w backend_tty \<Rightarrow> bool" where
  "tty_kept t t' \<longleftrightarrow> tty_open t' = tty_open t \<and> (tty_fine t \<longrightarrow> tty_fine t')"

lemma touch_active_kept:
  "touch_active ch = Inr ch' \<Longrightarrow> ac_closed ch' = ac_closed ch \<and> (ac_len ch \<le> 1 \<longrightarrow> ac_len ch' \<le> 1)"
  by (auto simp: touch_active_def split: if_splits)

lemma sq_resize_closed: "sq_closed (snd (sq_resize width height sq)) = sq_closed sq"
  by (simp add: sq_resize_def sq_send_def)

lemma kube_resize_kept:
  "kube_ResizeTerminal width height enj = (err, enj') \<Longrightarrow>
     kt_active enj' = kt_active enj \<and> sq_closed (kt_sq enj') = sq_closed (kt_sq enj)"
  by (auto simp: kube_ResizeTerminal_def sq_resize_closed numeral_3_eq_3)

lemma read_kept: "any_tty_read p (t, w) = Inr (n, p', e, t', w') \<Longrightarrow> tty_kept t t'"
  using any_terminal.read_active [of p "(t, w)"]
  by (cases t) (auto simp: tty_kept_def tty_open_def kube_tty_read_def dest!: touch_active_kept)

lemma write_kept: "any_tty_write p (t, w) = (r, t', w') \<Longrightarrow> tty_kept t t'"
  by (cases t) (auto simp: tty_kept_def tty_open_def kube_tty_write_def Let_def split: prod.splits)

lemma resize_kept: "any_ResizeTerminal sleep width height (t, w) = (r, t', w') \<Longrightarrow> tty_kept t t'"
  by (cases t) (auto simp: tty_kept_def tty_open_def Let_def dest: kube_resize_kept split: prod.splits)

lemma exit_closes_fine: "any_Exit (t, w) = Inr (e, t', w') \<Longrightarrow> tty_fine t \<Longrightarrow> tty_open t \<and> \<not> tty_open t' \<and> tty_fine t'"
  by (cases t)
    (auto simp: tty_open_def close_active_def docker_Exit_def kube_Exit_def wrapper_Exit_def kube_tty_write_def
      sq_close_def Let_def case_prod_unfold split: if_splits)

lemma exit_returns: "tty_fine t \<Longrightarrow> tty_open t \<Longrightarrow> \<exists>e t' w'. any_Exit (t, w) = Inr (e, t', w')"
  by (cases t)
    (auto simp: tty_open_def close_active_def docker_Exit_def kube_Exit_def wrapper_Exit_def kube_tty_write_def
      sq_close_def Let_def case_prod_unfold)

section \<open>The method table on the real backends\<close>

text \<open>
  The state: the backend, the world, and the terminals made so far; the pointer to a terminal is its
  position.  \<open>read_log\<close> is \<open>Read\<close> of the log streams (theory \<open>LogParser\<close> for docker's).
\<close>

record 'w stage =
  sg_backend :: "'w backend"
  sg_world :: 'w
  sg_ttys :: "'w backend_tty list"

definition on_backend :: "('w backend_state \<Rightarrow> ('a \<times> 'w backend_state) outcome) \<Rightarrow> 'w stage \<Rightarrow> ('a \<times> 'w stage) outcome" where
  "on_backend f s =
     obind (f (sg_backend s, sg_world s)) (\<lambda>(x, b, w). Inr (x, s\<lparr>sg_backend := b, sg_world := w\<rparr>))"

definition on_tty ::
    "nat \<Rightarrow> ('w backend_tty \<times> 'w \<Rightarrow> ('a \<times> 'w backend_tty \<times> 'w) outcome) \<Rightarrow> 'w stage \<Rightarrow> ('a \<times> 'w stage) outcome" where
  "on_tty h f s =
     (if h < length (sg_ttys s) then
        obind (f (sg_ttys s ! h, sg_world s)) (\<lambda>(x, t, w). Inr (x, s\<lparr>sg_world := w, sg_ttys := (sg_ttys s)[h := t]\<rparr>))
      else Inl NilDeref)"

definition stage_Exec :: "container \<Rightarrow> 'w stage \<Rightarrow> ((error + nat) \<times> 'w stage) outcome" where
  "stage_Exec c s =
     obind (on_backend (any_Exec c) s) (\<lambda>(r, s).
       case r of
         Inl err \<Rightarrow> Inr (Inl err, s)
       | Inr t \<Rightarrow> Inr (Inr (length (sg_ttys s)), s\<lparr>sg_ttys := sg_ttys s @ [t]\<rparr>))"

definition stage_Read :: "nat \<Rightarrow> 'w stage reader" where
  "stage_Read h p s =
     obind (on_tty h (\<lambda>x. obind (any_tty_read p x) (\<lambda>(n, p, err, x). Inr ((n, p, err), x))) s) (\<lambda>((n, p, err), s).
       Inr (n, p, err, s))"

definition stage_Write :: "nat \<Rightarrow> bytes \<Rightarrow> 'w stage \<Rightarrow> ((nat \<times> error option) \<times> 'w stage) outcome" where
  "stage_Write h p = on_tty h (\<lambda>x. Inr (any_tty_write p x))"

definition stage_Resize ::
    "(duration \<Rightarrow> 'w \<Rightarrow> 'w) \<Rightarrow> nat \<Rightarrow> int \<Rightarrow> int \<Rightarrow> 'w stage \<Rightarrow> (error option \<times> 'w stage) outcome" where
  "stage_Resize sleep h width height = on_tty h (\<lambda>x. Inr (any_ResizeTerminal sleep width height x))"

definition any_cli ::
    "(duration \<Rightarrow> 'w \<Rightarrow> 'w) \<Rightarrow> ('w backend_log \<Rightarrow> 'w stage reader) \<Rightarrow> ('w stage, nat, 'w backend_log) cli" where
  "any_cli sleep read_log =
     \<lparr>be_GetInfo = (\<lambda>cid. on_backend (any_GetInfo cid)), be_List = on_backend any_List,
      be_Start = (\<lambda>cid. on_backend (any_Start cid)), be_Stop = (\<lambda>cid. on_backend (any_Stop cid)),
      be_Restart = (\<lambda>cid. on_backend (any_Restart cid)), be_Exec = stage_Exec, be_Close = on_backend any_Close,
      be_Logs = (\<lambda>opts. on_backend (any_Logs opts)), tty_Read = stage_Read, tty_Write = stage_Write,
      tty_Exit = (\<lambda>h. on_tty h any_Exit), tty_ResizeTerminal = stage_Resize sleep, log_Read = read_log\<rparr>"

text \<open>The terminals that have not been left, and what holds of every terminal.\<close>

definition open_ttys :: "'w stage \<Rightarrow> nat set" where
  "open_ttys s = {h. h < length (sg_ttys s) \<and> tty_open (sg_ttys s ! h)}"

definition stage_fine :: "'w stage \<Rightarrow> bool" where
  "stage_fine s \<longleftrightarrow> (\<forall>t \<in> set (sg_ttys s). tty_fine t)"

lemma on_backend_keeps: "on_backend f s = Inr (x, s') \<Longrightarrow> sg_ttys s' = sg_ttys s"
  by (auto simp: on_backend_def)

lemma update_keeps:
  assumes "h < length (sg_ttys s)" and "tty_kept (sg_ttys s ! h) t" and "stage_fine s"
  shows "stage_fine (s\<lparr>sg_world := w, sg_ttys := (sg_ttys s)[h := t]\<rparr>) \<and>
    open_ttys (s\<lparr>sg_world := w, sg_ttys := (sg_ttys s)[h := t]\<rparr>) = open_ttys s"
  using assms by (auto simp: stage_fine_def open_ttys_def tty_kept_def nth_list_update dest!: set_update_subset_insert [THEN subsetD] split: if_splits)

lemma on_tty_keeps:
  assumes "on_tty h f s = Inr (x, s')" and "stage_fine s"
    and "\<And>t w x t' w'. f (t, w) = Inr (x, t', w') \<Longrightarrow> tty_kept t t'"
  shows "stage_fine s' \<and> open_ttys s' = open_ttys s"
  using assms(1,2) update_keeps [of h s] by (auto simp: on_tty_def split: if_splits dest!: assms(3))

lemma stage_Exec_made:
  assumes "stage_Exec c s = Inr (r, s')"
  shows "case r of Inl err \<Rightarrow> sg_ttys s' = sg_ttys s
    | Inr h \<Rightarrow> h = length (sg_ttys s) \<and> (\<exists>t b w b' w'. any_Exec c (b, w) = Inr (Inr t, b', w') \<and> sg_ttys s' = sg_ttys s @ [t])"
  using assms by (fastforce simp: stage_Exec_def on_backend_def exec_result_cases split: sum.splits)

text \<open>A new terminal has an open, empty channel.\<close>

lemma map_sum_Inr: "map_sum f g r = Inr y \<longleftrightarrow> (\<exists>x. r = Inr x \<and> y = g x)"
  by (cases r) auto

lemma docker_Exec_new: "docker_Exec c s = Inr (Inr t, s') \<Longrightarrow> dt_active t = new_active"
  by (auto simp: docker_Exec_def lift_call_def Let_def exec_result_cases split: prod.splits sum.splits if_splits)

lemma kube_Exec_new: "kube_Exec c s = Inr (Inr (t, ex), s') \<Longrightarrow> t = newInjector"
  by (auto simp: kube_Exec_def Let_def split: prod.splits sum.splits if_splits)

lemma grpc_Exec_new: "grpc_Exec c s = Inr (Inr t, s') \<Longrightarrow> ew_active t = new_active"
  by (auto simp: grpc_Exec_def newExecWrapper_def Let_def split: prod.splits sum.splits if_splits option.splits)

lemma any_Exec_new: "any_Exec c (b, w) = Inr (Inr t, b', w') \<Longrightarrow> tty_fine t \<and> tty_open t"
  by (cases b)
    (auto simp: wrap_state_def tty_open_def new_active_def newInjector_def map_sum_Inr
      dest!: docker_Exec_new kube_Exec_new grpc_Exec_new)

section \<open>Accounting for terminals\<close>

text \<open>
  What the server relies on in a backend that makes terminals: \<open>Exec\<close> opens a new one when it
  succeeds, \<open>Exit\<close> returns for an open one and closes it, nothing else opens or closes any.
\<close>

locale terminal_table =
  fixes cli :: "('s, 't, 'r) cli"
    and opens :: "'s \<Rightarrow> 't set"
    and good :: "'s \<Rightarrow> bool"
  assumes GetInfo_keeps: "good s \<Longrightarrow> be_GetInfo cli cid s = Inr (c, s') \<Longrightarrow> good s' \<and> opens s' = opens s"
    and Exec_fails: "good s \<Longrightarrow> be_Exec cli c s = Inr (Inl e, s') \<Longrightarrow> good s' \<and> opens s' = opens s"
    and Exec_opens: "good s \<Longrightarrow> be_Exec cli c s = Inr (Inr t, s') \<Longrightarrow>
      good s' \<and> t \<notin> opens s \<and> opens s' = insert t (opens s)"
    and Exit_closes: "good s \<Longrightarrow> tty_Exit cli t s = Inr (err, s') \<Longrightarrow> good s' \<and> opens s' = opens s - {t}"
    and Exit_returns: "good s \<Longrightarrow> t \<in> opens s \<Longrightarrow> \<exists>err s'. tty_Exit cli t s = Inr (err, s')"
begin

lemma opened_adds:
  assumes "good s" and "process_open wa cli ptr e c srv s = Inr (Inr se, srv', s')"
  shows "good s' \<and> se_tty se \<notin> opens s \<and> opens s' = insert (se_tty se) (opens s) \<and> 7 \<le> length (c_ID (se_container se))"
  using process_open_opened_state [OF assms(2)] Exec_opens [OF assms(1)] by blast

lemma refused_keeps:
  assumes "good s" and "process_open wa cli ptr e c srv s = Inr (Inl err, srv', s')"
  shows "good s' \<and> opens s' = opens s"
  using process_open_refused_state [OF assms(2)]
proof (elim disjE exE conjE)
  fix c t s1 e
  assume "be_Exec cli c s = Inr (Inr t, s1)" and "tty_Exit cli t s1 = Inr (e, s')"
  then show ?thesis using Exec_opens [OF assms(1)] Exit_closes [of s1 t e s'] by fastforce
qed (use assms(1) Exec_fails in blast)+

lemma closed_removes:
  "good s \<Longrightarrow> process_close cli se srv s = Inr (srv', s') \<Longrightarrow> good s' \<and> opens s' = opens s - {se_tty se}"
  using process_close_state [of cli se srv s srv' s'] Exit_closes by blast

lemma close_returns:
  assumes "good s" and "se_tty se \<in> opens s" and "7 \<le> length (c_ID (se_container se))"
  shows "\<exists>srv' s'. process_close cli se srv s = Inr (srv', s')"
  using Exit_returns [OF assms(1,2)] assms(3) by (auto simp: process_close_def leave_tty_def Let_def)

end

text \<open>The running sessions hold exactly the open terminals, each its own.\<close>

definition accounted :: "('s \<Rightarrow> 't set) \<Rightarrow> ('s \<Rightarrow> bool) \<Rightarrow> ('t, 's) hub \<Rightarrow> bool" where
  "accounted opens good h \<longleftrightarrow>
     good (hub_state h) \<and>
     distinct (map (\<lambda>x. se_tty (snd x)) (hub_running h)) \<and>
     opens (hub_state h) = (\<lambda>x. se_tty (snd x)) ` set (hub_running h) \<and>
     (\<forall>x \<in> set (hub_running h). 7 \<le> length (c_ID (se_container (snd x))))"

text \<open>
  The life of the server with everything else that happens to its backend: a step of the
  server, or a change \<open>env\<close> of the backend's state by another.
\<close>

inductive live_step :: "('s, 't, 'r) cli \<Rightarrow> ('s \<Rightarrow> 's \<Rightarrow> bool) \<Rightarrow> ('t, 's) hub \<Rightarrow> ('t, 's) hub \<Rightarrow> bool"
  for cli :: "('s, 't, 'r) cli" and env :: "'s \<Rightarrow> 's \<Rightarrow> bool" where
  serve: "hub_step cli h h' \<Longrightarrow> live_step cli env h h'"
| other: "env (hub_state h) s' \<Longrightarrow> live_step cli env h (h\<lparr>hub_state := s'\<rparr>)"

inductive_cases live_stepE: "live_step cli env h h'"

lemma hub_inv_state: "hub_inv (h\<lparr>hub_state := s\<rparr>) \<longleftrightarrow> hub_inv h"
  by (simp add: hub_inv_def)

lemma live_inv: "(live_step cli env)\<^sup>*\<^sup>* (new_hub options s) h \<Longrightarrow> hub_inv h"
proof (induction rule: rtranclp_induct)
  case (step h h')
  from step.hyps(2) step.IH show ?case by (blast elim!: live_stepE intro: hub_inv_step hub_inv_state [THEN iffD2])
qed (rule hub_inv_new)

context terminal_table
begin

lemma image_without:
  assumes "distinct (map f xs)" and "distinct (map fst xs)" and "(k, v) \<in> set xs"
  shows "f ` set (filter (\<lambda>x. fst x \<noteq> k) xs) = f ` set xs - {f (k, v)}"
proof -
  have "fst x \<noteq> k \<longleftrightarrow> f x \<noteq> f (k, v)" if "x \<in> set xs" for x
    using that assms by (metis distinct_map fst_conv inj_on_eq_iff)
  then show ?thesis by auto
qed

lemma accounted_step:
  assumes "hub_step cli h h'" and "hub_inv h" and "accounted opens good h"
  shows "accounted opens good h'"
proof -
  have good: "good (hub_state h)" using assms(3) by (simp add: accounted_def)
  from assms(1) show ?thesis
  proof (rule hub_stepE)
    fix e c s'
    assume "h' = h\<lparr>hub_state := s', hub_calls := (e, c) # hub_calls h\<rparr>"
      and "handleExec cli e (hub_server h) (hub_state h) = Inr (Fresh c, s')"
    moreover from this(2) obtain cid where "be_GetInfo cli cid (hub_state h) = Inr (c, s')"
      by (auto dest: handleExec_fresh)
    then have "good s' \<and> opens s' = opens (hub_state h)"
      by (rule GetInfo_keeps [OF good])
    ultimately show ?thesis using assms(3) by (simp add: accounted_def)
  next
    fix e c wa err srv' s'
    assume "h' = h\<lparr>hub_server := srv', hub_state := s', hub_calls := remove1 (e, c) (hub_calls h)\<rparr>"
      and "process_open wa cli (hub_next h) e c (hub_server h) (hub_state h) = Inr (Inl err, srv', s')"
    moreover from this(2) have "good s' \<and> opens s' = opens (hub_state h)"
      by (rule refused_keeps [OF good])
    ultimately show ?thesis using assms(3) by (simp add: accounted_def)
  next
    fix e c wa se srv' s'
    assume "h' = h\<lparr>hub_server := srv', hub_state := s', hub_calls := remove1 (e, c) (hub_calls h),
        hub_running := (hub_next h, se) # hub_running h, hub_next := Suc (hub_next h)\<rparr>"
      and "process_open wa cli (hub_next h) e c (hub_server h) (hub_state h) = Inr (Inr se, srv', s')"
    moreover from this(2) have "good s' \<and> se_tty se \<notin> opens (hub_state h) \<and>
        opens s' = insert (se_tty se) (opens (hub_state h)) \<and> 7 \<le> length (c_ID (se_container se))"
      by (rule opened_adds [OF good])
    ultimately show ?thesis using assms(3) by (auto simp: accounted_def)
  next
    fix ptr se srv' s'
    assume h': "h' = h\<lparr>hub_server := srv', hub_state := s', hub_running := filter (\<lambda>x. fst x \<noteq> ptr) (hub_running h)\<rparr>"
      and run: "(ptr, se) \<in> set (hub_running h)"
      and "process_close cli se (hub_server h) (hub_state h) = Inr (srv', s')"
    then have "good s' \<and> opens s' = opens (hub_state h) - {se_tty se}"
      using closed_removes [OF good] by blast
    moreover have "(\<lambda>x. se_tty (snd x)) ` set (filter (\<lambda>x. fst x \<noteq> ptr) (hub_running h)) =
        (\<lambda>x. se_tty (snd x)) ` set (hub_running h) - {se_tty se}"
      using image_without [OF _ _ run, of "\<lambda>x. se_tty (snd x)"] assms(2,3) by (simp add: accounted_def hub_inv_def)
    ultimately show ?thesis using assms(3) h' by (auto simp: accounted_def intro: distinct_map_filter)
  qed (use assms(3) in \<open>simp add: accounted_def\<close>)
qed

text \<open>What others do is harmless when it opens and closes no terminal.\<close>

lemma accounted_live:
  assumes env: "\<And>s s'. env s s' \<Longrightarrow> good s \<Longrightarrow> good s' \<and> opens s' = opens s"
    and "good s" and "opens s = {}"
  shows "(live_step cli env)\<^sup>*\<^sup>* (new_hub options s) h \<Longrightarrow> accounted opens good h"
proof (induction rule: rtranclp_induct)
  case base
  show ?case using assms(2,3) by (simp add: accounted_def new_hub_def)
next
  case (step h h')
  from step.hyps(2) show ?case
  proof (rule live_stepE)
    assume "hub_step cli h h'"
    then show ?thesis using accounted_step live_inv [OF step.hyps(1)] step.IH by blast
  next
    fix s'
    assume "h' = h\<lparr>hub_state := s'\<rparr>" and "env (hub_state h) s'"
    then show ?thesis using env step.IH by (simp add: accounted_def)
  qed
qed

lemma running_ends:
  assumes "accounted opens good h" and "(ptr, se) \<in> set (hub_running h)"
  shows "\<exists>srv' s'. process_close cli se (hub_server h) (hub_state h) = Inr (srv', s') \<and>
    opens s' = opens (hub_state h) - {se_tty se}"
proof -
  have good: "good (hub_state h)" using assms(1) by (simp add: accounted_def)
  have "opens (hub_state h) = (\<lambda>x. se_tty (snd x)) ` set (hub_running h)"
    and id: "7 \<le> length (c_ID (se_container se))"
    using assms by (auto simp: accounted_def)
  then have "se_tty se \<in> opens (hub_state h)" using imageI [OF assms(2), of "\<lambda>x. se_tty (snd x)"] by simp
  from close_returns [OF good this id] obtain srv' s' where
    "process_close cli se (hub_server h) (hub_state h) = Inr (srv', s')" by blast
  with closed_removes [OF good this] show ?thesis by simp
qed

end

text \<open>
  With more from the backend, the handler of a request never panics: \<open>GetInfo\<close> and \<open>Exec\<close> return,
  and a container that is handed out has an ID that can be cut, unless it has no shell.
\<close>

locale safe_table = terminal_table cli opens good
  for cli :: "('s, 't, 'r) cli" and opens :: "'s \<Rightarrow> 't set" and good :: "'s \<Rightarrow> bool" +
  assumes GetInfo_safe: "good s \<Longrightarrow> \<exists>c s'. be_GetInfo cli cid s = Inr (c, s') \<and> info_ok c"
    and Exec_safe: "good s \<Longrightarrow> \<exists>r s'. be_Exec cli c s = Inr (r, s')"
begin

lemma lookup_safe:
  assumes "good s"
  shows "\<exists>r s'. handleExec cli e srv s = Inr (r, s') \<and> (\<forall>c. r = Fresh c \<longrightarrow> info_ok c)"
proof (cases "getContainerID e srv")
  case (Some cid)
  obtain c s' where "be_GetInfo cli cid s = Inr (c, s')" and "info_ok c" using GetInfo_safe [OF assms] by blast
  then show ?thesis by (simp add: handleExec_def Some split: option.split)
qed (simp add: handleExec_def)

lemma request_safe:
  assumes "good s" and "7 \<le> length (c_ID c)"
  shows "\<exists>r srv' s'. process_open wa cli ptr execID c srv s = Inr (r, srv', s') \<and>
    (case r of
       Inl err \<Rightarrow> srv' = srv \<and> opens s' = opens s
     | Inr se \<Rightarrow> srv' = srv\<lparr>sr_masters := AList.update execID ptr (sr_masters srv)\<rparr> \<and>
         opens s' = insert (se_tty se) (opens s) \<and> c_ID (se_container se) = c_ID c \<and> permitWrite (se_webtty se) \<and>
         (se_audit se \<noteq> None \<longleftrightarrow> srv_EnableAudit (sr_options srv)))"
proof -
  have left: "\<exists>err s''. tty_Exit cli t s' = Inr (err, s'')" if "be_Exec cli c s = Inr (Inr t, s')" for c t s'
    using Exec_opens [OF assms(1) that] Exit_returns [of s' t] by simp
  obtain r srv' s' where run: "process_open wa cli ptr execID c srv s = Inr (r, srv', s')"
    and outcome: "case r of
       Inl err \<Rightarrow> srv' = srv
     | Inr se \<Rightarrow> srv' = srv\<lparr>sr_masters := AList.update execID ptr (sr_masters srv)\<rparr> \<and>
         se_execID se = execID \<and> c_ID (se_container se) = c_ID c \<and> permitWrite (se_webtty se) \<and>
         (se_audit se \<noteq> None \<longleftrightarrow> srv_EnableAudit (sr_options srv))"
    using process_open_returns [of c cli s wa ptr execID srv, OF assms(2) Exec_safe [OF assms(1)]] left by blast
  have "case r of Inl err \<Rightarrow> opens s' = opens s | Inr se \<Rightarrow> opens s' = insert (se_tty se) (opens s)"
    using run by (cases r) (auto dest: refused_keeps [OF assms(1)] opened_adds [OF assms(1)])
  with run outcome show ?thesis by (cases r) auto
qed

text \<open>The requests on their way carry containers that can be cut.\<close>

lemma calls_step:
  assumes "hub_step cli h h'" and "good (hub_state h)" and "\<forall>x \<in> set (hub_calls h). info_ok (snd x)"
  shows "\<forall>x \<in> set (hub_calls h'). info_ok (snd x)"
  using assms(1)
proof (rule hub_stepE)
  fix e c s'
  assume "h' = h\<lparr>hub_state := s', hub_calls := (e, c) # hub_calls h\<rparr>"
    and "handleExec cli e (hub_server h) (hub_state h) = Inr (Fresh c, s')"
  then show ?thesis using assms(3) lookup_safe [OF assms(2), of e "hub_server h"] by auto
qed (use assms(3) in \<open>auto dest: set_remove1_subset [THEN subsetD]\<close>)

lemma calls_live:
  assumes env: "\<And>s s'. env s s' \<Longrightarrow> good s \<Longrightarrow> good s' \<and> opens s' = opens s"
    and "good s" and "opens s = {}"
  shows "(live_step cli env)\<^sup>*\<^sup>* (new_hub options s) h \<Longrightarrow> \<forall>x \<in> set (hub_calls h). info_ok (snd x)"
proof (induction rule: rtranclp_induct)
  case base
  show ?case by (simp add: new_hub_def)
next
  case (step h h')
  have "good (hub_state h)" using accounted_live [OF env assms(2,3) step.hyps(1)] by (simp add: accounted_def)
  with step.hyps(2) step.IH show ?case by (auto elim!: live_stepE dest: calls_step)
qed

end

text \<open>The method table of the real backends is one.\<close>

lemma stage_backend_keeps:
  "on_backend f s = Inr (x, s') \<Longrightarrow> stage_fine s \<Longrightarrow> stage_fine s' \<and> open_ttys s' = open_ttys s"
  by (drule on_backend_keeps) (simp add: stage_fine_def open_ttys_def)

lemma stage_exec_opens:
  assumes "stage_fine s" and "stage_Exec c s = Inr (Inr h, s')"
  shows "stage_fine s' \<and> h \<notin> open_ttys s \<and> open_ttys s' = insert h (open_ttys s)"
proof -
  obtain t where h: "h = length (sg_ttys s)" and s': "sg_ttys s' = sg_ttys s @ [t]" and t: "tty_fine t" "tty_open t"
    using stage_Exec_made [OF assms(2)] any_Exec_new by fastforce
  have "stage_fine s'" using assms(1) t(1) by (auto simp: stage_fine_def s')
  moreover have "open_ttys s' = insert h (open_ttys s)"
    using t(2) by (auto simp: open_ttys_def s' h nth_append less_Suc_eq)
  ultimately show ?thesis by (simp add: h open_ttys_def)
qed

lemma stage_exit_closes:
  assumes "stage_fine s" and "on_tty h any_Exit s = Inr (e, s')"
  shows "stage_fine s' \<and> h \<in> open_ttys s \<and> open_ttys s' = open_ttys s - {h}"
proof -
  obtain t w where h: "h < length (sg_ttys s)" and ex: "any_Exit (sg_ttys s ! h, sg_world s) = Inr (e, t, w)"
    and s': "s' = s\<lparr>sg_world := w, sg_ttys := (sg_ttys s)[h := t]\<rparr>"
    using assms(2) by (auto simp: on_tty_def split: if_splits)
  note t = exit_closes_fine [OF ex]
  have fine: "tty_fine (sg_ttys s ! h)" using assms(1) h by (simp add: stage_fine_def)
  then have "stage_fine s'"
    using t assms(1) by (auto simp: s' stage_fine_def dest!: set_update_subset_insert [THEN subsetD])
  moreover have "open_ttys s' = open_ttys s - {h}"
    using t fine by (auto simp: open_ttys_def s') (metis nth_list_update nth_list_update_neq)
  ultimately show ?thesis using t fine h by (simp add: open_ttys_def)
qed

lemma stage_exit_returns:
  assumes "stage_fine s" and "h \<in> open_ttys s"
  shows "\<exists>e s'. on_tty h any_Exit s = Inr (e, s')"
proof -
  have "h < length (sg_ttys s)" and "tty_fine (sg_ttys s ! h)" and "tty_open (sg_ttys s ! h)"
    using assms by (simp_all add: open_ttys_def stage_fine_def)
  then show ?thesis using exit_returns [of "sg_ttys s ! h" "sg_world s"] by (auto simp: on_tty_def)
qed

lemma stage_exec_fails: "stage_Exec c s = Inr (Inl e, s') \<Longrightarrow> sg_ttys s' = sg_ttys s"
  by (drule stage_Exec_made) simp

interpretation any_table: terminal_table "any_cli sleep read_log" open_ttys stage_fine
proof unfold_locales
  fix s s' :: "'a stage"
  assume fine: "stage_fine s"
  show "stage_fine s' \<and> open_ttys s' = open_ttys s" if "be_GetInfo (any_cli sleep read_log) cid s = Inr (c, s')" for cid c
    using that stage_backend_keeps [OF _ fine] by (simp add: any_cli_def)
  show "stage_fine s' \<and> open_ttys s' = open_ttys s" if "be_Exec (any_cli sleep read_log) c s = Inr (Inl e, s')" for c e
    using that fine stage_exec_fails [of c s e s'] by (simp add: any_cli_def stage_fine_def open_ttys_def)
  show "stage_fine s' \<and> t \<notin> open_ttys s \<and> open_ttys s' = insert t (open_ttys s)"
    if "be_Exec (any_cli sleep read_log) c s = Inr (Inr t, s')" for c t
    using that stage_exec_opens [OF fine] by (simp add: any_cli_def)
  show "stage_fine s' \<and> open_ttys s' = open_ttys s - {t}" if "tty_Exit (any_cli sleep read_log) t s = Inr (err, s')" for t err
    using that stage_exit_closes [OF fine] by (simp add: any_cli_def)
  show "\<exists>err s'. tty_Exit (any_cli sleep read_log) t s = Inr (err, s')" if "t \<in> open_ttys s" for t
    using that stage_exit_returns [OF fine] by (simp add: any_cli_def)
qed

section \<open>What else happens to the terminals\<close>

text \<open>The idle timer's receive, and what the stream of a kubernetes exec does to its ends of the pipes.\<close>

fun set_chan :: "active_chan \<Rightarrow> 'w backend_tty \<Rightarrow> 'w backend_tty" where
  "set_chan ch (DockerTTY cli enj) = DockerTTY cli (enj\<lparr>dt_active := ch\<rparr>)"
| "set_chan ch (KubeTTY enj ex) = KubeTTY (enj\<lparr>kt_active := ch\<rparr>) ex"
| "set_chan ch (GrpcTTY enj) = GrpcTTY (enj\<lparr>ew_active := ch\<rparr>)"

inductive kube_stream :: "kube_tty \<Rightarrow> kube_tty \<Rightarrow> bool" where
  stdout: "pipe_write bs (kt_out enj) = (r, pp) \<Longrightarrow> kube_stream enj (enj\<lparr>kt_out := pp\<rparr>)"
| stdin: "pipe_read p (kt_in enj) = Inr (n, p', e, pp) \<Longrightarrow> kube_stream enj (enj\<lparr>kt_in := pp\<rparr>)"
| window: "sq_Next (kt_sq enj) = (sz, sq) \<Longrightarrow> kube_stream enj (enj\<lparr>kt_sq := sq\<rparr>)"
| finished: "kube_stream enj (kube_exec_done enj)"

text \<open>
  Everything that others do to the backend while the server runs its handlers: the loops of the
  bridges read, write and resize, also after the end of their session; idle timers receive; the
  streams move; web pages and control requests call the other methods; the world changes.
\<close>

inductive stage_env :: "(duration \<Rightarrow> 'w \<Rightarrow> 'w) \<Rightarrow> 'w stage \<Rightarrow> 'w stage \<Rightarrow> bool" for sleep :: "duration \<Rightarrow> 'w \<Rightarrow> 'w" where
  reads: "stage_Read h p s = Inr (n, p', err, s') \<Longrightarrow> stage_env sleep s s'"
| writes: "stage_Write h p s = Inr (r, s') \<Longrightarrow> stage_env sleep s s'"
| resizes: "stage_Resize sleep h width height s = Inr (err, s') \<Longrightarrow> stage_env sleep s s'"
| receives: "h < length (sg_ttys s) \<Longrightarrow> recv_active (tty_chan (sg_ttys s ! h)) = Some (ok, ch) \<Longrightarrow>
    stage_env sleep s (s\<lparr>sg_ttys := (sg_ttys s)[h := set_chan ch (sg_ttys s ! h)]\<rparr>)"
| streams: "h < length (sg_ttys s) \<Longrightarrow> sg_ttys s ! h = KubeTTY enj ex \<Longrightarrow> kube_stream enj enj' \<Longrightarrow>
    stage_env sleep s (s\<lparr>sg_ttys := (sg_ttys s)[h := KubeTTY enj' ex]\<rparr>)"
| infos: "on_backend (any_GetInfo cid) s = Inr (c, s') \<Longrightarrow> stage_env sleep s s'"
| lists: "on_backend any_List s = Inr (cs, s') \<Longrightarrow> stage_env sleep s s'"
| controls: "f \<in> {any_Start cid, any_Stop cid, any_Restart cid} \<Longrightarrow> on_backend f s = Inr (err, s') \<Longrightarrow> stage_env sleep s s'"
| logs: "on_backend (any_Logs opts) s = Inr (r, s') \<Longrightarrow> stage_env sleep s s'"
| world: "stage_env sleep s (s\<lparr>sg_world := w\<rparr>)"

lemma set_chan_kept:
  "recv_active (tty_chan t) = Some (ok, ch) \<Longrightarrow> tty_kept t (set_chan ch t)"
  by (cases t) (auto simp: tty_kept_def tty_open_def recv_active_def split: if_splits)

lemma kube_stream_kept: "kube_stream enj enj' \<Longrightarrow> tty_kept (KubeTTY enj ex) (KubeTTY enj' ex)"
  by (cases rule: kube_stream.cases)
    (auto simp: tty_kept_def tty_open_def sq_Next_def kube_exec_done_def split: list.splits)

lemma stage_env_keeps: "stage_env sleep s s' \<Longrightarrow> stage_fine s \<Longrightarrow> stage_fine s' \<and> open_ttys s' = open_ttys s"
proof (induction rule: stage_env.induct)
  case (reads h p s n p' err s')
  then have "on_tty h (\<lambda>x. obind (any_tty_read p x) (\<lambda>(n, p, err, x). Inr ((n, p, err), x))) s = Inr ((n, p', err), s')"
    by (auto simp: stage_Read_def)
  then show ?case using reads.prems by (rule on_tty_keeps) (auto dest: read_kept)
next
  case (writes h p s r s')
  then show ?case unfolding stage_Write_def by (intro on_tty_keeps [of h _ s r s']) (auto dest: write_kept)
next
  case (resizes h width height s err s')
  then show ?case unfolding stage_Resize_def by (intro on_tty_keeps [of h _ s err s']) (auto dest: resize_kept)
next
  case (receives h s ok ch)
  then show ?case using update_keeps [OF _ set_chan_kept, of h s ok ch "sg_world s"] by simp
next
  case (streams h s enj ex enj')
  then show ?case using update_keeps [OF streams.hyps(1), of "KubeTTY enj' ex" "sg_world s"]
    by (simp add: kube_stream_kept)
next
  case (controls f cid s err s')
  from controls.hyps(2) controls.prems show ?case by (rule stage_backend_keeps)
next
  case (world s w)
  then show ?case by (simp add: stage_fine_def open_ttys_def)
qed (rule stage_backend_keeps; assumption)+

section \<open>Every terminal is left once\<close>

definition new_stage :: "'w backend \<Rightarrow> 'w \<Rightarrow> 'w stage" where
  "new_stage b w = \<lparr>sg_backend = b, sg_world = w, sg_ttys = []\<rparr>"

lemma live_accounted:
  "(live_step (any_cli sleep read_log) (stage_env sleep))\<^sup>*\<^sup>* (new_hub options (new_stage b w)) h \<Longrightarrow>
     accounted open_ttys stage_fine h"
  by (rule any_table.accounted_live [OF stage_env_keeps]) (simp_all add: new_stage_def stage_fine_def open_ttys_def)


text \<open>A terminal that docker's client opens for the examples, by way of a redirect and a request.\<close>

abbreviation docker_table :: "(int stage, nat, int backend_log) cli" where
  "docker_table \<equiv> any_cli (\<lambda>d w. w) (\<lambda>r p s. Inr (0, p, Some EOF, s))"

abbreviation docker_life :: "(nat, int stage) hub \<Rightarrow> (nat, int stage) hub \<Rightarrow> bool" where
  "docker_life \<equiv> live_step docker_table (stage_env (\<lambda>d w. w))"

definition docker_stage :: "int stage" where
  "docker_stage = new_stage (DockerBackend (sample_docker ''/bin/ash'')) 5"

definition docker_id :: string where "docker_id = new_ID (\<lambda>i. i) ''aaaaaaaaaaaa''"

definition docker_server :: server where
  "docker_server = \<lparr>sr_options = zero_server, sr_hostname = [], sr_execs = [(docker_id, ''aaaaaaaaaaaa'')], sr_masters = []\<rparr>"

abbreviation docker_container :: container where
  "docker_container \<equiv> sample_cached ''aaaaaaaaaaaaaa01'' ''/bin/ash''"

definition docker_hub :: "(nat, int stage) hub" where
  "docker_hub =
     \<lparr>hub_server = docker_server, hub_state = docker_stage, hub_calls = [(docker_id, docker_container)],
      hub_running = [], hub_next = 0\<rparr>"

lemma docker_hub_reachable: "docker_life\<^sup>*\<^sup>* (new_hub zero_server docker_stage) docker_hub"
proof -
  let ?h = "docker_hub\<lparr>hub_calls := []\<rparr>"
  have "docker_life (new_hub zero_server docker_stage) ?h"
    using redirect [of "\<lambda>i. i" "''aaaaaaaaaaaa''" "[]" "new_hub zero_server docker_stage" _ docker_server docker_table]
    by (intro serve)
      (simp add: handleExecRedirect_def setContainerID_def docker_hub_def docker_server_def docker_id_def new_hub_def Let_def)
  moreover have "handleExec docker_table docker_id docker_server docker_stage = Inr (Fresh docker_container, docker_stage)"
    by (simp add: handleExec_def getContainerID_def any_cli_def on_backend_def docker_server_def docker_stage_def
        new_stage_def wrap_state_def sample_docker_info)
  then have "docker_life ?h docker_hub"
    using call [of docker_table docker_id ?h docker_container docker_stage]
    by (intro serve) (simp add: docker_hub_def)
  ultimately show ?thesis by (meson converse_rtranclp_into_rtranclp rtranclp.rtrancl_refl)
qed

lemma docker_hub_opens:
  "\<exists>h ptr se. docker_life\<^sup>*\<^sup>* (new_hub zero_server docker_stage) h \<and> hub_running h = [(ptr, se)] \<and> se_tty se = 0"
proof -
  obtain se srv' s' where
    run: "process_open calm_answers docker_table 0 docker_id docker_container docker_server docker_stage = Inr (Inr se, srv', s')"
    and h: "se_tty se = 0"
    by (auto simp: process_open_def calm_answers_def readInitMessage_def zero_server_def parseQuery_def
        makeTitleBuff_text NewMasterTTY_def sample_cached_def Let_def any_cli_def stage_Exec_def on_backend_def
        docker_stage_def docker_server_def new_stage_def wrap_state_def docker_Exec_def lift_call_def
        sample_docker_def sample_daemon_def)
  let ?h = "docker_hub\<lparr>hub_server := srv', hub_state := s', hub_calls := [], hub_running := [(0, se)], hub_next := 1\<rparr>"
  have "docker_life docker_hub ?h"
    using hub_step.opened [of docker_id docker_container docker_hub calm_answers docker_table se srv' s'] run
    by (intro serve) (simp add: docker_hub_def)
  with docker_hub_reachable have "docker_life\<^sup>*\<^sup>* (new_hub zero_server docker_stage) ?h"
    by (rule rtranclp.rtrancl_into_rtrancl)
  moreover have "hub_running ?h = [(0, se)]" by simp
  ultimately show ?thesis using h by blast
qed


section \<open>No request makes its handler panic\<close>

definition stage_safe :: "'w stage \<Rightarrow> bool" where
  "stage_safe s \<longleftrightarrow> stage_fine s \<and> any_inv (sg_backend s, sg_world s)"

lemma any_inv_world: "any_inv (b, w) \<Longrightarrow> any_inv (b, w')"
  by (cases b) (simp_all add: docker_inv_def kube_inv_def grpc_inv_def)

lemma on_backend_inv:
  assumes "on_backend f s = Inr (x, s')" and "stage_safe s"
    and "\<And>s x s'. any_inv s \<Longrightarrow> f s = Inr (x, s') \<Longrightarrow> any_inv s'"
  shows "any_inv (sg_backend s', sg_world s')"
  using assms(1,2) by (auto simp: on_backend_def stage_safe_def dest: assms(3))

lemma on_tty_inv:
  "on_tty h f s = Inr (x, s') \<Longrightarrow> stage_safe s \<Longrightarrow> any_inv (sg_backend s', sg_world s')"
  by (auto simp: on_tty_def stage_safe_def split: if_splits intro: any_inv_world)

lemma stage_Exec_inv:
  assumes "stage_Exec c s = Inr (r, s')" and "stage_safe s"
  shows "any_inv (sg_backend s', sg_world s')"
proof -
  obtain r1 s1 where s1: "on_backend (any_Exec c) s = Inr (r1, s1)"
    and "sg_backend s' = sg_backend s1" and "sg_world s' = sg_world s1"
    using assms(1) by (auto simp: stage_Exec_def exec_result_cases)
  then show ?thesis using on_backend_inv [OF s1 assms(2) any.op_inv(6)] by simp
qed

interpretation any_safe: safe_table "any_cli sleep read_log" open_ttys stage_safe
proof unfold_locales
  fix s s' :: "'a stage"
  assume safe: "stage_safe s"
  then have fine: "stage_fine s" by (simp add: stage_safe_def)
  have inv: "any_inv (sg_backend s, sg_world s)" using safe by (simp add: stage_safe_def)
  show "stage_safe s' \<and> open_ttys s' = open_ttys s" if "be_GetInfo (any_cli sleep read_log) cid s = Inr (c, s')" for cid c
    using any_table.GetInfo_keeps [OF fine that] on_backend_inv [of "any_GetInfo cid" s c s', OF _ safe any.op_inv(1)] that
    by (simp add: stage_safe_def any_cli_def)
  show "stage_safe s' \<and> open_ttys s' = open_ttys s" if "be_Exec (any_cli sleep read_log) c s = Inr (Inl e, s')" for c e
    using any_table.Exec_fails [OF fine that] stage_Exec_inv [of c s "Inl e" s'] that safe
    by (simp add: stage_safe_def any_cli_def)
  show "stage_safe s' \<and> t \<notin> open_ttys s \<and> open_ttys s' = insert t (open_ttys s)"
    if "be_Exec (any_cli sleep read_log) c s = Inr (Inr t, s')" for c t
    using any_table.Exec_opens [OF fine that] stage_Exec_inv [of c s "Inr t" s'] that safe
    by (simp add: stage_safe_def any_cli_def)
  show "stage_safe s' \<and> open_ttys s' = open_ttys s - {t}" if "tty_Exit (any_cli sleep read_log) t s = Inr (err, s')" for t err
    using any_table.Exit_closes [OF fine that] on_tty_inv [of t any_Exit s err s'] that safe
    by (simp add: stage_safe_def any_cli_def)
  show "\<exists>err s'. tty_Exit (any_cli sleep read_log) t s = Inr (err, s')" if "t \<in> open_ttys s" for t
    using any_table.Exit_returns [OF fine that] .
  show "\<exists>c s'. be_GetInfo (any_cli sleep read_log) cid s = Inr (c, s') \<and> info_ok c" for cid
    using any.GetInfo_ok [OF inv, of cid] by (auto simp: any_cli_def on_backend_def)
  show "\<exists>r s'. be_Exec (any_cli sleep read_log) c s = Inr (r, s')" for c
  proof -
    obtain x b w where "any_Exec c (sg_backend s, sg_world s) = Inr (x, b, w)" using any.Exec_ok [OF inv, of c] by auto
    then show ?thesis by (cases x) (simp_all add: any_cli_def stage_Exec_def on_backend_def)
  qed
qed

lemma stage_env_safe: "stage_env sleep s s' \<Longrightarrow> stage_safe s \<Longrightarrow> stage_safe s' \<and> open_ttys s' = open_ttys s"
proof -
  assume env: "stage_env sleep s s'" and safe: "stage_safe s"
  have "any_inv (sg_backend s', sg_world s')"
    using env
  proof cases
    case (reads h p n p' err)
    then show ?thesis
      using safe by (auto simp: stage_Read_def dest: on_tty_inv)
  next
    case (writes h p r)
    then show ?thesis
      using safe by (auto simp: stage_Write_def dest: on_tty_inv)
  next
    case (resizes h width height err)
    then show ?thesis
      using safe by (auto simp: stage_Resize_def dest: on_tty_inv)
  next
    case (infos cid c)
    then show ?thesis by (rule on_backend_inv [OF _ safe any.op_inv(1)])
  next
    case (lists cs)
    then show ?thesis by (rule on_backend_inv [OF _ safe any.op_inv(2)])
  next
    case (controls f cid err)
    then show ?thesis using on_backend_inv [OF controls(2) safe] any.op_inv(3-5) by blast
  next
    case (logs opts r)
    then show ?thesis by (rule on_backend_inv [OF _ safe any.op_inv(7)])
  next
    case (world w)
    then show ?thesis using safe by (auto simp: stage_safe_def intro: any_inv_world)
  qed (use safe in \<open>simp_all add: stage_safe_def\<close>)
  then show ?thesis using stage_env_keeps [OF env] safe by (simp add: stage_safe_def)
qed

lemma new_stage_safe: "any_inv (b, w) \<Longrightarrow> stage_safe (new_stage b w)" "open_ttys (new_stage b w) = {}"
  by (simp_all add: stage_safe_def stage_fine_def new_stage_def open_ttys_def)

lemma live_safe:
  assumes "any_inv (b, w)"
    and "(live_step (any_cli sleep read_log) (stage_env sleep))\<^sup>*\<^sup>* (new_hub options (new_stage b w)) h"
  shows "stage_safe (hub_state h)"
  using any_safe.accounted_live [OF stage_env_safe new_stage_safe(1) [OF assms(1)] new_stage_safe(2) assms(2)]
  by (simp add: accounted_def)



section \<open>The other requests\<close>

text \<open>With the other methods of the backend, every handler returns, and none opens or closes a terminal.\<close>

locale page_table = safe_table cli opens good
  for cli :: "('s, 't, 'r) cli" and opens :: "'s \<Rightarrow> 't set" and good :: "'s \<Rightarrow> bool" +
  assumes List_safe: "good s \<Longrightarrow> \<exists>cs s'. be_List cli s = Inr (cs, s') \<and> good s' \<and> opens s' = opens s"
    and Start_safe: "good s \<Longrightarrow> \<exists>e s'. be_Start cli cid s = Inr (e, s') \<and> good s' \<and> opens s' = opens s"
    and Stop_safe: "good s \<Longrightarrow> \<exists>e s'. be_Stop cli cid s = Inr (e, s') \<and> good s' \<and> opens s' = opens s"
    and Restart_safe: "good s \<Longrightarrow> \<exists>e s'. be_Restart cli cid s = Inr (e, s') \<and> good s' \<and> opens s' = opens s"
    and Logs_safe: "good s \<Longrightarrow> \<exists>r s'. be_Logs cli opts s = Inr (r, s') \<and> good s' \<and> opens s' = opens s"
begin

lemma GetInfo_returns: "good s \<Longrightarrow> \<exists>c s'. be_GetInfo cli cid s = Inr (c, s') \<and> good s' \<and> opens s' = opens s"
  using GetInfo_safe [of s cid] GetInfo_keeps [of s cid] by blast

lemma list_page_returns:
  assumes "good s"
  shows "\<exists>vars s'. handleListContainers cli srv s = Inr (vars, s') \<and> opens s' = opens s"
  using List_safe [OF assms] by (auto simp: handleListContainers_def)

lemma index_page_returns:
  assumes "good s"
  shows "\<exists>r s'. handleWSIndex cli cid eid srv s = Inr (r, s') \<and> opens s' = opens s"
proof (cases "if cid = [] then getContainerID eid srv else Some cid")
  case (Some containerID)
  then show ?thesis
    using GetInfo_returns [OF assms, of containerID] by (auto simp: handleWSIndex_def titleVariables_def update_conv Let_def)
qed (simp add: handleWSIndex_def)

text \<open>A control request cuts the ID of its path for the message, after the action has been done.\<close>

lemma control_returns:
  assumes "good s" and "7 \<le> length cid"
  shows "\<exists>r s'. handleContainerActions cli action cid s = Inr (r, s') \<and> opens s' = opens s"
proof -
  have "\<exists>e s'. (if action = ''start'' then be_Start cli cid s else if action = ''stop'' then be_Stop cli cid s
      else if action = ''restart'' then be_Restart cli cid s else Inr (None, s)) = Inr (e, s') \<and> opens s' = opens s"
    using Start_safe [OF assms(1)] Stop_safe [OF assms(1)] Restart_safe [OF assms(1)] by (metis (full_types))
  then obtain e s' where "(if action = ''start'' then be_Start cli cid s else if action = ''stop'' then be_Stop cli cid s
      else if action = ''restart'' then be_Restart cli cid s else Inr (None, s)) = Inr (e, s')" and "opens s' = opens s"
    by blast
  then show ?thesis using assms(2) by (cases e) (auto simp: handleContainerActions_def)
qed

lemma share_returns:
  assumes "good s" and "wa_PubSub wa = None"
  shows "\<exists>r s'. processShare wa cli fresh execID m srv s = Inr (r, s') \<and> opens s' = opens s"
proof (cases "getContainerID execID srv")
  case (Some cid)
  obtain c s' where "be_GetInfo cli cid s = Inr (c, s')" "opens s' = opens s"
    using GetInfo_returns [OF assms(1), of cid] by blast
  then show ?thesis
    using assms(2) Some by (cases "wa_Upgrade wa") (simp_all add: processShare_def makeTitleBuff_text Fork_def Let_def)
qed (cases "wa_Upgrade wa"; simp add: processShare_def Let_def)

text \<open>The log page closes the stream it was given: it panics just when it got neither a stream nor an error.\<close>

lemma log_page_returns:
  assumes "good s"
  shows "(\<exists>r s'. handleLogs wa cli cid srv s = Inr (r, s') \<and> opens s' = opens s) \<or>
    (\<exists>c s1 q s2. be_GetInfo cli cid s = Inr (c, s1) \<and> be_Logs cli (log_options_of cid q) s1 = Inr ((None, None), s2))"
proof -
  obtain c s1 where info: "be_GetInfo cli cid s = Inr (c, s1)" "good s1" "opens s1 = opens s"
    using GetInfo_returns [OF assms] by blast
  have logs: "\<exists>rc err s2. be_Logs cli (log_options_of cid q) s1 = Inr ((rc, err), s2) \<and> opens s2 = opens s" for q
    using Logs_safe [OF info(2), of "log_options_of cid q"] info(3) by (metis prod.collapse)
  consider "wa_Upgrade wa \<noteq> None" | e where "wa_Upgrade wa = None" "readInitMessage (wa_Unmarshal wa) (sr_options srv) (wa_ReadMessage wa) = Inl e"
    | m e where "wa_Upgrade wa = None" "readInitMessage (wa_Unmarshal wa) (sr_options srv) (wa_ReadMessage wa) = Inr m"
        "parseQuery (wa_Parse wa) m = Inl e"
    | m q where "wa_Upgrade wa = None" "readInitMessage (wa_Unmarshal wa) (sr_options srv) (wa_ReadMessage wa) = Inr m"
        "parseQuery (wa_Parse wa) m = Inr q"
    by (cases "wa_Upgrade wa"; cases "readInitMessage (wa_Unmarshal wa) (sr_options srv) (wa_ReadMessage wa)";
        cases "parseQuery (wa_Parse wa) (projr (readInitMessage (wa_Unmarshal wa) (sr_options srv) (wa_ReadMessage wa)))") auto
  then show ?thesis
  proof cases
    case (4 m q)
    obtain rc err s2 where l: "be_Logs cli (log_options_of cid q) s1 = Inr ((rc, err), s2)" "opens s2 = opens s"
      using logs by blast
    have opts: "l_ID (log_options_of cid q) = cid" by (simp add: log_options_of_def)
    show ?thesis
    proof (cases "err = None \<and> rc = None")
      case True
      then show ?thesis using info(1) l(1) by blast
    next
      case False
      then show ?thesis using 4 info l opts
        by (cases err; cases rc) (simp_all add: handleLogs_def makeTitleBuff_text Let_def)
    qed
  qed (auto simp: handleLogs_def)
qed

end

lemma backend_method_safe:
  assumes "stage_safe s" and "\<exists>x t'. f (sg_backend s, sg_world s) = Inr (x, t') \<and> any_inv t'"
  shows "\<exists>x s'. on_backend f s = Inr (x, s') \<and> stage_safe s' \<and> open_ttys s' = open_ttys s"
proof -
  obtain x b w where f: "f (sg_backend s, sg_world s) = Inr (x, b, w)" "any_inv (b, w)" using assms(2) by auto
  then have run: "on_backend f s = Inr (x, s\<lparr>sg_backend := b, sg_world := w\<rparr>)" by (simp add: on_backend_def)
  have "stage_fine s" using assms(1) by (simp add: stage_safe_def)
  then show ?thesis using stage_backend_keeps [OF run] run f(2) by (simp add: stage_safe_def)
qed

interpretation any_pages: page_table "any_cli sleep read_log" open_ttys stage_safe
proof unfold_locales
  fix s :: "'a stage"
  assume safe: "stage_safe s"
  then have inv: "any_inv (sg_backend s, sg_world s)" by (simp add: stage_safe_def)
  show "\<exists>cs s'. be_List (any_cli sleep read_log) s = Inr (cs, s') \<and> stage_safe s' \<and> open_ttys s' = open_ttys s"
    using backend_method_safe [OF safe, of any_List] any.List_ok [OF inv] by (auto simp: any_cli_def)
  show "\<exists>e s'. be_Start (any_cli sleep read_log) cid s = Inr (e, s') \<and> stage_safe s' \<and> open_ttys s' = open_ttys s" for cid
    using backend_method_safe [OF safe, of "any_Start cid"] any.Start_ok [OF inv, of cid] by (simp add: any_cli_def)
  show "\<exists>e s'. be_Stop (any_cli sleep read_log) cid s = Inr (e, s') \<and> stage_safe s' \<and> open_ttys s' = open_ttys s" for cid
    using backend_method_safe [OF safe, of "any_Stop cid"] any.Stop_ok [OF inv, of cid] by (simp add: any_cli_def)
  show "\<exists>e s'. be_Restart (any_cli sleep read_log) cid s = Inr (e, s') \<and> stage_safe s' \<and> open_ttys s' = open_ttys s" for cid
    using backend_method_safe [OF safe, of "any_Restart cid"] any.Restart_ok [OF inv, of cid] by (simp add: any_cli_def)
  show "\<exists>r s'. be_Logs (any_cli sleep read_log) opts s = Inr (r, s') \<and> stage_safe s' \<and> open_ttys s' = open_ttys s" for opts
    using backend_method_safe [OF safe, of "any_Logs opts"] any.Logs_ok [OF inv, of opts] by (simp add: any_cli_def)
qed

text \<open>
  C8. No other request makes its handler panic either, with any of the three backends, in any state
  of the server's life, whatever the request carries, and none opens or closes a terminal: the
  list, the page of a terminal or of a log, a control request whose ID has at least the seven bytes
  that the message cuts, a follower that joins a terminal, unless its subscription fails, and the
  log page, unless the backend's client hands out neither a stream nor an error.
\<close>

theorem page_requests_safe:
  assumes "any_inv (b, w)"
    and "(live_step (any_cli sleep read_log) (stage_env sleep))\<^sup>*\<^sup>* (new_hub options (new_stage b w)) h"
    and "7 \<le> length cid"
  shows "(\<exists>vars s'. handleListContainers (any_cli sleep read_log) srv (hub_state h) = Inr (vars, s') \<and>
      open_ttys s' = open_ttys (hub_state h)) \<and>
    (\<exists>r s'. handleWSIndex (any_cli sleep read_log) cid' eid srv (hub_state h) = Inr (r, s') \<and>
      open_ttys s' = open_ttys (hub_state h)) \<and>
    (\<exists>r s'. handleContainerActions (any_cli sleep read_log) action cid (hub_state h) = Inr (r, s') \<and>
      open_ttys s' = open_ttys (hub_state h)) \<and>
    ((\<exists>r s'. processShare wa (any_cli sleep read_log) fresh e m srv (hub_state h) = Inr (r, s') \<and>
        open_ttys s' = open_ttys (hub_state h)) \<or> wa_PubSub wa \<noteq> None) \<and>
    ((\<exists>r s'. handleLogs wa (any_cli sleep read_log) cid' srv (hub_state h) = Inr (r, s') \<and>
        open_ttys s' = open_ttys (hub_state h)) \<or>
     (\<exists>c s1 q s2. be_GetInfo (any_cli sleep read_log) cid' (hub_state h) = Inr (c, s1) \<and>
        be_Logs (any_cli sleep read_log) (log_options_of cid' q) s1 = Inr ((None, None), s2)))"
proof -
  have safe: "stage_safe (hub_state h)" using assms(1,2) by (rule live_safe)
  show ?thesis
    using any_pages.share_returns [OF safe, of wa sleep read_log fresh e m srv]
    by (intro conjI any_pages.list_page_returns [OF safe] any_pages.index_page_returns [OF safe]
        any_pages.control_returns [OF safe assms(3)] any_pages.log_page_returns [OF safe]) blast
qed

theorem page_requests_safe_witness:
  "\<exists>r s'. handleContainerActions docker_table ''restart'' ''aaaaaaaaaaaa'' docker_stage = Inr (r, s') \<and> open_ttys s' = {}"
proof -
  have "any_inv (DockerBackend (sample_docker ''/bin/ash''), 5)" by (simp add: sample_docker_inv)
  moreover have "7 \<le> length ''aaaaaaaaaaaa''" by simp
  moreover have "open_ttys docker_stage = {}" by (simp add: docker_stage_def new_stage_def open_ttys_def)
  ultimately show ?thesis
    using page_requests_safe [OF _ docker_hub_reachable [unfolded docker_stage_def], of "''aaaaaaaaaaaa''"]
    by (simp add: docker_hub_def docker_stage_def)
qed

section \<open>A read after the end\<close>

text \<open>
  \<open>Run\<close> of the bridge returns while its loops still wait in a \<open>Read\<close> (theory \<open>Webtty\<close>), so that the
  slave's loop may read once more when the session has been left.
\<close>

definition timer_receives :: "'w backend_tty \<Rightarrow> 'w backend_tty" where
  "timer_receives t = (case recv_active (tty_chan t) of None \<Rightarrow> t | Some (ok, ch) \<Rightarrow> set_chan ch t)"

lemma tty_chan_set [simp]: "tty_chan (set_chan ch t) = ch"
  by (cases t) simp_all

lemma read_reports: "touch_active (tty_chan t) = Inl e \<Longrightarrow> any_tty_read p (t, w) = Inl e"
  by (cases t) (simp_all add: docker_tty_read_def kube_tty_read_def wrapper_read_def)

lemma fine_len: "tty_fine t \<Longrightarrow> ac_len (tty_chan t) \<le> 1"
  by (cases t) simp_all

text \<open>
  C40. A read after the end of a session: let a terminal of any of the three backends have been
  read, and then be left.  If the idle timer has taken the token of the last read in between, which
  it does when an idle time is set, every later \<open>Read\<close> sends into the closed channel \<open>activeChan\<close>,
  in a goroutine that nobody recovers, and takes the whole server down; without an idle time the
  token is still there and a later \<open>Read\<close> reports nothing and leaves the channel alone.
\<close>

theorem read_after_exit:
  assumes "any_tty_read p (t, w) = Inr (n, p', err, t1, w1)" and "tty_fine t"
    and "any_Exit (if idle then timer_receives t1 else t1, w2) = Inr (e, t2, w3)"
  shows "if idle then any_tty_read q (t2, w4) = Inl ClosedChan
    else touch_active (any_ActiveChan (t2, w4)) = Inr (any_ActiveChan (t2, w4))"
proof -
  have one: "ac_len (tty_chan t1) = 1"
    using any_terminal.read_active [OF assms(1)] fine_len [OF assms(2)]
    by (cases "tty_chan t", cases "tty_chan t1") (auto simp: touch_active_def split: if_splits)
  have cl: "close_active (tty_chan (if idle then timer_receives t1 else t1)) = Inr (tty_chan t2)"
    using any_terminal.exit_active [OF assms(3)] by simp
  show ?thesis
  proof (cases idle)
    case True
    then have "tty_chan t2 = \<lparr>ac_len = 0, ac_closed = True\<rparr>"
      using cl one by (cases "tty_chan t1") (auto simp: timer_receives_def recv_active_def close_active_def split: if_splits)
    then show ?thesis using True by (simp add: read_reports touch_active_def)
  next
    case False
    then show ?thesis using cl one
      by (cases "tty_chan t1", cases "tty_chan t2") (auto simp: touch_active_def close_active_def split: if_splits)
  qed
qed

theorem read_after_exit_witness:
  "\<exists>t2. any_Exit (timer_receives (DockerTTY sample_daemon \<lparr>dt_hResp = 1, dt_execID = ''e1'', dt_active = \<lparr>ac_len = 1, ac_closed = False\<rparr>\<rparr>), 5) =
      Inr (None, t2, 5) \<and> any_tty_read [] (t2, 5) = Inl ClosedChan"
proof -
  let ?t = "\<lambda>ch. DockerTTY sample_daemon \<lparr>dt_hResp = 1, dt_execID = ''e1'', dt_active = ch\<rparr>"
  have rd: "any_tty_read [] (?t new_active, 5) = Inr (0, [], Some EOF, ?t \<lparr>ac_len = 1, ac_closed = False\<rparr>, 5)"
    by (simp add: docker_tty_read_def sample_daemon_def new_active_def touch_active_def)
  have fine: "tty_fine (?t new_active)" by (simp add: new_active_def)
  have ex: "any_Exit (if True then timer_receives (?t \<lparr>ac_len = 1, ac_closed = False\<rparr>) else ?t \<lparr>ac_len = 1, ac_closed = False\<rparr>, 5) =
      Inr (None, ?t \<lparr>ac_len = 0, ac_closed = True\<rparr>, 5)"
    by (simp add: timer_receives_def recv_active_def docker_Exit_def docker_tty_write_def close_active_def sample_daemon_def Let_def)
  from read_after_exit [OF rd fine ex, of "[]" 5]
  have "any_tty_read [] (?t \<lparr>ac_len = 0, ac_closed = True\<rparr>, 5) = Inl ClosedChan" by simp
  then show ?thesis
    by (simp add: timer_receives_def recv_active_def docker_Exit_def docker_tty_write_def close_active_def sample_daemon_def Let_def)
qed

end
