(* ===== verification/AuditLog.thy ===== *)
theory AuditLog
  imports Tty GoStrings
begin

text \<open>
  audit/audit.go: the auditor of a terminal, which copies what a follower reads into a file.  The
  answers of the operating system are one record; the file is its contents; whether the context
  was still alive at each turn of the loop is a list of answers, whose end is its cancellation.
\<close>

record log_opts =
  lg_Dir :: string
  lg_ContainerID :: string
  lg_ClientIP :: string

record audit_os =
  os_Getwd :: "error + string"
  os_IsNotExist :: "string \<Rightarrow> bool"
  os_MkdirAll :: "string \<Rightarrow> error option"
  os_Unix :: int
  os_Create :: "string \<Rightarrow> error option"
  os_WriteAt :: "nat \<Rightarrow> error option" \<comment> \<open>by the offset\<close>

definition has_prefix :: "string \<Rightarrow> string \<Rightarrow> bool" where
  "has_prefix s p \<longleftrightarrow> take (length p) s = p"

text \<open>The directory and the file, or \<^const>\<open>None\<close> when the code gives up before it has a file.\<close>

definition log_dir :: "audit_os \<Rightarrow> log_opts \<Rightarrow> string option outcome" where
  "log_dir os opts =
     (case (if has_prefix (lg_Dir opts) ''/'' then Inr (lg_Dir opts)
            else map_sum id (\<lambda>pwd. path_join [pwd, lg_Dir opts]) (os_Getwd os)) of
        Inl err \<Rightarrow> Inr None
      | Inr logDir \<Rightarrow>
          obind (go_slice 0 12 (lg_ContainerID opts)) (\<lambda>short.
            let logDir = path_join [logDir, short] in
            if os_IsNotExist os logDir \<and> os_MkdirAll os logDir \<noteq> None then Inr None
            else Inr (Some logDir)))"

definition log_file :: "audit_os \<Rightarrow> log_opts \<Rightarrow> string outcome" where
  "log_file os opts =
     obind (index (split_on (CHR '':'') (lg_ClientIP opts)) 0) (\<lambda>ip. Inr (ip @ ''-'' @ int_str (os_Unix os) @ ''.log''))"

text \<open>\<open>f.WriteAt(p, off)\<close> on the contents of a file; a gap is filled with zero bytes.\<close>

definition write_at :: "nat \<Rightarrow> bytes \<Rightarrow> bytes \<Rightarrow> bytes" where
  "write_at off p file =
     take off (file @ replicate (off - length file) (CHR 0x00)) @ p @ drop (off + length p) file"

lemma write_at_end [simp]: "write_at (length file) p file = file @ p"
  by (simp add: write_at_def)

text \<open>The loop: the contents of the file, the state of what is read, and why it stopped.\<close>

datatype audit_stop = Cancelled | ReadEOF | ReadError error | WriteError error

fun audit_loop ::
    "(nat \<Rightarrow> error option) \<Rightarrow> 's reader \<Rightarrow> bool list \<Rightarrow> bytes \<Rightarrow> nat \<Rightarrow> bytes \<Rightarrow> 's \<Rightarrow> (bytes \<times> 's \<times> audit_stop) outcome" where
  "audit_loop write_err read [] buff start file s = Inr (file, s, Cancelled)"
| "audit_loop write_err read (False # alive) buff start file s = Inr (file, s, Cancelled)"
| "audit_loop write_err read (True # alive) buff start file s =
     obind (read buff s) (\<lambda>(n, buff, err, s).
       case err of
         Some e \<Rightarrow> Inr (file, s, if e = EOF then ReadEOF else ReadError e)
       | None \<Rightarrow>
           obind (go_slice 0 n buff) (\<lambda>p.
             case write_err start of
               Some e \<Rightarrow> Inr (file, s, WriteError e)
             | None \<Rightarrow> audit_loop write_err read alive buff (start + n) (write_at start p file) s))"

text \<open>\<open>LogTo\<close>: the path of the file with its contents, or nothing when there was no file.\<close>

definition LogTo ::
    "audit_os \<Rightarrow> bool list \<Rightarrow> 's reader \<Rightarrow> log_opts \<Rightarrow> 's \<Rightarrow> (string \<times> bytes \<times> 's \<times> audit_stop) option outcome" where
  "LogTo os alive r opts s =
     obind (log_dir os opts) (\<lambda>dir.
       case dir of
         None \<Rightarrow> Inr None
       | Some logDir \<Rightarrow>
           obind (log_file os opts) (\<lambda>name.
             let fPath = path_join [logDir, name] in
             if os_Create os fPath \<noteq> None then Inr None
             else obind (audit_loop (os_WriteAt os) r alive (replicate 2048 (CHR 0x00)) 0 [] s) (\<lambda>(file, s, why).
                    Inr (Some (fPath, file, s, why)))))"

section \<open>What the file holds\<close>

text \<open>A reader under its contract: each turn appends what was read, nothing else.\<close>

context go_reader
begin

lemma audit_turn:
  assumes "read buff s = Inr (n, buff', None, s')" and "\<forall>off. write_err off = None"
  shows "audit_loop write_err read (True # alive) buff (length file) file s =
    audit_loop write_err read alive buff' (length (file @ take n buff')) (file @ take n buff') s'"
  using assms read_contract [OF assms(1)] by simp

end

lemma audit_live:
  assumes "s_masterOutputs s = []" and "\<forall>m \<in> set ms. length m \<le> length buff" and "\<forall>off. write_err off = None"
  shows "\<exists>buff'. length buff' = length buff \<and>
    audit_loop write_err slave_read (replicate (length ms) True @ alive) buff (length out) out (s, ms) =
    audit_loop write_err slave_read alive buff' (length (out @ concat ms)) (out @ concat ms) (s, [])"
  using assms(2)
proof (induction ms arbitrary: buff out)
  case (Cons m ms)
  let ?buff = "m @ drop (length m) buff"
  have read: "slave_read buff (s, m # ms) = Inr (length m, ?buff, None, (s, ms))"
    using assms(1) Cons.prems by (simp add: slave_read_live)
  have "length ?buff = length buff" "\<forall>x \<in> set ms. length x \<le> length ?buff" using Cons.prems by simp_all
  with Cons.IH [of ?buff "out @ m"] show ?case
    using follower.audit_turn [OF read assms(3), of "replicate (length ms) True @ alive" out] by simp
qed auto

text \<open>The directory of a container whose ID is long enough: one more component under the configured one.\<close>

lemma log_dir_absolute:
  assumes "12 \<le> length (lg_ContainerID opts)" and "has_prefix (lg_Dir opts) ''/''" and "\<forall>d. os_MkdirAll os d = None"
  shows "log_dir os opts = Inr (Some (path_join [lg_Dir opts, take 12 (lg_ContainerID opts)]))"
  using assms by (simp add: log_dir_def Let_def)

text \<open>
  C22. An audit file holds the terminal's output and a preamble: for an auditor forked when the
  terminal opens, after one turn for the history and one for each published piece, the file in the
  directory named after the container's first twelve bytes holds the thousand bytes of history,
  then 1048 zero bytes which nobody wrote, because the first read reports the whole buffer, and
  then every published piece, complete and in order.
\<close>

theorem audit_file_contents:
  assumes "NewMasterTTY None shareID = Inr m" and "Fork None i False m = Inr s"
    and "\<forall>x \<in> set ms. length x \<le> 2048"
    and "12 \<le> length (lg_ContainerID opts)" and "has_prefix (lg_Dir opts) ''/''"
    and "\<forall>d. os_MkdirAll os d = None" and "\<forall>f. os_Create os f = None" and "\<forall>off. os_WriteAt os off = None"
  shows "\<exists>name s'. log_file os opts = Inr name \<and>
    LogTo os (replicate (Suc (length ms)) True) slave_read opts (s, ms) =
      Inr (Some (path_join [path_join [lg_Dir opts, take 12 (lg_ContainerID opts)], name],
        m_outputs m @ replicate 1048 (CHR 0x00) @ concat ms, s', Cancelled))"
proof -
  have m: "m_outputs m = replicate 1000 (CHR 0x00)" and s: "s_masterOutputs s = m_outputs m"
    using assms(1,2) by (auto simp: NewMasterTTY_def Fork_def history_size_def)
  let ?buff = "replicate 2048 (CHR 0x00)"
  let ?s = "s\<lparr>s_masterOutputs := []\<rparr>"
  have first: "slave_read ?buff (s, ms) = Inr (2048, m_outputs m @ replicate 1048 (CHR 0x00), None, (?s, ms))"
    using s m by (simp add: slave_read_history)
  have len: "length (m_outputs m @ replicate 1048 (CHR 0x00)) = 2048" using m by simp
  have "\<forall>x \<in> set ms. length x \<le> length (m_outputs m @ replicate 1048 (CHR 0x00))"
    using assms(3) len by simp
  from audit_live [OF _ this assms(8), of ?s "[]" "m_outputs m @ replicate 1048 (CHR 0x00)"]
  obtain buff' where loop: "audit_loop (os_WriteAt os) slave_read (replicate (length ms) True @ [])
      (m_outputs m @ replicate 1048 (CHR 0x00)) (length (m_outputs m @ replicate 1048 (CHR 0x00)))
      (m_outputs m @ replicate 1048 (CHR 0x00)) (?s, ms) =
    audit_loop (os_WriteAt os) slave_read [] buff' (length ((m_outputs m @ replicate 1048 (CHR 0x00)) @ concat ms))
      ((m_outputs m @ replicate 1048 (CHR 0x00)) @ concat ms) (?s, [])"
    by auto
  have "audit_loop (os_WriteAt os) slave_read (replicate (Suc (length ms)) True) ?buff 0 [] (s, ms) =
      Inr (m_outputs m @ replicate 1048 (CHR 0x00) @ concat ms, (?s, []), Cancelled)"
    using follower.audit_turn [OF first assms(8), of "replicate (length ms) True" "[]"] loop len by simp
  moreover obtain name where "log_file os opts = Inr name"
    by (cases "split_on (CHR '':'') (lg_ClientIP opts)") (auto simp: log_file_def)
  ultimately show ?thesis
    using assms(7) log_dir_absolute [OF assms(4,5,6)] by (auto simp: LogTo_def Let_def)
qed

definition willing_os :: audit_os where
  "willing_os = \<lparr>os_Getwd = Inr ''/srv'', os_IsNotExist = (\<lambda>d. True), os_MkdirAll = (\<lambda>d. None), os_Unix = 9,
     os_Create = (\<lambda>f. None), os_WriteAt = (\<lambda>off. None)\<rparr>"

definition sample_log_opts :: log_opts where
  "sample_log_opts = \<lparr>lg_Dir = ''/var/audit'', lg_ContainerID = ''c0ffee000000aa'', lg_ClientIP = ''10.0.0.7:5123''\<rparr>"

theorem audit_file_contents_witness:
  "\<exists>name s'. log_file willing_os sample_log_opts = Inr name \<and>
    LogTo willing_os (replicate 3 True) slave_read sample_log_opts (\<lparr>s_id = 1, s_readOnly = True,
        s_masterOutputs = m_outputs sample_master\<rparr>, [''ls'', ''a.txt'']) =
      Inr (Some (path_join [path_join [''/var/audit'', ''c0ffee000000''], name],
        replicate 1000 (CHR 0x00) @ replicate 1048 (CHR 0x00) @ ''lsa.txt'', s', Cancelled))"
proof -
  have new: "NewMasterTTY None ''e1'' = Inr sample_master"
    by (simp add: NewMasterTTY_def sample_master_def)
  have fork: "Fork None 1 False sample_master = Inr \<lparr>s_id = 1, s_readOnly = True, s_masterOutputs = m_outputs sample_master\<rparr>"
    by (simp add: Fork_def)
  have out: "m_outputs sample_master = replicate 1000 (CHR 0x00)" by (simp add: sample_master_def history_size_def)
  show ?thesis
    using audit_file_contents [OF new fork, of "[''ls'', ''a.txt'']" sample_log_opts willing_os]
    by (simp add: sample_log_opts_def willing_os_def has_prefix_def out numeral_3_eq_3)
qed

text \<open>Two clients with IPv6 addresses of one network share a file name within a second.\<close>

lemma ipv6_clients_collide:
  "log_file os (opts\<lparr>lg_ClientIP := ''[2001:db8::1]:443''\<rparr>) = log_file os (opts\<lparr>lg_ClientIP := ''[2001:db8::2]:80''\<rparr>)"
  by (simp add: log_file_def)

end
