(* ===== verification/Assets.thy ===== *)
theory Assets
  imports Readers GoStrings "HOL-Library.List_Lexorder"
begin

text \<open>
  route/asset/bindata.go: the file system of web assets compiled into the program.  A file is a
  record; the pointers between files are indices into the table \<open>fs\<close> of asset.go, whose
  descriptions of the twelve files are at the end.  The decompressor of package zlib and the
  compressed bytes are arguments.
\<close>

section \<open>Files\<close>

record file_info =
  fi_name :: string
  fi_isDir :: bool
  fi_size :: int
  fi_mode :: int
  fi_mTime :: int \<comment> \<open>the seconds of \<open>time.Unix\<close>\<close>
  fi_cType :: string

record asset_file =
  af_info :: file_info
  af_id :: int
  af_path :: string
  af_dirP :: string
  af_sPath :: string
  af_b :: bytes
  af_cb :: bytes
  af_infos :: "file_info list"
  af_files :: "nat list"

definition errSeekInvalid :: error where "errSeekInvalid = Errorf ''invalid whence''"
definition errSeekNegative :: error where "errSeekNegative = Errorf ''negative position''"
definition errNotDir :: error where "errNotDir = Errorf ''file is not a dir''"

text \<open>
  The accessors of \<open>fileInfo\<close>, and those of \<open>file\<close>.  A \<open>file\<close> embeds its \<open>fileInfo\<close>, but has a
  \<open>Name\<close> of its own, which is the one that the result of \<open>Stat\<close> answers with.  \<open>Parse\<close> is that of a
  new template of package html/template.
\<close>

definition fileInfo_Name :: "file_info \<Rightarrow> string" where "fileInfo_Name f = fi_name f"
definition fileInfo_Size :: "file_info \<Rightarrow> int" where "fileInfo_Size f = fi_size f"
definition fileInfo_Mode :: "file_info \<Rightarrow> int" where "fileInfo_Mode f = fi_mode f"
definition fileInfo_ModTime :: "file_info \<Rightarrow> int" where "fileInfo_ModTime f = fi_mTime f"
definition fileInfo_IsDir :: "file_info \<Rightarrow> bool" where "fileInfo_IsDir f = fi_isDir f"
definition fileInfo_Sys :: "file_info \<Rightarrow> unit option" where "fileInfo_Sys f = None"

definition file_Stat :: "asset_file \<Rightarrow> error + asset_file" where "file_Stat f = Inr f"
definition file_File :: "asset_file \<Rightarrow> error + (asset_file \<times> int)" where "file_File f = Inr (f, 0)"
definition file_Bytes :: "asset_file \<Rightarrow> bytes" where "file_Bytes f = af_b f"
definition file_Name :: "asset_file \<Rightarrow> string" where "file_Name f = af_sPath f"
definition file_Close :: "asset_file \<Rightarrow> int \<Rightarrow> error option \<times> int" where "file_Close f i = (None, i)"

definition file_Template :: "(string \<Rightarrow> bytes \<Rightarrow> error + 't) \<Rightarrow> asset_file \<Rightarrow> 't outcome" where
  "file_Template Parse f =
     (case Parse (fi_name (af_info f)) (af_b f) of Inl err \<Rightarrow> Inl (Explicit (error_text err)) | Inr t \<Rightarrow> Inr t)"

text \<open>The keys of the generator.\<close>

definition keyFileName :: "asset_file \<Rightarrow> string" where "keyFileName f = ''_file_'' @ int_str (af_id f)"
definition keyBytesName :: "asset_file \<Rightarrow> string" where "keyBytesName f = ''_compress_bytes_'' @ int_str (af_id f)"
definition keyMTime :: "asset_file \<Rightarrow> string" where "keyMTime f = ''_mTime_'' @ int_str (af_id f)"

definition file_List :: "asset_file \<Rightarrow> error + nat list" where
  "file_List f = (if fi_isDir (af_info f) then Inr (af_files f) else Inl errNotDir)"

text \<open>
  \<open>Readdir\<close>: a negative count is everything.  The slice expression at the end panics when its bound
  is negative, as it is for an empty directory.
\<close>

definition Readdir :: "asset_file \<Rightarrow> int \<Rightarrow> (error + file_info list) outcome" where
  "Readdir f count =
     (if \<not> fi_isDir (af_info f) then Inr (Inl (Errorf ''not dir''))
      else if count < 0 then Inr (Inr (af_infos f))
      else
        (let count = (if int (length (af_infos f)) \<le> count then int (length (af_infos f)) - 1 else count) in
         if count < 0 then Inl SliceBounds
         else obind (go_slice 0 (nat count) (af_infos f)) (\<lambda>is. Inr (Inr is))))"

section \<open>Readers over a file\<close>

text \<open>\<open>fileReader\<close>: the file and a position.  A position behind the data makes the slice panic.\<close>

definition file_read :: "asset_file \<Rightarrow> int reader" where
  "file_read f p i =
     (if fi_size (af_info f) \<le> i then Inr (0, p, Some EOF, i)
      else
        obind (if i < 0 then Inl SliceBounds else go_slice (nat i) (length (af_b f)) (af_b f)) (\<lambda>rest.
          let (n, p') = go_copy p rest in Inr (n, p', None, i + int n)))"

definition SeekStart :: int where "SeekStart = 0"
definition SeekCurrent :: int where "SeekCurrent = 1"
definition SeekEnd :: int where "SeekEnd = 2"

definition file_Seek :: "asset_file \<Rightarrow> int \<Rightarrow> int \<Rightarrow> int \<Rightarrow> (int \<times> error option) \<times> int" where
  "file_Seek f offset whence i =
     (if whence \<notin> {SeekStart, SeekCurrent, SeekEnd} then ((0, Some errSeekInvalid), i)
      else
        (let pos = (if whence = SeekStart then offset else if whence = SeekCurrent then i + offset
                    else fi_size (af_info f) + offset)
         in if pos < 0 then ((0, Some errSeekNegative), i) else ((pos, None), pos)))"

text \<open>A file whose recorded size is the length of its data.\<close>

definition sized :: "asset_file \<Rightarrow> bool" where
  "sized f \<longleftrightarrow> fi_size (af_info f) = int (length (af_b f))"

lemma file_read_at:
  assumes "sized f" and "0 \<le> i"
  shows "file_read f p i =
    (if length (af_b f) \<le> nat i then Inr (0, p, Some EOF, i)
     else (let (n, p') = go_copy p (drop (nat i) (af_b f)) in Inr (n, p', None, i + int n)))"
  using assms by (auto simp: file_read_def sized_def nat_le_iff Let_def)

interpretation asset: go_reader "file_read f"
proof unfold_locales
  show "file_read f p s = Inr (n, p', e, s') \<Longrightarrow> n \<le> length p \<and> length p' = length p" for p s n p' e s'
    by (auto simp: file_read_def go_copy_def Let_def split: if_splits)
qed

text \<open>Reading a whole file: the chunks that buffers of given lengths receive, one after the other.\<close>

fun read_chunks :: "asset_file \<Rightarrow> bytes list \<Rightarrow> int \<Rightarrow> (bytes \<times> error option \<times> int) outcome" where
  "read_chunks f [] i = Inr ([], None, i)"
| "read_chunks f (p # ps) i =
     obind (file_read f p i) (\<lambda>(n, p', err, i').
       case err of
         Some e \<Rightarrow> Inr ([], Some e, i')
       | None \<Rightarrow> obind (read_chunks f ps i') (\<lambda>(rest, err, i''). Inr (take n p' @ rest, err, i'')))"

lemma read_chunks_take:
  assumes "sized f"
  shows "\<lbrakk>0 \<le> i; nat i \<le> length (af_b f)\<rbrakk> \<Longrightarrow> \<exists>err i'. read_chunks f ps i =
      Inr (take (sum_list (map length ps)) (drop (nat i) (af_b f)), err, i') \<and> (err = None \<or> err = Some EOF) \<and>
      (err = Some EOF \<longrightarrow> length (af_b f) \<le> nat i + sum_list (map length ps))"
proof (induction ps arbitrary: i)
  case (Cons p ps)
  show ?case
  proof (cases "length (af_b f) \<le> nat i")
    case True
    then show ?thesis using assms Cons.prems by (simp add: file_read_at)
  next
    case False
    let ?rest = "drop (nat i) (af_b f)"
    let ?n = "min (length p) (length ?rest)"
    let ?j = "i + int ?n"
    have j: "0 \<le> ?j" "nat ?j = nat i + ?n" "nat ?j \<le> length (af_b f)"
      using Cons.prems False by (auto simp: nat_add_distrib)
    obtain err i' where ih: "read_chunks f ps ?j =
        Inr (take (sum_list (map length ps)) (drop (nat ?j) (af_b f)), err, i')"
      "err = None \<or> err = Some EOF" "err = Some EOF \<longrightarrow> length (af_b f) \<le> nat ?j + sum_list (map length ps)"
      using Cons.IH [OF j(1,3)] by blast
    have copy: "go_copy p ?rest = (?n, take ?n ?rest @ drop ?n p)" by (simp add: go_copy_def Let_def)
    have read: "file_read f p i = Inr (?n, take ?n ?rest @ drop ?n p, None, ?j)"
      using file_read_at [OF assms Cons.prems(1), of p] False copy by simp
    have chunk: "take ?n (take ?n ?rest @ drop ?n p) = take ?n ?rest" by simp
    have "take ?n ?rest @ take (sum_list (map length ps)) (drop (nat ?j) (af_b f)) =
        take (length p + sum_list (map length ps)) ?rest"
    proof (cases "length p \<le> length ?rest")
      case True
      then have n: "?n = length p" by simp
      show ?thesis unfolding j(2) unfolding n by (simp add: take_add add.commute)
    next
      case False
      then have "?n = length ?rest" by simp
      then have "length (drop (nat ?j) (af_b f)) = 0" unfolding j(2) by simp
      then show ?thesis using False by simp
    qed
    moreover have "length (af_b f) \<le> nat ?j + k \<Longrightarrow> length (af_b f) \<le> nat i + (length p + k)" for k
      unfolding j(2) by simp
    ultimately show ?thesis
      unfolding read_chunks.simps read obind_simps prod.case option.case ih(1) chunk
      using ih(2,3) by auto
  qed
qed (simp add: assms)

text \<open>
  An asset is read completely: after seeking to a position of a file, successive reads into
  buffers of any lengths deliver the bytes from there on, in order, without a gap; once the buffers
  hold the rest of the file it is all there, and the end is reported only then.
\<close>

lemma asset_reads_complete:
  assumes "sized f" and "0 \<le> off" and "off \<le> fi_size (af_info f)"
    and "file_Seek f off SeekStart i = ((pos, err0), i')"
  shows "\<exists>err i''. err0 = None \<and> pos = off \<and>
    read_chunks f ps i' = Inr (take (sum_list (map length ps)) (drop (nat off) (af_b f)), err, i'') \<and>
    (err = None \<or> err = Some EOF \<and> nat (fi_size (af_info f)) \<le> nat off + sum_list (map length ps))"
proof -
  have seek: "err0 = None" "pos = off" "i' = off"
    using assms(2,4) by (auto simp: file_Seek_def SeekStart_def split: if_splits)
  have "nat off \<le> length (af_b f)" using assms(1,3) by (simp add: sized_def nat_le_iff)
  from read_chunks_take [OF assms(1,2) this, of ps] show ?thesis
    using seek assms(1) by (auto simp: sized_def)
qed

definition sample_asset :: asset_file where
  "sample_asset =
     \<lparr>af_info = \<lparr>fi_name = ''h'', fi_isDir = False, fi_size = 5, fi_mode = 0, fi_mTime = 0, fi_cType = []\<rparr>,
      af_id = 0, af_path = ''/h'', af_dirP = ''/'', af_sPath = ''/h'', af_b = ''hello'', af_cb = [], af_infos = [],
      af_files = []\<rparr>"

lemma asset_reads_complete_example:
  "\<exists>err i''. read_chunks sample_asset [''..'', ''.''] 1 = Inr (''ell'', err, i'') \<and> (err = None \<or> err = Some EOF)"
  using asset_reads_complete [of sample_asset 1 0 1 None 1 "[''..'', ''.'']"]
  by (auto simp: sample_asset_def sized_def file_Seek_def SeekStart_def)

section \<open>The table\<close>

text \<open>The descriptions of asset.go; \<open>cb\<close> is the compressed data beside each.\<close>

definition asset_entry :: "int \<Rightarrow> string \<Rightarrow> bool \<Rightarrow> int \<Rightarrow> string \<Rightarrow> string \<Rightarrow> string \<Rightarrow> bytes \<Rightarrow> asset_file" where
  "asset_entry i name dir len ctype path dirP cb =
     \<lparr>af_info = \<lparr>fi_name = name, fi_isDir = dir, fi_size = len, fi_mode = 0, fi_mTime = - 62135596800, fi_cType = ctype\<rparr>,
      af_id = i, af_path = path, af_dirP = dirP, af_sPath = path, af_b = [], af_cb = cb, af_infos = [], af_files = []\<rparr>"

definition file_0 where "file_0 = asset_entry 0 ''/'' True 4096 [] ''/'' ''/''"
definition file_1 where "file_1 = asset_entry 1 ''css'' True 4096 [] ''/css'' ''/''"
definition file_2 where "file_2 = asset_entry 2 ''index.css'' False 116 ''text/css; charset=utf-8'' ''/css/index.css'' ''/css''"
definition file_3 where "file_3 = asset_entry 3 ''list.css'' False 2961 ''text/css; charset=utf-8'' ''/css/list.css'' ''/css''"
definition file_4 where "file_4 = asset_entry 4 ''xterm.css'' False 4404 ''text/css; charset=utf-8'' ''/css/xterm.css'' ''/css''"
definition file_5 where "file_5 = asset_entry 5 ''xterm_customize.css'' False 550 ''text/css; charset=utf-8'' ''/css/xterm_customize.css'' ''/css''"
definition file_6 where "file_6 = asset_entry 6 ''favicon.png'' False 863 ''image/png'' ''/favicon.png'' ''/''"
definition file_7 where "file_7 = asset_entry 7 ''index.html'' False 709 ''text/html; charset=utf-8'' ''/index.html'' ''/''"
definition file_8 where "file_8 = asset_entry 8 ''js'' True 4096 [] ''/js'' ''/''"
definition file_9 where "file_9 = asset_entry 9 ''control.js'' False 1010 ''text/javascript; charset=utf-8'' ''/js/control.js'' ''/js''"
definition file_10 where "file_10 = asset_entry 10 ''gotty-bundle.js'' False 633040 ''text/javascript; charset=utf-8'' ''/js/gotty-bundle.js'' ''/js''"
definition file_11 where "file_11 = asset_entry 11 ''list.html'' False 2537 ''text/html; charset=utf-8'' ''/list.html'' ''/''"

definition asset_fs :: "(nat \<Rightarrow> bytes) \<Rightarrow> asset_file list" where
  "asset_fs cb =
     [file_0 (cb 0), file_1 (cb 1), file_2 (cb 2), file_3 (cb 3), file_4 (cb 4), file_5 (cb 5),
      file_6 (cb 6), file_7 (cb 7), file_8 (cb 8), file_9 (cb 9), file_10 (cb 10), file_11 (cb 11)]"

lemmas asset_files = file_0_def file_1_def file_2_def file_3_def file_4_def file_5_def file_6_def file_7_def
  file_8_def file_9_def file_10_def file_11_def asset_entry_def

text \<open>
  The first loop of \<open>init\<close>: a file is decompressed, and a directory that has no files yet gets those
  whose directory it is.  The second fills the table, a directory under its path with a slash too.
\<close>

definition unCompress :: "(bytes \<Rightarrow> bytes) \<Rightarrow> bytes \<Rightarrow> bytes" where
  "unCompress zlib b = zlib b"

definition children :: "asset_file list \<Rightarrow> asset_file \<Rightarrow> nat list" where
  "children fs f = filter (\<lambda>i. af_dirP (fs ! i) = af_path f) [0..<length fs]"

definition init_file :: "(bytes \<Rightarrow> bytes) \<Rightarrow> asset_file list \<Rightarrow> asset_file \<Rightarrow> asset_file" where
  "init_file zlib fs f =
     (let f = f\<lparr>af_b := unCompress zlib (af_cb f)\<rparr> in
      if \<not> fi_isDir (af_info f) \<or> af_files f \<noteq> [] then f
      else f\<lparr>af_infos := map (\<lambda>i. af_info (fs ! i)) (children fs f), af_files := children fs f\<rparr>)"

record asset_data =
  ad_prefix :: string
  ad_fs :: "asset_file list" \<comment> \<open>what the pointers point to\<close>
  ad_files :: "(string, nat) gomap"
  ad_all :: "nat list" \<comment> \<open>\<open>all.assets\<close>\<close>

definition table_entries :: "asset_file list \<Rightarrow> nat \<Rightarrow> (string \<times> nat) list" where
  "table_entries fs i =
     (if fi_isDir (af_info (fs ! i)) then [(af_sPath (fs ! i) @ ''/'', i)] else []) @
     [(af_sPath (fs ! i), i), (af_path (fs ! i), i)]"

definition asset_init :: "(bytes \<Rightarrow> bytes) \<Rightarrow> asset_file list \<Rightarrow> asset_data" where
  "asset_init zlib fs =
     (let fs = map (init_file zlib fs) fs in
      \<lparr>ad_prefix = ''/'', ad_fs = fs,
       ad_files = fold (\<lambda>(k, i). AList.update k i) (concat (map (table_entries fs) [0..<length fs])) [],
       ad_all = [0..<length fs]\<rparr>)"

definition asset_Find :: "asset_data \<Rightarrow> string \<Rightarrow> error + asset_file" where
  "asset_Find d name =
     (case map_of (ad_files d) name of Some i \<Rightarrow> Inr (ad_fs d ! i) | None \<Rightarrow> Inl (Opaque ''file does not exist''))"

definition asset_List :: "asset_data \<Rightarrow> asset_file list" where
  "asset_List d = map ((!) (ad_fs d)) (ad_all d)"

section \<open>Serving\<close>

text \<open>
  The answer to a request: not found, a file with the three headers, or the page of a directory.
  \<open>escape\<close> is \<open>url.URL{Path: p}.String()\<close>.  Sorting \<open>dirs\<close> also sorts the file's own slice, which only
  later listings see, and these sort it again.
\<close>

datatype asset_answer = NotFound | Served int string int bytes | Listing string | ReadDirFailed

definition dir_line :: "(string \<Rightarrow> string) \<Rightarrow> string \<Rightarrow> file_info \<Rightarrow> string" where
  "dir_line escape uri d =
     (let name = (if fi_isDir d then fi_name d @ ''/'' else fi_name d)
      in ''<a href='' @ [CHR 0x22] @ escape (path_join [uri, name]) @ [CHR 0x22] @ ''>'' @ fi_name d @ ''</a>'' @ [CHR 0x0A])"

definition dirList :: "(string \<Rightarrow> string) \<Rightarrow> string \<Rightarrow> asset_file \<Rightarrow> asset_answer outcome" where
  "dirList escape uri f =
     obind (Readdir f (- 1)) (\<lambda>r.
       case r of
         Inl err \<Rightarrow> Inr ReadDirFailed
       | Inr dirs \<Rightarrow> Inr (Listing (''<pre>'' @ [CHR 0x0A] @
           concat (map (dir_line escape uri) (sort_key fi_name dirs)) @ ''</pre>'' @ [CHR 0x0A])))"

definition asset_ServeHTTP :: "(string \<Rightarrow> string) \<Rightarrow> asset_data \<Rightarrow> string \<Rightarrow> asset_answer outcome" where
  "asset_ServeHTTP escape d RequestURI =
     (case map_of (ad_files d) RequestURI of
        None \<Rightarrow> Inr NotFound
      | Some i \<Rightarrow>
          (case map_of (ad_files d) (path_join [RequestURI, ''index.html'']) of
             None \<Rightarrow>
               if fi_isDir (af_info (ad_fs d ! i)) then dirList escape RequestURI (ad_fs d ! i)
               else (let f = ad_fs d ! i in
                     Inr (Served (fi_size (af_info f)) (fi_cType (af_info f)) (fi_mTime (af_info f)) (af_b f)))
           | Some j \<Rightarrow>
               (let f = ad_fs d ! j in
                Inr (Served (fi_size (af_info f)) (fi_cType (af_info f)) (fi_mTime (af_info f)) (af_b f)))))"

text \<open>The package's own functions, over its one table \<open>root\<close>.\<close>

definition root_List :: "asset_data \<Rightarrow> asset_file list" where "root_List root = asset_List root"
definition root_Find :: "asset_data \<Rightarrow> string \<Rightarrow> error + asset_file" where "root_Find root name = asset_Find root name"
definition root_Handler :: "(string \<Rightarrow> string) \<Rightarrow> asset_data \<Rightarrow> string \<Rightarrow> asset_answer outcome" where
  "root_Handler escape root RequestURI = asset_ServeHTTP escape root RequestURI"

section \<open>What is served\<close>

abbreviation "web_assets zlib cb \<equiv> asset_init zlib (asset_fs cb)"

lemma web_assets_files:
  "ad_files (web_assets zlib cb) =
     [(''//'', 0), (''/'', 0), (''/css/'', 1), (''/css'', 1), (''/css/index.css'', 2), (''/css/list.css'', 3),
      (''/css/xterm.css'', 4), (''/css/xterm_customize.css'', 5), (''/favicon.png'', 6), (''/index.html'', 7),
      (''/js/'', 8), (''/js'', 8), (''/js/control.js'', 9), (''/js/gotty-bundle.js'', 10), (''/list.html'', 11)]"
  by (simp add: asset_init_def asset_fs_def asset_files init_file_def table_entries_def Let_def upt_rec)

lemma index_paths:
  "path_join [''/'', ''index.html''] = ''/index.html''"
  "path_join [''/css/index.css'', ''index.html''] = ''/css/index.css/index.html''"
  "path_join [''/css/list.css'', ''index.html''] = ''/css/list.css/index.html''"
  "path_join [''/css/xterm.css'', ''index.html''] = ''/css/xterm.css/index.html''"
  "path_join [''/css/xterm_customize.css'', ''index.html''] = ''/css/xterm_customize.css/index.html''"
  "path_join [''/favicon.png'', ''index.html''] = ''/favicon.png/index.html''"
  "path_join [''/index.html'', ''index.html''] = ''/index.html/index.html''"
  "path_join [''/js/control.js'', ''index.html''] = ''/js/control.js/index.html''"
  "path_join [''/js/gotty-bundle.js'', ''index.html''] = ''/js/gotty-bundle.js/index.html''"
  "path_join [''/list.html'', ''index.html''] = ''/list.html/index.html''"
  by code_simp+

lemma length_asset_fs: "length (asset_fs cb) = 12"
  by (simp add: asset_fs_def)

lemma web_assets_fs:
  "i < 12 \<Longrightarrow> ad_fs (web_assets zlib cb) ! i = init_file zlib (asset_fs cb) (asset_fs cb ! i)"
  by (simp add: asset_init_def Let_def length_asset_fs)

lemma init_file_keeps:
  "af_info (init_file zlib fs f) = af_info f" "af_sPath (init_file zlib fs f) = af_sPath f"
  "af_b (init_file zlib fs f) = zlib (af_cb f)"
  by (simp_all add: init_file_def unCompress_def Let_def)

lemma below_12:
  "i < (12::nat) \<Longrightarrow> i = 0 \<or> i = 1 \<or> i = 2 \<or> i = 3 \<or> i = 4 \<or> i = 5 \<or> i = 6 \<or> i = 7 \<or> i = 8 \<or> i = 9 \<or> i = 10 \<or> i = 11"
  by presburger

lemma asset_fs_nth:
  "asset_fs cb ! 0 = file_0 (cb 0)"
  "asset_fs cb ! 1 = file_1 (cb 1)"
  "asset_fs cb ! 2 = file_2 (cb 2)"
  "asset_fs cb ! 3 = file_3 (cb 3)"
  "asset_fs cb ! 4 = file_4 (cb 4)"
  "asset_fs cb ! 5 = file_5 (cb 5)"
  "asset_fs cb ! 6 = file_6 (cb 6)"
  "asset_fs cb ! 7 = file_7 (cb 7)"
  "asset_fs cb ! 8 = file_8 (cb 8)"
  "asset_fs cb ! 9 = file_9 (cb 9)"
  "asset_fs cb ! 10 = file_10 (cb 10)"
  "asset_fs cb ! 11 = file_11 (cb 11)"
  by (simp_all add: asset_fs_def)

lemma asset_cases:
  assumes "i < 12" and "\<not> fi_isDir (af_info (asset_fs cb ! i))"
  shows "i \<in> {2, 3, 4, 5, 6, 7, 9, 10, 11}"
  using below_12 [OF assms(1)] assms(2) by (elim disjE) (simp_all add: asset_fs_def asset_files)

text \<open>What the table says of a file's path, of its index page and of the path with a query.\<close>

lemma asset_lookups:
  "map_of (ad_files (web_assets zlib cb)) ''/css/index.css'' = Some 2"
  "map_of (ad_files (web_assets zlib cb)) ''/css/index.css/index.html'' = None"
  "map_of (ad_files (web_assets zlib cb)) (''/css/index.css'' @ CHR ''?'' # q) = None"
  "map_of (ad_files (web_assets zlib cb)) ''/css/list.css'' = Some 3"
  "map_of (ad_files (web_assets zlib cb)) ''/css/list.css/index.html'' = None"
  "map_of (ad_files (web_assets zlib cb)) (''/css/list.css'' @ CHR ''?'' # q) = None"
  "map_of (ad_files (web_assets zlib cb)) ''/css/xterm.css'' = Some 4"
  "map_of (ad_files (web_assets zlib cb)) ''/css/xterm.css/index.html'' = None"
  "map_of (ad_files (web_assets zlib cb)) (''/css/xterm.css'' @ CHR ''?'' # q) = None"
  "map_of (ad_files (web_assets zlib cb)) ''/css/xterm_customize.css'' = Some 5"
  "map_of (ad_files (web_assets zlib cb)) ''/css/xterm_customize.css/index.html'' = None"
  "map_of (ad_files (web_assets zlib cb)) (''/css/xterm_customize.css'' @ CHR ''?'' # q) = None"
  "map_of (ad_files (web_assets zlib cb)) ''/favicon.png'' = Some 6"
  "map_of (ad_files (web_assets zlib cb)) ''/favicon.png/index.html'' = None"
  "map_of (ad_files (web_assets zlib cb)) (''/favicon.png'' @ CHR ''?'' # q) = None"
  "map_of (ad_files (web_assets zlib cb)) ''/index.html'' = Some 7"
  "map_of (ad_files (web_assets zlib cb)) ''/index.html/index.html'' = None"
  "map_of (ad_files (web_assets zlib cb)) (''/index.html'' @ CHR ''?'' # q) = None"
  "map_of (ad_files (web_assets zlib cb)) ''/js/control.js'' = Some 9"
  "map_of (ad_files (web_assets zlib cb)) ''/js/control.js/index.html'' = None"
  "map_of (ad_files (web_assets zlib cb)) (''/js/control.js'' @ CHR ''?'' # q) = None"
  "map_of (ad_files (web_assets zlib cb)) ''/js/gotty-bundle.js'' = Some 10"
  "map_of (ad_files (web_assets zlib cb)) ''/js/gotty-bundle.js/index.html'' = None"
  "map_of (ad_files (web_assets zlib cb)) (''/js/gotty-bundle.js'' @ CHR ''?'' # q) = None"
  "map_of (ad_files (web_assets zlib cb)) ''/list.html'' = Some 11"
  "map_of (ad_files (web_assets zlib cb)) ''/list.html/index.html'' = None"
  "map_of (ad_files (web_assets zlib cb)) (''/list.html'' @ CHR ''?'' # q) = None"
  by (simp_all add: web_assets_files)

lemma asset_paths:
  "af_sPath (file_2 c) = ''/css/index.css''" "af_cb (file_2 c) = c" "fi_mTime (af_info (file_2 c)) = - 62135596800"
  "af_sPath (file_3 c) = ''/css/list.css''" "af_cb (file_3 c) = c" "fi_mTime (af_info (file_3 c)) = - 62135596800"
  "af_sPath (file_4 c) = ''/css/xterm.css''" "af_cb (file_4 c) = c" "fi_mTime (af_info (file_4 c)) = - 62135596800"
  "af_sPath (file_5 c) = ''/css/xterm_customize.css''" "af_cb (file_5 c) = c" "fi_mTime (af_info (file_5 c)) = - 62135596800"
  "af_sPath (file_6 c) = ''/favicon.png''" "af_cb (file_6 c) = c" "fi_mTime (af_info (file_6 c)) = - 62135596800"
  "af_sPath (file_7 c) = ''/index.html''" "af_cb (file_7 c) = c" "fi_mTime (af_info (file_7 c)) = - 62135596800"
  "af_sPath (file_9 c) = ''/js/control.js''" "af_cb (file_9 c) = c" "fi_mTime (af_info (file_9 c)) = - 62135596800"
  "af_sPath (file_10 c) = ''/js/gotty-bundle.js''" "af_cb (file_10 c) = c" "fi_mTime (af_info (file_10 c)) = - 62135596800"
  "af_sPath (file_11 c) = ''/list.html''" "af_cb (file_11 c) = c" "fi_mTime (af_info (file_11 c)) = - 62135596800"
  by (simp_all add: asset_files)

lemma asset_facts:
  assumes "i < 12" and "\<not> fi_isDir (af_info (asset_fs cb ! i))"
  shows "map_of (ad_files (web_assets zlib cb)) (af_sPath (asset_fs cb ! i)) = Some i"
    and "map_of (ad_files (web_assets zlib cb)) (path_join [af_sPath (asset_fs cb ! i), ''index.html'']) = None"
    and "map_of (ad_files (web_assets zlib cb)) (af_sPath (asset_fs cb ! i) @ CHR ''?'' # q) = None"
    and "af_cb (asset_fs cb ! i) = cb i"
    and "fi_mTime (af_info (asset_fs cb ! i)) = - 62135596800"
  using asset_cases [OF assms]
  by (elim insertE emptyE; simp only: asset_fs_nth asset_paths index_paths asset_lookups)+

lemma served_file:
  assumes "map_of (ad_files (web_assets zlib cb)) uri = Some k"
    and "map_of (ad_files (web_assets zlib cb)) (path_join [uri, ''index.html'']) = Some i \<or>
      k = i \<and> map_of (ad_files (web_assets zlib cb)) (path_join [uri, ''index.html'']) = None"
    and "i < 12" and "\<not> fi_isDir (af_info (asset_fs cb ! i))"
  shows "asset_ServeHTTP escape (web_assets zlib cb) uri =
    Inr (Served (fi_size (af_info (asset_fs cb ! i))) (fi_cType (af_info (asset_fs cb ! i))) (- 62135596800) (zlib (cb i)))"
  using assms(1,2,4) web_assets_fs [OF assms(3), of zlib cb] asset_facts(4,5) [OF assms(3,4)]
  by (auto simp: asset_ServeHTTP_def init_file_keeps Let_def)

lemma served_own:
  assumes "i < 12" and "\<not> fi_isDir (af_info (asset_fs cb ! i))"
  shows "asset_ServeHTTP escape (web_assets zlib cb) (af_sPath (asset_fs cb ! i)) =
    Inr (Served (fi_size (af_info (asset_fs cb ! i))) (fi_cType (af_info (asset_fs cb ! i))) (- 62135596800) (zlib (cb i)))"
  using asset_facts(1,2) [OF assms] by (intro served_file assms) auto

lemma root_lookups:
  "map_of (ad_files (web_assets zlib cb)) ''/'' = Some 0"
  "map_of (ad_files (web_assets zlib cb)) (path_join [''/'', ''index.html'']) = Some 7"
  by (simp_all add: web_assets_files index_paths)

text \<open>
  C35. The web assets are served as compiled in: for each of the files, the request for its path is
  answered with its recorded size and type and exactly its decompressed bytes, \<open>/\<close> with the index
  page; the same path with a query behind it is not found, because the table is searched with the
  whole request URI.
\<close>

theorem assets_served:
  assumes "i < 12" and "\<not> fi_isDir (af_info (asset_fs cb ! i))"
  shows "asset_ServeHTTP escape (web_assets zlib cb) (af_sPath (asset_fs cb ! i)) =
      Inr (Served (fi_size (af_info (asset_fs cb ! i))) (fi_cType (af_info (asset_fs cb ! i))) (- 62135596800) (zlib (cb i))) \<and>
    asset_ServeHTTP escape (web_assets zlib cb) (af_sPath (asset_fs cb ! i) @ ''?'' @ q) = Inr NotFound \<and>
    asset_ServeHTTP escape (web_assets zlib cb) ''/'' =
      asset_ServeHTTP escape (web_assets zlib cb) (af_sPath (asset_fs cb ! 7))"
proof -
  have page: "(7::nat) < 12" "\<not> fi_isDir (af_info (asset_fs cb ! 7))"
    by (simp_all add: asset_fs_nth file_7_def asset_entry_def)
  have "asset_ServeHTTP escape (web_assets zlib cb) ''/'' =
      asset_ServeHTTP escape (web_assets zlib cb) (af_sPath (asset_fs cb ! 7))"
    unfolding served_own [OF page] using root_lookups page by (intro served_file) auto
  moreover have "asset_ServeHTTP escape (web_assets zlib cb) (af_sPath (asset_fs cb ! i) @ ''?'' @ q) = Inr NotFound"
    using asset_facts(3) [OF assms, of zlib q] by (simp add: asset_ServeHTTP_def)
  ultimately show ?thesis using served_own [OF assms] by blast
qed

theorem assets_served_witness:
  "asset_ServeHTTP id (web_assets rev (\<lambda>i. ''lmth'')) ''/list.html'' =
     Inr (Served 2537 ''text/html; charset=utf-8'' (- 62135596800) ''html'')"
  using assets_served [of 11 "\<lambda>i. ''lmth''" id rev] by (simp add: asset_fs_def asset_files)

end
