(* ===== verification/Routes.thy ===== *)
theory Routes
  imports Sessions Assets "HOL-Library.Signed_Division"
begin

text \<open>
  route/route.go and route/types.go: the server's constructor, the table of routes that \<open>Run\<close>
  registers, and how \<open>Run\<close> ends.  A route is kept as it is registered, the paths of its groups and
  its own; joining them and matching requests is package gin's.
\<close>

section \<open>The constructor\<close>

definition mod_fn :: "int \<Rightarrow> int \<Rightarrow> int outcome" where
  "mod_fn i j = (if j = 0 then Inl ZeroDivide else Inr (i smod j))"

text \<open>
  \<open>init\<close>: the templates of the two pages and of the title.  \<open>Parse\<close> is that of package html/template,
  of a template with a name, with the function \<open>mod\<close> or without; \<open>ParseTitle\<close> that of
  \<open>noesctmpl\<close>.  A page that is missing ends the program, one that does not parse panics.
\<close>

record 't templates =
  indexTemplate :: 't
  listTemplate :: 't
  title_Template :: 't

datatype 't init_end = InitFatal error | InitDone "'t templates"

definition titleFormat :: string where "titleFormat = ''{{ .containerName }}'' @ [CHR 0x40] @ ''{{ .containerLoc }}''"

definition route_init ::
    "(bool \<Rightarrow> string \<Rightarrow> bytes \<Rightarrow> error + 't) \<Rightarrow> (string \<Rightarrow> error + 't) \<Rightarrow> asset_data \<Rightarrow> 't init_end outcome" where
  "route_init Parse ParseTitle assets =
     (case root_Find assets ''/index.html'' of
        Inl err \<Rightarrow> Inr (InitFatal err)
      | Inr indexData \<Rightarrow>
          obind (file_Template (Parse False) indexData) (\<lambda>index.
            case root_Find assets ''/list.html'' of
              Inl err \<Rightarrow> Inr (InitFatal err)
            | Inr listIndexData \<Rightarrow>
                (case Parse True (file_Name listIndexData) (file_Bytes listIndexData) of
                   Inl err \<Rightarrow> Inl (Explicit (error_text err))
                 | Inr list \<Rightarrow>
                     (case ParseTitle titleFormat of
                        Inl err \<Rightarrow> Inr (InitFatal err)
                      | Inr title \<Rightarrow>
                          Inr (InitDone \<lparr>indexTemplate = index, listTemplate = list, title_Template = title\<rparr>)))))"

text \<open>Both pages are among the compiled-in files, so only their parsing can fail.\<close>

lemma route_init_pages:
  "route_init Parse ParseTitle (web_assets zlib cb) = Inr (InitFatal err) \<Longrightarrow> ParseTitle titleFormat = Inl err"
  by (auto simp: route_init_def root_Find_def asset_Find_def asset_lookups exec_result_cases)

text \<open>
  \<open>New\<close>: the origin checker is the compiled expression, or absent, in which case the upgrader
  compares the origin with the host itself.  \<open>Compile\<close> is \<open>regexp.Compile\<close> with \<open>MatchString\<close>.
\<close>

record upgrader =
  up_ReadBufferSize :: nat
  up_WriteBufferSize :: nat
  up_Subprotocols :: "string list"
  up_CheckOrigin :: "(string \<Rightarrow> bool) option"

definition new_server ::
    "(string \<Rightarrow> error + (string \<Rightarrow> bool)) \<Rightarrow> string \<Rightarrow> server_config \<Rightarrow> error + (server \<times> upgrader)" where
  "new_server Compile hostname options =
     (case (if srv_WSOrigin options \<noteq> [] then map_sum id Some (Compile (srv_WSOrigin options)) else Inr None) of
        Inl err \<Rightarrow> Inl (Errorf (''failed to compile regular expression of Websocket Origin: '' @ srv_WSOrigin options))
      | Inr originChecker \<Rightarrow> Inr
          (\<lparr>sr_options = options, sr_hostname = hostname, sr_execs = [], sr_masters = []\<rparr>,
           \<lparr>up_ReadBufferSize = 1024, up_WriteBufferSize = 1024, up_Subprotocols = Protocols, up_CheckOrigin = originChecker\<rparr>))"

text \<open>The options of \<open>Run\<close>, over the contexts \<open>'c\<close>.\<close>

record 'c run_options = gracefulCtx :: 'c

type_synonym 'c run_option = "'c run_options \<Rightarrow> 'c run_options"

definition WithGracefullContext :: "'c \<Rightarrow> 'c run_option" where
  "WithGracefullContext ctx options = options\<lparr>gracefulCtx := ctx\<rparr>"

definition apply_options :: "'c \<Rightarrow> 'c run_option list \<Rightarrow> 'c run_options" where
  "apply_options background opts = fold (\<lambda>opt. opt) opts \<lparr>gracefulCtx = background\<rparr>"

section \<open>The routes\<close>

datatype endpoint =
    ListContainers | AuthTokenJs | ConfigJs | AssetFile
  | ExecRedirect | WSIndex | ExecWS | LogsWS
  | StartContainer | StopContainer | RestartContainer

datatype http_method = GET | POST

record route =
  rt_method :: http_method
  rt_groups :: "string list"
  rt_path :: string
  rt_endpoint :: endpoint

definition get :: "string \<Rightarrow> string \<Rightarrow> endpoint \<Rightarrow> route" where
  "get base p e = \<lparr>rt_method = GET, rt_groups = [base], rt_path = p, rt_endpoint = e\<rparr>"

definition base_path :: "server_config \<Rightarrow> string" where
  "base_path options = path_join [srv_Base options]"

definition asset_routes :: "string \<Rightarrow> asset_file list \<Rightarrow> route list" where
  "asset_routes base assets =
     map (\<lambda>f. get base (af_sPath f) AssetFile) (filter (\<lambda>f. af_sPath f \<noteq> ''/'') assets)"

definition exec_routes :: "string \<Rightarrow> route list" where
  "exec_routes base =
     [get base ''/e/:cid/'' ExecRedirect, get base ''/exec/:eid/'' WSIndex, get base (''/exec/:eid/'' @ ''ws'') ExecWS,
      get base ''/logs/:cid/'' WSIndex, get base (''/logs/:cid/'' @ ''ws'') LogsWS]"

definition control_routes :: "string \<Rightarrow> control_config \<Rightarrow> route list" where
  "control_routes base ctl =
     (if \<not> ctl_Enable ctl then []
      else
        (let post = (\<lambda>p e. \<lparr>rt_method = POST, rt_groups = [base, ''/container''], rt_path = p, rt_endpoint = e\<rparr>) in
         (if ctl_Start ctl \<or> ctl_All ctl then [post ''/start/:id'' StartContainer] else []) @
         (if ctl_Stop ctl \<or> ctl_All ctl then [post ''/stop/:id'' StopContainer] else []) @
         (if ctl_Restart ctl \<or> ctl_All ctl then [post ''/restart/:id'' RestartContainer] else [])))"

definition routes :: "asset_file list \<Rightarrow> server_config \<Rightarrow> route list" where
  "routes assets options =
     (let base = base_path options in
      [get base ''/'' ListContainers, get base ''/auth_token.js'' AuthTokenJs, get base ''/config.js'' ConfigJs] @
      asset_routes base assets @ exec_routes base @ control_routes base (srv_Control options))"

text \<open>The handler of an asset route: the base is cut off the request URI, unless it is the root.\<close>

definition rewriteH :: "(string \<Rightarrow> string) \<Rightarrow> asset_data \<Rightarrow> server_config \<Rightarrow> string \<Rightarrow> asset_answer outcome" where
  "rewriteH escape d options RequestURI =
     (let base = base_path options in
      asset_ServeHTTP escape d (if base \<noteq> ''/'' then trim_prefix base RequestURI else RequestURI))"

text \<open>The patterns of the outer mux: those of package pprof at debug level, then the router at \<open>/\<close>.\<close>

definition mux_patterns :: "bool \<Rightarrow> server_config \<Rightarrow> string list" where
  "mux_patterns debug options =
     (let base = base_path options in
      (if debug then map (\<lambda>p. path_join [base, p])
         [''/debug/pprof/'', ''/debug/pprof/cmdline'', ''/debug/pprof/profile'', ''/debug/pprof/symbol'', ''/debug/pprof/trace'']
       else []) @ [''/''])"

text \<open>\<open>net.JoinHostPort\<close> with \<open>fmt.Sprint\<close> of the port.\<close>

definition JoinHostPort :: "string \<Rightarrow> string \<Rightarrow> string" where
  "JoinHostPort host port =
     (if CHR '':'' \<in> set host \<or> CHR ''%'' \<in> set host then ''['' @ host @ '']:'' @ port else host @ '':'' @ port)"

definition host_port :: "server_config \<Rightarrow> string" where
  "host_port options = JoinHostPort (srv_Address options) (int_str (srv_Port options))"

section \<open>The start of Run\<close>

text \<open>
  What \<open>Run\<close> has made when it starts to serve: its options, the router's middleware and routes, the
  patterns of the outer mux, the address to listen at, and the counter of the terminal handlers.
  The two levels are gin's mode and the logger's.
\<close>

datatype middleware = Recovery | Logger

record 'c serving =
  rs_opts :: "'c run_options"
  rs_middleware :: "middleware list"
  rs_routes :: "route list"
  rs_patterns :: "string list"
  rs_addr :: string
  rs_counter :: counter

definition run_setup ::
    "'c \<Rightarrow> 'c run_option list \<Rightarrow> bool \<Rightarrow> bool \<Rightarrow> asset_data \<Rightarrow> server_config \<Rightarrow> 'c serving" where
  "run_setup background opts gin_debug log_debug assets options =
     \<lparr>rs_opts = apply_options background opts,
      rs_middleware = Recovery # (if gin_debug then [Logger] else []),
      rs_routes = routes (asset_List assets) options,
      rs_patterns = mux_patterns log_debug options,
      rs_addr = host_port options,
      rs_counter = newCounter (srv_IdleTime options)\<rparr>"

section \<open>The end of Run\<close>

text \<open>
  What the \<open>select\<close> of \<open>Run\<close> gets first: the error of \<open>ListenAndServe\<close>, or the end of its own context.
  The result is the error \<open>Run\<close> returns once the open sessions have ended, and what it has done to
  the server and to its context.
\<close>

datatype serve_event = ServeEnded error | ContextDone error

record serve_end =
  sv_err :: "error option"
  sv_cancelled :: bool
  sv_closed :: bool

definition run_select :: "serve_event \<Rightarrow> serve_end" where
  "run_select ev =
     (case ev of
        ServeEnded err \<Rightarrow>
          (if err = ErrServerClosed then \<lparr>sv_err = None, sv_cancelled = False, sv_closed = False\<rparr>
           else \<lparr>sv_err = Some err, sv_cancelled = True, sv_closed = False\<rparr>)
      | ContextDone err \<Rightarrow> \<lparr>sv_err = Some err, sv_cancelled = False, sv_closed = True\<rparr>)"

text \<open>\<open>Run\<close> returns only when the counter's wait does: \<^const>\<open>None\<close> is that it still waits.\<close>

definition run_result :: "serve_event \<Rightarrow> counter \<Rightarrow> error option option" where
  "run_result ev cnt = (if counter_wait cnt then Some (sv_err (run_select ev)) else None)"

text \<open>What the operator is told before that wait.\<close>

definition waiting_note :: "counter \<Rightarrow> string list" where
  "waiting_note cnt =
     (let conn = counter_count cnt in
      if 0 < conn then [''Waiting for '' @ int_str conn @ '' connections to be closed'', ''Ctl-C to force close''] else [])"

text \<open>
  The goroutine of the graceful context: when that context ends first, the server is shut down
  within five seconds, and an error of the shutdown ends the program.
\<close>

datatype shutdown_event = GracefulCtxDone "error option" | RunCtxDone
datatype shutdown_end = ShutDown | FatalExit string | NothingDone

definition graceful_goroutine :: "shutdown_event \<Rightarrow> shutdown_end" where
  "graceful_goroutine ev =
     (case ev of
        GracefulCtxDone None \<Rightarrow> ShutDown
      | GracefulCtxDone (Some err) \<Rightarrow> FatalExit (''Server Shutdown:'' @ error_text err)
      | RunCtxDone \<Rightarrow> NothingDone)"

section \<open>Facts\<close>

lemma endpoint_routes:
  "rt_endpoint ` set (asset_routes base assets) \<subseteq> {AssetFile}"
  "rt_endpoint ` set (exec_routes base) = {ExecRedirect, WSIndex, ExecWS, LogsWS}"
  by (auto simp: asset_routes_def exec_routes_def get_def)

lemma control_endpoints:
  "rt_endpoint ` set (control_routes base ctl) =
     (if ctl_Enable ctl then
        (if ctl_Start ctl \<or> ctl_All ctl then {StartContainer} else {}) \<union>
        (if ctl_Stop ctl \<or> ctl_All ctl then {StopContainer} else {}) \<union>
        (if ctl_Restart ctl \<or> ctl_All ctl then {RestartContainer} else {})
      else {})"
  by (auto simp: control_routes_def Let_def)

lemma routes_control:
  assumes "e \<in> {StartContainer, StopContainer, RestartContainer}"
  shows "e \<in> rt_endpoint ` set (routes assets options) \<longleftrightarrow>
    e \<in> rt_endpoint ` set (control_routes (base_path options) (srv_Control options))"
  using assms endpoint_routes(1) [of "base_path options" assets] endpoint_routes(2) [of "base_path options"]
  by (auto simp: routes_def Let_def image_Un get_def)

lemma plan_options:
  "run_start_servers fill backend conf = Inr plan \<Longrightarrow> rp_http plan = Some opts \<Longrightarrow>
   \<exists>opts0. fill opts0 = Inr opts \<and> srv_Control opts0 = srv_Control (cf_Server conf)"
  by (auto simp: run_start_servers_def Let_def split: sum.splits if_splits)

text \<open>
  C18. Containers can be started, stopped and restarted over HTTP only when the operator asked for
  it: from the command line to the route table, the route of an action is registered exactly when
  its own flag or \<open>--control-all\<close> is set.  Filling the options from the environment must leave the
  control flags alone, as it does when no such variable is set.
\<close>

theorem control_needs_flag:
  assumes "main_action parse resolve (parsed_config resolve env) = Run conf"
    and "run_start_servers fill backend conf = Inr plan" and "rp_http plan = Some opts"
    and "\<forall>o1 o2. fill o1 = Inr o2 \<longrightarrow> srv_Control o2 = srv_Control o1"
  shows "(StartContainer \<in> rt_endpoint ` set (routes assets opts) \<longleftrightarrow>
       bool_of (resolve ''control-start'') \<or> bool_of (resolve ''control-all'')) \<and>
    (StopContainer \<in> rt_endpoint ` set (routes assets opts) \<longleftrightarrow>
       bool_of (resolve ''control-stop'') \<or> bool_of (resolve ''control-all'')) \<and>
    (RestartContainer \<in> rt_endpoint ` set (routes assets opts) \<longleftrightarrow>
       bool_of (resolve ''control-restart'') \<or> bool_of (resolve ''control-all''))"
proof -
  have "\<not> ctl_Enable (srv_Control (cf_Server (parsed_config resolve env)))" by (simp add: parsed_control)
  from main_action_control [OF assms(1) this]
  have "srv_Control opts = (let ctl = control_of (parsed_config resolve env) in
      ctl\<lparr>ctl_Enable := (ctl_Start ctl \<or> ctl_Stop ctl \<or> ctl_Restart ctl \<or> ctl_All ctl)\<rparr>)"
    using plan_options [OF assms(2,3)] assms(4) by auto
  then show ?thesis by (auto simp: routes_control control_endpoints parsed_control Let_def)
qed

text \<open>With the compiled-in files no route is registered twice, for which package gin would panic.\<close>

lemma web_asset_paths:
  "map af_sPath (asset_List (web_assets zlib cb)) =
     [''/'', ''/css'', ''/css/index.css'', ''/css/list.css'', ''/css/xterm.css'', ''/css/xterm_customize.css'',
      ''/favicon.png'', ''/index.html'', ''/js'', ''/js/control.js'', ''/js/gotty-bundle.js'', ''/list.html'']"
proof -
  have "asset_List (web_assets zlib cb) = map (init_file zlib (asset_fs cb)) (asset_fs cb)"
    using map_nth [of "map (init_file zlib (asset_fs cb)) (asset_fs cb)"]
    by (simp add: asset_List_def asset_init_def Let_def)
  then have "map af_sPath (asset_List (web_assets zlib cb)) = map af_sPath (asset_fs cb)"
    by (simp add: init_file_keeps)
  then show ?thesis by (simp add: asset_fs_def asset_files)
qed

lemma routes_distinct:
  "distinct (map (\<lambda>r. (rt_method r, rt_groups r, rt_path r)) (routes (asset_List (web_assets zlib cb)) options))"
proof -
  have "asset_routes base (asset_List (web_assets zlib cb)) =
      map (\<lambda>p. get base p AssetFile) (filter (\<lambda>p. p \<noteq> ''/'') (map af_sPath (asset_List (web_assets zlib cb))))" for base
    by (simp add: asset_routes_def filter_map comp_def)
  then show ?thesis
    by (simp add: routes_def web_asset_paths exec_routes_def control_routes_def get_def Let_def)
qed

text \<open>
  \<open>Run\<close> returns exactly when every handler of a terminal has ended, however the server ended, and
  tells the operator how many it waits for.
\<close>

lemma run_waits_for_sessions:
  assumes "(session_step m)\<^sup>*\<^sup>* (rs_counter (run_setup bg opts gd ld assets options), []) (cnt, hs)"
  shows "run_result ev cnt = (if hs = [] then Some (sv_err (run_select ev)) else None)"
    and "waiting_note cnt = [] \<longleftrightarrow> hs = []"
  using sessions_inv_reachable [OF assms [unfolded run_setup_def, simplified]]
  by (simp_all add: run_result_def waiting_note_def counter_wait_def counter_count_def sessions_inv_def Let_def)

text \<open>At debug level the pattern of the profile index loses its slash, so that named profiles have no route.\<close>

lemma pprof_without_slash:
  "mux_patterns True (options\<lparr>srv_Base := ''/''\<rparr>) =
     [''/debug/pprof'', ''/debug/pprof/cmdline'', ''/debug/pprof/profile'', ''/debug/pprof/symbol'',
      ''/debug/pprof/trace'', ''/'']"
proof -
  have "path_join [''/''] = ''/''" "path_join [''/'', ''/debug/pprof/''] = ''/debug/pprof''"
    "path_join [''/'', ''/debug/pprof/cmdline''] = ''/debug/pprof/cmdline''"
    "path_join [''/'', ''/debug/pprof/profile''] = ''/debug/pprof/profile''"
    "path_join [''/'', ''/debug/pprof/symbol''] = ''/debug/pprof/symbol''"
    "path_join [''/'', ''/debug/pprof/trace''] = ''/debug/pprof/trace''"
    by code_simp+
  then show ?thesis by (simp add: mux_patterns_def base_path_def Let_def)
qed

definition sample_resolve :: "string \<Rightarrow> flag_value" where
  "sample_resolve name =
     (if name = ''port'' then VInt 8080 else if name = ''control-start'' then VBool True
      else if name \<in> {''control-all'', ''control-stop'', ''control-restart'', ''help''} then VBool False else VStr [])"

theorem control_needs_flag_witness:
  "\<exists>conf plan opts. main_action (\<lambda>t. (None, 0)) sample_resolve (parsed_config sample_resolve (\<lambda>v. [])) = Run conf \<and>
     run_start_servers Inr (\<lambda>b. Inr ()) conf = Inr plan \<and> rp_http plan = Some opts \<and>
     StartContainer \<in> rt_endpoint ` set (routes [] opts) \<and> StopContainer \<notin> rt_endpoint ` set (routes [] opts)"
proof -
  let ?parsed = "parsed_config sample_resolve (\<lambda>v. [])"
  have port: "srv_Port (cf_Server ?parsed) = 8080"
    by (simp add: parsed_config_def appFlags_def server_flags_def backend_flags_def control_flags_def session_flags_def
        string_flag_def int_flag_def bool_flag_def config_stores sample_resolve_def)
  obtain conf where conf: "main_action (\<lambda>t. (None, 0)) sample_resolve ?parsed = Run conf"
    "srv_Port (cf_Server conf) = srv_Port (cf_Server ?parsed)"
    by (simp add: main_action_def sample_resolve_def config_stores Let_def)
  then obtain plan opts where plan: "run_start_servers Inr (\<lambda>b. Inr ()) conf = Inr plan" "rp_http plan = Some opts"
    using port by (cases "Servers (bc_GRPC (cf_Backend conf)) = []") (auto simp: run_start_servers_def Let_def)
  show ?thesis
    using control_needs_flag [OF conf(1) plan, of "[]"] conf(1) plan by (auto simp: sample_resolve_def)
qed

end
