(* ===== verification/Spec2Isabelle.thy ===== *)
theory Spec2Isabelle
  imports Base64 Containers Proxied Terminals AuditLog Routes
begin

text \<open>
  A model of container-web-tty, a web server that opens terminals in containers.

  The program.  A browser asks for the list of containers, is redirected to a fresh exec
  identifier, and opens a websocket for it (route/).  The server looks the container up in a
  backend, the docker daemon, a kubernetes cluster or other instances of this program over gRPC
  (container/, behind the interface of container/container.go), executes a shell there, and
  bridges the websocket and the terminal (third-part/gotty/webtty).  The terminal is shared: more
  browsers may follow it (types/tty.go, route/share.go), an auditor may write its output to a file
  (audit/).  A second server offers the same backend over gRPC (proxy/), to which the proxy-mode
  backend of another instance connects.

  The theories, and what they model.
  \<^item> \<open>Prelude\<close>, \<open>GoStrings\<close>, \<open>Base64\<close>, \<open>Readers\<close>: Go's run time and standard library as far as the
    sources use them: panics and errors as values, slices and \<open>copy\<close> with their bounds, maps as
    association lists, time, packages strings, strconv, fmt and path, base64, and the contract of
    \<open>io.Reader\<close> as the locales \<open>go_reader\<close>, \<open>total_reader\<close> and \<open>ending_reader\<close>, the last for
    streams that come to an end, with the reads of a copying loop (\<open>loop_reads\<close>).
  \<^item> \<open>ContainerTypes\<close>, \<open>Containers\<close>: types/types.go and types/containers.go, the cache of
    containers that every backend keeps.  The cache is refined to a map from keys (full and short
    identifiers) to containers; \<open>Find\<close> is shown against a declarative specification of lookup by
    prefix.
  \<^item> \<open>Util\<close>: util/: conversion to and from the wire format, environment names, waiting for
    signals, exec identifiers.
  \<^item> \<open>Backend\<close>: the interface \<open>Cli\<close> as the locale \<open>cli_backend\<close>: every method returns, keeps the
    backend's invariant, and a container that is handed out has an identifier long enough to cut.
    \<open>Docker\<close>, \<open>Kube\<close> and \<open>GrpcCli\<close> (container/docker, container/kube, container/grpc) model the
    three implementations and interpret it; \<open>Backends\<close> dispatches over them, models
    \<open>NewCliBackend\<close> and interprets it once more.  The terminal that each of them returns meets the
    interface \<open>types.TTY\<close>, the locale \<open>terminal\<close>.  \<open>LogParser\<close> is container/docker/log_parser.go.
  \<^item> \<open>Pb\<close>, \<open>ProxyServer\<close>: the generated messages and stubs, proxy/server.go and proxy/proxy.go.  A
    client stub and the server's method table are composed in \<open>rpc_typed\<close> and
    \<open>proxied_equals_direct\<close>.  \<open>Proxied\<close> composes the terminal of the proxy-mode backend with the
    server's \<open>Exec\<close> over a stream: the step relation \<open>prox_reach\<close> interleaves the front terminal,
    the server's two loops and the front's reads, and \<open>direct_use\<close> is the specification it refines.
    Deliveries alone empty the stream, so that what was typed arrives and what was printed is shown.
  \<^item> \<open>Tty\<close>: types/tty.go: who may write, the rolling history, what a follower reads.
  \<^item> \<open>Webtty\<close>: the bridge; \<open>Run\<close> with its two goroutines and its select is the step relation
    \<open>run_step\<close>.
  \<^item> \<open>Config\<close>: config/config.go, main.go, run.go, version.go: flags, the application, the action, what
    is started.
  \<^item> \<open>Counter\<close>: route/handler_atomic.go: the count of sessions and their limit.
  \<^item> \<open>Server\<close>: the handlers of route/: exec.go, share.go, log.go, handler.go, ws.go, id.go and the
    two wrappers.  \<open>Sessions\<close> holds their properties, with the step relation \<open>hub_step\<close> in which
    redirects, requests, registrations and ends of terminals interleave.
  \<^item> \<open>Terminals\<close>: the terminals of the three backends as one interface value, and the method table
    \<open>any_cli\<close> on a state that keeps every terminal that was made.  The locale \<open>terminal_table\<close> is what
    the server relies on for the account of its terminals, \<open>safe_table\<close> and \<open>page_table\<close> what it
    relies on for its handlers to return; \<open>live_step\<close> runs the server beside the loops, timers, streams and other requests
    (\<open>stage_env\<close>).
  \<^item> \<open>Routes\<close>: route/route.go and route/types.go: the templates, the constructor, the route table,
    what \<open>Run\<close> sets up and how it ends.  \<open>Assets\<close>: route/asset: the file table, readers and serving.
  \<^item> \<open>AuditLog\<close>: audit/audit.go.
  \<^item> This theory: properties along a whole path, from the published output to a follower's browser,
    from docker's log stream to the browser, from the opener's browser to the container, and both
    ways between a browser and a container of another instance.

  Conventions.  A computation that may panic is a sum whose left side is the panic; a Go error is
  an optional value or the left side of a sum.  A method is a function of the state of its receiver
  and of the world \<open>'w\<close>; what a library or the world answers is an argument or a field of a record
  of calls (\<open>docker_api\<close>, \<open>kube_api\<close>, \<open>rpc_conn\<close>, \<open>ws_answers\<close>, \<open>audit_os\<close>), so that a
  theorem holds for all answers unless a hypothesis restricts them.  Mutexes make critical sections
  atomic steps; goroutines are the alternatives of a step relation (\<open>run_step\<close>, \<open>session_step\<close>,
  \<open>hub_step\<close>) or loops under a schedule (\<open>exec_loops\<close>).  A loop over a Go map is a loop over an
  association list, and facts about it hold for every arrangement of the list.

  What the groups of lemmas show.  Invariants: the cache's well-formedness, the counter against the
  open handlers, the table of terminals against the running ones, the backend's open terminals
  against the server's, the bridge's transparency.
  Access: who needs which password, what a read-only follower can do, which control routes exist.
  Typing: a call between a stub and a method keeps the declared message types.  Termination: the
  bridge's \<open>Run\<close>, an exec session of the server, a log stream and an idle timer end when what feeds
  them does.  Refinement: the cache and its map, a proxied terminal and the container's own.
  Functional behaviour of each backend's listing and lookup, of the log demultiplexer on whole
  frames, of the audit file, of the assets.  Round trips: wire conversion, base64.  Where the code
  does not do what it means to, a theorem states what it does: short prefixes, stale bytes in cut
  log frames, the over-reporting first read of a follower, options read in the first position only,
  the dereferenced nil request, a read that comes after the end of its session.

  Bounds and fuel.  \<open>log_loop\<close> terminates because its start grows by at least eight; the loops over
  containers, servers and options are structural.  Loops that run as long as the world feeds them
  take a schedule or a list of answers whose length bounds them: \<open>exec_loops\<close>, \<open>audit_loop\<close>,
  \<open>idle_timer\<close>, \<open>logs_pump\<close>, and \<open>svc_Logs\<close>, where running out of fuel is the value \<open>None\<close> and
  means that the loop still runs.

  Not modelled: JavaScript, HTML templates and the compressed assets; the matching of requests by
  package gin; the bodies of third-party packages (docker and kubernetes clients, gRPC transport,
  pubsub, websocket, command line); log messages, except where computing one can panic; the
  descriptor bytes of the generated gRPC file and its registration with package proto.
\<close>

section \<open>Across the components\<close>

lemma follower_reads_live:
  assumes "s_masterOutputs s = []" and "\<forall>m \<in> set ms. length m \<le> length buffer"
  shows "loop_reads (slaveWrapper_read slave_read) (length ms) buffer (s, ms) = Inr ms"
  using assms(2)
proof (induction ms arbitrary: buffer)
  case (Cons m ms)
  have "loop_reads (slaveWrapper_read slave_read) (length ms) (m @ drop (length m) buffer) (s, ms) = Inr ms"
    using Cons.prems by (intro Cons.IH) simp
  then show ?case
    using assms(1) Cons.prems by (simp add: slaveWrapper_read_def slave_read_live read_chunk_def)
qed simp

lemma follower_reads_all:
  assumes "length (s_masterOutputs s) = history_size" and "\<forall>m \<in> set ms. length m \<le> 1024"
  shows "loop_reads (slaveWrapper_read slave_read) (Suc (length ms)) (replicate 1024 (CHR 0x00)) (s, ms) =
    Inr ((s_masterOutputs s @ replicate 24 (CHR 0x00)) # ms)"
proof -
  have "s_masterOutputs s \<noteq> []" using assms(1) by (auto simp: history_size_def)
  then show ?thesis
    using assms follower_reads_live [of "s\<lparr>s_masterOutputs := []\<rparr>" ms "s_masterOutputs s @ replicate 24 (CHR 0x00)"]
    by (simp add: slaveWrapper_read_def slave_read_history read_chunk_def history_size_def)
qed

text \<open>
  C9. What a follower sees, from the container to its browser: after the terminal published the
  pieces \<open>outs\<close>, a browser that joins and receives the later pieces \<open>ms\<close> is shown exactly the last
  thousand bytes of what was published before (zero bytes in front when there were fewer), the
  twenty-four zero bytes that the over-reporting first read adds, and then every later piece,
  complete and in order.
\<close>

theorem follower_sees_terminal:
  assumes "NewMasterTTY None shareID = Inr m"
    and "processShare wa cli fresh execID (fold (\<lambda>out m. master_collect m out) outs m) srv s = Inr (ShareRunning sh, s')"
    and "\<forall>x \<in> set ms. length x \<le> 1024"
    and "loop_reads (slaveWrapper_read slave_read) (Suc (length ms)) (replicate (bufferSize (sh_webtty sh)) (CHR 0x00)) (sh_slave sh, ms) = Inr pieces"
    and "run_reachable env (sh_webtty sh) r" and "fromSlave r = pieces"
  shows "concat (map shown (trace r)) =
    suffix_upto history_size (replicate history_size (CHR 0x00) @ concat outs) @ replicate 24 (CHR 0x00) @ concat ms"
proof -
  let ?h = "suffix_upto history_size (replicate history_size (CHR 0x00) @ concat outs)"
  have "m_outputs m = suffix_upto history_size (replicate history_size (CHR 0x00))"
    using assms(1) by (auto simp: NewMasterTTY_def suffix_upto_def)
  then have h: "s_masterOutputs (sh_slave sh) = ?h"
    using processShare_running [OF assms(2)] by (simp add: master_collect_fold collect_fold)
  have "pieces = (?h @ replicate 24 (CHR 0x00)) # ms"
    using assms(4) follower_reads_all [of "sh_slave sh" ms] assms(3) h processShare_running [OF assms(2)]
    by (simp del: loop_reads.simps)
  then show ?thesis
    using reachable_inv [OF assms(5)] assms(6) by (simp add: bridge_inv_def)
qed

lemma watching_run:
  "\<forall>d \<in> set ds. length d \<le> bufferSize wt \<Longrightarrow> \<exists>r. run_reachable quiet wt r \<and> slaveLoop r \<and> fromSlave r = ds"
proof (induction ds rule: rev_induct)
  case Nil
  have "run_reachable quiet wt (run_start quiet wt)" by (rule run_reachable.start [OF quiet_init])
  then show ?case by (intro exI [of _ "run_start quiet wt"]) (simp add: run_start_def)
next
  case (snoc d ds)
  then obtain r where r: "run_reachable quiet wt r" "slaveLoop r" "fromSlave r = ds" by auto
  let ?acts = "[ToMaster (Output # b64_encode d)]"
  have "handleSlaveReadEvent quiet d = (?acts, None)"
    by (simp add: handleSlaveReadEvent_def masterWrite_def quiet_def)
  then have "run_step wt r (r\<lparr>trace := trace r @ ?acts, fromSlave := fromSlave r @ [d]\<rparr>)"
    using r(2) snoc.prems by (intro run_step.slave_data) simp_all
  with r show ?case
    by (intro exI [of _ "r\<lparr>trace := trace r @ ?acts, fromSlave := fromSlave r @ [d]\<rparr>"]) (auto intro: run_reachable.step)
qed

theorem follower_sees_terminal_witness:
  "\<exists>r. run_reachable quiet (sh_webtty sample_share) r \<and>
     concat (map shown (trace r)) =
       suffix_upto history_size (replicate history_size (CHR 0x00)) @ replicate 24 (CHR 0x00) @ ''a.txt''"
proof -
  let ?sh = "sample_share"
  have new: "NewMasterTTY None ''e1'' = Inr sample_master" by (simp add: NewMasterTTY_def sample_master_def)
  have buf: "bufferSize (sh_webtty ?sh) = 1024" using processShare_running [OF sample_share_runs] by simp
  have hist: "length (s_masterOutputs (sh_slave ?sh)) = history_size"
    by (simp add: sample_share_def sample_master_def)
  let ?pieces = "[s_masterOutputs (sh_slave ?sh) @ replicate 24 (CHR 0x00), ''a.txt'']"
  have "\<forall>d \<in> set ?pieces. length d \<le> bufferSize (sh_webtty ?sh)" using hist buf by (simp add: history_size_def)
  then obtain r where r: "run_reachable quiet (sh_webtty ?sh) r" "fromSlave r = ?pieces" using watching_run by blast
  have "loop_reads (slaveWrapper_read slave_read) (Suc (length [''a.txt''])) (replicate (bufferSize (sh_webtty ?sh)) (CHR 0x00)) (sh_slave ?sh, [''a.txt'']) =
      Inr ?pieces"
    unfolding buf by (rule follower_reads_all [OF hist]) simp
  from follower_sees_terminal [OF new _ _ this r, of calm_answers calm_cli 9 "''e1''" "[]" exec_server 0 0]
  show ?thesis using sample_share_runs r(1) by (auto simp del: concat_eq_append_conv)
qed

text \<open>
  C10. What a log page shows, from docker's stream to the browser: when the stream delivers in
  each read some whole frames that fit the bridge's buffer, and the text they carry does, the
  browser is shown exactly the messages of all frames of both streams, complete and in order,
  each that ends a line with a carriage return added, and nothing of the headers.
\<close>

theorem log_terminal_shows:
  assumes "handleLogs wa cli cid srv s = Inr (LogsRunning wt h, s')"
    and "parseContainerLog (Some (map frames ds)) = Some rc" and "\<forall>fs \<in> set ds. frames_fit 1024 fs"
    and "loop_reads (slaveWrapper_read (rwc_read (log_read conn_read))) (length ds)
           (replicate (bufferSize wt) (CHR 0x00)) rc = Inr pieces"
    and "run_reachable env wt r" and "fromSlave r = pieces"
  shows "concat (map shown (trace r)) = concat (map log_text ds)"
proof -
  have "bufferSize wt = 1024" using handleLogs_webtty [OF assms(1)] by simp
  moreover have "clean rc" "lr_docker rc = map frames ds"
    using assms(2) by (auto simp: parseContainerLog_def clean_def)
  ultimately have "pieces = map log_text ds"
    using assms(3,4) log_loop_reads [of ds "replicate (bufferSize wt) (CHR 0x00)" rc]
    by (simp add: slaveWrapper_read_def rwc_read_def)
  then show ?thesis using reachable_inv [OF assms(5)] assms(6) by (simp add: bridge_inv_def)
qed

definition log_page :: webtty where
  "log_page = new_webtty [WithWindowTitle ''web@localhost'', WithPermitWrite]"

lemma log_page_opened:
  "handleLogs calm_answers calm_cli ''web'' open_server 0 = Inr (LogsRunning log_page (), 0)"
  by (simp add: handleLogs_def calm_answers_def calm_cli_def open_server_def zero_server_def readInitMessage_def
      parseQuery_def makeTitleBuff_text log_options_of_def log_page_def zero_container_def Let_def)

theorem log_terminal_shows_witness:
  "\<exists>r. run_reachable quiet log_page r \<and> concat (map shown (trace r)) = ''ok'' @ [NL, CR] @ ''err''"
proof -
  let ?rc = "\<lparr>lr_docker = map frames [sample_frames], lr_bsLeft = 0, lr_prevHeader = []\<rparr>"
  have buf: "bufferSize log_page = 1024" by (simp add: log_page_def new_webtty_def WithWindowTitle_def WithPermitWrite_def)
  have sample: "log_text sample_frames = ''ok'' @ [NL, CR] @ ''err''"
    by (simp add: log_text_def sample_frames_def make_line_def NL_def)
  have fits: "\<forall>fs \<in> set [sample_frames]. frames_fit 1024 fs"
    by (simp add: frames_fit_def sample) (simp add: sample_frames_def frame_ok_def frames_def length_frame)
  have "loop_reads (slaveWrapper_read (rwc_read (log_read conn_read))) (length [sample_frames])
      (replicate (bufferSize log_page) (CHR 0x00)) ?rc = Inr (map log_text [sample_frames])"
    unfolding slaveWrapper_read_def rwc_read_def using fits by (intro log_loop_reads) (simp_all add: buf clean_def)
  moreover obtain r where r: "run_reachable quiet log_page r" "fromSlave r = map log_text [sample_frames]"
    using watching_run [of "map log_text [sample_frames]" log_page] by (auto simp: buf sample)
  ultimately show ?thesis
    using log_terminal_shows [OF log_page_opened _ fits] sample r by (auto simp: parseContainerLog_def)
qed

text \<open>The pieces of input that the bridge hands to the terminal, in order.\<close>

definition inputs :: "act list \<Rightarrow> bytes list" where
  "inputs acts = concat (map (\<lambda>a. case a of ToSlave p \<Rightarrow> [p] | _ \<Rightarrow> []) acts)"

lemma concat_inputs: "concat (inputs acts) = concat (map to_slave acts)"
  by (induction acts) (auto simp: inputs_def split: act.split)

lemma lone_master_writes:
  "lastSlaveWriteTime w = ZeroTime \<Longrightarrow>
   write_run tw slaves (map (Pair Master) as) w = map (\<lambda>(t, p). (Master, snd (snd t), p)) as"
proof (induction as arbitrary: w)
  case (Cons a as)
  obtain t1 t2 t3 p where a: "a = ((t1, t2, t3), p)" by (cases a) auto
  have can: "MasterCanWrite t1 w"
    using Cons.prems by (simp add: MasterCanWrite_def waite_wait_duration_def since_def second_def max_duration_def)
  show ?case
    using can Cons.prems Cons.IH [of "w\<lparr>lastMasterWriteTime := At t3\<rparr>"] by (simp add: a attempt_step_def master_write_def Let_def)
qed simp

lemma lone_pieces:
  assumes "process_open wa cli ptr execID c srv s = Inr (Inr se, srv', s')" and "length ts = length ps"
  shows "map (\<lambda>(who, t, p). p) (write_run tw slaves (map (Pair Master) (zip ts ps)) (m_mWriter (se_master se))) = ps"
proof -
  have "lastSlaveWriteTime (m_mWriter (se_master se)) = ZeroTime"
    using assms(1) unfolding process_open_def makeTitleBuff_text
    by (cases "wa_PubSub wa") (auto simp: NewMasterTTY_def new_mutex_writer_def Fork_def Let_def exec_result_cases)
  then have "map (\<lambda>(who, t, p). p) (write_run tw slaves (map (Pair Master) (zip ts ps)) (m_mWriter (se_master se))) =
      map snd (zip ts ps)"
    by (simp add: lone_master_writes case_prod_unfold)
  then show ?thesis using assms(2) by simp
qed

lemma lone_input_arrives:
  assumes "process_open wa cli ptr execID c srv s = Inr (Inr se, srv', s')"
    and "run_reachable env (se_webtty se) r" and "length ts = length (inputs (trace r))"
  shows "concat (map (\<lambda>(who, t, p). p)
      (write_run tw slaves (map (Pair Master) (zip ts (inputs (trace r))))
        (m_mWriter (se_master se)))) =
    concat (map (typed_input (se_webtty se)) (fromMaster r))"
  using lone_pieces [OF assms(1,3)] reachable_inv [OF assms(2)] by (simp only: concat_inputs bridge_inv_def)


lemma echo_inputs: "permitWrite wt \<Longrightarrow> inputs (trace (echo_state out wt)) = [''ls'']"
  by (simp add: inputs_def echo_state_def run_start_def sendInitializeMessage_def init_part_def masterWrite_def
      quiet_def handleMasterReadEvent_def Input_def)


text \<open>What is typed among the uses of a terminal.\<close>

definition typed_of :: "term_op list \<Rightarrow> bytes list" where
  "typed_of ops = concat (map (\<lambda>x. case x of Typed p \<Rightarrow> [p] | Resized w h \<Rightarrow> []) ops)"

lemma typed_of_wire: "typed_of (map wire_op ops) = typed_of ops"
  unfolding typed_of_def by (induction ops) (auto split: term_op.split)

lemma typed_of_append: "typed_of (xs @ ys) = typed_of xs @ typed_of ys"
  by (simp add: typed_of_def)


lemma remote_opened:
  "\<exists>se srv' s'. process_open calm_answers calm_cli 0 race_id remote_web open_server 0 = Inr (Inr se, srv', s') \<and>
     se_container se = remote_web \<and> permitWrite (se_webtty se) \<and> bufferSize (se_webtty se) = 1024"
  by (simp add: process_open_def calm_answers_def calm_cli_def remote_web_def readInitMessage_def open_server_def zero_server_def
      parseQuery_def makeTitleBuff_text NewMasterTTY_def exec_options_of_def zero_exec_def zero_container_def
      new_webtty_def WithWindowTitle_def WithPermitWrite_def int_str_def Let_def)


end
